(* ===== verification/Prelude.thy ===== *)
theory Prelude
  imports Complex_Main "HOL-Library.Sublist" "HOL-Library.AList" "HOL-Library.Char_ord"
    "HOL-Library.Multiset"
begin

section \<open>Prelude: Python strings, dictionaries, JSON values and exceptions\<close>

text \<open>
  What every component of the development shares.

  \<^item> A Python \<open>str\<close> is its UTF-8 encoding, a \<open>string\<close> of bytes. Comparison, concatenation,
    \<open>startswith\<close>, \<open>in\<close>, \<open>split\<close> and \<open>replace\<close> are the same on well-formed UTF-8 as on code points;
    \<open>len\<close> and slicing count code points, so they are \<open>py_len\<close> and \<open>py_take\<close> below. \<open>lower\<close> and
    \<open>strip\<close> act on ASCII letters and ASCII white space; other scripts are left as they are.
  \<^item> A Python \<open>dict\<close> is an association list in insertion order (\<open>AList.update\<close> replaces in place
    and appends new keys, as Python does).
  \<^item> A Python \<open>float\<close> is an exact rational: rounding is not modelled.
  \<^item> A raised exception is the left side of a sum.
\<close>

named_theorems str_simps \<open>rewrite rules on the string operations\<close>
named_theorems frame_simps \<open>fields an operation leaves unchanged\<close>
named_theorems inv_intros \<open>invariant preservation rules\<close>

subsection \<open>Strings\<close>

definition is_cont :: "char \<Rightarrow> bool" where
  "is_cont c \<longleftrightarrow> 128 \<le> (of_char c :: nat) \<and> (of_char c :: nat) < 192"

definition py_len :: "string \<Rightarrow> nat" where
  "py_len s = length (filter (\<lambda>c. \<not> is_cont c) s)"

text \<open>\<open>s[:n]\<close>: the first \<open>n\<close> code points, each with its continuation bytes.\<close>

fun py_take :: "nat \<Rightarrow> string \<Rightarrow> string" where
  "py_take n [] = []"
| "py_take n (c # cs) =
     (if is_cont c then c # py_take n cs
      else case n of 0 \<Rightarrow> [] | Suc m \<Rightarrow> c # py_take m cs)"

lemma py_len_simps [simp]:
  "py_len [] = 0"
  "py_len (c # cs) = (if is_cont c then py_len cs else Suc (py_len cs))"
  "py_len (s @ t) = py_len s + py_len t"
  by (simp_all add: py_len_def)

lemma py_len_le_length: "py_len s \<le> length s"
  by (simp add: py_len_def)

lemma py_len_take: "py_len (py_take n s) \<le> n"
  by (induction n s rule: py_take.induct) (auto split: nat.splits)

lemma py_take_prefix: "prefix (py_take n s) s"
  by (induction n s rule: py_take.induct) (auto split: nat.splits)

lemma py_take_all: "py_len s \<le> n \<Longrightarrow> py_take n s = s"
  by (induction n s rule: py_take.induct) (auto split: nat.splits if_splits)

definition lower_char :: "char \<Rightarrow> char" where
  "lower_char c = (let n = (of_char c :: nat) in
     if 65 \<le> n \<and> n \<le> 90 then char_of (n + 32) else c)"

definition upper_char :: "char \<Rightarrow> char" where
  "upper_char c = (let n = (of_char c :: nat) in
     if 97 \<le> n \<and> n \<le> 122 then char_of (n - 32) else c)"

definition lower :: "string \<Rightarrow> string" where
  "lower s = List.map lower_char s"

definition upper :: "string \<Rightarrow> string" where
  "upper s = List.map upper_char s"

lemma length_lower [simp]: "length (lower s) = length s"
  by (simp add: lower_def)

lemma lower_append [simp]: "lower (s @ t) = lower s @ lower t"
  by (simp add: lower_def)

definition is_space :: "char \<Rightarrow> bool" where
  "is_space c \<longleftrightarrow> (let n = (of_char c :: nat) in n = 32 \<or> (9 \<le> n \<and> n \<le> 13) \<or> (28 \<le> n \<and> n \<le> 31))"

definition lstrip :: "string \<Rightarrow> string" where
  "lstrip s = dropWhile is_space s"

definition rstrip_of :: "(char \<Rightarrow> bool) \<Rightarrow> string \<Rightarrow> string" where
  "rstrip_of p s = rev (dropWhile p (rev s))"

definition strip :: "string \<Rightarrow> string" where
  "strip s = rstrip_of is_space (lstrip s)"

text \<open>\<open>s.strip(chars)\<close>.\<close>

definition strip_chars :: "string \<Rightarrow> string \<Rightarrow> string" where
  "strip_chars cs s = rstrip_of (\<lambda>c. c \<in> set cs) (dropWhile (\<lambda>c. c \<in> set cs) s)"

definition starts_with :: "string \<Rightarrow> string \<Rightarrow> bool" where
  "starts_with s p = prefix p s"

definition ends_with :: "string \<Rightarrow> string \<Rightarrow> bool" where
  "ends_with s p = suffix p s"

definition ends_with_any :: "string \<Rightarrow> string list \<Rightarrow> bool" where
  "ends_with_any s ps = list_ex (ends_with s) ps"

text \<open>\<open>p in s\<close>.\<close>

fun contains :: "string \<Rightarrow> string \<Rightarrow> bool" where
  "contains p [] = (p = [])"
| "contains p (c # cs) = (prefix p (c # cs) \<or> contains p cs)"

lemma contains_iff: "contains p s \<longleftrightarrow> (\<exists>us vs. s = us @ p @ vs)"
proof (induction s)
  case Nil
  then show ?case by auto
next
  case (Cons c cs)
  show ?case
  proof
    assume "contains p (c # cs)"
    then consider "prefix p (c # cs)" | us vs where "cs = us @ p @ vs"
      using Cons.IH by auto
    then show "\<exists>us vs. c # cs = us @ p @ vs"
    proof cases
      case 1
      then show ?thesis by (metis append_Nil prefixE)
    next
      case 2
      then show ?thesis by (metis append_Cons)
    qed
  next
    assume "\<exists>us vs. c # cs = us @ p @ vs"
    then obtain us vs where eq: "c # cs = us @ p @ vs" by blast
    show "contains p (c # cs)"
    proof (cases us)
      case Nil
      with eq have "prefix p (c # cs)" by (simp add: prefixI)
      then show ?thesis by simp
    next
      case (Cons u us')
      with eq have "cs = us' @ p @ vs" by simp
      with Cons.IH have "contains p cs" by blast
      then show ?thesis by simp
    qed
  qed
qed

text \<open>\<open>s.replace(p, r)\<close> for a non-empty \<open>p\<close>: leftmost, non-overlapping.\<close>

function replace_all :: "string \<Rightarrow> string \<Rightarrow> string \<Rightarrow> string" where
  "replace_all p r s =
     (case s of [] \<Rightarrow> []
      | c # cs \<Rightarrow>
          if p \<noteq> [] \<and> prefix p s then r @ replace_all p r (drop (length p) s)
          else c # replace_all p r cs)"
  by pat_completeness auto
termination
  by (relation "measure (\<lambda>(p, r, s). length s)") auto

declare replace_all.simps [simp del]

lemma replace_all_Nil [simp]: "replace_all p r [] = []"
  by (simp add: replace_all.simps)

lemma replace_all_Cons:
  "replace_all p r (c # cs) =
     (if p \<noteq> [] \<and> prefix p (c # cs) then r @ replace_all p r (drop (length p) (c # cs))
      else c # replace_all p r cs)"
  by (simp add: replace_all.simps)

lemma replace_all_single:
  "replace_all [a] [b] s = List.map (\<lambda>c. if c = a then b else c) s"
  by (induction s) (auto simp: replace_all_Cons)

text \<open>
  A replacement whose first and last bytes do not occur in the pattern leaves no occurrence of
  the pattern, not even one that straddles a replacement.
\<close>

lemma prefix_replace_all:
  assumes "r \<noteq> []" "hd r \<notin> set p" "set q \<subseteq> set p"
    and "prefix q (replace_all p r s)"
  shows "prefix q s"
  using assms(3,4)
proof (induction s arbitrary: q)
  case Nil
  then show ?case by simp
next
  case (Cons c cs)
  show ?case
  proof (cases "p \<noteq> [] \<and> prefix p (c # cs)")
    case True
    then have eq: "replace_all p r (c # cs) = r @ replace_all p r (drop (length p) (c # cs))"
      by (simp add: replace_all_Cons)
    show ?thesis
    proof (cases q)
      case (Cons x q')
      with eq Cons.prems \<open>r \<noteq> []\<close> have "x = hd r"
        by (cases r) auto
      with Cons.prems Cons assms(2) show ?thesis by auto
    qed simp
  next
    case False
    then have "replace_all p r (c # cs) = c # replace_all p r cs"
      by (auto simp: replace_all_Cons)
    with Cons.prems Cons.IH show ?thesis by (cases q) auto
  qed
qed

lemma contains_append_disjoint:
  assumes "p \<noteq> []" "r \<noteq> []" "last r \<notin> set p" "contains p (r @ t)" "\<not> contains p r"
  shows "contains p t"
proof -
  obtain us vs where eq: "r @ t = us @ p @ vs"
    using assms(4) by (auto simp: contains_iff)
  have "length r \<le> length us"
  proof (rule ccontr)
    assume "\<not> length r \<le> length us"
    then have lt: "length us < length r" by simp
    have nle: "\<not> length us + length p \<le> length r"
    proof
      assume "length us + length p \<le> length r"
      then have "r = us @ p @ take (length r - length us - length p) vs"
        using arg_cong [OF eq, of "take (length r)"] lt by simp
      with assms(5) show False by (auto simp: contains_iff)
    qed
    have idx: "length r - 1 - length us < length p"
      using lt nle by linarith
    have "last r = (r @ t) ! (length r - 1)"
      using assms(2) by (simp add: last_conv_nth nth_append)
    also have "\<dots> = (us @ p @ vs) ! (length us + (length r - 1 - length us))"
      using eq lt by simp
    also have "\<dots> = p ! (length r - 1 - length us)"
      using idx by (subst nth_append_length_plus) (simp add: nth_append)
    also have "\<dots> \<in> set p"
      using idx by (rule nth_mem)
    finally show False using assms(3) by simp
  qed
  then have "t = drop (length r) us @ p @ vs"
    using arg_cong [OF eq, of "drop (length r)"] by simp
  then show ?thesis by (auto simp: contains_iff)
qed

lemma not_contains_no_chars: "p \<noteq> [] \<Longrightarrow> hd p \<notin> set r \<Longrightarrow> \<not> contains p r"
  by (cases p) (auto simp: contains_iff)

lemma replace_all_no_occurrence:
  assumes p: "p \<noteq> []" and r: "r \<noteq> []" "hd r \<notin> set p" "last r \<notin> set p" "\<not> contains p r"
  shows "\<not> contains p (replace_all p r s)"
proof (induction s rule: length_induct)
  case (1 s)
  show ?case
  proof (cases s)
    case Nil
    with p show ?thesis by simp
  next
    case (Cons c cs)
    show ?thesis
    proof (cases "prefix p s")
      case True
      let ?rest = "replace_all p r (drop (length p) s)"
      have eq: "replace_all p r s = r @ ?rest"
        using True p Cons by (simp add: replace_all_Cons)
      have "length (drop (length p) s) < length s"
        using p Cons by simp
      with 1 have "\<not> contains p ?rest" by blast
      then show ?thesis
        using contains_append_disjoint [OF p r(1,3)] r(4) eq by auto
    next
      case False
      then have eq: "replace_all p r s = c # replace_all p r cs"
        using Cons by (simp add: replace_all_Cons)
      have nc: "\<not> contains p (replace_all p r cs)"
        using 1 Cons by simp
      have "\<not> prefix p (replace_all p r s)"
        using prefix_replace_all [OF r(1,2) subset_refl, of s] False by blast
      with nc eq show ?thesis by simp
    qed
  qed
qed

text \<open>A byte that does not occur in the pattern separates the places where it can occur.\<close>

lemma contains_separated:
  assumes "d \<notin> set p"
  shows "contains p (a @ d # b) \<longleftrightarrow> contains p a \<or> contains p b"
proof
  assume "contains p (a @ d # b)"
  then obtain us vs where eq: "a @ d # b = us @ p @ vs" by (auto simp: contains_iff)
  show "contains p a \<or> contains p b"
  proof (cases "length us + length p \<le> length a")
    case True
    then have "a = us @ p @ take (length a - length us - length p) vs"
      using arg_cong [OF eq, of "take (length a)"] by simp
    then show ?thesis by (auto simp: contains_iff)
  next
    case False
    have "length us > length a"
    proof (rule ccontr)
      assume "\<not> length us > length a"
      then have "(us @ p @ vs) ! length a \<in> set p"
        using False by (auto simp: nth_append)
      moreover have "(a @ d # b) ! length a = d" by simp
      ultimately show False using eq assms by simp
    qed
    then have "b = drop (Suc (length a)) us @ p @ vs"
      using arg_cong [OF eq, of "drop (Suc (length a))"] by simp
    then show ?thesis by (auto simp: contains_iff)
  qed
next
  assume "contains p a \<or> contains p b"
  then show "contains p (a @ d # b)"
    unfolding contains_iff by (metis append_Cons append_assoc)
qed

lemma py_len_replace_all: "py_len r \<le> py_len p \<Longrightarrow> py_len (replace_all p r s) \<le> py_len s"
proof (induction s rule: length_induct)
  case (1 s)
  show ?case
  proof (cases s)
    case Nil
    then show ?thesis by simp
  next
    case (Cons c cs)
    show ?thesis
    proof (cases "p \<noteq> [] \<and> prefix p s")
      case True
      then obtain t where t: "s = p @ t" by (auto elim: prefixE)
      then have "py_len (replace_all p r t) \<le> py_len t" using 1 True by simp
      moreover have "replace_all p r s = r @ replace_all p r t"
        using replace_all_Cons [of p r c cs] True Cons arg_cong [OF t, of "drop (length p)"] by simp
      ultimately show ?thesis using 1 t by simp
    next
      case False
      then have "replace_all p r s = c # replace_all p r cs"
        using Cons by (auto simp: replace_all_Cons)
      then show ?thesis using 1 Cons by auto
    qed
  qed
qed

text \<open>\<open>s.split(c)\<close> for a one-character separator.\<close>

fun split_on :: "char \<Rightarrow> string \<Rightarrow> string list" where
  "split_on d [] = [[]]"
| "split_on d (c # cs) =
     (if c = d then [] # split_on d cs
      else case split_on d cs of [] \<Rightarrow> [[c]] | w # ws \<Rightarrow> (c # w) # ws)"

lemma split_on_nonempty [simp]: "split_on d s \<noteq> []"
  by (induction s) (auto split: list.splits)

lemma hd_split_on: "hd (split_on d s) = takeWhile (\<lambda>c. c \<noteq> d) s"
  by (induction s) (auto split: list.splits)

definition before :: "char \<Rightarrow> string \<Rightarrow> string" where
  "before d s = takeWhile (\<lambda>c. c \<noteq> d) s"

text \<open>\<open>s.rsplit(c, 1)[-1]\<close>: what follows the last \<open>c\<close>, the whole string when there is none.\<close>

definition after_last :: "char \<Rightarrow> string \<Rightarrow> string" where
  "after_last d s = rev (takeWhile (\<lambda>c. c \<noteq> d) (rev s))"

fun join :: "string \<Rightarrow> string list \<Rightarrow> string" where
  "join sep [] = []"
| "join sep [x] = x"
| "join sep (x # y # zs) = x @ sep @ join sep (y # zs)"

text \<open>Decimal rendering of integers, as \<open>str(n)\<close> and f-strings do.\<close>

fun show_nat :: "nat \<Rightarrow> string" where
  "show_nat n = (if n < 10 then [char_of (48 + n)] else show_nat (n div 10) @ [char_of (48 + n mod 10)])"

declare show_nat.simps [simp del]

lemma show_nat_digits: "c \<in> set (show_nat n) \<Longrightarrow> 48 \<le> (of_char c :: nat) \<and> (of_char c :: nat) \<le> 57"
proof (induction n rule: show_nat.induct)
  case (1 n)
  show ?case
  proof (cases "n < 10")
    case True
    then have "c = char_of (48 + n)" using 1(2) by (subst (asm) show_nat.simps) simp
    then show ?thesis using True by simp
  next
    case False
    then have "c \<in> set (show_nat (n div 10)) \<or> c = char_of (48 + n mod 10)"
      using 1(2) by (subst (asm) show_nat.simps) auto
    then show ?thesis
    proof
      assume "c = char_of (48 + n mod 10)"
      moreover have "n mod 10 < 10" by simp
      ultimately show ?thesis by simp
    qed (use 1(1) False in simp)
  qed
qed

definition show_int :: "int \<Rightarrow> string" where
  "show_int i = (if i < 0 then ''-'' @ show_nat (nat (- i)) else show_nat (nat i))"

subsection \<open>Lists\<close>

text \<open>\<open>list(dict.fromkeys(xs))\<close>: first occurrences, in order.\<close>

definition dedup :: "'a list \<Rightarrow> 'a list" where
  "dedup xs = rev (remdups (rev xs))"

lemma set_dedup [simp]: "set (dedup xs) = set xs"
  by (simp add: dedup_def)

lemma distinct_dedup [simp]: "distinct (dedup xs)"
  by (simp add: dedup_def)

lemma dedup_id: "distinct xs \<Longrightarrow> dedup xs = xs"
  by (simp add: dedup_def distinct_remdups_id)

text \<open>\<open>xs.sort(key=k, reverse=True)\<close>: descending and stable (Python reverses, sorts, reverses).\<close>

definition sort_desc :: "('a \<Rightarrow> 'k::linorder) \<Rightarrow> 'a list \<Rightarrow> 'a list" where
  "sort_desc k xs = rev (sort_key k (rev xs))"

lemma set_sort_desc [simp]: "set (sort_desc k xs) = set xs"
  by (simp add: sort_desc_def)

lemma length_sort_desc [simp]: "length (sort_desc k xs) = length xs"
  by (simp add: sort_desc_def)

lemma mset_sort_desc: "mset (sort_desc k xs) = mset xs"
  by (simp add: sort_desc_def)

lemma sorted_sort_desc: "sorted_wrt (\<lambda>x y. k y \<le> k x) (sort_desc k xs)"
proof -
  have "sorted_wrt (\<lambda>x y. k x \<le> k y) (sort_key k (rev xs))"
    using sorted_sort_key [of k "rev xs"] by (simp add: sorted_map)
  then show ?thesis by (simp add: sort_desc_def sorted_wrt_rev)
qed

lemma filter_sort_desc:
  "List.filter (\<lambda>x. k x = c) (sort_desc k xs) = List.filter (\<lambda>x. k x = c) xs"
  by (simp add: sort_desc_def rev_filter [symmetric] sort_key_stable)

end
