(* ===== verification/PyData.thy ===== *)
theory PyData
  imports Prelude
begin

section \<open>Python values: dictionaries, JSON documents, exceptions\<close>

text \<open>
  Dictionaries as association lists with the laws of a \<open>dict\<close> stated once as a locale and
  discharged for \<open>AList\<close>; JSON values as \<open>json.loads\<close> builds them, with Python's truthiness and
  the conversions \<open>int(v)\<close> and \<open>str(v)\<close>; exceptions as values of a sum.
\<close>

subsection \<open>Dictionaries\<close>

type_synonym 'v dict = "(string \<times> 'v) list"

definition dict_update :: "('k \<times> 'v) list \<Rightarrow> ('k \<times> 'v) list \<Rightarrow> ('k \<times> 'v) list" where
  "dict_update d kvs = fold (\<lambda>(k, v). AList.update k v) kvs d"

definition dict_keys :: "('k \<times> 'v) list \<Rightarrow> 'k list" where
  "dict_keys d = List.map fst d"

locale dict_ops =
  fixes lookup :: "'d \<Rightarrow> 'k \<Rightarrow> 'v option"
    and put :: "'k \<Rightarrow> 'v \<Rightarrow> 'd \<Rightarrow> 'd"
    and del :: "'k \<Rightarrow> 'd \<Rightarrow> 'd"
    and keys :: "'d \<Rightarrow> 'k list"
    and wf :: "'d \<Rightarrow> bool"
  assumes lookup_put: "lookup (put k v d) k' = (if k' = k then Some v else lookup d k')"
    and lookup_del: "wf d \<Longrightarrow> lookup (del k d) k' = (if k' = k then None else lookup d k')"
    and keys_lookup: "k \<in> set (keys d) \<longleftrightarrow> lookup d k \<noteq> None"
    and keys_put: "keys (put k v d) = (if k \<in> set (keys d) then keys d else keys d @ [k])"
    and wf_put: "wf d \<Longrightarrow> wf (put k v d)"
    and wf_del: "wf d \<Longrightarrow> wf (del k d)"
begin

lemma lookup_puts:
  "lookup (fold (\<lambda>(k, v). put k v) kvs d) k =
     (case map_of (rev kvs) k of None \<Rightarrow> lookup d k | Some v \<Rightarrow> Some v)"
  by (induction kvs arbitrary: d)
    (auto simp: lookup_put map_add_def split: option.splits)

lemma wf_puts: "wf d \<Longrightarrow> wf (fold (\<lambda>(k, v). put k v) kvs d)"
  by (induction kvs arbitrary: d) (auto simp: wf_put)

lemma keys_puts: "set (keys (fold (\<lambda>(k, v). put k v) kvs d)) = set (keys d) \<union> fst ` set kvs"
  by (induction kvs arbitrary: d) (auto simp: keys_put split: if_splits)

lemma put_then_del: "wf d \<Longrightarrow> lookup (del k (put k v d)) k = None"
  by (simp add: lookup_del wf_put)

lemma keys_put_old: "lookup d k \<noteq> None \<Longrightarrow> keys (put k v d) = keys d"
  by (simp add: keys_put keys_lookup)

end

definition wf_dict :: "('k \<times> 'v) list \<Rightarrow> bool" where
  "wf_dict d \<longleftrightarrow> distinct (dict_keys d)"

interpretation pydict: dict_ops map_of AList.update AList.delete dict_keys wf_dict
proof
  fix k k' :: 'k and v :: 'v and d :: "('k \<times> 'v) list"
  show "map_of (AList.update k v d) k' = (if k' = k then Some v else map_of d k')"
    by (simp add: update_conv')
  show "wf_dict d \<Longrightarrow> map_of (AList.delete k d) k' = (if k' = k then None else map_of d k')"
    by (simp add: delete_conv')
  show "k \<in> set (dict_keys d) \<longleftrightarrow> map_of d k \<noteq> None"
    by (simp add: dict_keys_def map_of_eq_None_iff)
  show "dict_keys (AList.update k v d) = (if k \<in> set (dict_keys d) then dict_keys d else dict_keys d @ [k])"
    by (induction d) (auto simp: dict_keys_def)
  show "wf_dict d \<Longrightarrow> wf_dict (AList.update k v d)"
    by (simp add: wf_dict_def dict_keys_def distinct_update)
  show "wf_dict d \<Longrightarrow> wf_dict (AList.delete k d)"
    by (simp add: wf_dict_def dict_keys_def distinct_delete)
qed

lemmas dict_simps = update_conv' pydict.lookup_put

lemma map_of_dict_update:
  "map_of (dict_update d kvs) k =
     (case map_of (rev kvs) k of None \<Rightarrow> map_of d k | Some v \<Rightarrow> Some v)"
  unfolding dict_update_def by (rule pydict.lookup_puts)

lemma keys_dict_update: "set (dict_keys (dict_update d kvs)) = set (dict_keys d) \<union> fst ` set kvs"
  unfolding dict_update_def by (rule pydict.keys_puts)

subsection \<open>Exceptions and fallible results\<close>

datatype pyexn =
    RuntimeError string
  | ValueError string
  | TypeError string
  | KeyError string
  | AttributeError string
  | AssertionError string
  | BudgetExceeded string
  | PinViolation string
  | FileNotFoundError string
  | OSError string
  | BadZipFile string
  | OtherError string

type_synonym 'a res = "pyexn + 'a"

text \<open>\<open>str(exc)\<close>; a \<open>KeyError\<close> shows the quoted key.\<close>

fun exn_str :: "pyexn \<Rightarrow> string" where
  "exn_str (RuntimeError m) = m"
| "exn_str (ValueError m) = m"
| "exn_str (TypeError m) = m"
| "exn_str (KeyError k) = CHR 0x27 # k @ [CHR 0x27]"
| "exn_str (AttributeError m) = m"
| "exn_str (AssertionError m) = m"
| "exn_str (BudgetExceeded m) = m"
| "exn_str (PinViolation m) = m"
| "exn_str (FileNotFoundError m) = m"
| "exn_str (OSError m) = m"
| "exn_str (BadZipFile m) = m"
| "exn_str (OtherError m) = m"

definition bnd :: "('e + 'a) \<Rightarrow> ('a \<Rightarrow> 'e + 'b) \<Rightarrow> 'e + 'b" where
  "bnd m f = (case m of Inl e \<Rightarrow> Inl e | Inr x \<Rightarrow> f x)"

lemma bnd_simps [simp]:
  "bnd (Inl e) f = Inl e"
  "bnd (Inr x) f = f x"
  by (simp_all add: bnd_def)

lemma bnd_Inr_iff: "bnd m f = Inr y \<longleftrightarrow> (\<exists>x. m = Inr x \<and> f x = Inr y)"
  by (cases m) simp_all

lemma bnd_Inl_iff: "bnd m f = Inl e \<longleftrightarrow> m = Inl e \<or> (\<exists>x. m = Inr x \<and> f x = Inl e)"
  by (cases m) simp_all

subsection \<open>JSON values\<close>

datatype json =
    JNull
  | JBool bool
  | JInt int
  | JFloat rat
  | JStr string
  | JArr "json list"
  | JObj "(string \<times> json) list"

fun truthy :: "json \<Rightarrow> bool" where
  "truthy JNull = False"
| "truthy (JBool b) = b"
| "truthy (JInt i) = (i \<noteq> 0)"
| "truthy (JFloat r) = (r \<noteq> 0)"
| "truthy (JStr s) = (s \<noteq> [])"
| "truthy (JArr xs) = (xs \<noteq> [])"
| "truthy (JObj kvs) = (kvs \<noteq> [])"

text \<open>\<open>a or b\<close>.\<close>

definition jor :: "json \<Rightarrow> json \<Rightarrow> json" where
  "jor a b = (if truthy a then a else b)"

text \<open>\<open>d.get(k)\<close> on a dictionary: \<open>None\<close> for a missing key.\<close>

definition dget :: "json dict \<Rightarrow> string \<Rightarrow> json" where
  "dget d k = (case map_of d k of None \<Rightarrow> JNull | Some v \<Rightarrow> v)"

fun is_obj :: "json \<Rightarrow> bool" where
  "is_obj (JObj _) = True"
| "is_obj _ = False"

fun is_arr :: "json \<Rightarrow> bool" where
  "is_arr (JArr _) = True"
| "is_arr _ = False"

fun is_str :: "json \<Rightarrow> bool" where
  "is_str (JStr _) = True"
| "is_str _ = False"

fun obj_of :: "json \<Rightarrow> json dict" where
  "obj_of (JObj d) = d"
| "obj_of _ = []"

fun arr_of :: "json \<Rightarrow> json list" where
  "arr_of (JArr xs) = xs"
| "arr_of _ = []"

definition py_type :: "json \<Rightarrow> string" where
  "py_type v = (case v of JNull \<Rightarrow> ''NoneType'' | JBool _ \<Rightarrow> ''bool'' | JInt _ \<Rightarrow> ''int''
     | JFloat _ \<Rightarrow> ''float'' | JStr _ \<Rightarrow> ''str'' | JArr _ \<Rightarrow> ''list'' | JObj _ \<Rightarrow> ''dict'')"

text \<open>\<open>v.get(k)\<close> on an arbitrary value: everything but a dictionary raises \<open>AttributeError\<close>.\<close>

definition jget :: "json \<Rightarrow> string \<Rightarrow> json res" where
  "jget v k = (case v of JObj d \<Rightarrow> Inr (dget d k)
     | _ \<Rightarrow> Inl (AttributeError (CHR 0x27 # py_type v @ CHR 0x27 # '' object has no attribute '' @ CHR 0x27 # ''get'' @ [CHR 0x27])))"

fun digits_val :: "nat \<Rightarrow> string \<Rightarrow> nat option" where
  "digits_val acc [] = Some acc"
| "digits_val acc (c # cs) =
     (let n = (of_char c :: nat) in
      if 48 \<le> n \<and> n \<le> 57 then digits_val (10 * acc + (n - 48)) cs else None)"

definition nat_literal :: "string \<Rightarrow> nat option" where
  "nat_literal s = (if s = [] then None else digits_val 0 s)"

text \<open>\<open>int(s)\<close> on a string: surrounding space, a sign, decimal digits.\<close>

definition int_literal :: "string \<Rightarrow> int option" where
  "int_literal s =
     (case strip s of
        [] \<Rightarrow> None
      | c # cs \<Rightarrow>
          if c = CHR ''-'' then map_option (\<lambda>n. - int n) (nat_literal cs)
          else if c = CHR ''+'' then map_option int (nat_literal cs)
          else map_option int (nat_literal (c # cs)))"

definition trunc :: "rat \<Rightarrow> int" where
  "trunc r = (if r < 0 then - \<lfloor>- r\<rfloor> else \<lfloor>r\<rfloor>)"

text \<open>\<open>int(v)\<close>.\<close>

fun py_int :: "json \<Rightarrow> int res" where
  "py_int (JInt i) = Inr i"
| "py_int (JBool b) = Inr (if b then 1 else 0)"
| "py_int (JFloat r) = Inr (trunc r)"
| "py_int (JStr s) =
     (case int_literal s of Some i \<Rightarrow> Inr i
      | None \<Rightarrow> Inl (ValueError (''invalid literal for int() with base 10: '' @ CHR 0x27 # s @ [CHR 0x27])))"
| "py_int v = Inl (TypeError (''int() argument must be a string, a bytes-like object or a real number, not ''
                     @ CHR 0x27 # py_type v @ [CHR 0x27]))"

text \<open>
  \<open>str(v)\<close>; the rendering of floats and containers is a parameter.
\<close>

fun py_str :: "(json \<Rightarrow> string) \<Rightarrow> json \<Rightarrow> string" where
  "py_str repr JNull = ''None''"
| "py_str repr (JBool b) = (if b then ''True'' else ''False'')"
| "py_str repr (JInt i) = show_int i"
| "py_str repr (JStr s) = s"
| "py_str repr v = repr v"

text \<open>\<open>isinstance(v, int)\<close>: a \<open>bool\<close> is an \<open>int\<close>.\<close>

fun as_int :: "json \<Rightarrow> int option" where
  "as_int (JInt i) = Some i"
| "as_int (JBool b) = Some (if b then 1 else 0)"
| "as_int _ = None"

lemma truthy_jor: "truthy (jor a b) \<longleftrightarrow> truthy a \<or> truthy b"
  by (simp add: jor_def)

lemma py_int_as_int: "as_int v = Some i \<Longrightarrow> py_int v = Inr i"
  by (cases v) auto

lemma dget_put: "dget (AList.update k v d) k' = (if k' = k then v else dget d k')"
  by (simp add: dget_def dict_simps)

text \<open>
  \<open>float(v)\<close>: a decimal literal with an optional fraction and exponent. Infinities and NaN have no
  exact rational value and are refused here.
\<close>

definition frac_literal :: "string \<Rightarrow> string \<Rightarrow> rat option" where
  "frac_literal i f =
     (if i = [] \<and> f = [] then None
      else map_option (\<lambda>n. of_nat n / 10 ^ length f) (digits_val 0 (i @ f)))"

definition mantissa :: "string \<Rightarrow> rat option" where
  "mantissa s =
     (let i = takeWhile (\<lambda>c. c \<noteq> CHR ''.'') s; f = drop (Suc (length i)) s in frac_literal i f)"

definition unsigned_float :: "string \<Rightarrow> rat option" where
  "unsigned_float s =
     (let m = takeWhile (\<lambda>c. c \<noteq> CHR ''e'' \<and> c \<noteq> CHR ''E'') s; e = drop (Suc (length m)) s in
      if length m = length s then mantissa m
      else case mantissa m of None \<Rightarrow> None
        | Some r \<Rightarrow> map_option (\<lambda>k. if k < 0 then r / 10 ^ nat (- k) else r * 10 ^ nat k) (int_literal e))"

definition float_literal :: "string \<Rightarrow> rat option" where
  "float_literal s =
     (case strip s of
        [] \<Rightarrow> None
      | c # cs \<Rightarrow>
          if c = CHR ''-'' then map_option uminus (unsigned_float cs)
          else if c = CHR ''+'' then unsigned_float cs
          else unsigned_float (c # cs))"

fun py_float :: "json \<Rightarrow> rat res" where
  "py_float (JInt i) = Inr (of_int i)"
| "py_float (JBool b) = Inr (if b then 1 else 0)"
| "py_float (JFloat r) = Inr r"
| "py_float (JStr s) =
     (case float_literal s of Some r \<Rightarrow> Inr r
      | None \<Rightarrow> Inl (ValueError (''could not convert string to float: '' @ CHR 0x27 # s @ [CHR 0x27])))"
| "py_float v = Inl (TypeError (''float() argument must be a string or a real number, not ''
                     @ CHR 0x27 # py_type v @ [CHR 0x27]))"

text \<open>A list comprehension whose element expression can raise.\<close>

primrec map_res :: "('a \<Rightarrow> 'b res) \<Rightarrow> 'a list \<Rightarrow> 'b list res" where
  "map_res f [] = Inr []"
| "map_res f (x # xs) = bnd (f x) (\<lambda>y. bnd (map_res f xs) (\<lambda>ys. Inr (y # ys)))"

lemma map_res_Inr: "map_res f xs = Inr ys \<longleftrightarrow> list_all2 (\<lambda>x y. f x = Inr y) xs ys"
  by (induction xs arbitrary: ys) (auto simp: bnd_Inr_iff list_all2_Cons1)

lemma map_res_pure: "(\<And>x. x \<in> set xs \<Longrightarrow> f x = Inr (g x)) \<Longrightarrow> map_res f xs = Inr (List.map g xs)"
  by (induction xs) simp_all

text \<open>\<open>a == b\<close>: numbers of different types compare by value.\<close>

fun num_value :: "json \<Rightarrow> rat option" where
  "num_value (JBool b) = Some (if b then 1 else 0)"
| "num_value (JInt i) = Some (of_int i)"
| "num_value (JFloat r) = Some r"
| "num_value _ = None"

definition py_eq :: "json \<Rightarrow> json \<Rightarrow> bool" where
  "py_eq a b = (case (num_value a, num_value b) of
     (Some x, Some y) \<Rightarrow> x = y | (None, None) \<Rightarrow> a = b | _ \<Rightarrow> False)"

lemma py_eq_refl [simp]: "py_eq a a"
  by (simp add: py_eq_def split: option.splits)

text \<open>One line per schema error: the path of the offending value, then the message.\<close>

definition error_line :: "string list \<times> string \<Rightarrow> string" where
  "error_line e = (let p = join ''/'' (fst e) in (if p = [] then ''/'' else p) @ '': '' @ snd e)"

subsection \<open>Iterating a value\<close>

text \<open>The characters of a string.\<close>

function code_points :: "string \<Rightarrow> string list" where
  "code_points [] = []"
| "code_points (c # cs) = (c # takeWhile is_cont cs) # code_points (dropWhile is_cont cs)"
  by pat_completeness auto
termination
  by (relation "measure length") (auto simp: length_dropWhile_le le_imp_less_Suc)

definition py_iter :: "json \<Rightarrow> json list res" where
  "py_iter v = (case v of
     JArr xs \<Rightarrow> Inr xs
   | JObj d \<Rightarrow> Inr (List.map JStr (dict_keys d))
   | JStr s \<Rightarrow> Inr (List.map JStr (code_points s))
   | _ \<Rightarrow> Inl (TypeError (CHR 0x27 # py_type v @ CHR 0x27 # '' object is not iterable'')))"

end
