(* ===== verification/WorkflowIR.thy ===== *)
theory WorkflowIR
  imports PyData
begin

section \<open>Workflow documents\<close>

text \<open>
  The workflow document the kernel stages pass around
  (packages/schemas/workflow/workflow-ir.schema.json). Fields the schema types as strings are
  strings; a field the code reads with \<open>get\<close> and a default is an \<open>option\<close>; a field whose shape
  the code itself inspects (\<open>budgets\<close>, \<open>pins\<close>, \<open>review_loop\<close>) stays a JSON value. A list entry that
  is not an object is kept as such, because the policy gate and the generator test for it.
\<close>

record wf_node =
  n_id :: string
  n_type :: "string option"
  n_title :: "string option"
  n_perm :: "string option"
  n_idem :: "string option"
  n_cache :: "string option"
  n_timeout :: "int option"
  n_retry_max :: "int option"
  n_review_loop :: json

datatype raw_node = NonObject | NodeObj wf_node

record wf_edge =
  e_id :: string
  e_from :: string
  e_to :: string
  e_kind :: string

datatype raw_edge = EdgeNonObject | EdgeObj wf_edge

record workflow =
  wf_id :: string
  wf_title :: string
  wf_pack :: string
  wf_statement :: string
  wf_pins :: "json dict"
  wf_nodes :: "raw_node list option"
  wf_edges :: "raw_edge list"
  wf_budgets :: json
  wf_criteria :: "string list"
  wf_notes :: "string option"

definition node_objs :: "raw_node list \<Rightarrow> wf_node list" where
  "node_objs ns = concat (List.map (\<lambda>r. case r of NonObject \<Rightarrow> [] | NodeObj n \<Rightarrow> [n]) ns)"

definition edge_objs :: "raw_edge list \<Rightarrow> wf_edge list" where
  "edge_objs es = concat (List.map (\<lambda>r. case r of EdgeNonObject \<Rightarrow> [] | EdgeObj e \<Rightarrow> [e]) es)"

lemma node_objs_simps [simp]:
  "node_objs [] = []"
  "node_objs (NonObject # ns) = node_objs ns"
  "node_objs (NodeObj n # ns) = n # node_objs ns"
  "node_objs (xs @ ys) = node_objs xs @ node_objs ys"
  by (simp_all add: node_objs_def)

lemma edge_objs_simps [simp]:
  "edge_objs [] = []"
  "edge_objs (EdgeNonObject # es) = edge_objs es"
  "edge_objs (EdgeObj e # es) = e # edge_objs es"
  "edge_objs (xs @ ys) = edge_objs xs @ edge_objs ys"
  by (simp_all add: edge_objs_def)

lemma set_node_objs: "n \<in> set (node_objs ns) \<longleftrightarrow> NodeObj n \<in> set ns"
proof (induction ns)
  case (Cons r ns)
  then show ?case by (cases r) auto
qed simp

lemma node_objs_map [simp]: "node_objs (List.map NodeObj ns) = ns"
  by (induction ns) simp_all

lemma edge_objs_map [simp]: "edge_objs (List.map EdgeObj es) = es"
  by (induction es) simp_all

text \<open>\<open>str(e.get("from") or "").split(":")[0]\<close>: the node part of a port reference.\<close>

definition port_node :: "string \<Rightarrow> string" where
  "port_node s = hd (split_on (CHR 0x3A) s)"

lemma port_node_of_port: "CHR 0x3A \<notin> set i \<Longrightarrow> port_node (i @ CHR 0x3A # p) = i"
  unfolding port_node_def hd_split_on by (induction i) auto

end
