(* ===== verification/PolicyGate.thy ===== *)
theory PolicyGate
  imports WorkflowIR
begin

section \<open>The worker's policy gate (kernel/policy_gate.py)\<close>

text \<open>
  Permission classes and their normalisation, the overlay path check, the verdict on one node
  action, and the structural and policy validation of a whole workflow with its depth-first
  cycle search. Python iterates over a \<open>set\<close> of node ids here, in no fixed order: the order is an
  argument of the model.
\<close>

subsection \<open>Permission classes\<close>

definition AUTO_APPLY :: "string list" where
  "AUTO_APPLY = [''read'', ''safe_overlay'']"

definition APPROVAL_REQUIRED :: "string list" where
  "APPROVAL_REQUIRED =
     [''vault_mutate'', ''source_mutate'', ''network_egress'', ''network'', ''publish'', ''shell'',
      ''credentials'', ''approval_required'']"

definition KNOWN_CLASSES :: "string list" where
  "KNOWN_CLASSES = AUTO_APPLY @ APPROVAL_REQUIRED"

definition normalize_permission_class :: "string \<Rightarrow> string" where
  "normalize_permission_class raw =
     (if raw = ''network'' then ''network_egress''
      else if raw = ''approval_required'' then ''vault_mutate''
      else raw)"

definition may_auto_apply :: "string \<Rightarrow> bool" where
  "may_auto_apply cls = (normalize_permission_class cls \<in> set AUTO_APPLY)"

lemma normalize_idem [simp]:
  "normalize_permission_class (normalize_permission_class c) = normalize_permission_class c"
  by (simp add: normalize_permission_class_def)

lemma may_auto_apply_normalize [simp]:
  "may_auto_apply (normalize_permission_class c) = may_auto_apply c"
  by (simp add: may_auto_apply_def)

lemma may_auto_apply_iff: "may_auto_apply c \<longleftrightarrow> c = ''read'' \<or> c = ''safe_overlay''"
  by (auto simp: may_auto_apply_def normalize_permission_class_def AUTO_APPLY_def)

subsection \<open>Overlay paths\<close>

definition OVERLAY_PREFIXES :: "string list" where
  "OVERLAY_PREFIXES =
     [''.brainflow/artifacts/'', ''.brainflow/workflows/'', ''.brainflow/graphs/'',
      ''.brainflow/templates/'', ''artifacts/'']"

definition norm_slashes :: "string \<Rightarrow> string" where
  "norm_slashes path = dropWhile (\<lambda>c. c = CHR ''/'') (replace_all [CHR 0x5C] ''/'' path)"

datatype path_verdict = PathOk | PathError string

definition assert_path_safe_overlay :: "string \<Rightarrow> path_verdict" where
  "assert_path_safe_overlay path =
     (let p = norm_slashes path in
      if ''..'' \<in> set (split_on (CHR ''/'') p) then PathError ''path traversal rejected''
      else if list_ex (starts_with p) OVERLAY_PREFIXES then PathOk
      else PathError (''path not under .brainflow overlay: '' @ path))"

definition safe_path :: "string \<Rightarrow> bool" where
  "safe_path path \<longleftrightarrow>
     ''..'' \<notin> set (split_on (CHR ''/'') (norm_slashes path)) \<and>
     (\<exists>p\<in>set OVERLAY_PREFIXES. prefix p (norm_slashes path))"

lemma assert_path_ok_iff: "assert_path_safe_overlay path = PathOk \<longleftrightarrow> safe_path path"
  by (auto simp: assert_path_safe_overlay_def safe_path_def Let_def list_ex_iff starts_with_def)

lemma safe_path_nonempty: "safe_path p \<Longrightarrow> p \<noteq> []"
  by (auto simp: safe_path_def norm_slashes_def OVERLAY_PREFIXES_def)

subsection \<open>The verdict on one action\<close>

record gate_result =
  g_ok :: bool
  g_perm :: "string option"
  g_approval :: bool
  g_error :: "string option"

definition node_class :: "wf_node \<Rightarrow> string" where
  "node_class n = (case n_perm n of None \<Rightarrow> ''safe_overlay'' | Some c \<Rightarrow> if c = [] then ''safe_overlay'' else c)"

definition evaluate_node_action :: "wf_node \<Rightarrow> string option \<Rightarrow> gate_result" where
  "evaluate_node_action n write_path =
     (let cls = normalize_permission_class (node_class n) in
      if cls \<notin> set KNOWN_CLASSES \<and> cls \<notin> {''read'', ''safe_overlay''} then
        \<lparr>g_ok = False, g_perm = None, g_approval = True,
         g_error = Some (''unknown permission class: '' @ cls)\<rparr>
      else if \<not> may_auto_apply cls then
        \<lparr>g_ok = False, g_perm = Some cls, g_approval = True,
         g_error = Some (''permission class requires approval: '' @ cls)\<rparr>
      else case write_path of
        Some p \<Rightarrow>
          (if p = [] then \<lparr>g_ok = True, g_perm = Some cls, g_approval = False, g_error = None\<rparr>
           else case assert_path_safe_overlay p of
             PathError e \<Rightarrow> \<lparr>g_ok = False, g_perm = None, g_approval = True, g_error = Some e\<rparr>
           | PathOk \<Rightarrow> \<lparr>g_ok = True, g_perm = Some cls, g_approval = False, g_error = None\<rparr>)
      | None \<Rightarrow> \<lparr>g_ok = True, g_perm = Some cls, g_approval = False, g_error = None\<rparr>)"

lemma gate_approval_iff:
  "g_approval (evaluate_node_action n None) \<longleftrightarrow> \<not> may_auto_apply (node_class n)"
  by (auto simp: evaluate_node_action_def Let_def KNOWN_CLASSES_def AUTO_APPLY_def may_auto_apply_iff
      normalize_permission_class_def)

lemma gate_ok_write_iff:
  "p \<noteq> [] \<Longrightarrow>
   g_ok (evaluate_node_action n (Some p)) \<longleftrightarrow> may_auto_apply (node_class n) \<and> safe_path p"
  by (auto simp: evaluate_node_action_def Let_def assert_path_ok_iff [symmetric] KNOWN_CLASSES_def
      AUTO_APPLY_def may_auto_apply_iff normalize_permission_class_def split: path_verdict.splits)

lemma gate_error_iff: "g_error (evaluate_node_action n w) = None \<longleftrightarrow> g_ok (evaluate_node_action n w)"
  by (auto simp: evaluate_node_action_def Let_def split: option.splits path_verdict.splits)

subsection \<open>The depth-first cycle search\<close>

datatype policy_error =
    NodesRequired
  | NonObjectNode
  | UnknownClass string string
  | BadReviewLoop string
  | UnboundedCycle "string list"
  | MaxStepsCap
  | MaxParallelCap

type_synonym adjacency = "(string \<times> string list) list"

definition succs :: "adjacency \<Rightarrow> string \<Rightarrow> string list" where
  "succs adj u = (case map_of adj u of None \<Rightarrow> [] | Some vs \<Rightarrow> vs)"

text \<open>
  \<open>visiting\<close> of the source always holds exactly the elements of \<open>stack\<close> (both are pushed and
  popped together), so the stack stands for both; \<open>visited\<close> is kept newest first.
\<close>

type_synonym dfs_state = "string list \<times> policy_error list"

function dfs :: "adjacency \<Rightarrow> string list \<Rightarrow> string list \<Rightarrow> string \<Rightarrow> dfs_state \<Rightarrow> dfs_state"
  and dfs_list :: "adjacency \<Rightarrow> string list \<Rightarrow> string list \<Rightarrow> string list \<Rightarrow> dfs_state \<Rightarrow> dfs_state"
where
  "dfs adj loops stack u st =
     (if u \<in> set stack then
        (let cycle = dropWhile (\<lambda>x. x \<noteq> u) stack in
         if list_all (\<lambda>c. c \<in> set loops) cycle then st
         else (fst st, snd st @ [UnboundedCycle cycle]))
      else if u \<in> set (fst st) then st
      else
        (let st' = dfs_list adj loops (stack @ [u]) (succs adj u) st in
         (u # fst st', snd st')))"
| "dfs_list adj loops stack [] st = st"
| "dfs_list adj loops stack (v # vs) st = dfs_list adj loops stack vs (dfs adj loops stack v st)"
  by pat_completeness auto
termination
proof (relation "measures [case_sum (\<lambda>(adj, loops, stack, u, st). card (fst ` set adj - set stack))
                             (\<lambda>(adj, loops, stack, vs, st). card (fst ` set adj - set stack)),
                           case_sum (\<lambda>_. 1) (\<lambda>(adj, loops, stack, vs, st). 2 * length vs)]", goal_cases)
  case (2 adj loops stack u st)
  show ?case
  proof (cases "map_of adj u")
    case None
    then have "u \<notin> fst ` set adj" by (simp add: map_of_eq_None_iff)
    then have "fst ` set adj - set (stack @ [u]) = fst ` set adj - set stack" by auto
    with None show ?thesis by (simp add: succs_def)
  next
    case (Some vs)
    then have "u \<in> fst ` set adj" by (force dest: map_of_SomeD)
    then have "fst ` set adj - set (stack @ [u]) \<subset> fst ` set adj - set stack"
      using 2 by auto
    then have "card (fst ` set adj - set (stack @ [u])) < card (fst ` set adj - set stack)"
      by (rule psubset_card_mono [rotated]) simp
    then show ?thesis by simp
  qed
qed auto

declare dfs.simps [simp del]

subsection \<open>Validation of a workflow\<close>

record policy_report =
  pr_ok :: bool
  pr_errors :: "policy_error list"
  pr_approvals :: "(string \<times> string) list"

definition loop_error :: "wf_node \<Rightarrow> policy_error list" where
  "loop_error n =
     (case n_review_loop n of
        JObj loop \<Rightarrow>
          (case as_int (dget loop ''max_iterations'') of
             None \<Rightarrow> [BadReviewLoop (n_id n)]
           | Some mi \<Rightarrow> if mi < 1 \<or> mi > 10 then [BadReviewLoop (n_id n)] else [])
      | _ \<Rightarrow> [])"

definition check_node :: "raw_node \<Rightarrow> policy_error list \<times> (string \<times> string) list" where
  "check_node r =
     (case r of
        NonObject \<Rightarrow> ([NonObjectNode], [])
      | NodeObj n \<Rightarrow>
          (let cls = normalize_permission_class (case n_perm n of None \<Rightarrow> [] | Some c \<Rightarrow> c);
               (errs, appr) =
                 (if cls \<notin> set KNOWN_CLASSES then ([UnknownClass (n_id n) cls], [])
                  else if \<not> may_auto_apply cls then ([], [(n_id n, cls)])
                  else ([], []))
           in (errs @ loop_error n, appr)))"

definition node_ids :: "raw_node list \<Rightarrow> string list" where
  "node_ids ns = dedup (List.map n_id (node_objs ns))"

definition build_adj :: "string list \<Rightarrow> raw_edge list \<Rightarrow> adjacency" where
  "build_adj ids es =
     fold (\<lambda>e adj.
        let frm = port_node (e_from e); to = port_node (e_to e) in
        case map_of adj frm of
          None \<Rightarrow> adj
        | Some vs \<Rightarrow> if to \<in> set ids then AList.update frm (vs @ [to]) adj else adj)
     (edge_objs es) (List.map (\<lambda>i. (i, [])) ids)"

definition loop_nodes :: "raw_node list \<Rightarrow> string list" where
  "loop_nodes ns = List.map n_id (List.filter (\<lambda>n. is_obj (n_review_loop n)) (node_objs ns))"

definition budget_errors :: "json \<Rightarrow> policy_error list res" where
  "budget_errors budgets =
     (case budgets of
        JObj b \<Rightarrow>
          bnd (py_int (jor (dget b ''max_steps'') (JInt 0))) (\<lambda>steps.
          bnd (py_int (jor (dget b ''max_parallel_jobs'') (JInt 0))) (\<lambda>par.
            Inr ((if steps > 500 then [MaxStepsCap] else []) @
                 (if par > 32 then [MaxParallelCap] else []))))
      | _ \<Rightarrow> Inr [])"

definition cycle_errors :: "string list \<Rightarrow> raw_node list \<Rightarrow> raw_edge list \<Rightarrow> policy_error list" where
  "cycle_errors order ns es =
     snd (dfs_list (build_adj (node_ids ns) es) (loop_nodes ns) [] order ([], []))"

definition validate_workflow_policy :: "string list \<Rightarrow> workflow \<Rightarrow> policy_report res" where
  "validate_workflow_policy order doc =
     (case wf_nodes doc of
        None \<Rightarrow> Inr \<lparr>pr_ok = False, pr_errors = [NodesRequired], pr_approvals = []\<rparr>
      | Some ns \<Rightarrow>
          if ns = [] then Inr \<lparr>pr_ok = False, pr_errors = [NodesRequired], pr_approvals = []\<rparr>
          else
            (let node_errs = concat (List.map (\<lambda>r. fst (check_node r)) ns);
                 approvals = concat (List.map (\<lambda>r. snd (check_node r)) ns);
                 cyc = cycle_errors order ns (wf_edges doc)
             in bnd (budget_errors (jor (wf_budgets doc) (JObj []))) (\<lambda>berrs.
                  let errs = node_errs @ cyc @ berrs in
                  Inr \<lparr>pr_ok = (length errs = 0), pr_errors = errs, pr_approvals = approvals\<rparr>)))"

end
