(* ===== verification/CycleSearch.thy ===== *)
theory CycleSearch
  imports PolicyGate
begin

section \<open>What the cycle search of the policy gate decides\<close>

text \<open>
  The search reports a node sequence only if it is a cycle of the edge relation with a node that
  has no review loop (\<open>dfs_sound\<close>). When it reports nothing, the edges that do not run between
  two review-loop nodes form an acyclic relation (\<open>dfs_complete\<close>), whatever order the nodes are
  taken in. Without review loops the two meet: no report exactly when the graph is acyclic.
\<close>

definition edge_rel :: "adjacency \<Rightarrow> (string \<times> string) set" where
  "edge_rel adj = {(x, y). y \<in> set (succs adj x)}"

lemma edge_rel_iff [simp]: "(x, y) \<in> edge_rel adj \<longleftrightarrow> y \<in> set (succs adj x)"
  by (simp add: edge_rel_def)

text \<open>The visited list is kept newest first: a node comes before everything finished earlier.\<close>

fun ranked :: "adjacency \<Rightarrow> string list \<Rightarrow> string list \<Rightarrow> bool" where
  "ranked adj loops [] = True"
| "ranked adj loops (x # done_before) =
     ((\<forall>y\<in>set (succs adj x). y \<in> set done_before \<or> (x \<in> set loops \<and> y \<in> set loops)) \<and>
      ranked adj loops done_before)"

definition back_ok :: "string list \<Rightarrow> string list \<Rightarrow> string \<Rightarrow> bool" where
  "back_ok loops stack v \<longleftrightarrow> v \<in> set stack \<and> set (dropWhile (\<lambda>x. x \<noteq> v) stack) \<subseteq> set loops"

definition settled :: "string list \<Rightarrow> string list \<Rightarrow> string list \<Rightarrow> string \<Rightarrow> bool" where
  "settled loops stack vis v \<longleftrightarrow> v \<in> set vis \<or> back_ok loops stack v"

lemma settled_mono: "settled loops stack vis v \<Longrightarrow> set vis \<subseteq> set vis' \<Longrightarrow> settled loops stack vis' v"
  by (auto simp: settled_def)

lemma hd_dropWhile_mem: "v \<in> set xs \<Longrightarrow> v \<in> set (dropWhile (\<lambda>x. x \<noteq> v) xs)"
  by (induction xs) auto

lemma last_dropWhile_mem: "v \<in> set (xs @ [u]) \<Longrightarrow> u \<in> set (dropWhile (\<lambda>x. x \<noteq> v) (xs @ [u]))"
  by (induction xs) auto

lemma back_ok_top:
  assumes "back_ok loops (stack @ [u]) v"
  shows "u \<in> set loops \<and> v \<in> set loops"
  using assms hd_dropWhile_mem [of v "stack @ [u]"] last_dropWhile_mem [of v stack u]
  by (auto simp: back_ok_def)

subsection \<open>Errors are only added; visited nodes stay visited\<close>

lemma dfs_grows:
  shows "\<exists>extra. snd (dfs adj loops stack u st) = snd st @ extra"
    and "\<exists>extra. snd (dfs_list adj loops stack vs st) = snd st @ extra"
proof (induction adj loops stack u st and adj loops stack vs st rule: dfs_dfs_list.induct)
  case (1 adj loops stack u st)
  then show ?case
    by (cases "u \<in> set stack"; cases "u \<in> set (fst st)") (auto simp: dfs.simps Let_def)
next
  case (3 adj loops stack v vs st)
  then obtain e1 e2 where
    "snd (dfs adj loops stack v st) = snd st @ e1"
    "snd (dfs_list adj loops stack vs (dfs adj loops stack v st)) = snd (dfs adj loops stack v st) @ e2"
    by blast
  then show ?case by simp
qed simp

lemma dfs_visits:
  shows "set (fst st) \<subseteq> set (fst (dfs adj loops stack u st))"
    and "set (fst st) \<subseteq> set (fst (dfs_list adj loops stack vs st))"
proof (induction adj loops stack u st and adj loops stack vs st rule: dfs_dfs_list.induct)
  case (1 adj loops stack u st)
  then show ?case
    by (cases "u \<in> set stack"; cases "u \<in> set (fst st)") (auto simp: dfs.simps Let_def)
qed auto

subsection \<open>Completeness\<close>

lemma dfs_ranked:
  shows "snd (dfs adj loops stack u st) = snd st \<Longrightarrow> ranked adj loops (fst st) \<Longrightarrow>
      ranked adj loops (fst (dfs adj loops stack u st)) \<and>
      settled loops stack (fst (dfs adj loops stack u st)) u"
    and "snd (dfs_list adj loops stack vs st) = snd st \<Longrightarrow> ranked adj loops (fst st) \<Longrightarrow>
      ranked adj loops (fst (dfs_list adj loops stack vs st)) \<and>
      (\<forall>v\<in>set vs. settled loops stack (fst (dfs_list adj loops stack vs st)) v)"
proof (induction adj loops stack u st and adj loops stack vs st rule: dfs_dfs_list.induct)
  case (1 adj loops stack u st)
  show ?case
  proof (cases "u \<in> set stack")
    case True
    with "1.prems" show ?thesis
      by (auto simp: dfs.simps Let_def settled_def back_ok_def list_all_iff subset_iff split: if_splits)
  next
    case notin: False
    show ?thesis
    proof (cases "u \<in> set (fst st)")
      case True
      with notin "1.prems" show ?thesis by (simp add: dfs.simps settled_def)
    next
      case False
      let ?st' = "dfs_list adj loops (stack @ [u]) (succs adj u) st"
      have eq: "dfs adj loops stack u st = (u # fst ?st', snd ?st')"
        using notin False by (simp add: dfs.simps Let_def)
      have ih: "ranked adj loops (fst ?st')"
        "\<forall>v\<in>set (succs adj u). settled loops (stack @ [u]) (fst ?st') v"
        using "1.IH" [OF notin False] "1.prems" eq by auto
      then have "ranked adj loops (u # fst ?st')"
        using back_ok_top [of loops stack u] by (auto simp: settled_def)
      then show ?thesis by (simp add: eq settled_def)
    qed
  qed
next
  case (3 adj loops stack v vs st)
  let ?st1 = "dfs adj loops stack v st"
  let ?st2 = "dfs_list adj loops stack vs ?st1"
  obtain e1 e2 where "snd ?st1 = snd st @ e1" "snd ?st2 = snd ?st1 @ e2"
    using dfs_grows by blast
  with "3.prems"(1) have same: "snd ?st1 = snd st" "snd ?st2 = snd ?st1" by auto
  have one: "ranked adj loops (fst ?st1)" "settled loops stack (fst ?st1) v"
    using "3.IH"(1) [OF same(1) "3.prems"(2)] by auto
  have two: "ranked adj loops (fst ?st2)" "\<forall>w\<in>set vs. settled loops stack (fst ?st2) w"
    using "3.IH"(2) [OF same(2) one(1)] by auto
  have "settled loops stack (fst ?st2) v"
    using one(2) dfs_visits(2) by (rule settled_mono)
  with two show ?case by simp
qed simp

fun rank_of :: "string list \<Rightarrow> string \<Rightarrow> nat" where
  "rank_of [] v = 0"
| "rank_of (x # xs) v = (if v \<in> set xs then rank_of xs v else if v = x then Suc (length xs) else 0)"

lemma rank_of_le: "rank_of vis v \<le> length vis"
  by (induction vis) auto

lemma ranked_decreases:
  assumes "ranked adj loops vis" "x \<in> set vis" "y \<in> set (succs adj x)"
    and "\<not> (x \<in> set loops \<and> y \<in> set loops)"
  shows "y \<in> set vis \<and> rank_of vis y < rank_of vis x"
  using assms
proof (induction vis)
  case Nil
  then show ?case by simp
next
  case (Cons z vis)
  show ?case
  proof (cases "x \<in> set vis")
    case True
    with Cons show ?thesis by auto
  next
    case False
    with Cons.prems have "x = z" "y \<in> set vis" by auto
    with False show ?thesis using rank_of_le [of vis y] by auto
  qed
qed

lemma succs_keys: "y \<in> set (succs adj x) \<Longrightarrow> x \<in> fst ` set adj"
  by (cases "map_of adj x") (auto simp: succs_def dest: map_of_SomeD intro: rev_image_eqI)

text \<open>Every edge out of a visited node falls in rank, up to edges between review-loop nodes.\<close>

lemma dfs_complete:
  assumes "snd (dfs_list adj loops [] order ([], [])) = []"
    and "fst ` set adj \<subseteq> set order"
  shows "acyclic (edge_rel adj - set loops \<times> set loops)"
proof -
  let ?vis = "fst (dfs_list adj loops [] order ([], []))"
  have r: "ranked adj loops ?vis" and s: "\<forall>v\<in>set order. settled loops [] ?vis v"
    using dfs_ranked(2) [of adj loops "[]" order "([], [])"] assms(1) by auto
  have vis: "x \<in> set ?vis" if "x \<in> fst ` set adj" for x
    using s assms(2) that by (auto simp: settled_def back_ok_def)
  have "edge_rel adj - set loops \<times> set loops \<subseteq> inv_image {(a, b). b < a} (rank_of ?vis)"
  proof (rule subrelI)
    fix x y assume "(x, y) \<in> edge_rel adj - set loops \<times> set loops"
    then have xy: "y \<in> set (succs adj x)" "\<not> (x \<in> set loops \<and> y \<in> set loops)" by auto
    show "(x, y) \<in> inv_image {(a, b). b < a} (rank_of ?vis)"
      using ranked_decreases [OF r vis [OF succs_keys [OF xy(1)]] xy] by (simp add: inv_image_def)
  qed
  moreover have "acyclic (inv_image {(a, b). b < a} (rank_of ?vis))"
  proof -
    have "inv_image {(a, b). b < a} (rank_of ?vis) = (inv_image less_than (rank_of ?vis))\<inverse>"
      by (auto simp: inv_image_def)
    then show ?thesis
      by (metis acyclic_converse wf_acyclic wf_inv_image wf_less_than)
  qed
  ultimately show ?thesis by (rule acyclic_subset [rotated])
qed

subsection \<open>Soundness\<close>

definition linked :: "adjacency \<Rightarrow> string list \<Rightarrow> bool" where
  "linked adj xs \<longleftrightarrow> successively (\<lambda>x y. y \<in> set (succs adj x)) xs"

definition is_cycle :: "adjacency \<Rightarrow> string list \<Rightarrow> bool" where
  "is_cycle adj c \<longleftrightarrow> c \<noteq> [] \<and> linked adj c \<and> hd c \<in> set (succs adj (last c))"

definition bad_cycle :: "adjacency \<Rightarrow> string list \<Rightarrow> policy_error \<Rightarrow> bool" where
  "bad_cycle adj loops e \<longleftrightarrow>
     (\<exists>c. e = UnboundedCycle c \<and> is_cycle adj c \<and> \<not> set c \<subseteq> set loops)"

definition extends_path :: "adjacency \<Rightarrow> string list \<Rightarrow> string \<Rightarrow> bool" where
  "extends_path adj stack u \<longleftrightarrow> linked adj stack \<and> (stack = [] \<or> u \<in> set (succs adj (last stack)))"

lemma linked_suffix: "linked adj (xs @ ys) \<Longrightarrow> linked adj ys"
  by (auto simp: linked_def successively_append_iff)

lemma linked_dropWhile: "linked adj xs \<Longrightarrow> linked adj (dropWhile p xs)"
  by (metis linked_suffix takeWhile_dropWhile_id)

lemma dfs_errors_bad:
  shows "\<forall>e\<in>set (snd st). bad_cycle adj loops e \<Longrightarrow> extends_path adj stack u \<Longrightarrow>
      \<forall>e\<in>set (snd (dfs adj loops stack u st)). bad_cycle adj loops e"
    and "\<forall>e\<in>set (snd st). bad_cycle adj loops e \<Longrightarrow> (\<forall>v\<in>set vs. extends_path adj stack v) \<Longrightarrow>
      \<forall>e\<in>set (snd (dfs_list adj loops stack vs st)). bad_cycle adj loops e"
proof (induction adj loops stack u st and adj loops stack vs st rule: dfs_dfs_list.induct)
  case (1 adj loops stack u st)
  show ?case
  proof (cases "u \<in> set stack")
    case True
    let ?c = "dropWhile (\<lambda>x. x \<noteq> u) stack"
    have ne: "?c \<noteq> []" using True hd_dropWhile_mem by fastforce
    have "hd ?c = u" using hd_dropWhile [OF ne] by simp
    moreover have "last ?c = last stack"
      by (metis ne last_appendR takeWhile_dropWhile_id)
    ultimately have "is_cycle adj ?c"
      using "1.prems"(2) ne True linked_dropWhile
      by (auto simp: is_cycle_def extends_path_def)
    then have "\<not> list_all (\<lambda>c. c \<in> set loops) ?c \<Longrightarrow> bad_cycle adj loops (UnboundedCycle ?c)"
      by (auto simp: bad_cycle_def list_all_iff)
    with True "1.prems"(1) show ?thesis by (auto simp: dfs.simps Let_def)
  next
    case notin: False
    show ?thesis
    proof (cases "u \<in> set (fst st)")
      case True
      with notin "1.prems" show ?thesis by (simp add: dfs.simps)
    next
      case False
      have "linked adj (stack @ [u])"
        using "1.prems"(2) by (auto simp: extends_path_def linked_def successively_append_iff)
      then have "\<forall>v\<in>set (succs adj u). extends_path adj (stack @ [u]) v"
        by (simp add: extends_path_def)
      with "1.IH" [OF notin False "1.prems"(1)] notin False show ?thesis
        by (simp add: dfs.simps Let_def)
    qed
  qed
qed auto

lemma dfs_sound:
  "e \<in> set (snd (dfs_list adj loops [] order ([], []))) \<Longrightarrow> bad_cycle adj loops e"
  using dfs_errors_bad(2) [of "([], [])" adj loops order "[]"]
  by (auto simp: extends_path_def linked_def)

lemma linked_rtrancl: "linked adj (x # xs) \<Longrightarrow> (x, last (x # xs)) \<in> (edge_rel adj)\<^sup>*"
proof (induction xs arbitrary: x)
  case (Cons y ys)
  then have "(x, y) \<in> edge_rel adj" "linked adj (y # ys)"
    by (auto simp: linked_def)
  with Cons.IH show ?case by (metis converse_rtrancl_into_rtrancl last_ConsR list.distinct(1))
qed simp

lemma is_cycle_not_acyclic: "is_cycle adj c \<Longrightarrow> \<not> acyclic (edge_rel adj)"
proof
  assume c: "is_cycle adj c" and a: "acyclic (edge_rel adj)"
  obtain x xs where c_eq: "c = x # xs" using c by (cases c) (auto simp: is_cycle_def)
  have "(x, last c) \<in> (edge_rel adj)\<^sup>*" "(last c, x) \<in> edge_rel adj"
    using c linked_rtrancl c_eq by (auto simp: is_cycle_def)
  then have "(x, x) \<in> (edge_rel adj)\<^sup>+" by (rule rtrancl_into_trancl1)
  with a show False by (simp add: acyclic_def)
qed

subsection \<open>The adjacency the gate builds\<close>

lemma build_adj_keys_aux:
  "dict_keys (fold (\<lambda>e adj.
        let frm = port_node (e_from e); to = port_node (e_to e) in
        case map_of adj frm of
          None \<Rightarrow> adj
        | Some vs \<Rightarrow> if to \<in> set ids then AList.update frm (vs @ [to]) adj else adj) es adj0)
   = dict_keys adj0"
proof (induction es arbitrary: adj0)
  case (Cons e es)
  then show ?case
    by (auto simp: Let_def pydict.keys_put_old split: option.splits)
qed simp

lemma build_adj_keys: "fst ` set (build_adj ids es) = set ids"
proof -
  have "dict_keys (build_adj ids es) = ids"
    unfolding build_adj_def build_adj_keys_aux by (simp add: dict_keys_def comp_def)
  then show ?thesis by (metis dict_keys_def list.set_map)
qed

definition gate_edges :: "raw_node list \<Rightarrow> raw_edge list \<Rightarrow> (string \<times> string) set" where
  "gate_edges ns es =
     {(port_node (e_from e), port_node (e_to e)) | e.
        e \<in> set (edge_objs es) \<and> port_node (e_from e) \<in> set (node_ids ns)
        \<and> port_node (e_to e) \<in> set (node_ids ns)}"

lemma build_adj_edges_aux:
  assumes "dict_keys adj0 = ids"
  shows "edge_rel (fold (\<lambda>e adj.
        let frm = port_node (e_from e); to = port_node (e_to e) in
        case map_of adj frm of
          None \<Rightarrow> adj
        | Some vs \<Rightarrow> if to \<in> set ids then AList.update frm (vs @ [to]) adj else adj) es adj0)
   = edge_rel adj0 \<union> {(port_node (e_from e), port_node (e_to e)) | e.
        e \<in> set es \<and> port_node (e_from e) \<in> set ids \<and> port_node (e_to e) \<in> set ids}"
  using assms
proof (induction es arbitrary: adj0)
  case (Cons e es)
  let ?f = "port_node (e_from e)" and ?t = "port_node (e_to e)"
  let ?step = "case map_of adj0 ?f of None \<Rightarrow> adj0
        | Some vs \<Rightarrow> if ?t \<in> set ids then AList.update ?f (vs @ [?t]) adj0 else adj0"
  have in_ids: "?f \<in> set ids \<longleftrightarrow> map_of adj0 ?f \<noteq> None"
    using Cons.prems pydict.keys_lookup by fastforce
  have k: "dict_keys ?step = ids"
    using Cons.prems by (auto simp: pydict.keys_put_old split: option.splits)
  have "edge_rel ?step = edge_rel adj0 \<union> (if ?f \<in> set ids \<and> ?t \<in> set ids then {(?f, ?t)} else {})"
    using in_ids by (auto simp: edge_rel_def succs_def dict_simps split: option.splits if_splits)
  then show ?case
    using Cons.IH [OF k] by (auto simp: Let_def split: if_splits)
qed simp

lemma build_adj_edges: "edge_rel (build_adj (node_ids ns) es) = gate_edges ns es"
proof -
  have k: "dict_keys (List.map (\<lambda>i. (i, [])) ids) = ids" for ids :: "string list"
    by (simp add: dict_keys_def comp_def)
  have e: "edge_rel (List.map (\<lambda>i. (i, [])) ids) = {}" for ids
    by (auto simp: edge_rel_def succs_def map_of_map_restrict restrict_map_def split: option.splits if_splits)
  show ?thesis
    unfolding build_adj_def using build_adj_edges_aux [OF k] e by (auto simp: gate_edges_def)
qed

subsection \<open>The cycle check of a validation\<close>

lemma cycle_errors_complete:
  assumes "cycle_errors order ns es = []" "set (node_ids ns) \<subseteq> set order"
  shows "acyclic (gate_edges ns es - set (loop_nodes ns) \<times> set (loop_nodes ns))"
  using dfs_complete [of "build_adj (node_ids ns) es" "loop_nodes ns" order] assms
  by (simp add: cycle_errors_def build_adj_keys build_adj_edges)

lemma cycle_errors_sound:
  assumes "e \<in> set (cycle_errors order ns es)"
  shows "bad_cycle (build_adj (node_ids ns) es) (loop_nodes ns) e"
  using assms unfolding cycle_errors_def by (rule dfs_sound)

lemma cycle_errors_none_acyclic:
  assumes "acyclic (gate_edges ns es)"
  shows "cycle_errors order ns es = []"
proof (rule ccontr)
  assume "cycle_errors order ns es \<noteq> []"
  then obtain e where "e \<in> set (cycle_errors order ns es)"
    by (cases "cycle_errors order ns es") auto
  then obtain c where "is_cycle (build_adj (node_ids ns) es) c"
    using cycle_errors_sound by (force simp: bad_cycle_def)
  then show False
    using is_cycle_not_acyclic [of "build_adj (node_ids ns) es" c] assms
    by (simp add: build_adj_edges)
qed

end
