(* ===== verification/TopoOrder.thy ===== *)
theory TopoOrder
  imports CycleSearch
begin

section \<open>The executor's schedule (kernel/executor.py, \<open>_topo_layers\<close>)\<close>

text \<open>
  Kahn's algorithm over the in-degree dictionary and a deque, with the fall-back to declaration
  order when a cycle keeps some node from being scheduled. Every layer is a singleton. The
  schedule is always a permutation of the nodes, and on an acyclic graph it puts every edge's
  source before its target.
\<close>

type_synonym indegree = "(string \<times> int) list"

definition add_edge :: "wf_edge \<Rightarrow> adjacency \<times> indegree \<Rightarrow> adjacency \<times> indegree" where
  "add_edge e st =
     (let frm = port_node (e_from e); to = port_node (e_to e) in
      case (map_of (snd st) frm, map_of (snd st) to) of
        (Some _, Some d) \<Rightarrow>
          (AList.update frm (succs (fst st) frm @ [to]) (fst st), AList.update to (d + 1) (snd st))
      | _ \<Rightarrow> st)"

fun relax :: "string list \<Rightarrow> indegree \<times> string list \<Rightarrow> indegree \<times> string list" where
  "relax [] st = st"
| "relax (v # vs) (ind, q) =
     (case map_of ind v of
        None \<Rightarrow> relax vs (ind, q)
      | Some d \<Rightarrow> relax vs (AList.update v (d - 1) ind, if d - 1 = 0 then q @ [v] else q))"

definition positives :: "indegree \<Rightarrow> nat" where
  "positives ind = length (List.filter (\<lambda>p. snd p > 0) ind)"

lemma positives_update:
  "map_of ind v = Some d \<Longrightarrow>
   positives (AList.update v (d - 1) ind) + (if d - 1 = 0 then 1 else 0) \<le> positives ind"
  by (induction ind) (auto simp: positives_def split: if_splits)

lemma relax_measure:
  "length (snd (relax vs st)) + positives (fst (relax vs st)) \<le> length (snd st) + positives (fst st)"
proof (induction vs st rule: relax.induct)
  case (2 v vs ind q)
  then show ?case
    using positives_update [of ind v] by (fastforce split: option.splits if_splits)
qed simp

function kahn :: "adjacency \<Rightarrow> indegree \<Rightarrow> string list \<Rightarrow> string list \<Rightarrow> string list" where
  "kahn adj ind [] order = order"
| "kahn adj ind (u # q) order =
     (let st = relax (succs adj u) (ind, q) in kahn adj (fst st) (snd st) (order @ [u]))"
  by pat_completeness auto
termination
proof (relation "measure (\<lambda>(adj, ind, q, order). length q + positives ind)", goal_cases)
  case (2 adj ind u q order st)
  then show ?case using relax_measure [of "succs adj u" "(ind, q)"] by simp
qed simp

definition graph_of :: "string list \<Rightarrow> wf_edge list \<Rightarrow> adjacency \<times> indegree" where
  "graph_of ids es = fold add_edge es ([], List.map (\<lambda>i. (i, 0)) (dedup ids))"

definition topo_layers :: "string list \<Rightarrow> wf_edge list \<Rightarrow> string list list" where
  "topo_layers ids es =
     (let (adj, ind) = graph_of ids es;
          q = List.map fst (List.filter (\<lambda>p. snd p = 0) ind);
          order = kahn adj ind q []
      in if length order \<noteq> length ids then List.map (\<lambda>i. [i]) ids
         else List.map (\<lambda>i. [i]) order)"

subsection \<open>One relaxation\<close>

definition enough :: "indegree \<Rightarrow> string list \<Rightarrow> bool" where
  "enough ind vs \<longleftrightarrow> (\<forall>v\<in>set vs. \<exists>d. map_of ind v = Some d \<and> int (count_list vs v) \<le> d)"

lemma enough_ConsE:
  assumes "enough ind (w # vs)"
  obtains d where "map_of ind w = Some d" "int (count_list vs w) \<le> d - 1"
    "enough (AList.update w (d - 1) ind) vs"
proof -
  obtain d where d: "map_of ind w = Some d" "int (count_list vs w) \<le> d - 1"
    using assms by (auto simp: enough_def)
  moreover have "enough (AList.update w (d - 1) ind) vs"
    unfolding enough_def
  proof
    fix v assume v: "v \<in> set vs"
    then obtain d' where "map_of ind v = Some d'" "int (count_list (w # vs) v) \<le> d'"
      using assms by (auto simp: enough_def)
    then show "\<exists>d'. map_of (AList.update w (d - 1) ind) v = Some d' \<and> int (count_list vs v) \<le> d'"
      using d by (cases "v = w") (simp_all add: dict_simps)
  qed
  ultimately show thesis by (rule that)
qed

lemma relax_lookup:
  "enough ind vs \<Longrightarrow>
   map_of (fst (relax vs (ind, q))) v = map_option (\<lambda>d. d - int (count_list vs v)) (map_of ind v)"
proof (induction vs arbitrary: ind q)
  case Nil
  then show ?case by (cases "map_of ind v") auto
next
  case (Cons w vs)
  from Cons.prems obtain d where d: "map_of ind w = Some d" "enough (AList.update w (d - 1) ind) vs"
    by (rule enough_ConsE)
  then show ?case using Cons.IH [OF d(2)] by (simp add: dict_simps)
qed

lemma relax_keys: "dict_keys (fst (relax vs (ind, q))) = dict_keys ind"
proof (induction vs arbitrary: ind q)
  case (Cons w vs)
  then show ?case by (cases "map_of ind w") (auto simp: pydict.keys_put_old)
qed simp

definition hits_zero :: "indegree \<Rightarrow> string list \<Rightarrow> string set" where
  "hits_zero ind vs = {v \<in> set vs. map_of ind v = Some (int (count_list vs v))}"

lemma hits_zero_Cons:
  assumes "map_of ind w = Some d" "int (count_list vs w) \<le> d - 1"
  shows "hits_zero ind (w # vs) =
    hits_zero (AList.update w (d - 1) ind) vs \<union> (if d - 1 = 0 then {w} else {})"
proof (rule set_eqI)
  fix v
  show "v \<in> hits_zero ind (w # vs) \<longleftrightarrow>
      v \<in> hits_zero (AList.update w (d - 1) ind) vs \<union> (if d - 1 = 0 then {w} else {})"
  proof (cases "v = w")
    case True
    have "w \<notin> set vs \<Longrightarrow> count_list vs w = 0" by (simp add: count_list_0_iff)
    with True assms show ?thesis
      by (cases "w \<in> set vs") (auto simp: hits_zero_def dict_simps)
  next
    case False
    then show ?thesis by (simp add: hits_zero_def dict_simps)
  qed
qed

lemma relax_queue:
  "enough ind vs \<Longrightarrow> \<exists>new. snd (relax vs (ind, q)) = q @ new \<and> distinct new \<and>
     set new = hits_zero ind vs"
proof (induction vs arbitrary: ind q)
  case Nil
  then show ?case by (simp add: hits_zero_def)
next
  case (Cons w vs)
  from Cons.prems obtain d where d: "map_of ind w = Some d" "int (count_list vs w) \<le> d - 1"
    "enough (AList.update w (d - 1) ind) vs"
    by (rule enough_ConsE)
  let ?ind = "AList.update w (d - 1) ind"
  let ?q = "if d - 1 = 0 then q @ [w] else q"
  obtain new where new: "snd (relax vs (?ind, ?q)) = ?q @ new" "distinct new"
    "set new = hits_zero ?ind vs"
    using Cons.IH [OF d(3), of ?q] by blast
  have r: "snd (relax (w # vs) (ind, q)) = ?q @ new"
    using d(1) new(1) by simp
  show ?case
  proof (cases "d - 1 = 0")
    case True
    then have "count_list vs w = 0" using d(2) by simp
    then have "w \<notin> set new"
      by (simp add: new(3) hits_zero_def count_list_0_iff)
    with True r new(2,3) hits_zero_Cons [OF d(1,2)] show ?thesis
      by (intro exI [of _ "w # new"]) simp
  next
    case False
    with r new(2,3) hits_zero_Cons [OF d(1,2)] show ?thesis
      by (intro exI [of _ new]) simp
  qed
qed

subsection \<open>Kahn's invariant\<close>

definition pending :: "adjacency \<Rightarrow> string list \<Rightarrow> string list \<Rightarrow> string \<Rightarrow> nat" where
  "pending adj ids order v =
     (\<Sum>u \<in> set ids - set order. count_list (succs adj u) v)"

definition ordered :: "adjacency \<Rightarrow> string list \<Rightarrow> bool" where
  "ordered adj order \<longleftrightarrow>
     (\<forall>as v bs u. order = as @ v # bs \<longrightarrow> v \<in> set (succs adj u) \<longrightarrow> u \<in> set as)"

definition kahn_inv :: "adjacency \<Rightarrow> string list \<Rightarrow> indegree \<Rightarrow> string list \<Rightarrow> string list \<Rightarrow> bool" where
  "kahn_inv adj ids ind q order \<longleftrightarrow>
     distinct (order @ q) \<and> set (order @ q) \<subseteq> set ids \<and> edge_rel adj \<subseteq> set ids \<times> set ids \<and>
     (\<forall>v\<in>set ids. map_of ind v = Some (int (pending adj ids order v))) \<and>
     (\<forall>v\<in>set ids. v \<in> set (order @ q) \<longleftrightarrow> pending adj ids order v = 0) \<and>
     ordered adj order"

lemma pending_snoc:
  assumes "u \<in> set ids" "u \<notin> set order"
  shows "pending adj ids order v = count_list (succs adj u) v + pending adj ids (order @ [u]) v"
proof -
  have eq: "set ids - set (order @ [u]) = (set ids - set order) - {u}" by auto
  show ?thesis
    unfolding pending_def eq by (rule sum.remove) (use assms in simp_all)
qed

lemma pending_pred:
  "edge_rel adj \<subseteq> set ids \<times> set ids \<Longrightarrow>
   pending adj ids order v = 0 \<longleftrightarrow> (\<forall>u. v \<in> set (succs adj u) \<longrightarrow> u \<in> set order)"
  unfolding pending_def by (auto simp: edge_rel_def count_list_0_iff)

lemma ordered_snoc:
  assumes "ordered adj order" "\<forall>u. v \<in> set (succs adj u) \<longrightarrow> u \<in> set order"
  shows "ordered adj (order @ [v])"
  unfolding ordered_def
proof (intro allI impI)
  fix as w bs u
  assume eq: "order @ [v] = as @ w # bs" and e: "w \<in> set (succs adj u)"
  show "u \<in> set as"
  proof (cases bs rule: rev_cases)
    case Nil
    with eq e assms(2) show ?thesis by simp
  next
    case (snoc bs' b)
    with eq have "order = as @ w # bs'" by simp
    with assms(1) e show ?thesis unfolding ordered_def by blast
  qed
qed

lemma kahn_step:
  assumes inv: "kahn_inv adj ids ind (u # q) order"
    and st: "st = relax (succs adj u) (ind, q)"
  shows "kahn_inv adj ids (fst st) (snd st) (order @ [u])"
proof -
  let ?ss = "succs adj u" and ?P = "pending adj ids order" and ?P' = "pending adj ids (order @ [u])"
  have u: "u \<in> set ids" "u \<notin> set order"
    and lk: "\<forall>v\<in>set ids. map_of ind v = Some (int (?P v))"
    and mem: "\<forall>v\<in>set ids. v \<in> set (order @ u # q) \<longleftrightarrow> ?P v = 0"
    and edges: "edge_rel adj \<subseteq> set ids \<times> set ids"
    and dist: "distinct (order @ u # q)" "set (order @ u # q) \<subseteq> set ids"
    and ord: "ordered adj order"
    using inv by (auto simp: kahn_inv_def)
  have P: "?P v = count_list ?ss v + ?P' v" for v by (rule pending_snoc [OF u])
  have ss: "set ?ss \<subseteq> set ids" using edges by (auto simp: edge_rel_def)
  have en: "enough ind ?ss"
    unfolding enough_def using ss lk P by (metis int_ops(1) le_add1 of_nat_mono subsetD)
  have lk': "\<forall>v\<in>set ids. map_of (fst st) v = Some (int (?P' v))"
    using lk P by (simp add: st relax_lookup [OF en])
  obtain new where new: "snd st = q @ new" "distinct new" "set new = hits_zero ind ?ss"
    using relax_queue [OF en] st by blast
  have newset: "set new = {v \<in> set ids. ?P' v = 0 \<and> ?P v \<noteq> 0}"
    using ss lk P by (auto simp: new(3) hits_zero_def count_list_0_iff)
  have "ordered adj (order @ [u])"
  proof (rule ordered_snoc [OF ord])
    have "?P u = 0" using mem u(1) by (meson in_set_conv_decomp)
    then show "\<forall>w. u \<in> set (succs adj w) \<longrightarrow> w \<in> set order"
      by (simp add: pending_pred [OF edges])
  qed
  moreover have "\<forall>v\<in>set ids. v \<in> set ((order @ [u]) @ snd st) \<longleftrightarrow> ?P' v = 0"
    using mem P by (auto simp: new(1) newset)
  moreover have "distinct ((order @ [u]) @ snd st)"
  proof -
    have "set new \<inter> set (order @ u # q) = {}" using mem newset by auto
    then show ?thesis using dist(1) new by auto
  qed
  moreover have "set ((order @ [u]) @ snd st) \<subseteq> set ids"
    using dist(2) newset by (auto simp: new(1))
  ultimately show ?thesis using edges lk' by (simp add: kahn_inv_def)
qed

lemma kahn_final:
  "kahn_inv adj ids ind q order \<Longrightarrow> \<exists>ind'. kahn_inv adj ids ind' [] (kahn adj ind q order)"
proof (induction adj ind q order rule: kahn.induct)
  case (2 adj ind u q order)
  then show ?case using kahn_step [OF 2(2) refl] by (simp add: Let_def)
qed auto

text \<open>When nothing is ready any more, an acyclic graph has been scheduled completely.\<close>

lemma kahn_inv_complete:
  assumes inv: "kahn_inv adj ids ind [] order" and ac: "acyclic (edge_rel adj)"
  shows "set order = set ids"
proof (rule ccontr)
  assume "set order \<noteq> set ids"
  then obtain x where x: "x \<in> set ids - set order" using inv by (auto simp: kahn_inv_def)
  have e: "edge_rel adj \<subseteq> set ids \<times> set ids" using inv by (simp add: kahn_inv_def)
  then have "wf (edge_rel adj)"
    using ac by (intro finite_acyclic_wf) (auto intro: finite_subset)
  then obtain z where z: "z \<in> set ids - set order"
    "\<And>y. (y, z) \<in> edge_rel adj \<Longrightarrow> y \<notin> set ids - set order"
    using x by (rule wfE_min) blast
  have "pending adj ids order z = 0"
    unfolding pending_pred [OF e] using z(2) e by (auto simp: edge_rel_def)
  then show False using inv z(1) by (auto simp: kahn_inv_def)
qed

subsection \<open>The graph the executor builds\<close>

definition exec_edges :: "string list \<Rightarrow> wf_edge list \<Rightarrow> (string \<times> string) set" where
  "exec_edges ids es =
     {(port_node (e_from e), port_node (e_to e)) | e.
        e \<in> set es \<and> port_node (e_from e) \<in> set ids \<and> port_node (e_to e) \<in> set ids}"

definition degrees_ok :: "string list \<Rightarrow> adjacency \<times> indegree \<Rightarrow> bool" where
  "degrees_ok ids st \<longleftrightarrow>
     dict_keys (snd st) = ids \<and> fst ` set (fst st) \<subseteq> set ids \<and>
     (\<forall>v\<in>set ids. map_of (snd st) v = Some (int (pending (fst st) ids [] v)))"

lemma succs_update [simp]:
  "succs (AList.update k vs adj) u = (if u = k then vs else succs adj u)"
  by (simp add: succs_def dict_simps)

lemma add_edge_ok:
  assumes "degrees_ok ids st"
  shows "degrees_ok ids (add_edge e st)"
    and "edge_rel (fst (add_edge e st)) = edge_rel (fst st) \<union> exec_edges ids [e]"
proof -
  let ?f = "port_node (e_from e)" and ?t = "port_node (e_to e)"
  obtain adj ind where st: "st = (adj, ind)" by (cases st)
  have keys: "map_of ind v \<noteq> None \<longleftrightarrow> v \<in> set ids" for v
    using assms pydict.keys_lookup [of v ind] by (simp add: degrees_ok_def st)
  have "degrees_ok ids (add_edge e st) \<and>
    edge_rel (fst (add_edge e st)) = edge_rel (fst st) \<union> exec_edges ids [e]"
  proof (cases "?f \<in> set ids \<and> ?t \<in> set ids")
    case False
    then have "add_edge e st = st"
      using keys [of ?f] keys [of ?t] by (auto simp: add_edge_def st split: option.splits)
    with False assms show ?thesis by (auto simp: exec_edges_def)
  next
    case True
    then obtain d where d: "map_of ind ?t = Some d" and f: "map_of ind ?f \<noteq> None"
      using keys by blast
    let ?adj = "AList.update ?f (succs adj ?f @ [?t]) adj"
    have step: "add_edge e st = (?adj, AList.update ?t (d + 1) ind)"
      using d f by (auto simp: add_edge_def st Let_def)
    have "pending ?adj ids [] v = pending adj ids [] v + (if v = ?t then 1 else 0)" for v
    proof -
      have "pending ?adj ids [] v =
          (\<Sum>u\<in>set ids. count_list (succs adj u) v + (if u = ?f \<and> v = ?t then 1 else 0))"
        unfolding pending_def by (rule sum.cong) auto
      also have "\<dots> = pending adj ids [] v + (\<Sum>u\<in>set ids. if u = ?f \<and> v = ?t then 1 else 0)"
        by (simp add: sum.distrib pending_def)
      also have "(\<Sum>u\<in>set ids. if u = ?f \<and> v = ?t then 1 else 0) = (if v = ?t then 1 else 0 :: nat)"
        using True by (cases "v = ?t") auto
      finally show ?thesis .
    qed
    moreover have "dict_keys (AList.update ?t (d + 1) ind) = dict_keys ind"
      using d by (intro pydict.keys_put_old) simp
    ultimately have "degrees_ok ids (add_edge e st)"
      using assms d True unfolding step by (auto simp: degrees_ok_def st dict_simps dom_update)
    moreover have "edge_rel ?adj = edge_rel adj \<union> {(?f, ?t)}"
      by (auto simp: edge_rel_def split: if_splits)
    moreover have "exec_edges ids [e] = {(?f, ?t)}" using True by (auto simp: exec_edges_def)
    moreover have "fst (add_edge e st) = ?adj" by (simp only: step fst_conv)
    ultimately show ?thesis by (simp add: st)
  qed
  then show "degrees_ok ids (add_edge e st)"
    and "edge_rel (fst (add_edge e st)) = edge_rel (fst st) \<union> exec_edges ids [e]" by blast+
qed

lemma add_edges_ok:
  "degrees_ok ids st \<Longrightarrow>
   degrees_ok ids (fold add_edge es st) \<and>
   edge_rel (fst (fold add_edge es st)) = edge_rel (fst st) \<union> exec_edges ids es"
proof (induction es arbitrary: st)
  case Nil
  then show ?case by (simp add: exec_edges_def)
next
  case (Cons e es)
  have "exec_edges ids (e # es) = exec_edges ids [e] \<union> exec_edges ids es"
    by (auto simp: exec_edges_def)
  then show ?case using Cons.IH [OF add_edge_ok(1) [OF Cons.prems]] add_edge_ok(2) [OF Cons.prems]
    by auto
qed

lemma graph_of_ok:
  "distinct ids \<Longrightarrow> degrees_ok ids (graph_of ids es) \<and>
   edge_rel (fst (graph_of ids es)) = exec_edges ids es"
  using add_edges_ok [of ids "([], List.map (\<lambda>i. (i, 0)) ids)" es]
  by (auto simp: graph_of_def dedup_id degrees_ok_def dict_keys_def comp_def pending_def succs_def
      edge_rel_def map_of_map_restrict)

definition schedule :: "string list \<Rightarrow> wf_edge list \<Rightarrow> string list" where
  "schedule ids es = concat (topo_layers ids es)"

text \<open>What the executor relies on: each node exactly once, sources before targets.\<close>

definition obeys :: "string list \<Rightarrow> (string \<times> string) set \<Rightarrow> bool" where
  "obeys xs r \<longleftrightarrow> (\<forall>as v bs u. xs = as @ v # bs \<longrightarrow> (u, v) \<in> r \<longrightarrow> u \<in> set as)"

lemma kahn_of_graph:
  assumes ids: "distinct ids" and g: "graph_of ids es = (adj, ind)"
  defines "order \<equiv> kahn adj ind (List.map fst (List.filter (\<lambda>p. snd p = 0) ind)) []"
  shows "distinct order" "set order \<subseteq> set ids" "obeys order (exec_edges ids es)"
    "acyclic (exec_edges ids es) \<Longrightarrow> set order = set ids"
proof -
  have d: "degrees_ok ids (adj, ind)" and e: "edge_rel adj = exec_edges ids es"
    using graph_of_ok [OF ids, of es] g by auto
  have k: "List.map fst ind = ids" using d by (simp add: degrees_ok_def dict_keys_def)
  have z: "set (List.map fst (List.filter (\<lambda>p. snd p = 0) ind)) = {v \<in> set ids. map_of ind v = Some 0}"
    using ids k by (force simp: map_of_eq_Some_iff)
  have "distinct (List.map fst (List.filter (\<lambda>p. snd p = 0) ind))"
    using ids unfolding k [symmetric] by (rule distinct_map_filter)
  moreover have "edge_rel adj \<subseteq> set ids \<times> set ids" by (auto simp: e exec_edges_def)
  ultimately have "kahn_inv adj ids ind (List.map fst (List.filter (\<lambda>p. snd p = 0) ind)) []"
    using d z by (auto simp: kahn_inv_def degrees_ok_def ordered_def)
  then obtain ind' where inv: "kahn_inv adj ids ind' [] order"
    using kahn_final order_def by blast
  then show "distinct order" "set order \<subseteq> set ids" by (auto simp: kahn_inv_def)
  show "obeys order (exec_edges ids es)"
    using inv unfolding kahn_inv_def ordered_def obeys_def e [symmetric] by simp
  show "set order = set ids" if "acyclic (exec_edges ids es)"
    using kahn_inv_complete [OF inv] that e by simp
qed

lemma concat_singletons [simp]: "concat (List.map (\<lambda>i. [i]) xs) = xs"
  by (induction xs) simp_all

lemma schedule_cases:
  assumes "distinct ids"
  obtains (fallback) "schedule ids es = ids"
  | (kahn) "distinct (schedule ids es)" "set (schedule ids es) = set ids"
      "obeys (schedule ids es) (exec_edges ids es)"
proof -
  obtain adj ind where g: "graph_of ids es = (adj, ind)" by (cases "graph_of ids es")
  note k = kahn_of_graph [OF assms g]
  show thesis
  proof (cases "length (kahn adj ind (List.map fst (List.filter (\<lambda>p. snd p = 0) ind)) []) = length ids")
    case True
    then have "schedule ids es = kahn adj ind (List.map fst (List.filter (\<lambda>p. snd p = 0) ind)) []"
      by (simp add: schedule_def topo_layers_def g)
    moreover have "set (kahn adj ind (List.map fst (List.filter (\<lambda>p. snd p = 0) ind)) []) = set ids"
      using True k(1,2) assms by (intro card_subset_eq) (auto simp: distinct_card)
    ultimately show thesis using that(2) k by simp
  next
    case False
    then show thesis using that(1) by (simp add: schedule_def topo_layers_def g)
  qed
qed

lemma schedule_perm: "distinct ids \<Longrightarrow> distinct (schedule ids es) \<and> set (schedule ids es) = set ids"
  by (rule schedule_cases [of ids es]) auto

lemma schedule_obeys:
  assumes "distinct ids" "acyclic (exec_edges ids es)"
  shows "obeys (schedule ids es) (exec_edges ids es)"
proof -
  obtain adj ind where g: "graph_of ids es = (adj, ind)" by (cases "graph_of ids es")
  note k = kahn_of_graph [OF assms(1) g]
  have "length (kahn adj ind (List.map fst (List.filter (\<lambda>p. snd p = 0) ind)) []) = length ids"
    using k(1) k(4) [OF assms(2)] assms(1) by (metis distinct_card)
  then show ?thesis using k(3) by (simp add: schedule_def topo_layers_def g)
qed

end
