(* ===== verification/PolicyCorrect.thy ===== *)
theory PolicyCorrect
  imports TopoOrder
begin

section \<open>Correctness of the policy gate and of the schedule\<close>

text \<open>
  What a path the gate accepts can reach, what a workflow it accepts looks like, which cycles it
  finds, and the order in which the executor will walk the nodes.
\<close>

subsection \<open>Where an accepted path leads\<close>

text \<open>Lexical resolution of the components of a path, as a file system does it.\<close>

definition resolve_step :: "string list \<Rightarrow> string \<Rightarrow> string list" where
  "resolve_step dir c =
     (if c = [] \<or> c = ''.'' then dir else if c = ''..'' then butlast dir else dir @ [c])"

definition resolve :: "string \<Rightarrow> string list" where
  "resolve p = fold (\<lambda>c dir. resolve_step dir c) (split_on (CHR ''/'') p) []"

definition overlay_roots :: "string list list" where
  "overlay_roots = [[''.brainflow'', ''artifacts''], [''.brainflow'', ''workflows''],
     [''.brainflow'', ''graphs''], [''.brainflow'', ''templates''], [''artifacts'']]"

lemma split_on_append: "split_on d (a @ d # b) = split_on d a @ split_on d b"
  by (induction a) (auto split: list.splits)

lemma split_on_dir: "d \<notin> set a \<Longrightarrow> split_on d (a @ d # b) = a # split_on d b"
  by (induction a) auto

lemma fold_resolve_down:
  "''..'' \<notin> set cs \<Longrightarrow> \<exists>more. fold (\<lambda>c dir. resolve_step dir c) cs dir = dir @ more"
proof (induction cs arbitrary: dir)
  case (Cons c cs)
  obtain more where "fold (\<lambda>c dir. resolve_step dir c) cs (resolve_step dir c) = resolve_step dir c @ more"
    using Cons by auto
  then show ?case using Cons.prems by (auto simp: resolve_step_def)
qed simp

lemma fold_resolve_prefix:
  "''..'' \<notin> set cs \<Longrightarrow> prefix dir (fold (\<lambda>c dir. resolve_step dir c) cs dir)"
  using fold_resolve_down by (metis prefixI)

lemma resolve_two:
  assumes "CHR ''/'' \<notin> set a" "CHR ''/'' \<notin> set b" "''..'' \<notin> set (split_on (CHR ''/'') r)"
    and "a \<notin> {[], ''.'', ''..''}" "b \<notin> {[], ''.'', ''..''}"
  shows "prefix [a, b] (resolve (a @ CHR ''/'' # b @ CHR ''/'' # r))"
  using fold_resolve_prefix [OF assms(3), of "[a, b]"] assms
  by (simp add: resolve_def split_on_dir resolve_step_def)

lemma resolve_one:
  assumes "CHR ''/'' \<notin> set a" "''..'' \<notin> set (split_on (CHR ''/'') r)" "a \<notin> {[], ''.'', ''..''}"
  shows "prefix [a] (resolve (a @ CHR ''/'' # r))"
  using fold_resolve_prefix [OF assms(2), of "[a]"] assms
  by (simp add: resolve_def split_on_dir resolve_step_def)



subsection \<open>Accepted workflows\<close>

lemma validate_ok_parts:
  assumes "validate_workflow_policy order doc = Inr r" "pr_ok r"
  obtains ns where "wf_nodes doc = Some ns" "ns \<noteq> []" "\<forall>x\<in>set ns. fst (check_node x) = []"
    "cycle_errors order ns (wf_edges doc) = []" "budget_errors (jor (wf_budgets doc) (JObj [])) = Inr []"
  using assms
  by (auto simp: validate_workflow_policy_def Let_def bnd_Inr_iff split: option.splits if_splits)

lemma check_node_clean:
  "fst (check_node x) = [] \<longleftrightarrow>
   (\<exists>n. x = NodeObj n \<and> normalize_permission_class (or_empty (n_perm n)) \<in> set KNOWN_CLASSES \<and> loop_error n = [])"
  if "or_empty = (\<lambda>p. case p of None \<Rightarrow> [] | Some c \<Rightarrow> c)"
  using that by (cases x) (auto simp: check_node_def Let_def split: if_splits)

definition declared_class :: "wf_node \<Rightarrow> string" where
  "declared_class n = normalize_permission_class (case n_perm n of None \<Rightarrow> [] | Some c \<Rightarrow> c)"

definition bounded_loop :: "wf_node \<Rightarrow> bool" where
  "bounded_loop n \<longleftrightarrow>
     (\<forall>loop. n_review_loop n = JObj loop \<longrightarrow>
        (\<exists>i. as_int (dget loop ''max_iterations'') = Some i \<and> 1 \<le> i \<and> i \<le> 10))"

lemma loop_error_iff: "loop_error n = [] \<longleftrightarrow> bounded_loop n"
  by (auto simp: loop_error_def bounded_loop_def split: json.splits option.splits)

lemma clean_node:
  "fst (check_node x) = [] \<longleftrightarrow>
   (\<exists>n. x = NodeObj n \<and> declared_class n \<in> set KNOWN_CLASSES \<and> bounded_loop n)"
  using check_node_clean [OF refl, of x] by (simp add: loop_error_iff declared_class_def)

text \<open>C8: in a workflow the gate accepts every node is an object with a known permission class and
  a bounded review loop, and every cycle of its edges passes between two review-loop nodes:
  without the edges between two such nodes the graph is acyclic. This holds for every order in
  which the set of node ids is walked.\<close>

theorem accepted_workflow_is_well_formed:
  assumes "validate_workflow_policy order doc = Inr r" "pr_ok r" "wf_nodes doc = Some ns"
    and "set order = set (node_ids ns)"
  shows "ns \<noteq> [] \<and> NonObject \<notin> set ns \<and>
    (\<forall>n\<in>set (node_objs ns). declared_class n \<in> set KNOWN_CLASSES \<and> bounded_loop n) \<and>
    acyclic (gate_edges ns (wf_edges doc) - set (loop_nodes ns) \<times> set (loop_nodes ns))"
proof (intro conjI)
  obtain ns' where ns': "wf_nodes doc = Some ns'" "ns' \<noteq> []" "\<forall>x\<in>set ns'. fst (check_node x) = []"
    "cycle_errors order ns' (wf_edges doc) = []"
    using validate_ok_parts [OF assms(1,2)] .
  then have eq: "ns' = ns" using assms(3) by simp
  show "ns \<noteq> []" using ns' eq by simp
  show "NonObject \<notin> set ns" using ns'(3) eq by (auto simp: clean_node)
  show "\<forall>n\<in>set (node_objs ns). declared_class n \<in> set KNOWN_CLASSES \<and> bounded_loop n"
    using ns'(3) eq by (auto simp: set_node_objs clean_node)
  show "acyclic (gate_edges ns (wf_edges doc) - set (loop_nodes ns) \<times> set (loop_nodes ns))"
    using cycle_errors_complete [of order ns "wf_edges doc"] ns'(4) eq assms(4) by simp
qed

definition plain_node :: "string \<Rightarrow> string \<Rightarrow> json \<Rightarrow> raw_node" where
  "plain_node i cls loop = NodeObj \<lparr>n_id = i, n_type = None, n_title = None, n_perm = Some cls, n_idem = None,
     n_cache = None, n_timeout = None, n_retry_max = None, n_review_loop = loop\<rparr>"

definition plain_edge :: "string \<Rightarrow> string \<Rightarrow> raw_edge" where
  "plain_edge a b = EdgeObj \<lparr>e_id = [], e_from = a, e_to = b, e_kind = ''data''\<rparr>"

definition plain_doc :: "raw_node list \<Rightarrow> raw_edge list \<Rightarrow> workflow" where
  "plain_doc ns es = \<lparr>wf_id = [], wf_title = [], wf_pack = [], wf_statement = [], wf_pins = [],
     wf_nodes = Some ns, wf_edges = es, wf_budgets = JNull, wf_criteria = [], wf_notes = None\<rparr>"

definition review_loop :: json where
  "review_loop = JObj [(''max_iterations'', JInt 3)]"

definition loop_doc :: workflow where
  "loop_doc = plain_doc
     [plain_node ''a'' ''read'' review_loop, plain_node ''b'' ''shell'' review_loop, plain_node ''n'' ''read'' JNull]
     [plain_edge ''a:x'' ''b:x'', plain_edge ''b'' ''a'', plain_edge ''b'' ''n'']"

theorem accepted_workflow_is_well_formed_witness:
  "acyclic (gate_edges (the (wf_nodes loop_doc)) (wf_edges loop_doc) -
      set (loop_nodes (the (wf_nodes loop_doc))) \<times> set (loop_nodes (the (wf_nodes loop_doc)))) \<and>
   \<not> acyclic (gate_edges (the (wf_nodes loop_doc)) (wf_edges loop_doc))"
proof
  let ?ns = "the (wf_nodes loop_doc)"
  show "acyclic (gate_edges ?ns (wf_edges loop_doc) - set (loop_nodes ?ns) \<times> set (loop_nodes ?ns))"
  proof (rule accepted_workflow_is_well_formed [THEN conjunct2, THEN conjunct2, THEN conjunct2])
    show "validate_workflow_policy [''a'', ''b'', ''n''] loop_doc =
        Inr \<lparr>pr_ok = True, pr_errors = [], pr_approvals = [(''b'', ''shell'')]\<rparr>" by code_simp
    show "set [''a'', ''b'', ''n''] = set (node_ids ?ns)" by code_simp
  qed (simp_all add: loop_doc_def plain_doc_def)
  have "(''a'', ''b'') \<in> gate_edges ?ns (wf_edges loop_doc)" "(''b'', ''a'') \<in> gate_edges ?ns (wf_edges loop_doc)"
    unfolding build_adj_edges [symmetric] edge_rel_iff by code_simp+
  then show "\<not> acyclic (gate_edges ?ns (wf_edges loop_doc))"
    unfolding acyclic_def by (meson trancl.intros)
qed

text \<open>C9: the gate refuses nothing it should accept: a non-empty workflow of well-formed nodes with
  acyclic edges and budgets within the caps is accepted, and its report lists exactly the nodes
  that need an approval, in document order.\<close>

theorem well_formed_workflow_is_accepted:
  assumes "wf_nodes doc = Some (List.map NodeObj ns)" "ns \<noteq> []"
    and "\<forall>n\<in>set ns. declared_class n \<in> set KNOWN_CLASSES \<and> bounded_loop n"
    and "acyclic (gate_edges (List.map NodeObj ns) (wf_edges doc))"
    and "budget_errors (jor (wf_budgets doc) (JObj [])) = Inr []"
  shows "validate_workflow_policy order doc = Inr \<lparr>pr_ok = True, pr_errors = [],
    pr_approvals = List.map (\<lambda>n. (n_id n, declared_class n))
      (List.filter (\<lambda>n. \<not> may_auto_apply (declared_class n)) ns)\<rparr>"
proof -
  have errs: "concat (List.map (\<lambda>r. fst (check_node r)) (List.map NodeObj ns)) = []"
    using assms(3) by (auto simp: clean_node)
  have appr: "snd (check_node (NodeObj n)) =
      (if may_auto_apply (declared_class n) then [] else [(n_id n, declared_class n)])" if "n \<in> set ns" for n
    using that assms(3) by (auto simp: check_node_def declared_class_def Let_def)
  have "concat (List.map (\<lambda>r. snd (check_node r)) (List.map NodeObj ns)) =
      List.map (\<lambda>n. (n_id n, declared_class n)) (List.filter (\<lambda>n. \<not> may_auto_apply (declared_class n)) ns)"
    using appr by (induction ns) auto
  with errs show ?thesis
    using assms(1,2,5) cycle_errors_none_acyclic [OF assms(4), of order]
    by (simp add: validate_workflow_policy_def Let_def del: map_map)
qed

theorem well_formed_workflow_is_accepted_witness:
  "validate_workflow_policy [''n'', ''m''] (plain_doc [plain_node ''m'' ''network'' JNull, plain_node ''n'' ''read'' JNull]
       [plain_edge ''m'' ''n'']) =
     Inr \<lparr>pr_ok = True, pr_errors = [], pr_approvals = [(''m'', ''network_egress'')]\<rparr>"
proof -
  let ?m = "\<lparr>n_id = ''m'', n_type = None, n_title = None, n_perm = Some ''network'', n_idem = None,
     n_cache = None, n_timeout = None, n_retry_max = None, n_review_loop = JNull\<rparr>"
  let ?n = "?m\<lparr>n_id := ''n'', n_perm := Some ''read''\<rparr>"
  let ?doc = "plain_doc [plain_node ''m'' ''network'' JNull, plain_node ''n'' ''read'' JNull] [plain_edge ''m'' ''n'']"
  have "gate_edges (List.map NodeObj [?m, ?n]) (wf_edges ?doc) \<subseteq> {(''m'', ''n'')}"
    by (auto simp: gate_edges_def plain_doc_def plain_edge_def port_node_def)
  moreover have "acyclic {(''m'', ''n'')}" by (simp add: acyclic_insert acyclic_def [of "{}"])
  ultimately have a: "acyclic (gate_edges (List.map NodeObj [?m, ?n]) (wf_edges ?doc))"
    by (rule acyclic_subset [rotated])
  have "validate_workflow_policy [''n'', ''m''] ?doc = Inr \<lparr>pr_ok = True, pr_errors = [],
    pr_approvals = List.map (\<lambda>n. (n_id n, declared_class n))
      (List.filter (\<lambda>n. \<not> may_auto_apply (declared_class n)) [?m, ?n])\<rparr>"
  proof (rule well_formed_workflow_is_accepted)
    show "\<forall>n\<in>set [?m, ?n]. declared_class n \<in> set KNOWN_CLASSES \<and> bounded_loop n"
      by (simp add: declared_class_def bounded_loop_def normalize_permission_class_def KNOWN_CLASSES_def
          AUTO_APPLY_def APPROVAL_REQUIRED_def)
  qed (use a in \<open>simp_all add: plain_doc_def plain_node_def budget_errors_def jor_def dget_def\<close>)
  then show ?thesis
    by (simp add: may_auto_apply_iff declared_class_def normalize_permission_class_def)
qed

text \<open>Every cycle the gate reports is one: its nodes are linked by edges of the workflow, the
  last leads back to the first, and at least one of them is no review-loop node.\<close>

theorem reported_cycles_are_unbounded:
  assumes "UnboundedCycle c \<in> set (cycle_errors order ns es)"
  shows "is_cycle (build_adj (node_ids ns) es) c \<and> \<not> set c \<subseteq> set (loop_nodes ns)"
  using cycle_errors_sound [OF assms] by (simp add: bad_cycle_def)

definition tangled_nodes :: "raw_node list" where
  "tangled_nodes = [plain_node ''a'' ''read'' review_loop, plain_node ''b'' ''read'' review_loop,
     plain_node ''c'' ''read'' review_loop, plain_node ''n'' ''read'' JNull]"

definition tangled_edges :: "raw_edge list" where
  "tangled_edges = [plain_edge ''a'' ''b'', plain_edge ''b'' ''c'', plain_edge ''c'' ''a'',
     plain_edge ''a'' ''n'', plain_edge ''n'' ''c'']"

theorem reported_cycles_are_unbounded_witness:
  "is_cycle (build_adj (node_ids tangled_nodes) tangled_edges) [''n'', ''c'', ''a''] \<and>
   \<not> set [''n'', ''c'', ''a''] \<subseteq> set (loop_nodes tangled_nodes)"
proof (rule reported_cycles_are_unbounded)
  show "UnboundedCycle [''n'', ''c'', ''a''] \<in> set (cycle_errors [''n'', ''a'', ''b'', ''c''] tangled_nodes tangled_edges)"
    by code_simp
qed

text \<open>The converse fails: a cycle through a node without a review loop can go unnoticed when the
  search meets its review-loop part first, so the verdict on this workflow depends on the order
  in which the set of ids is walked.\<close>

theorem cycle_verdict_depends_on_order:
  "cycle_errors [''a'', ''b'', ''c'', ''n''] tangled_nodes tangled_edges = [] \<and>
   cycle_errors [''n'', ''a'', ''b'', ''c''] tangled_nodes tangled_edges = [UnboundedCycle [''n'', ''c'', ''a'']]"
  by code_simp

subsection \<open>The schedule\<close>

text \<open>C12: the executor schedules every node exactly once, on any graph; on an acyclic one every edge's
  source comes before its target.\<close>

theorem schedule_is_a_topological_order:
  assumes "distinct ids"
  shows "distinct (schedule ids es) \<and> set (schedule ids es) = set ids \<and>
    (acyclic (exec_edges ids es) \<longrightarrow> obeys (schedule ids es) (exec_edges ids es))"
  using schedule_perm [OF assms] schedule_obeys [OF assms] by blast

theorem schedule_is_a_topological_order_witness:
  "schedule [''c'', ''a'', ''b''] (edge_objs [plain_edge ''a:o'' ''c:i'', plain_edge ''b'' ''c'', plain_edge ''a'' ''b''])
     = [''a'', ''b'', ''c''] \<and>
   obeys [''a'', ''b'', ''c'']
     (exec_edges [''c'', ''a'', ''b''] (edge_objs [plain_edge ''a:o'' ''c:i'', plain_edge ''b'' ''c'', plain_edge ''a'' ''b'']))"
proof -
  let ?es = "edge_objs [plain_edge ''a:o'' ''c:i'', plain_edge ''b'' ''c'', plain_edge ''a'' ''b'']"
  let ?ids = "[''c'', ''a'', ''b'']"
  have s: "schedule ?ids ?es = [''a'', ''b'', ''c'']" by code_simp
  have "exec_edges ?ids ?es \<subseteq> {(''a'', ''c''), (''b'', ''c''), (''a'', ''b'')}"
    by (auto simp: exec_edges_def plain_edge_def port_node_def)
  moreover have "acyclic {(''a'', ''c''), (''b'', ''c''), (''a'', ''b'')}"
    by (simp add: acyclic_insert rtrancl_insert acyclic_def [of "{}"])
  ultimately have "acyclic (exec_edges ?ids ?es)" by (rule acyclic_subset [rotated])
  with schedule_is_a_topological_order [of ?ids ?es] s show ?thesis by simp
qed

end
