(* ===== verification/Executor.thy ===== *)
theory Executor
  imports TopoOrder
begin

section \<open>The DAG executor (kernel/executor.py)\<close>

text \<open>
  The run state, its budgets, events, approvals and cache; the retry loop of one node; the walk
  over the schedule; cancellation; saving and restoring a run. Handlers and the approval callback
  are code of the caller: they are components of the configuration, act on an environment
  \<open>'env\<close> of their own and say whether someone called \<open>request_cancel\<close> on the run meanwhile.
  SHA-256, \<open>json.dumps\<close> and \<open>str\<close> of a non-string value are components of the configuration too.
  The time stamps of \<open>utc_now\<close> are left out.
\<close>

subsection \<open>State\<close>

datatype event =
    RunStarted bool
  | NodeSkippedResume string
  | BudgetExceededEv string
  | ApprovalRequired string
  | CacheHit string string
  | NodeSucceeded string
  | NodeRetry string int string
  | NodeFailed string string
  | RunCancelled
  | VerifyFailed string
  | RunSucceeded

record node_state =
  ns_status :: string
  ns_attempts :: int
  ns_cache_hit :: "bool option"
  ns_cache_key :: "string option"
  ns_output :: "json option"
  ns_error :: "string option"

definition new_node_state :: "string \<Rightarrow> int \<Rightarrow> node_state" where
  "new_node_state s k = \<lparr>ns_status = s, ns_attempts = k, ns_cache_hit = None, ns_cache_key = None,
     ns_output = None, ns_error = None\<rparr>"

record approval =
  ap_node :: string
  ap_class :: "string option"
  ap_approved :: bool

record run_state =
  rs_id :: string
  rs_workflow :: string
  rs_status :: string
  rs_nodes :: "node_state dict"
  rs_events :: "event list"
  rs_approvals :: "approval list"
  rs_cache :: "json dict"
  rs_steps :: int
  rs_tokens :: int
  rs_files :: int
  rs_artifacts :: "string list"
  rs_error :: "string option"
  rs_cancel :: bool

definition new_run :: "string \<Rightarrow> string \<Rightarrow> run_state" where
  "new_run i w = \<lparr>rs_id = i, rs_workflow = w, rs_status = ''queued'', rs_nodes = [], rs_events = [],
     rs_approvals = [], rs_cache = [], rs_steps = 0, rs_tokens = 0, rs_files = 0,
     rs_artifacts = [], rs_error = None, rs_cancel = False\<rparr>"

definition emit :: "event \<Rightarrow> run_state \<Rightarrow> run_state" where
  "emit e st = st\<lparr>rs_events := rs_events st @ [e]\<rparr>"

definition request_cancel :: "run_state \<Rightarrow> run_state" where
  "request_cancel st = st\<lparr>rs_cancel := True\<rparr>"

definition put_node :: "string \<Rightarrow> node_state \<Rightarrow> run_state \<Rightarrow> run_state" where
  "put_node nid ns st = st\<lparr>rs_nodes := AList.update nid ns (rs_nodes st)\<rparr>"

definition node_attempts :: "run_state \<Rightarrow> string \<Rightarrow> int" where
  "node_attempts st nid = (case map_of (rs_nodes st) nid of None \<Rightarrow> 0 | Some ns \<Rightarrow> ns_attempts ns)"

definition set_attempts :: "string \<Rightarrow> int \<Rightarrow> run_state \<Rightarrow> run_state" where
  "set_attempts nid k st =
     (case map_of (rs_nodes st) nid of None \<Rightarrow> st | Some ns \<Rightarrow> put_node nid (ns\<lparr>ns_attempts := k\<rparr>) st)"

definition fail_run :: "string \<Rightarrow> event \<Rightarrow> run_state \<Rightarrow> run_state" where
  "fail_run msg e st = emit e (st\<lparr>rs_status := ''failed'', rs_error := Some msg\<rparr>)"

definition over_budget :: "string \<Rightarrow> run_state \<Rightarrow> run_state" where
  "over_budget b st = fail_run (b @ '' budget exceeded'') (BudgetExceededEv b) st"

definition cancel :: "run_state \<Rightarrow> run_state" where
  "cancel st =
     (let st = request_cancel st in
      if rs_status st \<in> {''succeeded'', ''failed'', ''cancelled''} then st
      else emit RunCancelled
             (st\<lparr>rs_status := ''cancelled'',
                 rs_error := (case rs_error st of
                    None \<Rightarrow> Some ''cancelled by user''
                  | Some e \<Rightarrow> Some (if e = [] then ''cancelled by user'' else e))\<rparr>))"

subsection \<open>Saving and restoring a run\<close>

record raw_run =
  raw_id :: string
  raw_workflow :: string
  raw_status :: "string option"
  raw_nodes :: "node_state dict option"
  raw_events :: "event list option"
  raw_approvals :: "approval list option"
  raw_cache :: "json dict option"
  raw_budgets :: "(int \<times> int \<times> int) option"
  raw_artifacts :: "string list option"
  raw_error :: "string option"
  raw_cancel :: "bool option"

definition to_dict :: "run_state \<Rightarrow> raw_run" where
  "to_dict st = \<lparr>raw_id = rs_id st, raw_workflow = rs_workflow st, raw_status = Some (rs_status st),
     raw_nodes = Some (rs_nodes st), raw_events = Some (rs_events st),
     raw_approvals = Some (rs_approvals st), raw_cache = None,
     raw_budgets = Some (rs_steps st, rs_tokens st, rs_files st),
     raw_artifacts = Some (rs_artifacts st), raw_error = rs_error st,
     raw_cancel = Some (rs_cancel st)\<rparr>"

definition or_default :: "'a option \<Rightarrow> 'a \<Rightarrow> 'a" where
  "or_default v d = (case v of None \<Rightarrow> d | Some x \<Rightarrow> x)"

definition from_dict :: "raw_run \<Rightarrow> run_state" where
  "from_dict raw =
     (let (s, t, f) = or_default (raw_budgets raw) (0, 0, 0) in
      \<lparr>rs_id = raw_id raw, rs_workflow = raw_workflow raw,
       rs_status = (case raw_status raw of None \<Rightarrow> ''queued'' | Some s \<Rightarrow> if s = [] then ''queued'' else s),
       rs_nodes = or_default (raw_nodes raw) [], rs_events = or_default (raw_events raw) [],
       rs_approvals = or_default (raw_approvals raw) [], rs_cache = or_default (raw_cache raw) [],
       rs_steps = s, rs_tokens = t, rs_files = f,
       rs_artifacts = or_default (raw_artifacts raw) [], rs_error = raw_error raw,
       rs_cancel = or_default (raw_cancel raw) False\<rparr>)"

subsection \<open>Configuration\<close>

type_synonym 'env handler = "'env \<Rightarrow> wf_node \<Rightarrow> string \<Rightarrow> string \<Rightarrow> json res \<times> bool \<times> 'env"

record 'env exec_cfg =
  handlers :: "'env handler dict"
  approval_cb :: "('env \<Rightarrow> wf_node \<Rightarrow> bool res \<times> bool \<times> 'env) option"
  sha256_hex :: "string \<Rightarrow> string"
  json_dumps :: "json \<Rightarrow> string"
  str_of :: "json \<Rightarrow> string"

definition content_hash :: "(string \<Rightarrow> string) \<Rightarrow> string \<Rightarrow> string" where
  "content_hash sha text = ''sha256:'' @ sha text"

definition opt_json :: "string option \<Rightarrow> json" where
  "opt_json v = (case v of None \<Rightarrow> JNull | Some s \<Rightarrow> JStr s)"

definition str_or :: "string option \<Rightarrow> string \<Rightarrow> string" where
  "str_or v d = (case v of None \<Rightarrow> d | Some s \<Rightarrow> if s = [] then d else s)"

definition cache_key_for_node :: "'env exec_cfg \<Rightarrow> wf_node \<Rightarrow> json dict \<Rightarrow> string \<Rightarrow> string" where
  "cache_key_for_node cfg n pins input_hash =
     (let base = str_or (n_cache n) (str_or (n_idem n)
            (json_dumps cfg (JObj [(''id'', JStr (n_id n)), (''type'', opt_json (n_type n)),
                                   (''title'', opt_json (n_title n))])));
          material = base @ ''|'' @ json_dumps cfg (JObj pins) @ ''|'' @ input_hash
      in ''cache:'' @ py_take 24 (sha256_hex cfg material))"

text \<open>\<open>_invoke\<close>: the handler of the node's type, the catch-all handler, or the no-op marker.\<close>

definition find_handler :: "'env exec_cfg \<Rightarrow> string \<Rightarrow> 'env handler option" where
  "find_handler cfg ntype =
     (case map_of (handlers cfg) ntype of Some h \<Rightarrow> Some h | None \<Rightarrow> map_of (handlers cfg) ''*'')"

definition noop_result :: "'env exec_cfg \<Rightarrow> wf_node \<Rightarrow> string \<Rightarrow> json" where
  "noop_result cfg n input_hash =
     JObj [(''ok'', JBool True), (''node_type'', JStr (str_or (n_type n) ''summarize'')),
           (''message'', JStr ''noop''), (''input_hash'', JStr input_hash),
           (''content_hash'', JStr (content_hash (sha256_hex cfg) (str_or (n_title n) [])))]"

definition invoke :: "'env exec_cfg \<Rightarrow> wf_node \<Rightarrow> string \<Rightarrow> string \<Rightarrow> 'env \<Rightarrow> json res \<times> bool \<times> 'env" where
  "invoke cfg n input_hash run_id env =
     (case find_handler cfg (str_or (n_type n) ''summarize'') of
        Some h \<Rightarrow> h env n input_hash run_id
      | None \<Rightarrow> (Inr (noop_result cfg n input_hash), False, env))"

subsection \<open>Budgets\<close>

record limits =
  lim_steps :: int
  lim_tokens :: "int option"
  lim_files :: "int option"

definition opt_int :: "json \<Rightarrow> int option res" where
  "opt_int v = (if v = JNull then Inr None else bnd (py_int v) (\<lambda>i. Inr (Some i)))"

definition read_limits :: "json \<Rightarrow> limits res" where
  "read_limits budgets =
     (let b = jor budgets (JObj []) in
      bnd (jget b ''max_steps'') (\<lambda>s.
      bnd (py_int (jor s (JInt 80))) (\<lambda>steps.
      bnd (jget b ''max_tokens'') (\<lambda>t.
      bnd (opt_int t) (\<lambda>toks.
      bnd (jget b ''max_generated_files'') (\<lambda>f.
      bnd (opt_int f) (\<lambda>files.
        Inr \<lparr>lim_steps = steps, lim_tokens = toks, lim_files = files\<rparr>)))))))"

definition reached :: "int option \<Rightarrow> int \<Rightarrow> bool" where
  "reached m used = (case m of None \<Rightarrow> False | Some k \<Rightarrow> used \<ge> k)"

definition exceeded :: "int option \<Rightarrow> int \<Rightarrow> bool" where
  "exceeded m used = (case m of None \<Rightarrow> False | Some k \<Rightarrow> used > k)"

definition check_budgets :: "limits \<Rightarrow> run_state \<Rightarrow> string option" where
  "check_budgets lts st =
     (if rs_steps st \<ge> lim_steps lts then Some ''max_steps''
      else if reached (lim_tokens lts) (rs_tokens st) then Some ''max_tokens''
      else if reached (lim_files lts) (rs_files st) then Some ''max_generated_files''
      else None)"

subsection \<open>One attempt\<close>

datatype attempt_end = Done | Stopped | Threw pyexn

text \<open>The body of the \<open>try\<close> after \<open>_invoke\<close> returned \<open>v\<close>.\<close>

definition record_success :: "string \<Rightarrow> string \<Rightarrow> int \<Rightarrow> json \<Rightarrow> run_state \<Rightarrow> run_state" where
  "record_success nid ck attempt v st =
     emit (NodeSucceeded nid)
       (put_node nid ((new_node_state ''succeeded'' attempt)
            \<lparr>ns_cache_hit := Some False, ns_cache_key := Some ck, ns_output := Some v\<rparr>)
         (st\<lparr>rs_cache := AList.update ck v (rs_cache st)\<rparr>))"

definition check_artifact :: "wf_node \<Rightarrow> string \<Rightarrow> pyexn option" where
  "check_artifact n path =
     (if may_auto_apply (node_class n)
      then (let g = evaluate_node_action n (Some path) in
            if g_ok g then None else Some (RuntimeError (str_or (g_error g) ''unsafe write path'')))
      else None)"

definition add_artifact :: "string \<Rightarrow> run_state \<Rightarrow> run_state" where
  "add_artifact path st =
     st\<lparr>rs_artifacts := rs_artifacts st @ [path], rs_files := rs_files st + 1\<rparr>"

definition accept_artifact ::
  "'env exec_cfg \<Rightarrow> wf_node \<Rightarrow> string \<Rightarrow> int \<Rightarrow> json \<Rightarrow> json \<Rightarrow> run_state \<Rightarrow> attempt_end \<times> run_state" where
  "accept_artifact cfg n ck attempt v a st =
     (if truthy a then
        (let path = (case a of JStr s \<Rightarrow> s | _ \<Rightarrow> str_of cfg a) in
         case check_artifact n path of
           Some e \<Rightarrow> (Threw e, st)
         | None \<Rightarrow> (Done, record_success (n_id n) ck attempt v (add_artifact path st)))
      else (Done, record_success (n_id n) ck attempt v st))"

definition tokens_of :: "json \<Rightarrow> int res" where
  "tokens_of v =
     bnd (jget v ''tokens_used'') (\<lambda>tu.
     bnd (jget v ''tokens'') (\<lambda>t.
       py_int (jor (jor tu t) (JInt 0))))"

definition accept_result ::
  "'env exec_cfg \<Rightarrow> limits \<Rightarrow> wf_node \<Rightarrow> string \<Rightarrow> int \<Rightarrow> json \<Rightarrow> run_state \<Rightarrow> attempt_end \<times> run_state" where
  "accept_result cfg lts n ck attempt v st =
     (case tokens_of v of
        Inl e \<Rightarrow> (Threw e, st)
      | Inr tokens \<Rightarrow>
          (let st' = (if tokens \<noteq> 0 then st\<lparr>rs_tokens := rs_tokens st + tokens\<rparr> else st) in
           if tokens \<noteq> 0 \<and> exceeded (lim_tokens lts) (rs_tokens st')
           then (Stopped, over_budget ''max_tokens'' st')
           else case jget v ''artifact_path'' of
                  Inl e \<Rightarrow> (Threw e, st')
                | Inr a \<Rightarrow> accept_artifact cfg n ck attempt v a st'))"

definition note_cancel :: "bool \<Rightarrow> run_state \<Rightarrow> run_state" where
  "note_cancel c st = (if c then request_cancel st else st)"

definition do_attempt ::
  "'env exec_cfg \<Rightarrow> limits \<Rightarrow> wf_node \<Rightarrow> string \<Rightarrow> string \<Rightarrow> int \<Rightarrow> run_state \<Rightarrow> 'env \<Rightarrow>
     attempt_end \<times> run_state \<times> 'env" where
  "do_attempt cfg lts n ck input_hash attempt st env =
     (let st1 = set_attempts (n_id n) attempt st;
          st2 = st1\<lparr>rs_steps := rs_steps st1 + 1\<rparr>
      in case invoke cfg n input_hash (rs_id st) env of
           (r, c, env') \<Rightarrow>
             (case r of
                Inl e \<Rightarrow> (Threw e, note_cancel c st2, env')
              | Inr v \<Rightarrow>
                  (case accept_result cfg lts n ck attempt v (note_cancel c st2) of
                     (r1, st') \<Rightarrow> (r1, st', env'))))"

subsection \<open>The retry loop, one node, the whole run\<close>

datatype loop_end = LoopDone int "string option" | LoopHalt

text \<open>
  \<open>while attempt <= max_retry\<close>, with the number of iterations still allowed as first argument.
\<close>

primrec run_attempts ::
  "nat \<Rightarrow> 'env exec_cfg \<Rightarrow> limits \<Rightarrow> wf_node \<Rightarrow> string \<Rightarrow> string \<Rightarrow> int \<Rightarrow> string option \<Rightarrow> run_state \<Rightarrow>
     'env \<Rightarrow> loop_end \<times> run_state \<times> 'env" where
  "run_attempts 0 cfg lts n ck ih attempt err st env = (LoopDone attempt err, st, env)"
| "run_attempts (Suc k) cfg lts n ck ih attempt err st env =
     (if rs_cancel st then (LoopHalt, cancel st, env)
      else case do_attempt cfg lts n ck ih (attempt + 1) st env of
             (Done, st', env') \<Rightarrow> (LoopDone (attempt + 1) None, st', env')
           | (Stopped, st', env') \<Rightarrow> (LoopHalt, st', env')
           | (Threw e, st', env') \<Rightarrow>
               run_attempts k cfg lts n ck ih (attempt + 1) (Some (exn_str e))
                 (emit (NodeRetry (n_id n) (attempt + 1) (exn_str e)) st') env')"

datatype flow = Next | Halt | Raised pyexn

definition allowed_attempts :: "wf_node \<Rightarrow> nat" where
  "allowed_attempts n = nat ((case n_retry_max n of None \<Rightarrow> 0 | Some k \<Rightarrow> k) + 1)"

definition finish_node :: "wf_node \<Rightarrow> loop_end \<Rightarrow> run_state \<Rightarrow> flow \<times> run_state" where
  "finish_node n le st =
     (case le of
        LoopHalt \<Rightarrow> (Halt, st)
      | LoopDone attempt None \<Rightarrow> (Next, st)
      | LoopDone attempt (Some msg) \<Rightarrow>
          if msg = [] then (Next, st)
          else (Halt, fail_run msg (NodeFailed (n_id n) msg)
                        (put_node (n_id n)
                          ((new_node_state ''failed'' attempt)\<lparr>ns_error := Some msg\<rparr>) st)))"

definition run_node ::
  "'env exec_cfg \<Rightarrow> limits \<Rightarrow> json dict \<Rightarrow> string \<Rightarrow> wf_node \<Rightarrow> run_state \<Rightarrow> 'env \<Rightarrow>
     flow \<times> run_state \<times> 'env" where
  "run_node cfg lts pins ih n st env =
     (let ck = cache_key_for_node cfg n pins ih in
      if map_of (rs_cache st) ck \<noteq> None then
        (Next, emit (CacheHit (n_id n) ck)
           (put_node (n_id n)
              ((new_node_state ''succeeded'' (node_attempts st (n_id n)))
                 \<lparr>ns_cache_hit := Some True, ns_cache_key := Some ck\<rparr>) st), env)
      else case run_attempts (allowed_attempts n) cfg lts n ck ih 0 None st env of
             (le, st', env') \<Rightarrow> (case finish_node n le st' of (fl, st'') \<Rightarrow> (fl, st'', env')))"

definition ask_approval ::
  "'env exec_cfg \<Rightarrow> wf_node \<Rightarrow> run_state \<Rightarrow> 'env \<Rightarrow> bool res \<times> run_state \<times> 'env" where
  "ask_approval cfg n st env =
     (case (case approval_cb cfg of
              None \<Rightarrow> (Inr False, False, env)
            | Some cb \<Rightarrow> cb env n) of
        (Inl e, c, env') \<Rightarrow> (Inl e, note_cancel c st, env')
      | (Inr ok, c, env') \<Rightarrow>
          (let st1 = note_cancel c st in
           (Inr ok,
            st1\<lparr>rs_approvals := rs_approvals st1 @
                  [\<lparr>ap_node = n_id n, ap_class = g_perm (evaluate_node_action n None),
                    ap_approved = ok\<rparr>]\<rparr>, env')))"

definition needs_review :: "wf_node \<Rightarrow> run_state \<Rightarrow> run_state" where
  "needs_review n st =
     emit (ApprovalRequired (n_id n))
       ((put_node (n_id n) (new_node_state ''needs_approval'' (node_attempts st (n_id n))) st)
          \<lparr>rs_status := ''needs_review''\<rparr>)"

definition gate_node ::
  "'env exec_cfg \<Rightarrow> limits \<Rightarrow> json dict \<Rightarrow> string \<Rightarrow> wf_node \<Rightarrow> run_state \<Rightarrow> 'env \<Rightarrow>
     flow \<times> run_state \<times> 'env" where
  "gate_node cfg lts pins ih n st env =
     (if g_approval (evaluate_node_action n None) then
        (case ask_approval cfg n st env of
           (Inl e, st', env') \<Rightarrow> (Raised e, st', env')
         | (Inr ok, st', env') \<Rightarrow>
             if ok then run_node cfg lts pins ih n st' env'
             else (Halt, needs_review n st', env'))
      else run_node cfg lts pins ih n st env)"

definition node_done :: "run_state \<Rightarrow> string \<Rightarrow> bool" where
  "node_done st nid =
     (case map_of (rs_nodes st) nid of None \<Rightarrow> False | Some ns \<Rightarrow> ns_status ns = ''succeeded'')"

definition node_step ::
  "'env exec_cfg \<Rightarrow> limits \<Rightarrow> bool \<Rightarrow> json dict \<Rightarrow> string \<Rightarrow> wf_node \<Rightarrow> run_state \<Rightarrow> 'env \<Rightarrow>
     flow \<times> run_state \<times> 'env" where
  "node_step cfg lts resume pins ih n st env =
     (if rs_cancel st then (Halt, cancel st, env)
      else if resume \<and> node_done st (n_id n) then (Next, emit (NodeSkippedResume (n_id n)) st, env)
      else
        (let st1 = put_node (n_id n) (new_node_state ''running'' (node_attempts st (n_id n))) st in
         case check_budgets lts st1 of
           Some b \<Rightarrow> (Halt, over_budget b st1, env)
         | None \<Rightarrow> gate_node cfg lts pins ih n st1 env))"

primrec run_nodes ::
  "wf_node list \<Rightarrow> 'env exec_cfg \<Rightarrow> limits \<Rightarrow> bool \<Rightarrow> json dict \<Rightarrow> string \<Rightarrow> run_state \<Rightarrow> 'env \<Rightarrow>
     flow \<times> run_state \<times> 'env" where
  "run_nodes [] cfg lts resume pins ih st env = (Next, st, env)"
| "run_nodes (n # ns) cfg lts resume pins ih st env =
     (case node_step cfg lts resume pins ih n st env of
        (Next, st', env') \<Rightarrow> run_nodes ns cfg lts resume pins ih st' env'
      | (fl, st', env') \<Rightarrow> (fl, st', env'))"

definition verify_outcome :: "string list \<Rightarrow> run_state \<Rightarrow> run_state" where
  "verify_outcome criteria st =
     (if criteria \<noteq> [] \<and> rs_artifacts st = [] then
        emit (VerifyFailed ''outcome verifier: criteria unmet (no artifacts)'')
          (st\<lparr>rs_status := ''needs_review'',
              rs_error := Some ''outcome verifier: criteria unmet (no artifacts)''\<rparr>)
      else emit RunSucceeded (st\<lparr>rs_status := ''succeeded''\<rparr>))"

text \<open>
  \<open>{str(n["id"]): n for n in nodes}\<close>, the plan the schedule walks, and \<open>execute\<close>. An entry of
  \<open>nodes\<close> or \<open>edges\<close> that is not an object raises where the code indexes it.
\<close>

definition node_table :: "raw_node list \<Rightarrow> wf_node dict res" where
  "node_table ns =
     (if NonObject \<in> set ns then Inl (TypeError ''node is not subscriptable'')
      else Inr (dict_update [] (List.map (\<lambda>n. (n_id n, n)) (node_objs ns))))"

definition plan :: "wf_node dict \<Rightarrow> wf_edge list \<Rightarrow> wf_node list" where
  "plan tbl es =
     concat (List.map (\<lambda>nid. case map_of tbl nid of None \<Rightarrow> [] | Some n \<Rightarrow> [n])
       (schedule (dict_keys tbl) es))"

definition execute ::
  "'env exec_cfg \<Rightarrow> workflow \<Rightarrow> string \<Rightarrow> bool \<Rightarrow> run_state \<Rightarrow> 'env \<Rightarrow> flow \<times> run_state \<times> 'env" where
  "execute cfg w ih resume st env =
     (case read_limits (wf_budgets w) of
        Inl e \<Rightarrow> (Raised e, st, env)
      | Inr lts \<Rightarrow>
          (case node_table (case wf_nodes w of None \<Rightarrow> [] | Some ns \<Rightarrow> ns) of
             Inl e \<Rightarrow> (Raised e, st, env)
           | Inr tbl \<Rightarrow>
               if rs_cancel st \<or> rs_status st = ''cancelled'' then (Halt, cancel st, env)
               else
                 (let st1 = emit (RunStarted resume) (st\<lparr>rs_status := ''running''\<rparr>) in
                  if EdgeNonObject \<in> set (wf_edges w)
                  then (Raised (AttributeError ''edge has no attribute get''), st1, env)
                  else
                    (case run_nodes (plan tbl (edge_objs (wf_edges w))) cfg lts resume (wf_pins w) ih st1 env of
                       (Next, st', env') \<Rightarrow> (Next, verify_outcome (wf_criteria w) st', env')
                     | (fl, st', env') \<Rightarrow> (fl, st', env')))))"

end
