(* ===== verification/ExecInvariant.thy ===== *)
theory ExecInvariant
  imports Executor
begin

section \<open>Invariants of a run\<close>

text \<open>
  What a run uses up and produces is its \<open>usage\<close>; most state changes of the executor leave it
  alone. The locale \<open>run_inv\<close> is the contract between an invariant on usage and environment and
  the executor: six obligations on the places that do change them, and the invariant then holds
  after the whole of \<open>execute\<close>. The budget bounds, the safety of artifact paths and the rule that
  a gated node never reaches its handler unapproved are its interpretations.
\<close>

record usage =
  u_steps :: int
  u_tokens :: int
  u_files :: int
  u_artifacts :: "string list"

definition usage_of :: "run_state \<Rightarrow> usage" where
  "usage_of st = \<lparr>u_steps = rs_steps st, u_tokens = rs_tokens st, u_files = rs_files st,
     u_artifacts = rs_artifacts st\<rparr>"

definition gated :: "wf_node \<Rightarrow> bool" where
  "gated n \<longleftrightarrow> \<not> may_auto_apply (node_class n)"

lemma usage_emit [simp, frame_simps]: "usage_of (emit e st) = usage_of st"
  by (simp add: usage_of_def emit_def)

lemma usage_put_node [simp, frame_simps]: "usage_of (put_node i ns st) = usage_of st"
  by (simp add: usage_of_def put_node_def)

lemma usage_set_attempts [simp, frame_simps]: "usage_of (set_attempts i k st) = usage_of st"
  by (simp add: set_attempts_def split: option.splits)

lemma usage_request_cancel [simp, frame_simps]: "usage_of (request_cancel st) = usage_of st"
  by (simp add: usage_of_def request_cancel_def)

lemma usage_note_cancel [simp, frame_simps]: "usage_of (note_cancel c st) = usage_of st"
  by (simp add: note_cancel_def)

lemma usage_fields [simp, frame_simps]:
  "usage_of (st\<lparr>rs_status := s\<rparr>) = usage_of st"
  "usage_of (st\<lparr>rs_error := e\<rparr>) = usage_of st"
  "usage_of (st\<lparr>rs_status := s, rs_error := e\<rparr>) = usage_of st"
  "usage_of (st\<lparr>rs_approvals := a\<rparr>) = usage_of st"
  "usage_of (st\<lparr>rs_cache := c\<rparr>) = usage_of st"
  by (simp_all add: usage_of_def)

lemma usage_fail_run [simp, frame_simps]: "usage_of (fail_run m e st) = usage_of st"
  by (simp add: fail_run_def)

lemma usage_over_budget [simp, frame_simps]: "usage_of (over_budget b st) = usage_of st"
  by (simp add: over_budget_def)

lemma usage_cancel [simp, frame_simps]: "usage_of (cancel st) = usage_of st"
  by (simp add: cancel_def Let_def)

lemma usage_needs_review [simp, frame_simps]: "usage_of (needs_review n st) = usage_of st"
  by (simp add: needs_review_def)

lemma usage_record_success [simp, frame_simps]: "usage_of (record_success i ck k v st) = usage_of st"
  by (simp add: record_success_def)

lemma usage_verify [simp, frame_simps]: "usage_of (verify_outcome c st) = usage_of st"
  by (simp add: verify_outcome_def)

lemma usage_step [simp]:
  "usage_of (st\<lparr>rs_steps := k\<rparr>) = (usage_of st)\<lparr>u_steps := k\<rparr>"
  by (simp add: usage_of_def)

lemma usage_tokens [simp]:
  "usage_of (st\<lparr>rs_tokens := k\<rparr>) = (usage_of st)\<lparr>u_tokens := k\<rparr>"
  by (simp add: usage_of_def)

lemma usage_artifact [simp]:
  "usage_of (add_artifact p st) =
     (usage_of st)\<lparr>u_artifacts := u_artifacts (usage_of st) @ [p], u_files := u_files (usage_of st) + 1\<rparr>"
  by (simp add: usage_of_def add_artifact_def)

lemma usage_sel [simp]:
  "u_steps (usage_of st) = rs_steps st"
  "u_tokens (usage_of st) = rs_tokens st"
  "u_files (usage_of st) = rs_files st"
  "u_artifacts (usage_of st) = rs_artifacts st"
  by (simp_all add: usage_of_def)

lemma usage_sel_eq:
  "usage_of st = usage_of st' \<Longrightarrow> rs_steps st = rs_steps st' \<and> rs_tokens st = rs_tokens st' \<and>
     rs_files st = rs_files st' \<and> rs_artifacts st = rs_artifacts st'"
  by (metis usage_sel)

definition in_budget :: "limits \<Rightarrow> usage \<Rightarrow> bool" where
  "in_budget lts u \<longleftrightarrow> u_steps u < lim_steps lts \<and> \<not> reached (lim_tokens lts) (u_tokens u)
     \<and> \<not> reached (lim_files lts) (u_files u)"

lemma check_budgets_None: "check_budgets lts st = None \<longleftrightarrow> in_budget lts (usage_of st)"
  by (auto simp: check_budgets_def in_budget_def)

subsection \<open>The interface\<close>

locale run_inv =
  fixes cfg :: "'env exec_cfg"
    and lts :: limits
    and N :: "wf_node set"
    and I :: "usage \<Rightarrow> 'env \<Rightarrow> bool"
    and J :: "wf_node \<Rightarrow> nat \<Rightarrow> usage \<Rightarrow> 'env \<Rightarrow> bool"
    and H :: "usage \<Rightarrow> 'env \<Rightarrow> bool"
  assumes halt: "I u env \<Longrightarrow> H u env"
    and enter: "I u env \<Longrightarrow> n \<in> N \<Longrightarrow> in_budget lts u \<Longrightarrow> \<not> gated n \<Longrightarrow> J n 0 u env"
    and approved: "I u env \<Longrightarrow> n \<in> N \<Longrightarrow> in_budget lts u \<Longrightarrow> gated n \<Longrightarrow> approval_cb cfg = Some cb \<Longrightarrow>
      cb env n = (Inr True, c, env') \<Longrightarrow> J n 0 u env'"
    and refused: "I u env \<Longrightarrow> n \<in> N \<Longrightarrow> gated n \<Longrightarrow> approval_cb cfg = Some cb \<Longrightarrow>
      cb env n = (r, c, env') \<Longrightarrow> I u env'"
    and leave: "J n k u env \<Longrightarrow> n \<in> N \<Longrightarrow> k \<le> allowed_attempts n \<Longrightarrow> I u env"
    and call: "J n k u env \<Longrightarrow> n \<in> N \<Longrightarrow> k < allowed_attempts n \<Longrightarrow> invoke cfg n ih rid env = (v, c, env') \<Longrightarrow>
      J n (Suc k) (u\<lparr>u_steps := u_steps u + 1\<rparr>) env'"
    and spend: "J n k u env \<Longrightarrow> n \<in> N \<Longrightarrow> \<not> exceeded (lim_tokens lts) (u_tokens u + t) \<Longrightarrow>
      J n k (u\<lparr>u_tokens := u_tokens u + t\<rparr>) env"
    and overspend: "J n k u env \<Longrightarrow> n \<in> N \<Longrightarrow> k \<le> allowed_attempts n \<Longrightarrow>
      exceeded (lim_tokens lts) (u_tokens u + t) \<Longrightarrow> H (u\<lparr>u_tokens := u_tokens u + t\<rparr>) env"
    and produce: "J n k u env \<Longrightarrow> n \<in> N \<Longrightarrow> k \<le> allowed_attempts n \<Longrightarrow> check_artifact n p = None \<Longrightarrow>
      I (u\<lparr>u_artifacts := u_artifacts u @ [p], u_files := u_files u + 1\<rparr>) env"
begin

lemma accept_artifact_inv:
  assumes "J n k (usage_of st) env" "n \<in> N" "k \<le> allowed_attempts n"
    and "accept_artifact cfg n ck att v art st = (r, st')"
  shows "case r of Done \<Rightarrow> I (usage_of st') env | Stopped \<Rightarrow> H (usage_of st') env
    | Threw _ \<Rightarrow> J n k (usage_of st') env"
  using assms leave [OF assms(1-3)] produce [OF assms(1-3)]
  by (auto simp: accept_artifact_def Let_def split: if_splits option.splits json.splits)

lemma accept_result_inv:
  assumes j: "J n k (usage_of st) env" "n \<in> N" "k \<le> allowed_attempts n"
    and a: "accept_result cfg lts n ck att v st = (r, st')"
  shows "case r of Done \<Rightarrow> I (usage_of st') env | Stopped \<Rightarrow> H (usage_of st') env
    | Threw _ \<Rightarrow> J n k (usage_of st') env"
proof (cases "tokens_of v")
  case (Inl e)
  then show ?thesis using j a by (auto simp: accept_result_def)
next
  case (Inr t)
  let ?st = "if t \<noteq> 0 then st\<lparr>rs_tokens := rs_tokens st + t\<rparr> else st"
  show ?thesis
  proof (cases "t \<noteq> 0 \<and> exceeded (lim_tokens lts) (rs_tokens ?st)")
    case True
    then have "r = Stopped" "st' = over_budget ''max_tokens'' ?st"
      using a Inr by (auto simp: accept_result_def Let_def)
    then show ?thesis using True overspend [OF j, of t] by auto
  next
    case False
    have j': "J n k (usage_of ?st) env" using False j spend [OF j(1,2), of t] by auto
    show ?thesis
    proof (cases "jget v ''artifact_path''")
      case (Inl e)
      then show ?thesis using a Inr False j' by (auto simp: accept_result_def Let_def)
    next
      case (Inr art)
      then have "accept_artifact cfg n ck att v art ?st = (r, st')"
        using a \<open>tokens_of v = Inr t\<close> False by (simp add: accept_result_def Let_def)
      then show ?thesis by (rule accept_artifact_inv [OF j' j(2,3)])
    qed
  qed
qed

lemma do_attempt_inv:
  assumes j: "J n k (usage_of st) env" "n \<in> N" "k < allowed_attempts n"
    and a: "do_attempt cfg lts n ck ih att st env = (r, st', env')"
  shows "case r of Done \<Rightarrow> I (usage_of st') env' | Stopped \<Rightarrow> H (usage_of st') env'
    | Threw _ \<Rightarrow> J n (Suc k) (usage_of st') env'"
proof -
  let ?st = "set_attempts (n_id n) att st"
  let ?st2 = "?st\<lparr>rs_steps := rs_steps ?st + 1\<rparr>"
  obtain r0 c env1 where i: "invoke cfg n ih (rs_id st) env = (r0, c, env1)"
    by (cases "invoke cfg n ih (rs_id st) env")
  have "rs_steps ?st = rs_steps st" using usage_sel_eq usage_set_attempts by blast
  then have j': "J n (Suc k) (usage_of (note_cancel c ?st2)) env1"
    using call [OF j i] by simp
  show ?thesis
  proof (cases r0)
    case (Inl e)
    then show ?thesis using a i j' by (auto simp: do_attempt_def Let_def)
  next
    case (Inr v)
    then have "accept_result cfg lts n ck att v (note_cancel c ?st2) = (r, st')" "env' = env1"
      using a i by (auto simp: do_attempt_def Let_def split: prod.splits)
    then show ?thesis using accept_result_inv [OF j'] j by auto
  qed
qed

lemma run_attempts_inv:
  assumes "J n i (usage_of st) env" "n \<in> N" "i + k = allowed_attempts n"
    and "run_attempts k cfg lts n ck ih att err st env = (le, st', env')"
  shows "case le of LoopDone _ _ \<Rightarrow> I (usage_of st') env' | LoopHalt \<Rightarrow> H (usage_of st') env'"
  using assms
proof (induction k arbitrary: i att err st env)
  case 0
  then show ?case using leave by auto
next
  case (Suc k)
  show ?case
  proof (cases "rs_cancel st")
    case True
    then show ?thesis using Suc.prems leave [of n i "usage_of st" env] halt by auto
  next
    case False
    obtain r st1 env1 where d: "do_attempt cfg lts n ck ih (att + 1) st env = (r, st1, env1)"
      by (cases "do_attempt cfg lts n ck ih (att + 1) st env")
    have lt: "i < allowed_attempts n" using Suc.prems by simp
    note inv = do_attempt_inv [OF Suc.prems(1,2) lt d]
    show ?thesis
    proof (cases r)
      case (Threw e)
      let ?st = "emit (NodeRetry (n_id n) (att + 1) (exn_str e)) st1"
      have "run_attempts k cfg lts n ck ih (att + 1) (Some (exn_str e)) ?st env1 = (le, st', env')"
        using Suc.prems(4) d False Threw by simp
      then show ?thesis
        by (intro Suc.IH [of "Suc i" ?st env1]) (use inv Threw Suc.prems in simp_all)
    qed (use inv d False Suc.prems in auto)
  qed
qed

lemma run_node_inv:
  assumes j: "J n 0 (usage_of st) env" "n \<in> N"
    and r: "run_node cfg lts pins ih n st env = (fl, st', env')"
  shows "if fl = Next then I (usage_of st') env' else H (usage_of st') env'"
proof (cases "map_of (rs_cache st) (cache_key_for_node cfg n pins ih)")
  case None
  let ?ck = "cache_key_for_node cfg n pins ih"
  obtain le st1 env1 where a:
    "run_attempts (allowed_attempts n) cfg lts n ?ck ih 0 None st env = (le, st1, env1)"
    by (cases "run_attempts (allowed_attempts n) cfg lts n ?ck ih 0 None st env")
  then have "finish_node n le st1 = (fl, st')" "env' = env1"
    using r None by (auto simp: run_node_def Let_def split: prod.splits)
  with run_attempts_inv [OF j(1,2) _ a] show ?thesis
    by (auto simp: finish_node_def intro: halt split: loop_end.splits option.splits if_splits)
next
  case (Some v)
  then show ?thesis using r leave [OF j] by (auto simp: run_node_def Let_def intro: halt)
qed

lemma gate_node_inv:
  assumes i: "I (usage_of st) env" "n \<in> N" "in_budget lts (usage_of st)"
    and r: "gate_node cfg lts pins ih n st env = (fl, st', env')"
  shows "if fl = Next then I (usage_of st') env' else H (usage_of st') env'"
proof (cases "gated n")
  case False
  then show ?thesis
    using r run_node_inv [OF enter [OF i]] i(2) by (auto simp: gate_node_def gate_approval_iff gated_def)
next
  case True
  show ?thesis
  proof (cases "approval_cb cfg")
    case None
    then show ?thesis
      using r True i(1) by (auto simp: gate_node_def gate_approval_iff gated_def ask_approval_def note_cancel_def
          intro: halt)
  next
    case (Some cb)
    obtain ok c env1 where cb: "cb env n = (ok, c, env1)" by (cases "cb env n")
    note refused' = refused [OF i(1,2) True Some cb]
    show ?thesis
    proof (cases "ok = Inr True")
      case True
      then have j: "J n 0 (usage_of st) env1"
        using approved [OF i \<open>gated n\<close> Some] cb by simp
      obtain st1 where st1: "ask_approval cfg n st env = (Inr True, st1, env1)" "usage_of st1 = usage_of st"
        using True cb Some by (simp add: ask_approval_def Let_def)
      then have "run_node cfg lts pins ih n st1 env1 = (fl, st', env')"
        using r \<open>gated n\<close> by (simp add: gate_node_def gate_approval_iff gated_def)
      then show ?thesis using j st1(2) i(2) by (intro run_node_inv) simp_all
    next
      case False
      then show ?thesis
        using r cb Some \<open>gated n\<close> refused'
        by (auto simp: gate_node_def gate_approval_iff gated_def ask_approval_def Let_def
            intro: halt split: sum.splits if_splits)
    qed
  qed
qed

lemma node_step_inv:
  assumes "I (usage_of st) env" "n \<in> N" "node_step cfg lts resume pins ih n st env = (fl, st', env')"
  shows "if fl = Next then I (usage_of st') env' else H (usage_of st') env'"
  using assms gate_node_inv [OF _ assms(2), of "put_node (n_id n) _ st" env pins ih fl st' env']
  by (auto simp: node_step_def Let_def check_budgets_None intro: halt split: if_splits option.splits)

lemma run_nodes_inv:
  assumes "I (usage_of st) env" "set ns \<subseteq> N" "run_nodes ns cfg lts resume pins ih st env = (fl, st', env')"
  shows "if fl = Next then I (usage_of st') env' else H (usage_of st') env'"
  using assms
proof (induction ns arbitrary: st env)
  case Nil
  then show ?case by auto
next
  case (Cons n ns)
  obtain f st1 env1 where s: "node_step cfg lts resume pins ih n st env = (f, st1, env1)"
    by (cases "node_step cfg lts resume pins ih n st env")
  have "if f = Next then I (usage_of st1) env1 else H (usage_of st1) env1"
    using node_step_inv [OF Cons.prems(1) _ s] Cons.prems(2) by simp
  then show ?case using Cons.IH Cons.prems s by (cases f) auto
qed

lemma execute_inv:
  assumes "I (usage_of st) env" "read_limits (wf_budgets w) = Inr lts"
    and "\<And>tbl. node_table (case wf_nodes w of None \<Rightarrow> [] | Some ns \<Rightarrow> ns) = Inr tbl \<Longrightarrow>
      set (plan tbl (edge_objs (wf_edges w))) \<subseteq> N"
    and x: "execute cfg w ih resume st env = (fl, st', env')"
  shows "if fl = Next then I (usage_of st') env' else H (usage_of st') env'"
proof (cases "node_table (case wf_nodes w of None \<Rightarrow> [] | Some ns \<Rightarrow> ns)")
  case (Inl e)
  then show ?thesis using assms by (auto simp: execute_def intro: halt)
next
  case (Inr tbl)
  let ?st = "emit (RunStarted resume) (st\<lparr>rs_status := ''running''\<rparr>)"
  obtain f st1 env1 where
    s: "run_nodes (plan tbl (edge_objs (wf_edges w))) cfg lts resume (wf_pins w) ih ?st env = (f, st1, env1)"
    by (cases "run_nodes (plan tbl (edge_objs (wf_edges w))) cfg lts resume (wf_pins w) ih ?st env")
  have "if f = Next then I (usage_of st1) env1 else H (usage_of st1) env1"
    using run_nodes_inv [OF _ assms(3) [OF Inr] s] assms(1) by simp
  then show ?thesis
    using x assms(1,2) Inr s by (cases f) (auto simp: execute_def Let_def intro: halt split: if_splits)
qed

end

end
