(* ===== verification/ExecSafety.thy ===== *)
theory ExecSafety
  imports ExecInvariant
begin

section \<open>Budgets, artifact paths and approvals of a run\<close>

text \<open>
  The invariants themselves: each is an interpretation of \<open>run_inv\<close> on the executor's own
  configuration. For approvals the handlers and the callback are wrapped so that they keep a log.
\<close>

definition cap :: "int option \<Rightarrow> int \<Rightarrow> int \<Rightarrow> bool" where
  "cap m start x \<longleftrightarrow> (\<forall>k. m = Some k \<longrightarrow> x \<le> max k start)"

definition cap_tight :: "int option \<Rightarrow> int \<Rightarrow> bool" where
  "cap_tight m x \<longleftrightarrow> (\<forall>k. m = Some k \<longrightarrow> x \<le> k)"

interpretation files: run_inv cfg lts UNIV
  "\<lambda>u env. cap (lim_files lts) start (u_files u)"
  "\<lambda>n k u env. \<not> reached (lim_files lts) (u_files u)"
  "\<lambda>u env. cap (lim_files lts) start (u_files u)" for cfg lts start
  by unfold_locales (auto simp: cap_def reached_def in_budget_def split: option.splits)

interpretation tokens: run_inv cfg lts UNIV
  "\<lambda>u env. cap (lim_tokens lts) start (u_tokens u)"
  "\<lambda>n k u env. cap_tight (lim_tokens lts) (u_tokens u)"
  "\<lambda>u env. True" for cfg lts start
  by unfold_locales
    (auto simp: cap_def cap_tight_def reached_def exceeded_def in_budget_def split: option.splits)

interpretation steps: run_inv cfg lts "{n. allowed_attempts n \<le> r}"
  "\<lambda>u env. u_steps u \<le> max (lim_steps lts - 1 + int r) start"
  "\<lambda>n k u env. u_steps u \<le> lim_steps lts - 1 + int k"
  "\<lambda>u env. u_steps u \<le> max (lim_steps lts - 1 + int r) start" for cfg lts r start
  by unfold_locales (auto simp: in_budget_def)

subsection \<open>Artifact paths\<close>

definition produced_safely :: "bool \<Rightarrow> string list \<Rightarrow> usage \<Rightarrow> bool" where
  "produced_safely reviewed start u \<longleftrightarrow>
     (\<exists>new. u_artifacts u = start @ new \<and> (\<forall>p\<in>set new. safe_path p \<or> p = [] \<or> reviewed))"

lemma produced_safely_frame [simp]:
  "produced_safely b start (u\<lparr>u_steps := k\<rparr>) = produced_safely b start u"
  "produced_safely b start (u\<lparr>u_tokens := k\<rparr>) = produced_safely b start u"
  by (simp_all add: produced_safely_def)

lemma produced_safely_add:
  assumes "produced_safely b start u" "safe_path p \<or> p = [] \<or> b"
  shows "produced_safely b start (u\<lparr>u_artifacts := u_artifacts u @ [p], u_files := k\<rparr>)"
proof -
  obtain new where "u_artifacts u = start @ new" "\<forall>p\<in>set new. safe_path p \<or> p = [] \<or> b"
    using assms(1) by (auto simp: produced_safely_def)
  then show ?thesis
    using assms(2) unfolding produced_safely_def by (intro exI [of _ "new @ [p]"]) auto
qed

lemma check_artifact_None:
  "check_artifact n p = None \<longleftrightarrow> gated n \<or> p = [] \<or> safe_path p"
proof (cases "p = []")
  case True
  have "g_ok (evaluate_node_action n (Some [])) \<longleftrightarrow> may_auto_apply (node_class n)"
    by (auto simp: evaluate_node_action_def Let_def KNOWN_CLASSES_def AUTO_APPLY_def may_auto_apply_iff
        normalize_permission_class_def)
  with True show ?thesis by (auto simp: check_artifact_def gated_def Let_def)
next
  case False
  then show ?thesis by (auto simp: check_artifact_def gated_def gate_ok_write_iff Let_def)
qed

interpretation artifacts: run_inv cfg lts UNIV
  "\<lambda>u env. produced_safely (approval_cb cfg \<noteq> None) start u"
  "\<lambda>n k u env. produced_safely (approval_cb cfg \<noteq> None) start u \<and> (gated n \<longrightarrow> approval_cb cfg \<noteq> None)"
  "\<lambda>u env. produced_safely (approval_cb cfg \<noteq> None) start u" for cfg lts start
  by unfold_locales (auto simp: check_artifact_None intro: produced_safely_add)

subsection \<open>Approvals, observed through a log\<close>

type_synonym 'env logged = "'env \<times> wf_node list \<times> wf_node list"

definition log_handler :: "'env handler \<Rightarrow> 'env logged handler" where
  "log_handler h = (\<lambda>(env, called, appr) n ih rid.
     case h env n ih rid of (r, c, env') \<Rightarrow> (r, c, (env', n # called, appr)))"

definition log_approval ::
  "('env \<Rightarrow> wf_node \<Rightarrow> bool res \<times> bool \<times> 'env) \<Rightarrow> 'env logged \<Rightarrow> wf_node \<Rightarrow> bool res \<times> bool \<times> 'env logged" where
  "log_approval cb = (\<lambda>(env, called, appr) n.
     case cb env n of (r, c, env') \<Rightarrow> (r, c, (env', called, if r = Inr True then n # appr else appr)))"

definition logged :: "'env exec_cfg \<Rightarrow> 'env logged exec_cfg" where
  "logged cfg = \<lparr>handlers = List.map (\<lambda>(k, h). (k, log_handler h)) (handlers cfg),
     approval_cb = map_option log_approval (approval_cb cfg), sha256_hex = sha256_hex cfg,
     json_dumps = json_dumps cfg, str_of = str_of cfg\<rparr>"

definition approved_calls :: "'env logged \<Rightarrow> bool" where
  "approved_calls env \<longleftrightarrow>
     (case env of (_, called, appr) \<Rightarrow> \<forall>n\<in>set called. gated n \<longrightarrow> n \<in> set appr)"

definition cleared :: "wf_node \<Rightarrow> 'env logged \<Rightarrow> bool" where
  "cleared n env \<longleftrightarrow> approved_calls env \<and> (gated n \<longrightarrow> n \<in> set (snd (snd env)))"

lemma find_handler_logged:
  "find_handler (logged cfg) t = map_option log_handler (find_handler cfg t)"
  by (auto simp: find_handler_def logged_def map_of_map split: option.splits)

lemma invoke_logged:
  assumes "invoke (logged cfg) n ih rid env = (v, c, env')"
  shows "snd (snd env') = snd (snd env) \<and> set (fst (snd env')) \<subseteq> insert n (set (fst (snd env)))"
proof (cases "find_handler cfg (str_or (n_type n) ''summarize'')")
  case None
  then show ?thesis using assms by (auto simp: invoke_def find_handler_logged)
next
  case (Some h)
  then show ?thesis
    using assms by (cases env) (auto simp: invoke_def find_handler_logged log_handler_def split: prod.splits)
qed

lemma invoke_cleared: "cleared n env \<Longrightarrow> invoke (logged cfg) n ih rid env = (v, c, env') \<Longrightarrow> cleared n env'"
  using invoke_logged [of cfg n ih rid env v c env']
  by (cases env; cases env') (auto simp: cleared_def approved_calls_def)

lemma approval_logged:
  assumes "approval_cb (logged cfg) = Some cb" "cb env n = (r, c, env')" "approved_calls env"
  shows "approved_calls env' \<and> (r = Inr True \<longrightarrow> cleared n env')"
  using assms
  by (cases env) (auto simp: logged_def log_approval_def cleared_def approved_calls_def split: prod.splits)

lemma cleared_approved: "cleared n env \<Longrightarrow> approved_calls env"
  by (simp add: cleared_def)

lemma cleared_free: "approved_calls env \<Longrightarrow> \<not> gated n \<Longrightarrow> cleared n env"
  by (simp add: cleared_def)

interpretation approvals: run_inv "logged cfg" lts UNIV
  "\<lambda>u env. approved_calls env" "\<lambda>n k u env. cleared n env" "\<lambda>u env. approved_calls env" for cfg lts
  by unfold_locales
    (blast intro: cleared_free invoke_cleared dest: approval_logged cleared_approved)+

subsection \<open>The log changes nothing\<close>

definition forget :: "'a \<times> 's \<times> 'env logged \<Rightarrow> 'a \<times> 's \<times> 'env" where
  "forget r = (fst r, fst (snd r), fst (snd (snd r)))"

lemma forget_simp [simp]: "forget (a, s, env) = (a, s, fst env)"
  by (simp add: forget_def)

lemma logged_fields [simp]:
  "sha256_hex (logged cfg) = sha256_hex cfg" "json_dumps (logged cfg) = json_dumps cfg"
  "str_of (logged cfg) = str_of cfg" "approval_cb (logged cfg) = map_option log_approval (approval_cb cfg)"
  by (simp_all add: logged_def)

lemma cache_key_logged [simp]: "cache_key_for_node (logged cfg) n p ih = cache_key_for_node cfg n p ih"
  by (simp add: cache_key_for_node_def)

lemma forget_invoke: "forget (invoke (logged cfg) n ih rid env) = invoke cfg n ih rid (fst env)"
  by (cases env; cases "find_handler cfg (str_or (n_type n) ''summarize'')")
    (auto simp: invoke_def find_handler_logged noop_result_def log_handler_def split: prod.splits)

lemma accept_artifact_logged [simp]:
  "accept_artifact (logged cfg) n ck att v a st = accept_artifact cfg n ck att v a st"
  by (cases a) (auto simp: accept_artifact_def)

lemma accept_result_logged [simp]:
  "accept_result (logged cfg) lts n ck att v st = accept_result cfg lts n ck att v st"
  by (auto simp: accept_result_def Let_def split: sum.splits)

lemma forget_attempt:
  "forget (do_attempt (logged cfg) lts n ck ih att st env) = do_attempt cfg lts n ck ih att st (fst env)"
  using forget_invoke [of cfg n ih "rs_id st" env]
  by (cases "invoke (logged cfg) n ih (rs_id st) env")
    (auto simp: do_attempt_def Let_def split: prod.splits sum.splits)

lemma forget_attempts:
  "forget (run_attempts k (logged cfg) lts n ck ih att err st env)
     = run_attempts k cfg lts n ck ih att err st (fst env)"
proof (induction k arbitrary: att err st env)
  case (Suc k)
  show ?case
    using forget_attempt [of cfg lts n ck ih "att + 1" st env] Suc.IH
    by (cases "do_attempt (logged cfg) lts n ck ih (att + 1) st env")
      (auto split: prod.splits attempt_end.splits)
qed simp

lemma forget_run_node:
  "forget (run_node (logged cfg) lts pins ih n st env) = run_node cfg lts pins ih n st (fst env)"
  using forget_attempts [of "allowed_attempts n" cfg lts n "cache_key_for_node cfg n pins ih" ih 0 None st env]
  by (cases "run_attempts (allowed_attempts n) (logged cfg) lts n (cache_key_for_node cfg n pins ih) ih 0 None st env")
    (auto simp: run_node_def Let_def split: prod.splits)

lemma forget_ask: "forget (ask_approval (logged cfg) n st env) = ask_approval cfg n st (fst env)"
  by (cases env; cases "approval_cb cfg")
    (auto simp: ask_approval_def log_approval_def Let_def split: prod.splits sum.splits)

lemma forget_gate_node:
  "forget (gate_node (logged cfg) lts pins ih n st env) = gate_node cfg lts pins ih n st (fst env)"
  using forget_ask [of cfg n st env] forget_run_node [of cfg lts pins ih n]
  by (cases "ask_approval (logged cfg) n st env") (auto simp: gate_node_def split: prod.splits sum.splits)

lemma forget_node_step:
  "forget (node_step (logged cfg) lts resume pins ih n st env) = node_step cfg lts resume pins ih n st (fst env)"
  using forget_gate_node [of cfg lts pins ih n]
  by (auto simp: node_step_def Let_def split: option.splits)

lemma forget_run_nodes:
  "forget (run_nodes ns (logged cfg) lts resume pins ih st env) = run_nodes ns cfg lts resume pins ih st (fst env)"
proof (induction ns arbitrary: st env)
  case (Cons n ns)
  then show ?case
    using forget_node_step [of cfg lts resume pins ih n st env]
    by (cases "node_step (logged cfg) lts resume pins ih n st env") (auto split: prod.splits flow.splits)
qed simp

lemma forget_execute:
  "forget (execute (logged cfg) w ih resume st env) = execute cfg w ih resume st (fst env)"
proof (cases "read_limits (wf_budgets w)")
  case (Inr lts)
  note lts = Inr
  show ?thesis
  proof (cases "node_table (case wf_nodes w of None \<Rightarrow> [] | Some ns \<Rightarrow> ns)")
    case (Inr tbl)
    let ?st = "emit (RunStarted resume) (st\<lparr>rs_status := ''running''\<rparr>)"
    let ?ns = "plan tbl (edge_objs (wf_edges w))"
    show ?thesis
      using forget_run_nodes [of ?ns cfg lts resume "wf_pins w" ih ?st env] lts Inr
      by (cases "run_nodes ?ns (logged cfg) lts resume (wf_pins w) ih ?st env")
        (auto simp: execute_def Let_def split: prod.splits flow.splits)
  qed (simp add: execute_def lts)
qed (simp add: execute_def)

end
