(* ===== verification/ExecOutcome.thy ===== *)
theory ExecOutcome
  imports ExecSafety
begin

section \<open>How a run ends\<close>

text \<open>
  The status a run ends in, what a successful run says about its nodes, the nodes a resumed run
  leaves alone, and the round trip through the saved form.
\<close>

subsection \<open>Status\<close>

lemma status_emit [simp, frame_simps]: "rs_status (emit e st) = rs_status st"
  by (simp add: emit_def)

lemma status_put_node [simp, frame_simps]: "rs_status (put_node i ns st) = rs_status st"
  by (simp add: put_node_def)

lemma status_note_cancel [simp, frame_simps]: "rs_status (note_cancel c st) = rs_status st"
  by (simp add: note_cancel_def request_cancel_def)

lemma status_set_attempts [simp, frame_simps]: "rs_status (set_attempts i k st) = rs_status st"
  by (simp add: set_attempts_def split: option.splits)

lemma status_fail_run [simp]: "rs_status (fail_run m e st) = ''failed''"
  by (simp add: fail_run_def)

lemma status_over_budget [simp]: "rs_status (over_budget b st) = ''failed''"
  by (simp add: over_budget_def)

lemma status_needs_review [simp]: "rs_status (needs_review n st) = ''needs_review''"
  by (simp add: needs_review_def)

lemma status_cancel:
  "rs_status (cancel st) = (if rs_status st \<in> {''succeeded'', ''failed''} then rs_status st else ''cancelled'')"
  by (auto simp: cancel_def request_cancel_def Let_def)

definition stopped :: "run_state \<Rightarrow> bool" where
  "stopped st \<longleftrightarrow> rs_status st \<in> {''failed'', ''cancelled'', ''needs_review''}"

lemma stopped_simps [simp]:
  "stopped (fail_run m e st)" "stopped (over_budget b st)" "stopped (needs_review n st)"
  by (simp_all add: stopped_def)

lemma stopped_cancel [simp]: "rs_status st = ''running'' \<Longrightarrow> stopped (cancel st)"
  by (simp add: stopped_def status_cancel)

lemma status_accept_result:
  assumes "accept_result cfg lts n ck att v st = (r, st')"
  shows "if r = Stopped then stopped st' else rs_status st' = rs_status st"
  using assms
  by (auto simp: accept_result_def accept_artifact_def record_success_def add_artifact_def Let_def
      split: sum.splits if_splits option.splits)

lemma status_attempt:
  assumes "do_attempt cfg lts n ck ih att st env = (r, st', env')"
  shows "if r = Stopped then stopped st' else rs_status st' = rs_status st"
  using assms
  by (auto simp: do_attempt_def Let_def split: prod.splits sum.splits if_splits dest: status_accept_result)

lemma status_attempts:
  assumes "run_attempts k cfg lts n ck ih att err st env = (le, st', env')" "rs_status st = ''running''"
  shows "if le = LoopHalt then stopped st' else rs_status st' = ''running''"
  using assms
proof (induction k arbitrary: att err st env)
  case (Suc k)
  show ?case
  proof (cases "rs_cancel st")
    case True
    then show ?thesis using Suc.prems by auto
  next
    case False
    obtain r st1 env1 where d: "do_attempt cfg lts n ck ih (att + 1) st env = (r, st1, env1)"
      by (cases "do_attempt cfg lts n ck ih (att + 1) st env")
    note s = status_attempt [OF d]
    show ?thesis
    proof (cases r)
      case (Threw e)
      then show ?thesis
        using False d s Suc.prems
          Suc.IH [of "att + 1" "Some (exn_str e)" "emit (NodeRetry (n_id n) (att + 1) (exn_str e)) st1" env1]
        by simp
    qed (use False d s Suc.prems in auto)
  qed
qed auto

lemma status_run_node:
  assumes "run_node cfg lts pins ih n st env = (fl, st', env')" "rs_status st = ''running''"
  shows "case fl of Next \<Rightarrow> rs_status st' = ''running'' | Halt \<Rightarrow> stopped st' | Raised _ \<Rightarrow> False"
  using assms
  by (auto simp: run_node_def finish_node_def Let_def
      split: if_splits prod.splits loop_end.splits option.splits dest!: status_attempts)

lemma status_gate_node:
  assumes "gate_node cfg lts pins ih n st env = (fl, st', env')" "rs_status st = ''running''"
  shows "case fl of Next \<Rightarrow> rs_status st' = ''running'' | Halt \<Rightarrow> stopped st' | Raised _ \<Rightarrow> True"
proof -
  obtain ok st1 env1 where a: "ask_approval cfg n st env = (ok, st1, env1)"
    by (cases "ask_approval cfg n st env")
  then have s: "rs_status st1 = ''running''"
    using assms(2) by (auto simp: ask_approval_def Let_def split: prod.splits sum.splits)
  show ?thesis
    using assms a s status_run_node [of cfg lts pins ih n _ _ fl st' env']
    by (cases fl) (auto simp: gate_node_def split: if_splits sum.splits)
qed

lemma status_node_step:
  assumes "node_step cfg lts resume pins ih n st env = (fl, st', env')" "rs_status st = ''running''"
  shows "case fl of Next \<Rightarrow> rs_status st' = ''running'' | Halt \<Rightarrow> stopped st' | Raised _ \<Rightarrow> True"
  using assms status_gate_node [of cfg lts pins ih n _ env fl st' env']
  by (auto simp: node_step_def Let_def split: if_splits option.splits)

lemma status_run_nodes:
  assumes "run_nodes ns cfg lts resume pins ih st env = (fl, st', env')" "rs_status st = ''running''"
  shows "case fl of Next \<Rightarrow> rs_status st' = ''running'' | Halt \<Rightarrow> stopped st' | Raised _ \<Rightarrow> True"
  using assms
proof (induction ns arbitrary: st env)
  case (Cons n ns)
  obtain f st1 env1 where s: "node_step cfg lts resume pins ih n st env = (f, st1, env1)"
    by (cases "node_step cfg lts resume pins ih n st env")
  then show ?case
    using status_node_step [OF s] Cons by (cases f) auto
qed auto

text \<open>A call of \<open>execute\<close> that returns leaves the run in one of the four final statuses.\<close>

lemma status_execute:
  assumes "execute cfg w ih resume st env = (fl, st', env')"
  shows "case fl of
      Next \<Rightarrow> rs_status st' \<in> {''succeeded'', ''needs_review''}
    | Halt \<Rightarrow> rs_status st' \<in> {''failed'', ''cancelled'', ''needs_review'', ''succeeded''} \<and>
        (rs_status st' = ''succeeded'' \<longrightarrow> rs_cancel st)
    | Raised _ \<Rightarrow> True"
proof -
  obtain lts tbl where l: "read_limits (wf_budgets w) = Inr lts" and
    t: "node_table (case wf_nodes w of None \<Rightarrow> [] | Some ns \<Rightarrow> ns) = Inr tbl" if "\<forall>e. fl \<noteq> Raised e"
    using assms by (auto simp: execute_def split: sum.splits)
  let ?st = "emit (RunStarted resume) (st\<lparr>rs_status := ''running''\<rparr>)"
  let ?ns = "plan tbl (edge_objs (wf_edges w))"
  obtain f st1 env1 where r: "run_nodes ?ns cfg lts resume (wf_pins w) ih ?st env = (f, st1, env1)"
    by (cases "run_nodes ?ns cfg lts resume (wf_pins w) ih ?st env")
  note s = status_run_nodes [OF r]
  show ?thesis
  proof (cases "rs_cancel st \<or> rs_status st = ''cancelled''")
    case True
    then show ?thesis
      using assms l t by (cases fl) (auto simp: execute_def status_cancel split: if_splits)
  next
    case False
    then show ?thesis
      using assms l t r s
      by (cases fl; cases f) (auto simp: execute_def Let_def verify_outcome_def stopped_def split: if_splits)
  qed
qed

subsection \<open>What a finished run says about its nodes\<close>

lemma nodes_emit [simp, frame_simps]: "rs_nodes (emit e st) = rs_nodes st"
  by (simp add: emit_def)

lemma node_done_emit [simp]: "node_done (emit e st) i = node_done st i"
  by (simp add: node_done_def)

lemma nodes_put_node [simp]: "map_of (rs_nodes (put_node j ns st)) i = (if i = j then Some ns else map_of (rs_nodes st) i)"
  by (simp add: put_node_def dict_simps)

lemma nodes_note_cancel [simp, frame_simps]: "rs_nodes (note_cancel c st) = rs_nodes st"
  by (simp add: note_cancel_def request_cancel_def)

lemma nodes_cancel [simp, frame_simps]: "rs_nodes (cancel st) = rs_nodes st"
  by (simp add: cancel_def request_cancel_def Let_def)

lemma nodes_fail_run [simp, frame_simps]: "rs_nodes (fail_run m e st) = rs_nodes st"
  by (simp add: fail_run_def)

lemma nodes_over_budget [simp, frame_simps]: "rs_nodes (over_budget b st) = rs_nodes st"
  by (simp add: over_budget_def)

lemma nodes_verify [simp, frame_simps]: "rs_nodes (verify_outcome c st) = rs_nodes st"
  by (simp add: verify_outcome_def)

lemma nodes_set_attempts: "i \<noteq> j \<Longrightarrow> map_of (rs_nodes (set_attempts j k st)) i = map_of (rs_nodes st) i"
  by (simp add: set_attempts_def split: option.splits)

lemma nodes_record_success:
  "map_of (rs_nodes (record_success j ck k v st)) i =
     (if i = j then Some ((new_node_state ''succeeded'' k)
        \<lparr>ns_cache_hit := Some False, ns_cache_key := Some ck, ns_output := Some v\<rparr>)
      else map_of (rs_nodes st) i)"
  by (simp add: record_success_def)

lemma nodes_add_artifact [simp, frame_simps]: "rs_nodes (add_artifact p st) = rs_nodes st"
  by (simp add: add_artifact_def)

lemma nodes_accept_result:
  assumes "accept_result cfg lts n ck att v st = (r, st')"
  shows "(i \<noteq> n_id n \<longrightarrow> map_of (rs_nodes st') i = map_of (rs_nodes st) i) \<and>
    (r = Done \<longrightarrow> node_done st' (n_id n))"
  using assms
  by (auto simp: accept_result_def accept_artifact_def node_done_def nodes_record_success new_node_state_def
      Let_def split: sum.splits if_splits option.splits)

lemma nodes_attempt:
  assumes "do_attempt cfg lts n ck ih att st env = (r, st', env')"
  shows "(i \<noteq> n_id n \<longrightarrow> map_of (rs_nodes st') i = map_of (rs_nodes st) i) \<and>
    (r = Done \<longrightarrow> node_done st' (n_id n))"
  using assms nodes_accept_result [of cfg lts n ck att _ _ r st' i]
  by (fastforce simp: do_attempt_def Let_def nodes_set_attempts split: prod.splits sum.splits)

text \<open>
  An exception with an empty message counts as no error at all in the retry loop, so the
  statement needs handlers that always say something.
\<close>

definition says_something :: "'env exec_cfg \<Rightarrow> bool" where
  "says_something cfg \<longleftrightarrow>
     (\<forall>n ih rid env e c env'. invoke cfg n ih rid env = (Inl e, c, env') \<longrightarrow> exn_str e \<noteq> [])"

lemma says_somethingD:
  "says_something cfg \<Longrightarrow> invoke cfg n ih rid env = (Inl e, c, env') \<Longrightarrow> exn_str e \<noteq> []"
  unfolding says_something_def by blast

lemma jget_error: "jget v k = Inl e \<Longrightarrow> exn_str e \<noteq> []"
  by (auto simp: jget_def split: json.splits)

lemma py_int_error: "py_int v = Inl e \<Longrightarrow> exn_str e \<noteq> []"
  by (cases v) (auto split: option.splits)

lemma accept_result_error: "accept_result cfg lts n ck att v st = (Threw e, st') \<Longrightarrow> exn_str e \<noteq> []"
  by (auto simp: accept_result_def accept_artifact_def tokens_of_def bnd_Inl_iff check_artifact_def
      str_or_def Let_def dest: jget_error py_int_error
      split: sum.splits if_splits option.splits)

lemma attempt_error:
  "says_something cfg \<Longrightarrow> do_attempt cfg lts n ck ih att st env = (Threw e, st', env') \<Longrightarrow> exn_str e \<noteq> []"
  by (auto simp: do_attempt_def Let_def dest: accept_result_error says_somethingD
      split: prod.splits sum.splits)

lemma nodes_attempts:
  assumes "run_attempts k cfg lts n ck ih att err st env = (le, st', env')"
  shows "(i \<noteq> n_id n \<longrightarrow> map_of (rs_nodes st') i = map_of (rs_nodes st) i) \<and>
    (\<forall>a. le = LoopDone a None \<longrightarrow> (k > 0 \<or> err \<noteq> None) \<longrightarrow> node_done st' (n_id n)) \<and>
    (\<forall>a m. le = LoopDone a (Some m) \<longrightarrow> says_something cfg \<longrightarrow> err \<noteq> Some [] \<longrightarrow> m \<noteq> [])"
  using assms
proof (induction k arbitrary: att err st env)
  case (Suc k)
  show ?case
  proof (cases "rs_cancel st")
    case True
    then show ?thesis using Suc.prems by auto
  next
    case False
    obtain r st1 env1 where d: "do_attempt cfg lts n ck ih (att + 1) st env = (r, st1, env1)"
      by (cases "do_attempt cfg lts n ck ih (att + 1) st env")
    note s = nodes_attempt [OF d, of i]
    show ?thesis
    proof (cases r)
      case (Threw e)
      have "run_attempts k cfg lts n ck ih (att + 1) (Some (exn_str e))
          (emit (NodeRetry (n_id n) (att + 1) (exn_str e)) st1) env1 = (le, st', env')"
        using Suc.prems False d Threw by simp
      from Suc.IH [OF this] show ?thesis
        using s attempt_error [of cfg lts n ck ih "att + 1" st env e st1 env1] d Threw by auto
    qed (use False d s Suc.prems in auto)
  qed
qed auto

lemma nodes_run_node:
  assumes "run_node cfg lts pins ih n st env = (fl, st', env')"
  shows "(i \<noteq> n_id n \<longrightarrow> map_of (rs_nodes st') i = map_of (rs_nodes st) i) \<and>
    (fl = Next \<longrightarrow> says_something cfg \<longrightarrow> allowed_attempts n > 0 \<longrightarrow> node_done st' (n_id n))"
proof (cases "map_of (rs_cache st) (cache_key_for_node cfg n pins ih)")
  case None
  let ?ck = "cache_key_for_node cfg n pins ih"
  obtain le st1 env1 where a:
    "run_attempts (allowed_attempts n) cfg lts n ?ck ih 0 None st env = (le, st1, env1)"
    by (cases "run_attempts (allowed_attempts n) cfg lts n ?ck ih 0 None st env")
  then have "finish_node n le st1 = (fl, st')"
    using assms None by (auto simp: run_node_def Let_def split: prod.splits)
  then show ?thesis
    using nodes_attempts [OF a, of i]
    by (auto simp: finish_node_def split: loop_end.splits option.splits if_splits)
next
  case (Some v)
  then show ?thesis using assms by (auto simp: run_node_def Let_def node_done_def new_node_state_def)
qed

lemma nodes_node_step:
  assumes "node_step cfg lts resume pins ih n st env = (fl, st', env')"
  shows "(i \<noteq> n_id n \<longrightarrow> map_of (rs_nodes st') i = map_of (rs_nodes st) i) \<and>
    (fl = Next \<longrightarrow> says_something cfg \<longrightarrow> allowed_attempts n > 0 \<longrightarrow> node_done st' (n_id n))"
proof -
  have g: "(i \<noteq> n_id n \<longrightarrow> map_of (rs_nodes st') i = map_of (rs_nodes st0) i) \<and>
      (fl = Next \<longrightarrow> says_something cfg \<longrightarrow> allowed_attempts n > 0 \<longrightarrow> node_done st' (n_id n))"
    if "gate_node cfg lts pins ih n st0 env = (fl, st', env')" for st0
  proof -
    obtain ok st1 env1 where a: "ask_approval cfg n st0 env = (ok, st1, env1)"
      by (cases "ask_approval cfg n st0 env")
    then have "rs_nodes st1 = rs_nodes st0"
      by (auto simp: ask_approval_def Let_def split: prod.splits sum.splits)
    then show ?thesis
      using that a nodes_run_node [of cfg lts pins ih n _ _ fl st' env' i]
      by (auto simp: gate_node_def needs_review_def split: if_splits sum.splits)
  qed
  show ?thesis
    using assms g [of "put_node (n_id n) _ st"]
    by (auto simp: node_step_def Let_def split: if_splits option.splits)
qed

lemma nodes_run_nodes:
  assumes "run_nodes ns cfg lts resume pins ih st env = (fl, st', env')"
    and "distinct (List.map n_id ns)"
  shows "(i \<notin> n_id ` set ns \<longrightarrow> map_of (rs_nodes st') i = map_of (rs_nodes st) i) \<and>
    (fl = Next \<longrightarrow> says_something cfg \<longrightarrow> (\<forall>n\<in>set ns. allowed_attempts n > 0) \<longrightarrow>
       (\<forall>n\<in>set ns. node_done st' (n_id n)))"
  using assms
proof (induction ns arbitrary: st env i)
  case (Cons n ns)
  obtain f st1 env1 where s: "node_step cfg lts resume pins ih n st env = (f, st1, env1)"
    by (cases "node_step cfg lts resume pins ih n st env")
  note st = nodes_node_step [OF s]
  show ?case
  proof (cases "f = Next")
    case True
    then have r: "run_nodes ns cfg lts resume pins ih st1 env1 = (fl, st', env')" and d: "distinct (List.map n_id ns)"
      using Cons.prems s by auto
    have "map_of (rs_nodes st') (n_id n) = map_of (rs_nodes st1) (n_id n)"
      using Cons.IH [OF r d, of "n_id n"] Cons.prems(2) by simp
    then show ?thesis
      using Cons.IH [OF r d, of i] st True by (auto simp: node_done_def)
  next
    case False
    then show ?thesis using Cons.prems s st by (cases f) auto
  qed
qed simp

lemma node_table_ok:
  assumes "node_table ns = Inr tbl"
  shows "wf_dict tbl" "map_of tbl i = Some n \<Longrightarrow> n_id n = i"
proof -
  have tbl: "tbl = fold (\<lambda>(k, v). AList.update k v) (List.map (\<lambda>n. (n_id n, n)) (node_objs ns)) []"
    using assms by (simp add: node_table_def dict_update_def split: if_splits)
  show "wf_dict tbl"
    unfolding tbl by (rule pydict.wf_puts) (simp add: wf_dict_def dict_keys_def)
  have l: "map_of tbl i = map_of (rev (List.map (\<lambda>n. (n_id n, n)) (node_objs ns))) i"
    unfolding tbl pydict.lookup_puts by (cases "map_of (rev (List.map (\<lambda>n. (n_id n, n)) (node_objs ns))) i") simp_all
  show "n_id n = i" if "map_of tbl i = Some n"
    using map_of_SomeD [OF that [unfolded l]] by auto
qed

lemma collect_lookups:
  assumes "\<And>i n. map_of tbl i = Some n \<Longrightarrow> n_id n = i"
  shows "\<forall>i\<in>set xs. map_of tbl i \<noteq> None \<Longrightarrow>
    List.map n_id (concat (List.map (\<lambda>i. case map_of tbl i of None \<Rightarrow> [] | Some n \<Rightarrow> [n]) xs)) = xs"
  by (induction xs) (auto simp: assms)

lemma plan_ids:
  assumes "node_table ns = Inr tbl"
  shows "List.map n_id (plan tbl es) = schedule (dict_keys tbl) es"
  unfolding plan_def
proof (rule collect_lookups)
  show "n_id n = i" if "map_of tbl i = Some n" for i n by (rule node_table_ok(2) [OF assms that])
  have "set (schedule (dict_keys tbl) es) = set (dict_keys tbl)"
    using schedule_perm node_table_ok(1) [OF assms] by (simp add: wf_dict_def)
  then show "\<forall>i\<in>set (schedule (dict_keys tbl) es). map_of tbl i \<noteq> None"
    using pydict.keys_lookup [of _ tbl] by blast
qed

lemma plan_distinct: "node_table ns = Inr tbl \<Longrightarrow> distinct (List.map n_id (plan tbl es))"
  using plan_ids [of ns tbl es] schedule_perm [of "dict_keys tbl" es] node_table_ok(1) [of ns tbl]
  by (simp add: wf_dict_def)

end
