(* ===== verification/ExecResume.thy ===== *)
theory ExecResume
  imports ExecOutcome
begin

section \<open>Resuming, cancelling, saving\<close>

text \<open>
  A resumed run leaves the nodes that already succeeded alone: they are not handed to a handler
  and keep their state. The calls are observed through the log of \<open>ExecSafety\<close>.
\<close>

definition skips :: "wf_node list \<Rightarrow> run_state \<Rightarrow> run_state" where
  "skips ns st = st\<lparr>rs_events := rs_events st @ List.map (\<lambda>n. NodeSkippedResume (n_id n)) ns\<rparr>"

lemma run_nodes_all_done:
  "\<not> rs_cancel st \<Longrightarrow> \<forall>n\<in>set ns. node_done st (n_id n) \<Longrightarrow>
   run_nodes ns cfg lts True pins ih st env = (Next, skips ns st, env)"
proof (induction ns arbitrary: st)
  case Nil
  then show ?case by (simp add: skips_def)
next
  case (Cons n ns)
  let ?st = "emit (NodeSkippedResume (n_id n)) st"
  have "node_step cfg lts True pins ih n st env = (Next, ?st, env)"
    using Cons.prems by (simp add: node_step_def)
  moreover have "run_nodes ns cfg lts True pins ih ?st env = (Next, skips ns ?st, env)"
    by (rule Cons.IH) (use Cons.prems in \<open>auto simp: emit_def node_done_def\<close>)
  ultimately show ?case by (simp add: skips_def emit_def)
qed

subsection \<open>Which handlers a run calls\<close>

definition called :: "'env logged \<Rightarrow> wf_node set" where
  "called env = set (fst (snd env))"

lemma called_approval:
  "approval_cb (logged cfg) = Some cb \<Longrightarrow> cb env n = (r, c, env') \<Longrightarrow> called env' = called env"
  by (cases env) (auto simp: logged_def log_approval_def called_def split: prod.splits)

lemma called_invoke:
  "invoke (logged cfg) n ih rid env = (v, c, env') \<Longrightarrow> called env' \<subseteq> insert n (called env)"
  using invoke_logged [of cfg n ih rid env v c env'] by (auto simp: called_def)

interpretation calls: run_inv "logged cfg" lts N
  "\<lambda>u env. called env \<subseteq> C \<union> N" "\<lambda>n k u env. called env \<subseteq> C \<union> N" "\<lambda>u env. called env \<subseteq> C \<union> N"
  for cfg lts N C
  by unfold_locales (blast dest: called_approval called_invoke | fast dest: called_approval called_invoke)+

lemma calls_node_step:
  assumes "node_step (logged cfg) lts True pins ih n st env = (fl, st', env')"
  shows "called env' \<subseteq> called env \<union> {n} \<and> (node_done st (n_id n) \<longrightarrow> env' = env)"
proof -
  have "called env' \<subseteq> called env \<union> {n}"
    using calls.node_step_inv [of env "called env" "{n}" n cfg lts True pins ih st fl st' env'] assms
    by (auto split: if_splits)
  then show ?thesis using assms by (auto simp: node_step_def split: if_splits)
qed

lemma calls_run_nodes:
  assumes "run_nodes ns (logged cfg) lts True pins ih st env = (fl, st', env')"
    and "distinct (List.map n_id ns)"
  shows "called env' \<subseteq> called env \<union> {n \<in> set ns. \<not> node_done st (n_id n)} \<and>
    (\<forall>n\<in>set ns. node_done st (n_id n) \<longrightarrow> map_of (rs_nodes st') (n_id n) = map_of (rs_nodes st) (n_id n))"
  using assms
proof (induction ns arbitrary: st env)
  case (Cons n ns)
  obtain f st1 env1 where s: "node_step (logged cfg) lts True pins ih n st env = (f, st1, env1)"
    by (cases "node_step (logged cfg) lts True pins ih n st env")
  note c = calls_node_step [OF s]
  have same: "map_of (rs_nodes st1) (n_id m) = map_of (rs_nodes st) (n_id m)"
    if "m \<in> set ns" for m
    using nodes_node_step [OF s, of "n_id m"] that Cons.prems(2) by (auto simp: image_iff)
  have keep: "map_of (rs_nodes st1) (n_id n) = map_of (rs_nodes st) (n_id n)" if "node_done st (n_id n)"
    using s that by (auto simp: node_step_def split: if_splits)
  show ?case
  proof (cases "f = Next")
    case True
    then have r: "run_nodes ns (logged cfg) lts True pins ih st1 env1 = (fl, st', env')"
      and d: "distinct (List.map n_id ns)"
      using Cons.prems s by auto
    have last: "map_of (rs_nodes st') (n_id n) = map_of (rs_nodes st1) (n_id n)"
      using nodes_run_nodes [OF r d, of "n_id n"] Cons.prems(2) by simp
    have dn: "node_done st1 (n_id m) = node_done st (n_id m)" if "m \<in> set ns" for m
      using same [OF that] by (simp add: node_done_def)
    have "called env' \<subseteq> called env1 \<union> {m \<in> set ns. \<not> node_done st (n_id m)}"
      using Cons.IH [OF r d] dn by auto
    moreover have "called env1 \<subseteq> called env \<union> {m \<in> {n}. \<not> node_done st (n_id m)}"
      using c by (cases "node_done st (n_id n)") auto
    ultimately have "called env' \<subseteq> called env \<union> {m \<in> set (n # ns). \<not> node_done st (n_id m)}"
      by auto
    moreover have "map_of (rs_nodes st') (n_id m) = map_of (rs_nodes st) (n_id m)"
      if "m \<in> set (n # ns)" "node_done st (n_id m)" for m
      using that Cons.IH [OF r d] dn same last keep by auto
    ultimately show ?thesis by blast
  next
    case False
    then have "st' = st1" "env' = env1" using Cons.prems s by (cases f; simp)+
    moreover have "called env1 \<subseteq> called env \<union> {m \<in> {n}. \<not> node_done st (n_id m)}"
      using c by (cases "node_done st (n_id n)") auto
    ultimately show ?thesis using same keep by auto
  qed
qed simp

subsection \<open>A run that went through, resumed\<close>

definition table_of :: "workflow \<Rightarrow> wf_node dict res" where
  "table_of w = node_table (case wf_nodes w of None \<Rightarrow> [] | Some ns \<Rightarrow> ns)"

definition plan_of :: "workflow \<Rightarrow> wf_node list" where
  "plan_of w = (case table_of w of Inl _ \<Rightarrow> [] | Inr tbl \<Rightarrow> plan tbl (edge_objs (wf_edges w)))"

lemma plan_of_distinct: "distinct (List.map n_id (plan_of w))"
  by (auto simp: plan_of_def table_of_def split: sum.splits intro: plan_distinct)

lemma execute_Next:
  assumes "execute cfg w ih resume st env = (Next, st', env')"
  obtains lts tbl st1 where "read_limits (wf_budgets w) = Inr lts" "table_of w = Inr tbl"
    "\<not> rs_cancel st" "rs_status st \<noteq> ''cancelled''" "EdgeNonObject \<notin> set (wf_edges w)"
    "run_nodes (plan_of w) cfg lts resume (wf_pins w) ih
        (emit (RunStarted resume) (st\<lparr>rs_status := ''running''\<rparr>)) env = (Next, st1, env')"
    "st' = verify_outcome (wf_criteria w) st1"
proof -
  obtain lts where l: "read_limits (wf_budgets w) = Inr lts"
    using assms by (cases "read_limits (wf_budgets w)") (auto simp: execute_def)
  obtain tbl where t: "node_table (case wf_nodes w of None \<Rightarrow> [] | Some ns \<Rightarrow> ns) = Inr tbl"
    using assms l by (cases "node_table (case wf_nodes w of None \<Rightarrow> [] | Some ns \<Rightarrow> ns)") (auto simp: execute_def)
  have p: "plan_of w = plan tbl (edge_objs (wf_edges w))"
    by (simp add: plan_of_def table_of_def t)
  let ?st = "emit (RunStarted resume) (st\<lparr>rs_status := ''running''\<rparr>)"
  obtain f st1 env1 where r: "run_nodes (plan_of w) cfg lts resume (wf_pins w) ih ?st env = (f, st1, env1)"
    by (cases "run_nodes (plan_of w) cfg lts resume (wf_pins w) ih ?st env")
  have c: "\<not> (rs_cancel st \<or> rs_status st = ''cancelled'')" and e: "EdgeNonObject \<notin> set (wf_edges w)"
    using assms l t by (auto simp: execute_def Let_def split: if_splits)
  have "f = Next \<and> env1 = env' \<and> st' = verify_outcome (wf_criteria w) st1"
    using assms l t c e r p by (cases f) (auto simp: execute_def Let_def)
  then show thesis using that l t c e r by (simp add: table_of_def)
qed

lemma all_done:
  assumes "execute cfg w ih resume st env = (Next, st', env')"
    and "says_something cfg" "\<forall>n\<in>set (plan_of w). allowed_attempts n > 0" "n \<in> set (plan_of w)"
  shows "node_done st' (n_id n)"
proof -
  obtain lts tbl st1 where r: "run_nodes (plan_of w) cfg lts resume (wf_pins w) ih
        (emit (RunStarted resume) (st\<lparr>rs_status := ''running''\<rparr>)) env = (Next, st1, env')"
    and v: "st' = verify_outcome (wf_criteria w) st1"
    using assms(1) by (rule execute_Next)
  have "node_done st1 (n_id n)"
    using nodes_run_nodes [OF r plan_of_distinct] assms(2-4) by blast
  then show ?thesis by (simp add: v node_done_def)
qed

lemma resumed_run:
  assumes "read_limits (wf_budgets w) = Inr lts" "table_of w = Inr tbl" "EdgeNonObject \<notin> set (wf_edges w)"
    and "\<not> rs_cancel st" "rs_status st \<noteq> ''cancelled''"
    and "\<forall>n\<in>set (plan_of w). node_done st (n_id n)"
  shows "execute cfg w ih True st env =
    (Next, verify_outcome (wf_criteria w)
       (skips (plan_of w) (emit (RunStarted True) (st\<lparr>rs_status := ''running''\<rparr>))), env)"
proof -
  let ?st = "emit (RunStarted True) (st\<lparr>rs_status := ''running''\<rparr>)"
  have p: "plan_of w = plan tbl (edge_objs (wf_edges w))"
    using assms(2) by (simp add: plan_of_def)
  have "run_nodes (plan_of w) cfg lts True (wf_pins w) ih ?st env = (Next, skips (plan_of w) ?st, env)"
    by (rule run_nodes_all_done) (use assms(4,6) in \<open>auto simp: emit_def node_done_def\<close>)
  then show ?thesis
    using assms(1-5) p by (simp add: execute_def Let_def table_of_def)
qed

lemma verify_outcome_cancel [simp]: "rs_cancel (verify_outcome c st) = rs_cancel st"
  by (simp add: verify_outcome_def emit_def)

lemma usage_skips [simp]: "usage_of (skips ns st) = usage_of st"
  by (simp add: usage_of_def skips_def)

lemma verify_outcome_status:
  "rs_status (verify_outcome c st) =
     (if c \<noteq> [] \<and> rs_artifacts st = [] then ''needs_review'' else ''succeeded'')"
  by (simp add: verify_outcome_def)

subsection \<open>Saving and restoring\<close>

lemma from_to_dict: "rs_status st \<noteq> [] \<Longrightarrow> from_dict (to_dict st) = st\<lparr>rs_cache := []\<rparr>"
  by (cases st) (simp add: from_dict_def to_dict_def or_default_def)

lemma cancelled_execute:
  assumes "rs_cancel st \<or> rs_status st = ''cancelled''"
    and "read_limits (wf_budgets w) = Inr lts" "table_of w = Inr tbl"
  shows "execute cfg w ih resume st env = (Halt, cancel st, env)"
  using assms by (simp add: execute_def table_of_def)

end
