(* ===== verification/ExecutorCorrect.thy ===== *)
theory ExecutorCorrect
  imports ExecResume
begin

section \<open>Correctness of the executor\<close>

text \<open>
  The properties of \<open>DagExecutor.execute\<close> over its model, each from the lemmas of the previous
  theories, and a small workflow on which their hypotheses hold.
\<close>

subsection \<open>A concrete run\<close>

definition demo_node :: "string \<Rightarrow> string \<Rightarrow> wf_node" where
  "demo_node i cls = \<lparr>n_id = i, n_type = Some ''write'', n_title = Some i, n_perm = Some cls,
     n_idem = None, n_cache = Some i, n_timeout = None, n_retry_max = Some 1, n_review_loop = JNull\<rparr>"

definition demo_handler :: "unit handler" where
  "demo_handler = (\<lambda>env n ih rid.
     (Inr (JObj [(''tokens_used'', JInt 5), (''artifact_path'', JStr (''artifacts/'' @ n_id n))]), False, env))"

definition demo_cfg :: "unit exec_cfg" where
  "demo_cfg = \<lparr>handlers = [(''*'', demo_handler)], approval_cb = None,
     sha256_hex = (\<lambda>s. s), json_dumps = (\<lambda>_. []), str_of = (\<lambda>_. ''x'')\<rparr>"

definition demo_reviewer :: "unit exec_cfg" where
  "demo_reviewer = demo_cfg\<lparr>approval_cb := Some (\<lambda>env n. (Inr True, False, env))\<rparr>"

definition demo_workflow :: "string \<Rightarrow> workflow" where
  "demo_workflow cls = \<lparr>wf_id = ''w'', wf_title = ''t'', wf_pack = ''p'', wf_statement = ''s'', wf_pins = [],
     wf_nodes = Some [NodeObj (demo_node ''b'' ''safe_overlay''), NodeObj (demo_node ''a'' cls)],
     wf_edges = [EdgeObj \<lparr>e_id = ''e'', e_from = ''a:out'', e_to = ''b:in'', e_kind = ''data''\<rparr>],
     wf_budgets = JObj [(''max_steps'', JInt 5), (''max_tokens'', JInt 20), (''max_generated_files'', JInt 3)],
     wf_criteria = [''done''], wf_notes = None\<rparr>"

definition demo_run :: run_state where
  "demo_run = new_run ''r'' ''w''"

definition demo_limits :: limits where
  "demo_limits = \<lparr>lim_steps = 5, lim_tokens = Some 20, lim_files = Some 3\<rparr>"

lemma demo_limits: "read_limits (wf_budgets (demo_workflow c)) = Inr demo_limits"
  by (simp add: demo_workflow_def read_limits_def demo_limits_def jor_def jget_def dget_def opt_int_def)

lemma demo_result:
  "(case execute demo_cfg (demo_workflow ''read'') ''h'' True demo_run () of (fl, st, _) \<Rightarrow>
     fl = Next \<and> rs_status st = ''succeeded'' \<and> rs_artifacts st = [''artifacts/a'', ''artifacts/b''] \<and>
     rs_steps st = 2 \<and> rs_tokens st = 10 \<and> rs_files st = 2)"
  by code_simp

lemma demo_invoke: "invoke demo_cfg n ih rid env \<noteq> (Inl e, c, env')"
proof -
  have "find_handler demo_cfg t = Some demo_handler" for t
    by (simp add: find_handler_def demo_cfg_def)
  then show ?thesis by (simp add: invoke_def demo_handler_def)
qed

definition end_of :: "flow \<times> run_state \<times> 'env \<Rightarrow> run_state" where
  "end_of r = fst (snd r)"

definition env_of :: "flow \<times> run_state \<times> 'env \<Rightarrow> 'env" where
  "env_of r = snd (snd r)"

lemma result_eqI: "r = (fst r, end_of r, env_of r)"
  by (simp add: end_of_def env_of_def)

lemma log_eqI: "r = (fst r, end_of r, (fst (env_of r), fst (snd (env_of r)), snd (snd (env_of r))))"
  by (simp add: end_of_def env_of_def)

subsection \<open>Approval and overlay\<close>

text \<open>C1: a node whose permission class is not auto-applied never reaches its handler unless the
  approval callback said yes to that node. The run is observed through handlers and a callback
  that keep a log; the second half says that the log changes nothing of the run.\<close>

theorem gated_nodes_need_approval:
  assumes "execute (logged cfg) w ih resume st (env, [], []) = (fl, st', (env', calls, appr))"
    and "read_limits (wf_budgets w) = Inr lts"
  shows "(\<forall>n\<in>set calls. \<not> may_auto_apply (node_class n) \<longrightarrow> n \<in> set appr) \<and>
    execute cfg w ih resume st env = (fl, st', env')"
proof
  have "if fl = Next then approved_calls (env', calls, appr) else approved_calls (env', calls, appr)"
    by (rule approvals.execute_inv [OF _ assms(2) _ assms(1)]) (simp_all add: approved_calls_def)
  then show "\<forall>n\<in>set calls. \<not> may_auto_apply (node_class n) \<longrightarrow> n \<in> set appr"
    by (simp add: approved_calls_def gated_def)
  show "execute cfg w ih resume st env = (fl, st', env')"
    using forget_execute [of cfg w ih resume st "(env, [], [])"] assms(1) by simp
qed

theorem gated_nodes_need_approval_witness:
  "let r = execute (logged demo_reviewer) (demo_workflow ''publish'') ''h'' True demo_run ((), [], []) in
   demo_node ''a'' ''publish'' \<in> set (snd (snd (env_of r))) \<and>
   (\<forall>n\<in>set (fst (snd (env_of r))). \<not> may_auto_apply (node_class n) \<longrightarrow> n \<in> set (snd (snd (env_of r)))) \<and>
   execute demo_reviewer (demo_workflow ''publish'') ''h'' True demo_run () = (fst r, end_of r, fst (env_of r))"
proof -
  let ?r = "execute (logged demo_reviewer) (demo_workflow ''publish'') ''h'' True demo_run ((), [], [])"
  note t = gated_nodes_need_approval [OF log_eqI demo_limits,
    of demo_reviewer "''publish''" "''h''" True demo_run "()"]
  have "demo_node ''a'' ''publish'' \<in> set (snd (snd (env_of ?r)))" by code_simp
  with t show ?thesis unfolding Let_def by blast
qed

text \<open>C6: without an approval callback every artifact path a run records lies safely under one of
  the overlay prefixes, and what was recorded before the run is kept.\<close>

theorem recorded_paths_are_safe:
  assumes "execute cfg w ih resume st env = (fl, st', env')"
    and "read_limits (wf_budgets w) = Inr lts" "approval_cb cfg = None"
  shows "\<exists>new. rs_artifacts st' = rs_artifacts st @ new \<and> (\<forall>p\<in>set new. safe_path p \<or> p = [])"
proof -
  have "if fl = Next then produced_safely (approval_cb cfg \<noteq> None) (rs_artifacts st) (usage_of st')
    else produced_safely (approval_cb cfg \<noteq> None) (rs_artifacts st) (usage_of st')"
    by (rule artifacts.execute_inv [OF _ assms(2) _ assms(1)]) (simp_all add: produced_safely_def)
  then show ?thesis using assms(3) by (auto simp: produced_safely_def)
qed

theorem recorded_paths_are_safe_witness:
  "\<exists>new. rs_artifacts (end_of (execute demo_cfg (demo_workflow ''read'') ''h'' True demo_run ())) = [] @ new \<and>
     (\<forall>p\<in>set new. safe_path p \<or> p = [])"
  using recorded_paths_are_safe [OF result_eqI demo_limits, of demo_cfg "''read''" "''h''" True demo_run "()"]
  by (simp add: demo_cfg_def demo_run_def new_run_def)

subsection \<open>Budgets\<close>

text \<open>C23: a run never records more generated files than its budget allows; a run resumed beyond
  the budget records no further one.\<close>

theorem files_within_budget:
  assumes "execute cfg w ih resume st env = (fl, st', env')"
    and "read_limits (wf_budgets w) = Inr lts" "lim_files lts = Some k"
  shows "rs_files st' \<le> max k (rs_files st)"
proof -
  have "if fl = Next then cap (lim_files lts) (rs_files st) (u_files (usage_of st'))
    else cap (lim_files lts) (rs_files st) (u_files (usage_of st'))"
    by (rule files.execute_inv [OF _ assms(2) _ assms(1)]) (simp_all add: cap_def)
  then show ?thesis using assms(3) by (simp add: cap_def)
qed

theorem files_within_budget_witness:
  "rs_files (end_of (execute demo_cfg (demo_workflow ''read'') ''h'' True demo_run ())) \<le> 3"
  using files_within_budget [OF result_eqI demo_limits, of 3 demo_cfg "''read''" "''h''" True demo_run "()"]
  by (simp add: demo_limits_def demo_run_def new_run_def)

text \<open>C24: a run that went through all its nodes stayed within the token budget (a run that ends
  early may have overspent by its last call).\<close>

theorem tokens_within_budget:
  assumes "execute cfg w ih resume st env = (Next, st', env')"
    and "read_limits (wf_budgets w) = Inr lts" "lim_tokens lts = Some k"
  shows "rs_tokens st' \<le> max k (rs_tokens st)"
proof -
  have "if Next = Next then cap (lim_tokens lts) (rs_tokens st) (u_tokens (usage_of st')) else True"
    by (rule tokens.execute_inv [OF _ assms(2) _ assms(1)]) (simp_all add: cap_def)
  then show ?thesis using assms(3) by (simp add: cap_def)
qed

theorem tokens_within_budget_witness:
  "fst (execute demo_cfg (demo_workflow ''read'') ''h'' True demo_run ()) = Next \<and>
   rs_tokens (end_of (execute demo_cfg (demo_workflow ''read'') ''h'' True demo_run ())) \<le> 20"
proof -
  let ?r = "execute demo_cfg (demo_workflow ''read'') ''h'' True demo_run ()"
  have n: "fst ?r = Next" by code_simp
  then have "?r = (Next, end_of ?r, env_of ?r)" using result_eqI [of ?r] by simp
  from tokens_within_budget [OF this demo_limits, of 20] n show ?thesis
    by (simp add: demo_limits_def demo_run_def new_run_def)
qed

text \<open>C25: the number of handler calls: the step budget is tested once per node, so the retries of
  the last node can pass it, but by no more than its retry limit.\<close>

theorem steps_within_budget:
  assumes "execute cfg w ih resume st env = (fl, st', env')"
    and "read_limits (wf_budgets w) = Inr lts"
    and "\<forall>n\<in>set (plan_of w). allowed_attempts n \<le> r"
  shows "rs_steps st' \<le> max (lim_steps lts - 1 + int r) (rs_steps st)"
proof -
  have "if fl = Next then u_steps (usage_of st') \<le> max (lim_steps lts - 1 + int r) (rs_steps st)
    else u_steps (usage_of st') \<le> max (lim_steps lts - 1 + int r) (rs_steps st)"
    by (rule steps.execute_inv [OF _ assms(2) _ assms(1)])
      (use assms(3) in \<open>auto simp: plan_of_def table_of_def\<close>)
  then show ?thesis by simp
qed

theorem steps_within_budget_witness:
  "rs_steps (end_of (execute demo_cfg (demo_workflow ''read'') ''h'' True demo_run ())) \<le> 6"
proof -
  have "\<forall>n\<in>set (plan_of (demo_workflow ''read'')). allowed_attempts n \<le> 2" by code_simp
  from steps_within_budget [OF result_eqI demo_limits this, of demo_cfg "''h''" True demo_run "()"]
  show ?thesis by (simp add: demo_limits_def demo_run_def new_run_def)
qed

subsection \<open>How a run ends\<close>

text \<open>C28: a call of \<open>execute\<close> that returns leaves the run in one of the four final statuses; when
  it went through every node that is success or a request for review, and an early end is
  reported as a success only for a run that had succeeded already and was asked to cancel.\<close>

theorem run_ends_in_final_status:
  "case execute cfg w ih resume st env of (fl, st', _) \<Rightarrow>
     (case fl of
        Next \<Rightarrow> rs_status st' \<in> {''succeeded'', ''needs_review''}
      | Halt \<Rightarrow> rs_status st' \<in> {''failed'', ''cancelled'', ''needs_review'', ''succeeded''} \<and>
          (rs_status st' = ''succeeded'' \<longrightarrow> rs_cancel st)
      | Raised _ \<Rightarrow> True)"
  by (auto split: prod.splits dest!: status_execute)

theorem run_ends_in_final_status_witness:
  "rs_status (end_of (execute demo_cfg (demo_workflow ''shell'') ''h'' True demo_run ())) = ''needs_review'' \<and>
   (case execute demo_cfg (demo_workflow ''shell'') ''h'' True demo_run () of (fl, st', _) \<Rightarrow> fl = Halt \<and>
     (case fl of
        Next \<Rightarrow> rs_status st' \<in> {''succeeded'', ''needs_review''}
      | Halt \<Rightarrow> rs_status st' \<in> {''failed'', ''cancelled'', ''needs_review'', ''succeeded''} \<and>
          (rs_status st' = ''succeeded'' \<longrightarrow> rs_cancel demo_run)
      | Raised _ \<Rightarrow> True))"
proof -
  let ?r = "execute demo_cfg (demo_workflow ''shell'') ''h'' True demo_run ()"
  have "fst ?r = Halt" "rs_status (end_of ?r) = ''needs_review''" by code_simp+
  then show ?thesis
    using run_ends_in_final_status [where cfg = demo_cfg and w = "demo_workflow ''shell''" and ih = "''h''"
        and resume = True and st = demo_run and env = "()"]
    by (auto simp: end_of_def split: prod.splits)
qed

text \<open>C13: when handlers never raise an exception with an empty message, a run that went through
  has every node of the plan in state succeeded.\<close>

theorem completed_run_has_all_nodes:
  assumes "execute cfg w ih resume st env = (Next, st', env')"
    and "\<And>n ih rid env e c env'. invoke cfg n ih rid env = (Inl e, c, env') \<Longrightarrow> exn_str e \<noteq> []"
    and "\<And>n. n \<in> set (plan_of w) \<Longrightarrow> allowed_attempts n > 0"
  shows "\<forall>n\<in>set (plan_of w). node_done st' (n_id n)"
  using all_done [OF assms(1)] assms(2,3) by (auto simp: says_something_def)

theorem completed_run_has_all_nodes_witness:
  "node_done (end_of (execute demo_cfg (demo_workflow ''read'') ''h'' True demo_run ())) ''a'' \<and>
   node_done (end_of (execute demo_cfg (demo_workflow ''read'') ''h'' True demo_run ())) ''b''"
proof -
  let ?r = "execute demo_cfg (demo_workflow ''read'') ''h'' True demo_run ()"
  have "fst ?r = Next" by code_simp
  then have r: "?r = (Next, end_of ?r, env_of ?r)" using result_eqI [of ?r] by simp
  have p: "List.map n_id (plan_of (demo_workflow ''read'')) = [''a'', ''b'']"
    and a: "list_all (\<lambda>n. allowed_attempts n > 0) (plan_of (demo_workflow ''read''))" by code_simp+
  have "\<forall>n\<in>set (plan_of (demo_workflow ''read'')). node_done (end_of ?r) (n_id n)"
    by (rule completed_run_has_all_nodes [OF r]) (use a in \<open>auto simp: demo_invoke list_all_iff\<close>)
  then have "\<forall>i\<in>set (List.map n_id (plan_of (demo_workflow ''read''))). node_done (end_of ?r) i" by simp
  then show ?thesis unfolding p by simp
qed

definition silent_cfg :: "unit exec_cfg" where
  "silent_cfg = demo_cfg\<lparr>handlers := [(''*'', \<lambda>env n ih rid. (Inl (AssertionError []), False, env))]\<rparr>"

text \<open>The hypothesis of the previous property is needed: when the handler raises an exception
  whose message is empty, the failure is dropped and the run is reported as succeeded while its
  node is still marked running.\<close>

theorem empty_message_hides_failure:
  "let r = execute silent_cfg (demo_workflow ''read''\<lparr>wf_criteria := []\<rparr>) ''h'' True demo_run () in
   rs_status (end_of r) = ''succeeded'' \<and> rs_error (end_of r) = None \<and>
   map_option ns_status (map_of (rs_nodes (end_of r)) ''a'') = Some ''running''"
  by code_simp

subsection \<open>Resuming and cancelling\<close>

text \<open>A resumed run hands no node to a handler that had succeeded before, and leaves that
  node's state as it was.\<close>

theorem resume_leaves_succeeded_nodes:
  assumes "run_nodes (plan_of w) (logged cfg) lts True pins ih st (env, [], []) = (fl, st', (env', calls, appr))"
    and "n \<in> set (plan_of w)" "node_done st (n_id n)"
  shows "n \<notin> set calls \<and> map_of (rs_nodes st') (n_id n) = map_of (rs_nodes st) (n_id n)"
  using calls_run_nodes [OF assms(1) plan_of_distinct] assms(2,3) by (auto simp: called_def)

definition half_done :: run_state where
  "half_done = put_node ''a'' (new_node_state ''succeeded'' 1) demo_run"

theorem resume_leaves_succeeded_nodes_witness:
  "let r = run_nodes (plan_of (demo_workflow ''read'')) (logged demo_cfg) demo_limits True [] ''h'' half_done ((), [], []);
       n = demo_node ''a'' ''read'' in
   List.map n_id (fst (snd (env_of r))) = [''b''] \<and> n \<notin> set (fst (snd (env_of r))) \<and>
   map_of (rs_nodes (end_of r)) (n_id n) = map_of (rs_nodes half_done) (n_id n)"
proof -
  let ?r = "run_nodes (plan_of (demo_workflow ''read'')) (logged demo_cfg) demo_limits True [] ''h'' half_done ((), [], [])"
  have "demo_node ''a'' ''read'' \<in> set (plan_of (demo_workflow ''read''))"
    "node_done half_done (n_id (demo_node ''a'' ''read''))"
    and b: "List.map n_id (fst (snd (env_of ?r))) = [''b'']" by code_simp+
  with resume_leaves_succeeded_nodes [OF log_eqI [of ?r], of "demo_node ''a'' ''read''"]
  show ?thesis unfolding Let_def by blast
qed



text \<open>A run that was cancelled, or asked to cancel before it started, calls nobody: the
  environment, the budgets and the node states are unchanged, and cancelling again changes
  nothing of its status.\<close>

theorem cancelled_run_stays_cancelled:
  assumes "rs_cancel st \<or> rs_status st = ''cancelled''"
    and "read_limits (wf_budgets w) = Inr lts" "table_of w = Inr tbl"
  shows "\<exists>st'. execute cfg w ih resume st env = (Halt, st', env) \<and> usage_of st' = usage_of st \<and>
    rs_nodes st' = rs_nodes st \<and> rs_cancel st' \<and> cancel st' = st'"
proof -
  have "cancel (cancel st) = cancel st \<and> rs_cancel (cancel st)"
    by (auto simp: cancel_def Let_def request_cancel_def emit_def)
  then show ?thesis using cancelled_execute [OF assms] by (intro exI [of _ "cancel st"]) simp
qed

theorem cancelled_run_stays_cancelled_witness:
  "\<exists>st'. execute demo_cfg (demo_workflow ''read'') ''h'' True (request_cancel demo_run) () = (Halt, st', ()) \<and>
    usage_of st' = usage_of (request_cancel demo_run) \<and> rs_nodes st' = rs_nodes (request_cancel demo_run) \<and>
    rs_cancel st' \<and> cancel st' = st'"
proof -
  have "table_of (demo_workflow ''read'') = Inr [(''b'', demo_node ''b'' ''safe_overlay''), (''a'', demo_node ''a'' ''read'')]"
    by (simp add: table_of_def node_table_def demo_workflow_def dict_update_def demo_node_def)
  from cancelled_run_stays_cancelled [OF _ demo_limits this, of "request_cancel demo_run" demo_cfg "''h''" True "()"]
  show ?thesis by (simp add: request_cancel_def)
qed

text \<open>Saving a run and restoring it keeps everything but the node cache, which
  \<open>to_dict\<close> does not write although \<open>from_dict\<close> reads it.\<close>

theorem saved_run_roundtrip:
  assumes "rs_status st \<noteq> []"
  shows "from_dict (to_dict st) = st\<lparr>rs_cache := []\<rparr>"
  using assms by (rule from_to_dict)

theorem saved_run_roundtrip_witness:
  "rs_cache (end_of (execute demo_cfg (demo_workflow ''read'') ''h'' True demo_run ())) \<noteq> [] \<and>
   from_dict (to_dict (end_of (execute demo_cfg (demo_workflow ''read'') ''h'' True demo_run ())))
     = (end_of (execute demo_cfg (demo_workflow ''read'') ''h'' True demo_run ()))\<lparr>rs_cache := []\<rparr>"
proof -
  let ?r = "execute demo_cfg (demo_workflow ''read'') ''h'' True demo_run ()"
  have "rs_status (end_of ?r) \<noteq> []" "rs_cache (end_of ?r) \<noteq> []" by code_simp+
  with saved_run_roundtrip [of "end_of ?r"] show ?thesis by blast
qed

end
