(* ===== verification/DomainPacks.thy ===== *)
theory DomainPacks
  imports PyData
begin

section \<open>Domain packs and their routing (domain_packs/registry.py)\<close>

text \<open>
  Packs are data loaded from \<open>pack.json\<close> files: the list is an argument. The router counts keywords
  in the goal and the source and takes the first pack with the highest count.
\<close>

record pack =
  pk_id :: string
  pk_version :: "string option"
  pk_allowed :: "string list"
  pk_perm :: string
  pk_hints :: "string list"
  pk_rubric :: "string list"
  pk_templates :: "string list"

definition get_pack :: "pack list \<Rightarrow> string \<Rightarrow> pack option" where
  "get_pack packs i = find (\<lambda>p. pk_id p = before (CHR ''@'') i) packs"

definition pack_ref :: "pack \<Rightarrow> string" where
  "pack_ref p = pk_id p @ ''@'' @ (case pk_version p of None \<Rightarrow> ''0.0.0'' | Some v \<Rightarrow> v)"

definition STUDY_WORDS :: "string list" where
  "STUDY_WORDS = [''study'', ''flashcard'', ''exam'', ''lecture'', ''quiz'', ''learn'']"

definition RESEARCH_WORDS :: "string list" where
  "RESEARCH_WORDS = [''research'', ''literature'', ''paper'', ''evidence'', ''synthesize'', ''claim'']"

definition PROJECT_WORDS :: "string list" where
  "PROJECT_WORDS = [''project'', ''milestone'', ''roadmap'', ''plan'', ''deadline'', ''sprint'', ''deliverable'']"

definition keyword_score :: "string list \<Rightarrow> string \<Rightarrow> int" where
  "keyword_score ws txt = 2 * int (length (List.filter (\<lambda>w. contains w txt) ws))"

definition pack_scores :: "string \<Rightarrow> (string \<times> int) list" where
  "pack_scores txt = [(''study_prep'', keyword_score STUDY_WORDS txt),
     (''research_synthesis'', keyword_score RESEARCH_WORDS txt),
     (''project_planning'', keyword_score PROJECT_WORDS txt)]"

text \<open>\<open>max(scores, key=scores.get)\<close>: the first entry with the largest value.\<close>

fun best_entry :: "(string \<times> int) \<Rightarrow> (string \<times> int) list \<Rightarrow> string \<times> int" where
  "best_entry b [] = b"
| "best_entry b (x # xs) = best_entry (if snd x > snd b then x else b) xs"

record routing =
  ro_pack :: pack
  ro_ref :: string
  ro_confidence :: rat
  ro_scores :: "(string \<times> int) list"
  ro_choice :: bool

definition route_text :: "string \<Rightarrow> string \<Rightarrow> string" where
  "route_text goal src = lower (goal @ [CHR 0x0A] @ src)"

definition best_pack :: "string \<Rightarrow> string \<times> int" where
  "best_pack txt =
     (let b = best_entry (hd (pack_scores txt)) (tl (pack_scores txt)) in
      if snd b = 0 then (''study_prep'', keyword_score STUDY_WORDS txt) else b)"

definition needs_choice :: "string \<Rightarrow> bool" where
  "needs_choice txt =
     (let ss = sort_desc id (List.map snd (pack_scores txt)) in
      snd (best_pack txt) < 2 \<or> ss ! 0 = ss ! 1)"

definition route_pack :: "pack list \<Rightarrow> string \<Rightarrow> string \<Rightarrow> routing res" where
  "route_pack packs goal src =
     (let txt = route_text goal src; (name, score) = best_pack txt in
      case get_pack packs name of
        None \<Rightarrow> Inl (AssertionError [])
      | Some p \<Rightarrow> Inr \<lparr>ro_pack = p, ro_ref = pack_ref p,
                        ro_confidence = min 1 (35 / 100 + 15 / 100 * of_int score),
                        ro_scores = pack_scores txt, ro_choice = needs_choice txt\<rparr>)"

subsection \<open>Lemmas\<close>

lemma keyword_score_nonneg: "0 \<le> keyword_score ws txt"
  by (simp add: keyword_score_def)

lemma keyword_score_even: "keyword_score ws txt = 0 \<or> 2 \<le> keyword_score ws txt"
  by (cases "List.filter (\<lambda>w. contains w txt) ws") (auto simp: keyword_score_def)

lemma best_pack_max: "e \<in> set (pack_scores txt) \<Longrightarrow> snd e \<le> snd (best_pack txt)"
  using keyword_score_nonneg [of STUDY_WORDS "txt"] keyword_score_nonneg [of RESEARCH_WORDS "txt"]
    keyword_score_nonneg [of PROJECT_WORDS "txt"]
  by (auto simp: best_pack_def pack_scores_def Let_def split: if_splits)

lemma best_pack_scored: "best_pack txt \<in> set (pack_scores txt)"
  by (auto simp: best_pack_def pack_scores_def Let_def split: if_splits)

lemma top_two_equal:
  fixes a b c :: int
  assumes "m \<in> {a, b, c}" "a \<le> m" "b \<le> m" "c \<le> m"
  shows "(sort_desc id [a, b, c] ! 0 = sort_desc id [a, b, c] ! 1) \<longleftrightarrow>
    (a = m \<and> b = m) \<or> (a = m \<and> c = m) \<or> (b = m \<and> c = m)"
  using assms by (auto simp: sort_desc_def)

text \<open>With the three built-in packs installed routing never fails; the pack it returns is one with
  the highest keyword count, and the user is asked exactly when no keyword matched or two packs
  share the highest count.\<close>

theorem routing_takes_the_best_pack:
  assumes "\<And>i. i \<in> {''study_prep'', ''research_synthesis'', ''project_planning''} \<Longrightarrow> get_pack packs i \<noteq> None"
  shows "\<exists>r. route_pack packs goal src = Inr r \<and>
    (\<exists>s. map_of (ro_scores r) (pk_id (ro_pack r)) = Some s \<and> (\<forall>s'\<in>snd ` set (ro_scores r). s' \<le> s) \<and>
      ro_choice r = (s = 0 \<or> 2 \<le> length (List.filter (\<lambda>e. snd e = s) (ro_scores r))))"
proof -
  let ?txt = "route_text goal src"
  let ?a = "keyword_score STUDY_WORDS ?txt"
  let ?b = "keyword_score RESEARCH_WORDS ?txt"
  let ?c = "keyword_score PROJECT_WORDS ?txt"
  obtain name s where ns: "best_pack ?txt = (name, s)" by (cases "best_pack ?txt")
  have m: "(name, s) \<in> set (pack_scores ?txt)" using best_pack_scored [of ?txt] ns by simp
  then have n: "name \<in> {''study_prep'', ''research_synthesis'', ''project_planning''}"
    by (auto simp: pack_scores_def)
  obtain p where p: "get_pack packs name = Some p" using assms n by blast
  have "CHR ''@'' \<notin> set name" using n by auto
  then have i: "pk_id p = name"
    using p by (auto simp: get_pack_def before_def find_Some_iff takeWhile_eq_all_conv)
  have le: "\<forall>s'\<in>snd ` set (pack_scores ?txt). s' \<le> s"
    using best_pack_max [of _ ?txt] ns by auto
  have lk: "map_of (pack_scores ?txt) name = Some s"
    using m by (auto simp: pack_scores_def)
  have nonneg: "0 \<le> s" using le keyword_score_nonneg [of STUDY_WORDS ?txt]
    by (auto simp: pack_scores_def)
  have even: "s = 0 \<or> 2 \<le> s" using m keyword_score_even by (auto simp: pack_scores_def)
  have "needs_choice ?txt \<longleftrightarrow> s = 0 \<or> (?a = s \<and> ?b = s) \<or> (?a = s \<and> ?c = s) \<or> (?b = s \<and> ?c = s)"
    using top_two_equal [of s ?a ?b ?c] m le even nonneg
    by (auto simp: needs_choice_def ns pack_scores_def Let_def)
  also have "\<dots> \<longleftrightarrow> s = 0 \<or> 2 \<le> length (List.filter (\<lambda>e. snd e = s) (pack_scores ?txt))"
    by (auto simp: pack_scores_def)
  finally have c: "needs_choice ?txt \<longleftrightarrow> s = 0 \<or> 2 \<le> length (List.filter (\<lambda>e. snd e = s) (pack_scores ?txt))" .
  show ?thesis
    using p i lk le c by (simp add: route_pack_def Let_def ns)
qed

definition demo_pack :: "string \<Rightarrow> pack" where
  "demo_pack i = \<lparr>pk_id = i, pk_version = Some ''1.0.0'',
     pk_allowed = [''extract'', ''summarize'', ''write_artifact'', ''verify''], pk_perm = ''safe_overlay'',
     pk_hints = [], pk_rubric = [], pk_templates = []\<rparr>"

definition demo_packs :: "pack list" where
  "demo_packs = List.map demo_pack [''project_planning'', ''research_synthesis'', ''study_prep'']"

theorem routing_takes_the_best_pack_witness:
  "\<exists>r. route_pack demo_packs ''Plan my EXAM'' ''quiz dates'' = Inr r \<and>
    (\<exists>s. map_of (ro_scores r) (pk_id (ro_pack r)) = Some s \<and>
      ro_choice r = (s = 0 \<or> 2 \<le> length (List.filter (\<lambda>e. snd e = s) (ro_scores r))))"
proof -
  have "get_pack demo_packs i \<noteq> None"
    if "i \<in> {''study_prep'', ''research_synthesis'', ''project_planning''}" for i
    using that by (auto simp: get_pack_def demo_packs_def demo_pack_def before_def)
  from routing_takes_the_best_pack [OF this] show ?thesis by blast
qed

end
