(* ===== verification/WorkflowGen.thy ===== *)
theory WorkflowGen
  imports DomainPacks Delimit PolicyCorrect
begin

section \<open>Compiling a model's reply into a workflow (workflow_gen.py)\<close>

text \<open>
  The reply of the language model is text; what can be recovered from it as a JSON object is
  normalised node by node and edge by edge into a workflow. The reply itself, \<open>json.loads\<close>,
  \<open>uuid4\<close> (a stream of fresh strings), the rendering of containers by \<open>str\<close> and the choice \<open>next(iter(s))\<close>
  makes from a set are parameters.
\<close>

record gen_cfg =
  uuid :: "nat \<Rightarrow> string"
  loads :: "string \<Rightarrow> json option"
  repr :: "json \<Rightarrow> string"
  pick :: "string list \<Rightarrow> string"

definition strz :: "gen_cfg \<Rightarrow> json \<Rightarrow> string" where
  "strz cfg v = py_str (repr cfg) v"

subsection \<open>Recovering a JSON object\<close>

definition fence :: string where
  "fence = replicate 3 (CHR 0x60)"

definition strip_fences :: "string \<Rightarrow> string" where
  "strip_fences s0 =
     (let s = strip s0 in
      if starts_with s fence then
        (let s1 = drop 3 s;
             s2 = lstrip (if starts_with s1 ''json'' then drop 4 s1 else s1)
         in if ends_with s2 fence then rstrip_of is_space (take (length s2 - 3) s2) else s2)
      else s)"

definition between_braces :: "string \<Rightarrow> string option" where
  "between_braces s =
     (let pre = takeWhile (\<lambda>c. c \<noteq> CHR 0x7B) s;
          post = takeWhile (\<lambda>c. c \<noteq> CHR 0x7D) (rev s)
      in if CHR 0x7B \<in> set s \<and> CHR 0x7D \<in> set s \<and> length pre < length s - 1 - length post
         then Some (take (length s - length post - length pre) (drop (length pre) s))
         else None)"

definition extract_json_object :: "gen_cfg \<Rightarrow> string \<Rightarrow> json res" where
  "extract_json_object cfg s0 =
     (let s = strip_fences s0; err = Inl (ValueError ''JSONDecodeError'') in
      case loads cfg s of
        Some v \<Rightarrow> Inr v
      | None \<Rightarrow>
          (case between_braces s of
             None \<Rightarrow> err
           | Some b \<Rightarrow> (case loads cfg b of Some v \<Rightarrow> Inr v | None \<Rightarrow> err)))"

subsection \<open>Nodes\<close>

record gen_node =
  gn_id :: string
  gn_type :: string
  gn_title :: string
  gn_perm :: string
  gn_idem :: string
  gn_cache :: string
  gn_timeout :: int
  gn_retry :: json

text \<open>The id map of \<open>fresh\<close> and the number of uuids drawn so far.\<close>

record ids =
  id_map :: "string dict"
  drawn :: nat

definition draw :: "gen_cfg \<Rightarrow> ids \<Rightarrow> string \<times> ids" where
  "draw cfg st = (uuid cfg (drawn st), st\<lparr>drawn := Suc (drawn st)\<rparr>)"

definition fresh_key :: "gen_cfg \<Rightarrow> json \<Rightarrow> ids \<Rightarrow> string" where
  "fresh_key cfg old st =
     (if old = JNull then ''anon-'' @ show_nat (length (id_map st)) else strz cfg old)"

definition fresh :: "gen_cfg \<Rightarrow> json \<Rightarrow> ids \<Rightarrow> string \<times> ids" where
  "fresh cfg old st =
     (let key = fresh_key cfg old st in
      case map_of (id_map st) key of
        Some i \<Rightarrow> (i, st)
      | None \<Rightarrow> (case draw cfg st of (u, st') \<Rightarrow> (u, st'\<lparr>id_map := AList.update key u (id_map st')\<rparr>)))"

definition DEFAULT_TYPES :: "string list" where
  "DEFAULT_TYPES = [''extract'', ''retrieve'', ''llm_plan'', ''write_artifact'', ''verify'', ''human_approve'', ''summarize'']"

definition allowed_types :: "pack \<Rightarrow> string list" where
  "allowed_types p = (if pk_allowed p = [] then DEFAULT_TYPES else pk_allowed p)"

definition default_retry :: json where
  "default_retry = JObj [(''max'', JInt 1), (''backoff_ms'', JInt 500),
     (''retry_on'', JArr [JStr ''timeout'', JStr ''transient''])]"

definition norm_type :: "gen_cfg \<Rightarrow> pack \<Rightarrow> json dict \<Rightarrow> string" where
  "norm_type cfg p node =
     (let t = strz cfg (jor (dget node ''type'') (JStr ''summarize'')) in
      if t \<in> set (allowed_types p) then t
      else if ''summarize'' \<in> set (allowed_types p) then ''summarize'' else pick cfg (allowed_types p))"

definition norm_perm :: "gen_cfg \<Rightarrow> pack \<Rightarrow> json dict \<Rightarrow> string" where
  "norm_perm cfg p node =
     (let c = strz cfg (jor (dget node ''permission_class'') (jor (JStr (pk_perm p)) (JStr ''safe_overlay''))) in
      if c \<in> {''read'', ''safe_overlay''} then c else ''safe_overlay'')"

definition gen_node_of :: "gen_cfg \<Rightarrow> pack \<Rightarrow> json dict \<Rightarrow> ids \<Rightarrow> (gen_node \<times> ids) res" where
  "gen_node_of cfg p node st =
     (let t = norm_type cfg p node; c = norm_perm cfg p node;
          (i, st') = fresh cfg (dget node ''id'') st;
          dflt = JStr (t @ '':'' @ i)
      in bnd (py_int (jor (dget node ''timeout_ms'') (JInt 120000))) (\<lambda>timeout.
         Inr (\<lparr>gn_id = i, gn_type = t, gn_title = py_take 120 (strz cfg (jor (dget node ''title'') (JStr t))),
               gn_perm = c, gn_idem = strz cfg (jor (dget node ''idempotency_key'') dflt),
               gn_cache = strz cfg (jor (dget node ''cache_key'') dflt), gn_timeout = timeout,
               gn_retry = jor (dget node ''retry'') default_retry\<rparr>, st')))"

fun gen_nodes :: "gen_cfg \<Rightarrow> pack \<Rightarrow> json list \<Rightarrow> ids \<Rightarrow> (gen_node list \<times> ids) res" where
  "gen_nodes cfg p [] st = Inr ([], st)"
| "gen_nodes cfg p (JObj node # rest) st =
     bnd (gen_node_of cfg p node st) (\<lambda>(n, st'). bnd (gen_nodes cfg p rest st') (\<lambda>(ns, st'').
       Inr (n # ns, st'')))"
| "gen_nodes cfg p (_ # rest) st = gen_nodes cfg p rest st"

subsection \<open>Edges\<close>

definition edge_entries :: "json \<Rightarrow> json list res" where
  "edge_entries v =
     (case jor v (JArr []) of
        JArr xs \<Rightarrow> Inr xs
      | JObj _ \<Rightarrow> Inr []
      | JStr _ \<Rightarrow> Inr []
      | w \<Rightarrow> Inl (TypeError (CHR 0x27 # py_type w @ CHR 0x27 # '' object is not iterable'')))"

definition edge_kind :: "json \<Rightarrow> string res" where
  "edge_kind k =
     (case k of
        JStr s \<Rightarrow> Inr (if s \<in> {''data'', ''control'', ''approval''} then s else ''data'')
      | JArr _ \<Rightarrow> Inl (TypeError ''unhashable type'')
      | JObj _ \<Rightarrow> Inl (TypeError ''unhashable type'')
      | _ \<Rightarrow> Inr ''data'')"

definition link :: "string \<Rightarrow> string \<Rightarrow> string \<Rightarrow> string \<Rightarrow> wf_edge" where
  "link i a b k = \<lparr>e_id = i, e_from = a @ '':out'', e_to = b @ '':in'', e_kind = k\<rparr>"

fun gen_edges :: "gen_cfg \<Rightarrow> json list \<Rightarrow> ids \<Rightarrow> (wf_edge list \<times> ids) res" where
  "gen_edges cfg [] st = Inr ([], st)"
| "gen_edges cfg (JObj e # rest) st =
     (let frm = port_node (strz cfg (jor (dget e ''from'') (JStr [])));
          to = port_node (strz cfg (jor (dget e ''to'') (JStr [])))
      in case (map_of (id_map st) frm, map_of (id_map st) to) of
           (Some a, Some b) \<Rightarrow>
             (case draw cfg st of (u, st') \<Rightarrow>
                bnd (edge_kind (dget e ''kind'')) (\<lambda>k. bnd (gen_edges cfg rest st') (\<lambda>(es, st'').
                  Inr (link u a b k # es, st''))))
         | _ \<Rightarrow> gen_edges cfg rest st)"
| "gen_edges cfg (_ # rest) st = gen_edges cfg rest st"

fun chain_edges :: "gen_cfg \<Rightarrow> gen_node list \<Rightarrow> ids \<Rightarrow> wf_edge list \<times> ids" where
  "chain_edges cfg (a # b # ns) st =
     (case draw cfg st of (u, st') \<Rightarrow>
        (case chain_edges cfg (b # ns) st' of (es, st'') \<Rightarrow> (link u (gn_id a) (gn_id b) ''data'' # es, st'')))"
| "chain_edges cfg _ st = ([], st)"

subsection \<open>The document\<close>

record gen_doc =
  gd_id :: string
  gd_title :: string
  gd_pack :: json
  gd_statement :: string
  gd_model :: string
  gd_digest :: string
  gd_nodes :: "gen_node list"
  gd_edges :: "wf_edge list"

definition default_pack :: pack where
  "default_pack = \<lparr>pk_id = ''study_prep'', pk_version = Some ''1.0.0'',
     pk_allowed = [''extract'', ''summarize'', ''write_artifact'', ''verify''], pk_perm = ''safe_overlay'',
     pk_hints = [], pk_rubric = [], pk_templates = []\<rparr>"

definition goal_statement :: "gen_cfg \<Rightarrow> json dict \<Rightarrow> string \<Rightarrow> string" where
  "goal_statement cfg doc prompt =
     (case dget doc ''goal'' of
        JObj g \<Rightarrow> strz cfg (dget g ''statement'')
      | _ \<Rightarrow> if prompt \<noteq> [] then prompt else ''Derive a short artifact from the source note'')"

definition choose_digest :: "string option \<Rightarrow> string dict \<Rightarrow> string \<Rightarrow> string" where
  "choose_digest model_digest digests model =
     (case model_digest of
        Some d \<Rightarrow> if d \<noteq> [] then d else
          (case map_of digests model of Some e \<Rightarrow> if e \<noteq> [] then e else ''unknown'' | None \<Rightarrow> ''unknown'')
      | None \<Rightarrow> (case map_of digests model of Some e \<Rightarrow> if e \<noteq> [] then e else ''unknown'' | None \<Rightarrow> ''unknown''))"

definition assemble ::
  "gen_cfg \<Rightarrow> pack \<Rightarrow> string \<Rightarrow> string \<Rightarrow> string \<Rightarrow> json dict \<Rightarrow> gen_node list \<Rightarrow> wf_edge list \<Rightarrow> ids \<Rightarrow> gen_doc" where
  "assemble cfg p prompt model digest doc ns es st =
     (let title = jor (dget doc ''title'') (jor (JStr prompt) (JStr ''Generated workflow''));
          ref = pk_id p @ ''@'' @ (case pk_version p of None \<Rightarrow> ''1.0.0'' | Some v \<Rightarrow> v)
      in \<lparr>gd_id = uuid cfg (drawn st), gd_title = py_take 200 (strz cfg title),
          gd_pack = jor (dget doc ''domain_pack_id'') (JStr ref),
          gd_statement = goal_statement cfg doc prompt, gd_model = model, gd_digest = digest,
          gd_nodes = ns, gd_edges = es\<rparr>)"

definition with_chain :: "gen_cfg \<Rightarrow> gen_node list \<Rightarrow> wf_edge list \<times> ids \<Rightarrow> wf_edge list \<times> ids" where
  "with_chain cfg ns r = (if fst r = [] then chain_edges cfg ns (snd r) else r)"

definition no_nodes :: "'a res" where
  "no_nodes = Inl (RuntimeError ''LLM did not emit workflow nodes (fail-closed)'')"

definition compile_doc :: "gen_cfg \<Rightarrow> pack \<Rightarrow> string \<Rightarrow> string \<Rightarrow> string \<Rightarrow> json dict \<Rightarrow> gen_doc res" where
  "compile_doc cfg p prompt model digest doc =
     (case dget doc ''nodes'' of
        JArr raw \<Rightarrow>
          if raw = [] then no_nodes
          else
            bnd (gen_nodes cfg p raw \<lparr>id_map = [], drawn = 0\<rparr>) (\<lambda>(ns, st1).
            if ns = [] then Inl (RuntimeError ''LLM nodes were empty after normalization (fail-closed)'')
            else
              bnd (edge_entries (dget doc ''edges'')) (\<lambda>entries.
              bnd (gen_edges cfg entries st1) (\<lambda>r.
                Inr (case with_chain cfg ns r of (es, st3) \<Rightarrow>
                       assemble cfg p prompt model digest doc ns es st3))))
      | _ \<Rightarrow> no_nodes)"

text \<open>
  \<open>generate_workflow_ir\<close>: \<open>reply\<close> is what \<open>_ollama_chat\<close> returned for the delimited source, or the
  exception it raised.
\<close>

record chat_request =
  cr_goal :: string
  cr_pack :: string
  cr_types :: "string list"
  cr_model :: string
  cr_evidence :: string

definition compiler_request :: "pack \<Rightarrow> string \<Rightarrow> string \<Rightarrow> string \<Rightarrow> chat_request" where
  "compiler_request p prompt source_text model =
     \<lparr>cr_goal = prompt, cr_pack = pk_id p @ ''@'' @ (case pk_version p of None \<Rightarrow> ''1.0.0'' | Some v \<Rightarrow> v),
      cr_types = pk_allowed p, cr_model = model,
      cr_evidence = delimit_untrusted (py_take 6000 source_text) ''intake''\<rparr>"

definition generate_workflow_ir ::
  "gen_cfg \<Rightarrow> (chat_request \<Rightarrow> string res) \<Rightarrow> string \<Rightarrow> string \<Rightarrow> string \<Rightarrow> string dict \<Rightarrow> pack option \<Rightarrow>
     string option \<Rightarrow> gen_doc res" where
  "generate_workflow_ir cfg chat prompt source_text model digests pack0 model_digest =
     (let p = (case pack0 of None \<Rightarrow> default_pack | Some q \<Rightarrow> q) in
      bnd (chat (compiler_request p prompt source_text model)) (\<lambda>reply.
      bnd (extract_json_object cfg reply) (\<lambda>v.
        case v of
          JObj doc \<Rightarrow> compile_doc cfg p prompt model (choose_digest model_digest digests model) doc
        | _ \<Rightarrow> Inl (AttributeError (CHR 0x27 # py_type v @ CHR 0x27 # '' object has no attribute get'')))))"

subsection \<open>Reading the document as the rest of the worker does\<close>

definition retry_max :: "json \<Rightarrow> int option" where
  "retry_max v = (case v of JObj d \<Rightarrow> as_int (dget d ''max'') | _ \<Rightarrow> None)"

definition ir_node :: "gen_node \<Rightarrow> wf_node" where
  "ir_node n = \<lparr>n_id = gn_id n, n_type = Some (gn_type n), n_title = Some (gn_title n),
     n_perm = Some (gn_perm n), n_idem = Some (gn_idem n), n_cache = Some (gn_cache n),
     n_timeout = Some (gn_timeout n), n_retry_max = retry_max (gn_retry n), n_review_loop = JNull\<rparr>"

definition gen_budgets :: json where
  "gen_budgets = JObj [(''max_steps'', JInt 12), (''max_wall_time_ms'', JInt 600000),
     (''max_tokens'', JInt 16000), (''max_cost_usd'', JInt 0), (''max_generated_files'', JInt 8),
     (''max_parallel_jobs'', JInt 1)]"

definition ir_doc :: "gen_cfg \<Rightarrow> gen_doc \<Rightarrow> workflow" where
  "ir_doc cfg d = \<lparr>wf_id = gd_id d, wf_title = gd_title d, wf_pack = strz cfg (gd_pack d),
     wf_statement = gd_statement d,
     wf_pins = [(''models'', JObj [(''planner'', JObj [(''provider'', JStr ''ollama''),
       (''name'', JStr (gd_model d)), (''digest'', JStr (gd_digest d))])]),
       (''prompt_pack_version'', JStr ''1.0.0'')],
     wf_nodes = Some (List.map (\<lambda>n. NodeObj (ir_node n)) (gd_nodes d)),
     wf_edges = List.map EdgeObj (gd_edges d), wf_budgets = gen_budgets,
     wf_criteria = [''artifact_written''], wf_notes = Some ''workflow-kernel compilation''\<rparr>"

end
