(* ===== verification/WorkflowGenCorrect.thy ===== *)
theory WorkflowGenCorrect
  imports WorkflowGen
begin

section \<open>What a compiled workflow can be\<close>

text \<open>
  Whatever the model replies, the compiled workflow stays within the overlay permission classes and
  the pack's node types, its edges join its own nodes, and the policy gate finds nothing to object
  to but cycles.
\<close>

definition node_safe :: "pack \<Rightarrow> gen_node \<Rightarrow> bool" where
  "node_safe p n \<longleftrightarrow> gn_perm n \<in> {''read'', ''safe_overlay''} \<and> gn_type n \<in> set (allowed_types p)"

text \<open>\<open>next(iter(s))\<close> yields an element of the set.\<close>

definition picks :: "gen_cfg \<Rightarrow> bool" where
  "picks cfg \<longleftrightarrow> (\<forall>xs. xs \<noteq> [] \<longrightarrow> pick cfg xs \<in> set xs)"

definition id_values :: "ids \<Rightarrow> string set" where
  "id_values st = ran (map_of (id_map st))"

lemma draw_id_map [simp]: "id_map (snd (draw cfg st)) = id_map st"
  by (simp add: draw_def)

lemma draw_eq: "draw cfg st = (u, st') \<Longrightarrow> u = uuid cfg (drawn st) \<and> id_map st' = id_map st"
  by (auto simp: draw_def)

lemma fresh_values:
  assumes "fresh cfg old st = (i, st')"
  shows "id_values st' = insert i (id_values st) \<and> (i \<in> id_values st \<or> i \<in> range (uuid cfg))"
proof -
  let ?key = "fresh_key cfg old st"
  show ?thesis
  proof (cases "map_of (id_map st) ?key")
    case (Some j)
    then have "i = j" "st' = st" using assms by (auto simp: fresh_def Let_def)
    moreover have "j \<in> id_values st" using Some unfolding id_values_def by (rule ranI)
    ultimately show ?thesis by auto
  next
    case None
    obtain u st1 where d: "draw cfg st = (u, st1)" by (cases "draw cfg st")
    then have "i = u" "id_map st' = AList.update ?key u (id_map st)"
      using assms None draw_eq [OF d] by (auto simp: fresh_def Let_def)
    moreover have "ran (map_of (AList.update ?key u (id_map st))) = insert u (id_values st)"
      unfolding id_values_def update_conv' using None by (rule ran_map_upd)
    ultimately show ?thesis using draw_eq [OF d] by (auto simp: id_values_def)
  qed
qed

lemma norm_type_allowed:
  assumes "picks cfg"
  shows "norm_type cfg p node \<in> set (allowed_types p)"
proof -
  have "allowed_types p \<noteq> []" by (simp add: allowed_types_def DEFAULT_TYPES_def)
  then show ?thesis using assms by (simp add: norm_type_def Let_def picks_def)
qed

lemma norm_perm_safe: "norm_perm cfg p node \<in> {''read'', ''safe_overlay''}"
  by (simp add: norm_perm_def Let_def)

lemma gen_node_of_props:
  assumes "gen_node_of cfg p node st = Inr (n, st')" "picks cfg"
  shows "node_safe p n \<and> id_values st' = insert (gn_id n) (id_values st) \<and>
    (gn_id n \<in> id_values st \<or> gn_id n \<in> range (uuid cfg))"
proof -
  obtain i st1 where f: "fresh cfg (dget node ''id'') st = (i, st1)"
    by (cases "fresh cfg (dget node ''id'') st")
  then have "gn_id n = i" "st' = st1" "gn_perm n = norm_perm cfg p node" "gn_type n = norm_type cfg p node"
    using assms(1) by (auto simp: gen_node_of_def Let_def bnd_Inr_iff)
  then show ?thesis
    using fresh_values [OF f] norm_type_allowed [OF assms(2)] norm_perm_safe by (simp add: node_safe_def)
qed

lemma gen_nodes_props:
  assumes "gen_nodes cfg p raw st = Inr (ns, st')" "picks cfg"
    and "id_values st \<subseteq> range (uuid cfg)"
  shows "(\<forall>n\<in>set ns. node_safe p n) \<and> id_values st' = id_values st \<union> gn_id ` set ns \<and>
    id_values st' \<subseteq> range (uuid cfg)"
  using assms
proof (induction cfg p raw st arbitrary: ns st' rule: gen_nodes.induct)
  case (2 cfg p node rest st)
  then obtain n st1 ms where n: "gen_node_of cfg p node st = Inr (n, st1)"
    and r: "gen_nodes cfg p rest st1 = Inr (ms, st')" "ns = n # ms"
    by (auto simp: bnd_Inr_iff)
  note np = gen_node_of_props [OF n 2(3)]
  then have "id_values st1 \<subseteq> range (uuid cfg)" using 2(4) by auto
  from 2(1) [OF r(1) 2(3) this] np r(2) show ?case by auto
qed auto

definition edge_between :: "string set \<Rightarrow> wf_edge \<Rightarrow> bool" where
  "edge_between ids e \<longleftrightarrow> (\<exists>a\<in>ids. \<exists>b\<in>ids. e_from e = a @ '':out'' \<and> e_to e = b @ '':in'')"

lemma gen_edges_props:
  assumes "gen_edges cfg entries st = Inr (es, st')"
  shows "\<forall>e\<in>set es. edge_between (id_values st) e"
  using assms
proof (induction entries arbitrary: es st)
  case Nil
  then show ?case by simp
next
  case (Cons entry rest)
  show ?case
  proof (cases entry)
    case (JObj e)
    let ?frm = "port_node (strz cfg (jor (dget e ''from'') (JStr [])))"
    let ?to = "port_node (strz cfg (jor (dget e ''to'') (JStr [])))"
    show ?thesis
    proof (cases "map_of (id_map st) ?frm = None \<or> map_of (id_map st) ?to = None")
      case True
      then have "gen_edges cfg rest st = Inr (es, st')"
        using Cons.prems JObj by (auto simp: Let_def split: option.splits)
      then show ?thesis by (rule Cons.IH)
    next
      case False
      then obtain a b where ab: "map_of (id_map st) ?frm = Some a" "map_of (id_map st) ?to = Some b" by auto
      obtain u st1 where d: "draw cfg st = (u, st1)" by (cases "draw cfg st")
      then obtain k es1 where r: "edge_kind (dget e ''kind'') = Inr k" "gen_edges cfg rest st1 = Inr (es1, st')"
        "es = link u a b k # es1"
        using Cons.prems JObj ab by (auto simp: Let_def bnd_Inr_iff)
      have "id_values st1 = id_values st" using draw_eq [OF d] by (simp add: id_values_def)
      moreover have "a \<in> id_values st" "b \<in> id_values st" using ab unfolding id_values_def by (auto intro: ranI)
      ultimately show ?thesis
        using Cons.IH [OF r(2)] r(3) by (auto simp: edge_between_def link_def)
    qed
  qed (use Cons in simp_all)
qed

lemma chain_edges_props:
  "\<forall>e\<in>set (fst (chain_edges cfg ns st)). edge_between (gn_id ` set ns) e"
proof (induction cfg ns st rule: chain_edges.induct)
  case (1 cfg a b ns st)
  then show ?case
    by (fastforce simp: edge_between_def link_def split: prod.splits)
qed auto

lemma compile_doc_props:
  assumes "compile_doc cfg p prompt model digest doc = Inr d" "picks cfg"
  shows "gd_nodes d \<noteq> [] \<and> (\<forall>n\<in>set (gd_nodes d). node_safe p n \<and> gn_id n \<in> range (uuid cfg)) \<and>
    (\<forall>e\<in>set (gd_edges d). edge_between (gn_id ` set (gd_nodes d)) e)"
proof -
  obtain raw where raw: "dget doc ''nodes'' = JArr raw" "raw \<noteq> []"
    using assms(1) by (cases "dget doc ''nodes''") (auto simp: compile_doc_def no_nodes_def split: if_splits)
  obtain ns st1 entries r where
    n: "gen_nodes cfg p raw \<lparr>id_map = [], drawn = 0\<rparr> = Inr (ns, st1)" "ns \<noteq> []" and
    e: "gen_edges cfg entries st1 = Inr r" and
    a: "d = (case with_chain cfg ns r of (es, st3) \<Rightarrow> assemble cfg p prompt model digest doc ns es st3)"
    using assms(1) raw by (auto simp: compile_doc_def bnd_Inr_iff split: if_splits)
  obtain es0 st2 where r: "r = (es0, st2)" by (cases r)
  have d: "gd_nodes d = ns" "gd_edges d = (if es0 = [] then fst (chain_edges cfg ns st2) else es0)"
    unfolding a r by (auto simp: with_chain_def assemble_def Let_def split: prod.splits)
  have v: "id_values \<lparr>id_map = [], drawn = 0\<rparr> = {}" by (simp add: id_values_def)
  have np: "(\<forall>n\<in>set ns. node_safe p n) \<and> id_values st1 = gn_id ` set ns \<and> id_values st1 \<subseteq> range (uuid cfg)"
    using gen_nodes_props [OF n(1) assms(2)] by (auto simp: v)
  have "\<forall>e\<in>set es0. edge_between (gn_id ` set ns) e"
    using gen_edges_props [OF e [unfolded r]] np by simp
  then have "\<forall>e\<in>set (gd_edges d). edge_between (gn_id ` set ns) e"
    using chain_edges_props [of cfg ns st2] d(2) by auto
  moreover have "gn_id ` set ns \<subseteq> range (uuid cfg)" using np by auto
  ultimately show ?thesis using np n(2) d(1) by (auto simp: image_subset_iff)
qed

lemma generate_compiles:
  assumes "generate_workflow_ir cfg chat prompt src model digests (Some p) md = Inr d"
  obtains doc where "compile_doc cfg p prompt model (choose_digest md digests model) doc = Inr d"
proof -
  obtain v where v: "(case v of
      JObj doc \<Rightarrow> compile_doc cfg p prompt model (choose_digest md digests model) doc
    | _ \<Rightarrow> Inl (AttributeError (CHR 0x27 # py_type v @ CHR 0x27 # '' object has no attribute get''))) = Inr d"
    using assms by (auto simp: generate_workflow_ir_def bnd_Inr_iff)
  then show thesis using that by (cases v) auto
qed

subsection \<open>Properties\<close>

text \<open>C5: whatever the model replies, a compiled workflow escalates nothing: every node is of class
  read or safe overlay, so the executor auto-applies it, and of a type the pack allows.\<close>

theorem compiled_nodes_never_escalate:
  assumes "generate_workflow_ir cfg chat prompt src model digests (Some p) md = Inr d"
    and "\<And>xs. xs \<noteq> [] \<Longrightarrow> pick cfg xs \<in> set xs"
  shows "gd_nodes d \<noteq> [] \<and> (\<forall>n\<in>set (gd_nodes d). gn_perm n \<in> {''read'', ''safe_overlay''} \<and>
    may_auto_apply (gn_perm n) \<and> gn_type n \<in> set (allowed_types p))"
proof -
  obtain doc where "compile_doc cfg p prompt model (choose_digest md digests model) doc = Inr d"
    using assms(1) by (rule generate_compiles)
  from compile_doc_props [OF this] show ?thesis
    using assms(2) by (auto simp: picks_def node_safe_def may_auto_apply_iff)
qed

definition demo_reply :: json where
  "demo_reply = JObj [(''nodes'', JArr [
     JObj [(''id'', JStr ''x''), (''type'', JStr ''shell''), (''permission_class'', JStr ''shell'')],
     JStr ''junk'',
     JObj [(''id'', JStr ''y''), (''type'', JStr ''verify''), (''title'', JStr ''Check'')]]),
   (''edges'', JArr [JObj [(''from'', JStr ''x:out''), (''to'', JStr ''z:in'')]])]"

definition demo_gen :: gen_cfg where
  "demo_gen = \<lparr>uuid = (\<lambda>k. ''u'' @ show_nat k), loads = (\<lambda>s. if s = ''J'' then Some demo_reply else None),
     repr = (\<lambda>_. ''{}''), pick = hd\<rparr>"

definition demo_result :: "gen_doc res" where
  "demo_result = generate_workflow_ir demo_gen (\<lambda>_. Inr ''J'') ''goal'' ''text'' ''m'' [] (Some default_pack) None"

definition demo_doc :: gen_doc where
  "demo_doc = projr demo_result"

lemma demo_generates: "demo_result = Inr demo_doc"
proof -
  have "\<not> isl demo_result" by code_simp
  then show ?thesis by (cases demo_result) (auto simp: demo_doc_def)
qed

lemma demo_picks: "xs \<noteq> [] \<Longrightarrow> pick demo_gen xs \<in> set xs"
  by (simp add: demo_gen_def)

theorem compiled_nodes_never_escalate_witness:
  "List.map gn_perm (gd_nodes demo_doc) = [''safe_overlay'', ''safe_overlay''] \<and>
   list_all (\<lambda>n. gn_perm n \<in> {''read'', ''safe_overlay''} \<and> gn_type n \<in> set (allowed_types default_pack)) (gd_nodes demo_doc)"
proof -
  have "List.map gn_perm (gd_nodes demo_doc) = [''safe_overlay'', ''safe_overlay'']" by code_simp
  with compiled_nodes_never_escalate [OF demo_generates [unfolded demo_result_def] demo_picks]
  show ?thesis by (auto simp: list_all_iff)
qed

text \<open>C26: the edges of a compiled workflow join its own nodes: the node part of each end is the id
  of a node of the document, and all ids are fresh uuids, whatever ids the reply used.\<close>

theorem compiled_edges_join_its_nodes:
  assumes "generate_workflow_ir cfg chat prompt src model digests (Some p) md = Inr d"
    and "\<And>xs. xs \<noteq> [] \<Longrightarrow> pick cfg xs \<in> set xs" "\<And>k. CHR 0x3A \<notin> set (uuid cfg k)"
    and "e \<in> set (gd_edges d)"
  shows "port_node (e_from e) \<in> gn_id ` set (gd_nodes d) \<and> port_node (e_to e) \<in> gn_id ` set (gd_nodes d) \<and>
    gn_id ` set (gd_nodes d) \<subseteq> range (uuid cfg)"
proof -
  obtain doc where "compile_doc cfg p prompt model (choose_digest md digests model) doc = Inr d"
    using assms(1) by (rule generate_compiles)
  from compile_doc_props [OF this] have p: "\<forall>n\<in>set (gd_nodes d). gn_id n \<in> range (uuid cfg)"
    "edge_between (gn_id ` set (gd_nodes d)) e"
    using assms(2,4) by (auto simp: picks_def)
  then obtain a b where ab: "a \<in> gn_id ` set (gd_nodes d)" "b \<in> gn_id ` set (gd_nodes d)"
    "e_from e = a @ CHR 0x3A # ''out''" "e_to e = b @ CHR 0x3A # ''in''"
    unfolding edge_between_def by auto
  then have "CHR 0x3A \<notin> set a" "CHR 0x3A \<notin> set b" using p(1) assms(3) by fastforce+
  then show ?thesis using ab p(1) by (auto simp: port_node_of_port)
qed

theorem compiled_edges_join_its_nodes_witness:
  "gd_edges demo_doc \<noteq> [] \<and> port_node (e_from (hd (gd_edges demo_doc))) \<in> gn_id ` set (gd_nodes demo_doc)"
proof -
  have u: "CHR 0x3A \<notin> set (uuid demo_gen k)" for k
  proof -
    have "CHR 0x3A \<notin> set (show_nat k)" using show_nat_digits [of "CHR 0x3A" k] by auto
    then show ?thesis by (simp add: demo_gen_def)
  qed
  have n: "gd_edges demo_doc \<noteq> []" by code_simp
  then show ?thesis
    using compiled_edges_join_its_nodes [OF demo_generates [unfolded demo_result_def] demo_picks u hd_in_set]
    by auto
qed

text \<open>C10: the policy gate has nothing to say about a compiled workflow but cycles: no other error,
  and no approval is asked for. In particular a workflow the compiler chained itself, or whose
  edges are acyclic, is accepted.\<close>

theorem compiled_workflow_passes_gate:
  assumes "generate_workflow_ir cfg chat prompt src model digests (Some p) md = Inr d"
    and "\<And>xs. xs \<noteq> [] \<Longrightarrow> pick cfg xs \<in> set xs"
  shows "\<exists>r. validate_workflow_policy order (ir_doc cfg d) = Inr r \<and> pr_approvals r = [] \<and>
    pr_errors r = cycle_errors order (List.map NodeObj (List.map ir_node (gd_nodes d))) (wf_edges (ir_doc cfg d)) \<and>
    (acyclic (gate_edges (List.map NodeObj (List.map ir_node (gd_nodes d))) (wf_edges (ir_doc cfg d))) \<longrightarrow> pr_ok r)"
proof -
  obtain doc where "compile_doc cfg p prompt model (choose_digest md digests model) doc = Inr d"
    using assms(1) by (rule generate_compiles)
  from compile_doc_props [OF this] have p: "gd_nodes d \<noteq> []" "\<forall>n\<in>set (gd_nodes d). gn_perm n \<in> {''read'', ''safe_overlay''}"
    using assms(2) by (auto simp: picks_def node_safe_def)
  have c: "check_node (NodeObj (ir_node n)) = ([], [])" if "n \<in> set (gd_nodes d)" for n
    using p(2) that
    by (auto simp: check_node_def ir_node_def loop_error_def KNOWN_CLASSES_def AUTO_APPLY_def may_auto_apply_iff
        normalize_permission_class_def Let_def)
  have b: "budget_errors (jor (wf_budgets (ir_doc cfg d)) (JObj [])) = Inr []"
    by (simp add: ir_doc_def gen_budgets_def budget_errors_def jor_def dget_def)
  let ?ns = "List.map NodeObj (List.map ir_node (gd_nodes d))"
  have ns: "wf_nodes (ir_doc cfg d) = Some ?ns" "?ns \<noteq> []" using p(1) by (simp_all add: ir_doc_def comp_def)
  have e: "concat (List.map (\<lambda>r. fst (check_node r)) ?ns) = []"
    "concat (List.map (\<lambda>r. snd (check_node r)) ?ns) = []"
    using c by (auto simp: comp_def)
  show ?thesis
    using ns e b cycle_errors_none_acyclic [of ?ns "wf_edges (ir_doc cfg d)" order]
    by (auto simp: validate_workflow_policy_def Let_def simp del: map_map)
qed

theorem compiled_workflow_passes_gate_witness:
  "\<exists>r. validate_workflow_policy [''u1'', ''u0''] (ir_doc demo_gen demo_doc) = Inr r \<and> pr_approvals r = []"
  using compiled_workflow_passes_gate [OF demo_generates [unfolded demo_result_def] demo_picks, of "[''u1'', ''u0'']"]
  by blast

text \<open>When the reply has a goal without a statement, the compiled goal statement is the text
  \<open>None\<close>, although the prompt is there to be used.\<close>

theorem goal_without_statement_becomes_None:
  assumes "dget doc ''goal'' = JObj g" "dget g ''statement'' = JNull"
  shows "goal_statement cfg doc prompt = ''None''"
  using assms by (simp add: goal_statement_def strz_def)

theorem goal_without_statement_becomes_None_witness:
  "goal_statement demo_gen [(''goal'', JObj [(''constraints'', JArr [])])] ''Write a summary'' = ''None''"
  by (rule goal_without_statement_becomes_None [of _ "[(''constraints'', JArr [])]"]) (simp_all add: dget_def)

end
