(* ===== verification/Stages.thy ===== *)
theory Stages
  imports WorkflowGenCorrect Executor
begin

section \<open>The kernel stages (kernel/stages.py, validate.py)\<close>

text \<open>
  The bounded sequence of stages from a prompt and a source to a workflow ready for the executor:
  intake, routing, planning, compilation, validation, critique, policy. The compiler is a
  parameter (\<open>compile_fn\<close>), and so is the JSON Schema library, as the list of its errors with their
  paths; \<open>uuid4\<close> is a stream with the number of uuids drawn.
\<close>

subsection \<open>Validation of a workflow document (validate.py)\<close>

datatype validation =
    SchemaInvalid "string list"
  | PolicyInvalid "policy_error list" "(string \<times> string) list"
  | Valid "(string \<times> string) list"

definition validate_workflow_ir ::
  "(workflow \<Rightarrow> (string list \<times> string) list) \<Rightarrow> string list \<Rightarrow> workflow \<Rightarrow> validation res" where
  "validate_workflow_ir schema_errors order doc =
     (if schema_errors doc \<noteq> [] then Inr (SchemaInvalid (List.map error_line (schema_errors doc)))
      else bnd (validate_workflow_policy order doc) (\<lambda>p.
        Inr (if pr_ok p then Valid (pr_approvals p) else PolicyInvalid (pr_errors p) (pr_approvals p))))"

definition is_valid :: "validation \<Rightarrow> bool" where
  "is_valid v = (case v of Valid _ \<Rightarrow> True | _ \<Rightarrow> False)"

subsection \<open>Intake, routing, planning\<close>

record intake_report =
  in_summary :: string
  in_warnings :: "string list"
  in_sensitive :: "string list"
  in_missing :: "string list"

definition SENSITIVE :: "(string \<times> string) list" where
  "SENSITIVE = [(''password'', ''possible_secret''), (''api_key'', ''possible_secret''), (''ssn'', ''possible_pii'')]"

definition intake_analyst :: "string \<Rightarrow> string \<Rightarrow> intake_report" where
  "intake_analyst source_text prompt =
     \<lparr>in_summary = ''Intake of '' @ show_nat (py_len source_text) @ '' chars for goal: '' @ py_take 120 prompt,
      in_warnings = (if strip source_text = [] then [''empty_source''] else []) @
        (if int (py_len source_text) > 100000 then [''large_source_truncated''] else []),
      in_sensitive = List.map snd (List.filter (\<lambda>(needle, _). contains needle (lower source_text)) SENSITIVE),
      in_missing = (if strip source_text = [] then [''source_text''] else [])\<rparr>"

record routed =
  rt_ref :: string
  rt_confidence :: rat
  rt_choice :: bool
  rt_scores :: "(string \<times> int) list"
  rt_outcomes :: "string list"

definition goal_router :: "pack list \<Rightarrow> string \<Rightarrow> string \<Rightarrow> routed res" where
  "goal_router packs prompt source_text =
     bnd (route_pack packs prompt source_text) (\<lambda>r.
       Inr \<lparr>rt_ref = ro_ref r, rt_confidence = ro_confidence r, rt_choice = ro_choice r,
            rt_scores = ro_scores r, rt_outcomes = take 3 (pk_hints (ro_pack r))\<rparr>)"

record planned =
  pl_pack :: string
  pl_goals :: "string list"
  pl_metrics :: "string list"
  pl_artifacts :: "string list"
  pl_tasks :: "string list"
  pl_intake :: string

definition domain_planner :: "string \<Rightarrow> pack \<Rightarrow> intake_report \<Rightarrow> planned" where
  "domain_planner prompt p intake =
     \<lparr>pl_pack = pack_ref p, pl_goals = [prompt], pl_metrics = pk_rubric p,
      pl_artifacts = pk_templates p, pl_tasks = take 4 (pk_hints p), pl_intake = in_summary intake\<rparr>"

subsection \<open>The critic\<close>

record scores =
  sc_completeness :: rat
  sc_ordering :: rat
  sc_feasibility :: rat
  sc_domain_fit :: rat
  sc_grounding :: rat
  sc_risk :: rat

datatype patch_op = AddNode wf_node | AddEdge wf_edge

record critique =
  cq_scores :: scores
  cq_pass :: bool
  cq_patch :: "patch_op list"

definition doc_nodes :: "workflow \<Rightarrow> raw_node list" where
  "doc_nodes w = (case wf_nodes w of None \<Rightarrow> [] | Some ns \<Rightarrow> ns)"

definition is_verify :: "wf_node \<Rightarrow> bool" where
  "is_verify n = (n_type n = Some ''verify'')"

definition has_verify :: "workflow \<Rightarrow> bool" where
  "has_verify w = list_ex is_verify (node_objs (doc_nodes w))"

definition verify_node :: "string \<Rightarrow> string option \<Rightarrow> wf_node" where
  "verify_node i key = \<lparr>n_id = i, n_type = Some ''verify'', n_title = Some ''Outcome verifier'',
     n_perm = Some ''read'', n_idem = key, n_cache = key, n_timeout = None, n_retry_max = None,
     n_review_loop = JNull\<rparr>"

definition critic_scores :: "workflow \<Rightarrow> intake_report \<Rightarrow> pack \<Rightarrow> scores" where
  "critic_scores w intake p =
     \<lparr>sc_completeness = (if length (doc_nodes w) \<ge> 2 then 7 / 10 else 4 / 10),
      sc_ordering = (if wf_edges w \<noteq> [] then 8 / 10 else 5 / 10),
      sc_feasibility = 75 / 100,
      sc_domain_fit = (if starts_with (wf_pack w) (pk_id p) then 8 / 10 else 5 / 10),
      sc_grounding = (if in_warnings intake = [] then 6 / 10 else 45 / 100),
      sc_risk = (if in_sensitive intake \<noteq> [] then 3 / 10 else 15 / 100)\<rparr>"

definition critic_patch :: "(nat \<Rightarrow> string) \<Rightarrow> workflow \<Rightarrow> nat \<Rightarrow> patch_op list \<times> nat" where
  "critic_patch uu w k =
     (if has_verify w \<or> doc_nodes w = [] then ([], k)
      else
        (let node_op = AddNode (verify_node (uu k) None) in
         case last (doc_nodes w) of
           NonObject \<Rightarrow> ([node_op], k + 1)
         | NodeObj l \<Rightarrow>
             if n_id l = [] then ([node_op], k + 1)
             else ([node_op, AddEdge \<lparr>e_id = uu (k + 1), e_from = n_id l @ '':out'',
                                       e_to = ''PENDING_VERIFY:in'', e_kind = ''control''\<rparr>], k + 2)))"

definition critic_review ::
  "(nat \<Rightarrow> string) \<Rightarrow> workflow \<Rightarrow> intake_report \<Rightarrow> pack \<Rightarrow> nat \<Rightarrow> critique \<times> nat" where
  "critic_review uu w intake p k =
     (let s = critic_scores w intake p; (ops, k') = critic_patch uu w k in
      (\<lparr>cq_scores = s, cq_pass = (sc_completeness s \<ge> 1 / 2 \<and> sc_domain_fit s \<ge> 1 / 2),
        cq_patch = take 4 ops\<rparr>, k'))"

text \<open>
  \<open>apply_critic_verify_patch\<close> ignores the patch itself and adds its own verify node, linked from
  the last node; indexing \<open>prev["id"]\<close> raises when that is not an object.
\<close>

definition note_added :: "string option \<Rightarrow> string" where
  "note_added notes =
     strip_chars '' |'' ((case notes of None \<Rightarrow> [] | Some s \<Rightarrow> s) @ '' | critic:added_verify'')"

definition apply_critic_verify_patch :: "(nat \<Rightarrow> string) \<Rightarrow> workflow \<Rightarrow> nat \<Rightarrow> (workflow \<times> nat) res" where
  "apply_critic_verify_patch uu w k =
     (if has_verify w then Inr (w, k)
      else
        (let v = uu k;
             node = verify_node v (Some (''verify:'' @ wf_id w));
             finish = (\<lambda>es k'. Inr (w\<lparr>wf_nodes := Some (doc_nodes w @ [NodeObj node]), wf_edges := es,
                                       wf_notes := Some (note_added (wf_notes w))\<rparr>, k'))
         in if doc_nodes w = [] then finish (wf_edges w) (k + 1)
            else case last (doc_nodes w) of
                   NonObject \<Rightarrow> Inl (TypeError ''node is not subscriptable'')
                 | NodeObj prev \<Rightarrow>
                     finish (wf_edges w @ [EdgeObj (link (uu (k + 1)) (n_id prev) v ''control'')]) (k + 2)))"

subsection \<open>The pipeline\<close>

datatype stage_entry =
    LIntake intake_report
  | LRouter routed
  | LPlan planned
  | LCompiler string nat
  | LSchema validation
  | LCritic scores bool nat
  | LSchemaPost validation
  | LPolicy policy_report

record provenance =
  pv_id :: string
  pv_workflow :: string
  pv_definition :: string
  pv_inputs :: "string dict"
  pv_pack :: string
  pv_stages :: "stage_entry list"

record accepted =
  ac_workflow :: workflow
  ac_stages :: "stage_entry list"
  ac_intake :: intake_report
  ac_routing :: routed
  ac_plan :: planned
  ac_critic :: critique
  ac_policy :: policy_report
  ac_provenance :: provenance
  ac_validation :: validation

datatype outcome =
    SchemaRejected validation "stage_entry list"
  | PostCriticRejected validation "stage_entry list"
  | PolicyRejected policy_report workflow "stage_entry list"
  | Accepted accepted

record kernel_cfg =
  kc_packs :: "pack list"
  kc_schema :: "workflow \<Rightarrow> (string list \<times> string) list"
  kc_order :: "workflow \<Rightarrow> string list"
  kc_uuid :: "nat \<Rightarrow> string"
  kc_sha :: "string \<Rightarrow> string"
  kc_dump :: "workflow \<Rightarrow> string"

definition new_run_provenance ::
  "kernel_cfg \<Rightarrow> workflow \<Rightarrow> string \<Rightarrow> string \<Rightarrow> stage_entry list \<Rightarrow> nat \<Rightarrow> provenance" where
  "new_run_provenance cfg w prompt source_text lg k =
     \<lparr>pv_id = kc_uuid cfg k, pv_workflow = wf_id w,
      pv_definition = content_hash (kc_sha cfg) (kc_dump cfg w),
      pv_inputs = [(''prompt'', content_hash (kc_sha cfg) prompt),
                   (''source_text'', content_hash (kc_sha cfg) source_text)],
      pv_pack = wf_pack w, pv_stages = lg\<rparr>"

definition choose_pack :: "kernel_cfg \<Rightarrow> string option \<Rightarrow> string \<Rightarrow> string \<Rightarrow> (pack \<times> routed) res" where
  "choose_pack cfg pack_id prompt source_text =
     (case (case pack_id of None \<Rightarrow> [] | Some i \<Rightarrow> i) of
        [] \<Rightarrow>
          bnd (goal_router (kc_packs cfg) prompt source_text) (\<lambda>r.
            case get_pack (kc_packs cfg) (rt_ref r) of
              None \<Rightarrow> Inl (AssertionError [])
            | Some p \<Rightarrow> Inr (p, r))
      | i \<Rightarrow>
          (case get_pack (kc_packs cfg) i of
             None \<Rightarrow> Inl (RuntimeError (''unknown domain pack: '' @ i))
           | Some p \<Rightarrow> Inr (p, \<lparr>rt_ref = pack_ref p, rt_confidence = 1, rt_choice = False, rt_scores = [],
                                rt_outcomes = take 3 (pk_hints p)\<rparr>)))"

text \<open>After the first validation: critique, patch, second validation, policy.\<close>

definition policy_stage ::
  "kernel_cfg \<Rightarrow> workflow \<Rightarrow> stage_entry list \<Rightarrow> (policy_report \<Rightarrow> stage_entry list \<Rightarrow> accepted) \<Rightarrow> outcome res" where
  "policy_stage cfg w lg mk =
     bnd (validate_workflow_policy (kc_order cfg w) w) (\<lambda>p.
       let lg' = lg @ [LPolicy p] in
       Inr (if pr_ok p then Accepted (mk p lg') else PolicyRejected p w lg'))"

definition critic_stage ::
  "kernel_cfg \<Rightarrow> workflow \<Rightarrow> critique \<Rightarrow> stage_entry list \<Rightarrow> nat \<Rightarrow>
     (workflow \<Rightarrow> nat \<Rightarrow> policy_report \<Rightarrow> stage_entry list \<Rightarrow> accepted) \<Rightarrow> outcome res" where
  "critic_stage cfg w critic lg k mk =
     (if cq_patch critic = [] then policy_stage cfg w lg (mk w k)
      else
        bnd (apply_critic_verify_patch (kc_uuid cfg) w k) (\<lambda>(w', k').
        bnd (validate_workflow_ir (kc_schema cfg) (kc_order cfg w') w') (\<lambda>v.
          let lg' = lg @ [LSchemaPost v] in
          if is_valid v then policy_stage cfg w' lg' (mk w' k')
          else Inr (PostCriticRejected v lg'))))"

definition run_kernel_pipeline ::
  "kernel_cfg \<Rightarrow> (pack \<Rightarrow> workflow res) \<Rightarrow> string \<Rightarrow> string \<Rightarrow> string option \<Rightarrow> outcome res" where
  "run_kernel_pipeline cfg compile_fn prompt source_text pack_id =
     (let intake = intake_analyst source_text prompt; log1 = [LIntake intake] in
      bnd (choose_pack cfg pack_id prompt source_text) (\<lambda>(p, r).
        let plan = domain_planner prompt p intake; log2 = log1 @ [LRouter r, LPlan plan] in
        bnd (compile_fn p) (\<lambda>w.
          let log3 = log2 @ [LCompiler (wf_id w) (length (doc_nodes w))] in
          bnd (validate_workflow_ir (kc_schema cfg) (kc_order cfg w) w) (\<lambda>v.
            let log4 = log3 @ [LSchema v] in
            if \<not> is_valid v then Inr (SchemaRejected v log4)
            else
              (case critic_review (kc_uuid cfg) w intake p 0 of
                 (critic, k) \<Rightarrow>
                   critic_stage cfg w critic
                     (log4 @ [LCritic (cq_scores critic) (cq_pass critic) (length (cq_patch critic))]) k
                     (\<lambda>w' k' pol lg'. \<lparr>ac_workflow = w', ac_stages = lg', ac_intake = intake,
                        ac_routing = r, ac_plan = plan, ac_critic = critic, ac_policy = pol,
                        ac_provenance = new_run_provenance cfg w' prompt source_text lg' k',
                        ac_validation = v\<rparr>))))))"

end
