(* ===== verification/StagesCorrect.thy ===== *)
theory StagesCorrect
  imports Stages
begin

section \<open>What the kernel pipeline guarantees\<close>

text \<open>
  A workflow the pipeline hands on has passed the schema, the policy and the critic, and differs
  from the compiler's by at most one verify node; the policy stage cannot fail any more.
\<close>

lemma validate_ir_valid:
  "validate_workflow_ir se order w = Inr v \<Longrightarrow> is_valid v \<Longrightarrow>
   se w = [] \<and> (\<exists>p. validate_workflow_policy order w = Inr p \<and> pr_ok p)"
  by (auto simp: validate_workflow_ir_def bnd_Inr_iff is_valid_def split: if_splits)

lemma policy_ok_nodes: "validate_workflow_policy order w = Inr p \<Longrightarrow> pr_ok p \<Longrightarrow> doc_nodes w \<noteq> []"
  by (auto simp: validate_workflow_policy_def doc_nodes_def split: option.splits if_splits)

lemma doc_nodes_update [simp]:
  "doc_nodes (w\<lparr>wf_nodes := Some ns, wf_edges := es, wf_notes := x\<rparr>) = ns"
  by (simp add: doc_nodes_def)

lemma verify_added [simp]: "is_verify (verify_node i key)"
  by (simp add: is_verify_def verify_node_def)

definition extends_by_verify :: "workflow \<Rightarrow> workflow \<Rightarrow> bool" where
  "extends_by_verify w w' \<longleftrightarrow>
     (\<exists>extra. doc_nodes w' = doc_nodes w @ extra \<and> length extra \<le> 1 \<and>
        (\<forall>r\<in>set extra. \<exists>n. r = NodeObj n \<and> is_verify n \<and> n_perm n = Some ''read'')) \<and>
     prefix (wf_edges w) (wf_edges w') \<and> has_verify w' \<and> wf_budgets w' = wf_budgets w"

lemma extends_snoc:
  "extends_by_verify w (w\<lparr>wf_nodes := Some (doc_nodes w @ [NodeObj (verify_node v key)]),
     wf_edges := wf_edges w @ es, wf_notes := x\<rparr>)"
proof -
  have "n_perm (verify_node v key) = Some ''read''" by (simp add: verify_node_def)
  then show ?thesis
    unfolding extends_by_verify_def has_verify_def doc_nodes_update
    by (intro conjI exI [of _ "[NodeObj (verify_node v key)]"]) auto
qed

lemma apply_patch_cases:
  assumes "apply_critic_verify_patch uu w k = Inr (w', k')"
  shows "w' = w \<and> has_verify w \<or>
    (\<exists>es. w' = w\<lparr>wf_nodes := Some (doc_nodes w @ [NodeObj (verify_node (uu k) (Some (''verify:'' @ wf_id w)))]),
       wf_edges := wf_edges w @ es, wf_notes := Some (note_added (wf_notes w))\<rparr>)"
  using assms
  by (auto simp: apply_critic_verify_patch_def Let_def split: if_splits raw_node.splits intro: exI [of _ "[]"])

lemma apply_patch_extends:
  "apply_critic_verify_patch uu w k = Inr (w', k') \<Longrightarrow> extends_by_verify w w'"
  by (drule apply_patch_cases) (auto simp: extends_snoc, simp add: extends_by_verify_def)

text \<open>What each outcome of the last stages tells.\<close>

lemma policy_stage_outcome:
  assumes "policy_stage cfg w lg mk = Inr out"
  shows "\<exists>p. validate_workflow_policy (kc_order cfg w) w = Inr p \<and>
    out = (if pr_ok p then Accepted (mk p (lg @ [LPolicy p])) else PolicyRejected p w (lg @ [LPolicy p]))"
  using assms by (auto simp: policy_stage_def bnd_Inr_iff Let_def)

lemma critic_stage_outcome:
  assumes "critic_stage cfg w critic lg k mk = Inr out"
    and "validate_workflow_ir (kc_schema cfg) (kc_order cfg w) w = Inr v" "is_valid v"
    and "cq_patch critic = [] \<Longrightarrow> has_verify w"
  shows "(\<exists>w' k' p lg'. out = Accepted (mk w' k' p lg') \<and> extends_by_verify w w' \<and> kc_schema cfg w' = [] \<and>
      validate_workflow_policy (kc_order cfg w') w' = Inr p \<and> pr_ok p \<and>
      lg' \<in> {lg @ [LPolicy p], lg @ [LSchemaPost (Valid (pr_approvals p)), LPolicy p]}) \<or>
    (\<exists>v' lg'. out = PostCriticRejected v' lg' \<and> cq_patch critic \<noteq> [])"
proof (cases "cq_patch critic = []")
  case True
  have e: "extends_by_verify w w" using assms(4) True by (simp add: extends_by_verify_def)
  obtain p where p: "validate_workflow_policy (kc_order cfg w) w = Inr p" "pr_ok p" "kc_schema cfg w = []"
    using validate_ir_valid [OF assms(2,3)] by blast
  then have "out = Accepted (mk w k p (lg @ [LPolicy p]))"
    using assms(1) True by (simp add: critic_stage_def policy_stage_def)
  then show ?thesis using e p by blast
next
  case False
  then obtain w' k' v' where a: "apply_critic_verify_patch (kc_uuid cfg) w k = Inr (w', k')"
    and v: "validate_workflow_ir (kc_schema cfg) (kc_order cfg w') w' = Inr v'"
    and r: "(if is_valid v' then policy_stage cfg w' (lg @ [LSchemaPost v']) (mk w' k')
             else Inr (PostCriticRejected v' (lg @ [LSchemaPost v']))) = Inr out"
    using assms(1) by (auto simp: critic_stage_def bnd_Inr_iff Let_def)
  show ?thesis
  proof (cases "is_valid v'")
    case True
    obtain p where p: "validate_workflow_policy (kc_order cfg w') w' = Inr p" "pr_ok p" "kc_schema cfg w' = []"
      using validate_ir_valid [OF v True] by blast
    then have "v' = Valid (pr_approvals p)" using v by (simp add: validate_workflow_ir_def)
    then have "out = Accepted (mk w' k' p (lg @ [LSchemaPost (Valid (pr_approvals p)), LPolicy p]))"
      using r True p by (simp add: policy_stage_def)
    then show ?thesis using p apply_patch_extends [OF a] by blast
  next
    case invalid: False
    then show ?thesis using r False by auto
  qed
qed

lemma critic_patch_empty:
  "critic_review uu w intake p k = (c, k') \<Longrightarrow> doc_nodes w \<noteq> [] \<Longrightarrow> cq_patch c = [] \<Longrightarrow> has_verify w"
  by (auto simp: critic_review_def critic_patch_def Let_def split: if_splits raw_node.splits prod.splits)

lemma pipeline_stages:
  assumes "run_kernel_pipeline cfg compile_fn prompt src pid = Inr out"
  obtains (rejected) p r w v where "choose_pack cfg pid prompt src = Inr (p, r)" "compile_fn p = Inr w"
      "validate_workflow_ir (kc_schema cfg) (kc_order cfg w) w = Inr v" "\<not> is_valid v"
      "out = SchemaRejected v [LIntake (intake_analyst src prompt), LRouter r,
         LPlan (domain_planner prompt p (intake_analyst src prompt)),
         LCompiler (wf_id w) (length (doc_nodes w)), LSchema v]"
  | (critic) p r w v c k where "choose_pack cfg pid prompt src = Inr (p, r)" "compile_fn p = Inr w"
      "validate_workflow_ir (kc_schema cfg) (kc_order cfg w) w = Inr v" "is_valid v"
      "critic_review (kc_uuid cfg) w (intake_analyst src prompt) p 0 = (c, k)"
      "critic_stage cfg w c [LIntake (intake_analyst src prompt), LRouter r,
         LPlan (domain_planner prompt p (intake_analyst src prompt)),
         LCompiler (wf_id w) (length (doc_nodes w)), LSchema v,
         LCritic (cq_scores c) (cq_pass c) (length (cq_patch c))] k
         (\<lambda>w' k' pol lg'. \<lparr>ac_workflow = w', ac_stages = lg', ac_intake = intake_analyst src prompt,
            ac_routing = r, ac_plan = domain_planner prompt p (intake_analyst src prompt), ac_critic = c,
            ac_policy = pol, ac_provenance = new_run_provenance cfg w' prompt src lg' k',
            ac_validation = v\<rparr>) = Inr out"
proof -
  obtain p r w v where s: "choose_pack cfg pid prompt src = Inr (p, r)" "compile_fn p = Inr w"
    "validate_workflow_ir (kc_schema cfg) (kc_order cfg w) w = Inr v"
    using assms by (auto simp: run_kernel_pipeline_def bnd_Inr_iff Let_def)
  obtain c k where c: "critic_review (kc_uuid cfg) w (intake_analyst src prompt) p 0 = (c, k)"
    by (cases "critic_review (kc_uuid cfg) w (intake_analyst src prompt) p 0")
  show thesis
  proof (cases "is_valid v")
    case True
    then show thesis using assms s c critic by (simp add: run_kernel_pipeline_def Let_def)
  next
    case False
    then show thesis using assms s rejected by (simp add: run_kernel_pipeline_def Let_def)
  qed
qed

subsection \<open>A concrete pipeline\<close>

definition kernel_demo :: kernel_cfg where
  "kernel_demo = \<lparr>kc_packs = demo_packs, kc_schema = (\<lambda>_. []), kc_order = (\<lambda>w. node_ids (doc_nodes w)),
     kc_uuid = (\<lambda>k. ''v'' @ show_nat k), kc_sha = (\<lambda>s. s), kc_dump = (\<lambda>_. ''{}'')\<rparr>"

definition kernel_doc :: workflow where
  "kernel_doc = plain_doc [plain_node ''a'' ''read'' JNull, plain_node ''b'' ''shell'' JNull] [plain_edge ''a'' ''b'']"

definition kernel_run :: "outcome res" where
  "kernel_run = run_kernel_pipeline kernel_demo (\<lambda>p. Inr kernel_doc) ''Plan'' ''notes'' (Some ''study_prep'')"

definition demo_outcome :: "outcome res \<Rightarrow> bool" where
  "demo_outcome r = (case r of
     Inr (Accepted a) \<Rightarrow> length (doc_nodes (ac_workflow a)) = 3 \<and> cq_patch (ac_critic a) \<noteq> []
   | _ \<Rightarrow> False)"

lemma kernel_run_accepted:
  obtains a where "kernel_run = Inr (Accepted a)" "length (doc_nodes (ac_workflow a)) = 3" "cq_patch (ac_critic a) \<noteq> []"
proof -
  have "demo_outcome kernel_run" by code_simp
  then show thesis using that by (auto simp: demo_outcome_def split: sum.splits outcome.splits)
qed

lemma accepted_extends:
  assumes "run_kernel_pipeline cfg compile_fn prompt src pid = Inr (Accepted a)"
  obtains p w where "compile_fn p = Inr w" "extends_by_verify w (ac_workflow a)"
  using assms
proof (cases rule: pipeline_stages)
  case (critic p r w v c k)
  have "doc_nodes w \<noteq> []"
    using validate_ir_valid [OF critic(3,4)] policy_ok_nodes by blast
  then have "cq_patch c = [] \<Longrightarrow> has_verify w" using critic_patch_empty [OF critic(5)] by blast
  from critic_stage_outcome [OF critic(6,3,4) this] show ?thesis
    using critic(2) that by auto
qed simp

subsection \<open>Properties\<close>

text \<open>C4: a workflow the pipeline accepts has passed the schema and the policy gate in its final
  form, has a verify node, and keeps the compiler's nodes and edges: at most one node is added,
  of class read.\<close>

theorem accepted_workflow_is_checked:
  assumes "run_kernel_pipeline cfg compile_fn prompt src pid = Inr (Accepted a)"
  shows "kc_schema cfg (ac_workflow a) = [] \<and>
    validate_workflow_policy (kc_order cfg (ac_workflow a)) (ac_workflow a) = Inr (ac_policy a) \<and> pr_ok (ac_policy a) \<and>
    (\<exists>p r w. choose_pack cfg pid prompt src = Inr (p, r) \<and> compile_fn p = Inr w \<and>
      extends_by_verify w (ac_workflow a))"
  using assms
proof (cases rule: pipeline_stages)
  case (rejected p r w v)
  then show ?thesis by simp
next
  case (critic p r w v c k)
  have "doc_nodes w \<noteq> []"
    using validate_ir_valid [OF critic(3,4)] policy_ok_nodes by blast
  then have "cq_patch c = [] \<Longrightarrow> has_verify w" using critic_patch_empty [OF critic(5)] by blast
  from critic_stage_outcome [OF critic(6,3,4) this] show ?thesis
    using critic(1,2) by auto
qed

theorem accepted_workflow_is_checked_witness:
  "\<exists>a. kernel_run = Inr (Accepted a) \<and> pr_ok (ac_policy a) \<and> extends_by_verify kernel_doc (ac_workflow a) \<and>
     length (doc_nodes (ac_workflow a)) = 3"
proof -
  obtain a where a: "kernel_run = Inr (Accepted a)" "length (doc_nodes (ac_workflow a)) = 3"
    by (rule kernel_run_accepted)
  with accepted_workflow_is_checked [OF a(1) [unfolded kernel_run_def]] show ?thesis by auto
qed

definition stage_name :: "stage_entry \<Rightarrow> string" where
  "stage_name e = (case e of LIntake _ \<Rightarrow> ''intake_analyst'' | LRouter _ \<Rightarrow> ''goal_router''
     | LPlan _ \<Rightarrow> ''domain_planner'' | LCompiler _ _ \<Rightarrow> ''compiler'' | LSchema _ \<Rightarrow> ''schema_validate''
     | LCritic _ _ _ \<Rightarrow> ''critic'' | LSchemaPost _ \<Rightarrow> ''schema_validate'' | LPolicy _ \<Rightarrow> ''policy'')"

text \<open>The policy stage rejects nothing: both validations before it run the same gate on the same
  document, so for a gate that gives the same answer twice the outcome \<open>policy_rejected\<close> does not
  occur.\<close>

theorem policy_stage_never_rejects:
  assumes "run_kernel_pipeline cfg compile_fn prompt src pid = Inr out"
  shows "\<nexists>p w lg. out = PolicyRejected p w lg"
  using assms
proof (cases rule: pipeline_stages)
  case (rejected p r w v)
  then show ?thesis by simp
next
  case (critic p r w v c k)
  have "doc_nodes w \<noteq> []"
    using validate_ir_valid [OF critic(3,4)] policy_ok_nodes by blast
  then have "cq_patch c = [] \<Longrightarrow> has_verify w" using critic_patch_empty [OF critic(5)] by blast
  from critic_stage_outcome [OF critic(6,3,4) this] show ?thesis by auto
qed

theorem policy_stage_never_rejects_witness:
  "\<exists>out. kernel_run = Inr out \<and> (\<nexists>p w lg. out = PolicyRejected p w lg)"
proof -
  obtain a where a: "kernel_run = Inr (Accepted a)" by (rule kernel_run_accepted)
  with policy_stage_never_rejects [OF a [unfolded kernel_run_def]] show ?thesis by blast
qed

text \<open>The stages of an accepted run are logged in their fixed order, each once, with a second
  schema validation exactly when the critic patched the workflow.\<close>

theorem accepted_stages_in_order:
  assumes "run_kernel_pipeline cfg compile_fn prompt src pid = Inr (Accepted a)"
  shows "List.map stage_name (ac_stages a) =
    [''intake_analyst'', ''goal_router'', ''domain_planner'', ''compiler'', ''schema_validate'', ''critic''] @
    (if cq_patch (ac_critic a) = [] then [] else [''schema_validate'']) @ [''policy'']"
  using assms
proof (cases rule: pipeline_stages)
  case (rejected p r w v)
  then show ?thesis by simp
next
  case (critic p r w v c k)
  show ?thesis
  proof (cases "cq_patch c = []")
    case True
    then show ?thesis
      using critic(6) by (auto simp: critic_stage_def policy_stage_def bnd_Inr_iff Let_def stage_name_def
          split: if_splits)
  next
    case False
    then show ?thesis
      using critic(6) by (auto simp: critic_stage_def policy_stage_def bnd_Inr_iff Let_def stage_name_def
          split: if_splits)
  qed
qed

theorem accepted_stages_in_order_witness:
  "\<exists>a. kernel_run = Inr (Accepted a) \<and> List.map stage_name (ac_stages a) =
    [''intake_analyst'', ''goal_router'', ''domain_planner'', ''compiler'', ''schema_validate'', ''critic'',
     ''schema_validate'', ''policy'']"
proof -
  obtain a where a: "kernel_run = Inr (Accepted a)" "cq_patch (ac_critic a) \<noteq> []"
    by (rule kernel_run_accepted)
  with accepted_stages_in_order [OF a(1) [unfolded kernel_run_def]] show ?thesis by (intro exI [of _ a]) simp
qed

subsection \<open>The verify node closes no cycle\<close>

lemma gate_edges_added:
  assumes "v \<notin> set (node_ids ns)"
    and "\<forall>e\<in>set (edge_objs es). port_node (e_from e) \<noteq> v \<and> port_node (e_to e) \<noteq> v"
    and "\<forall>e\<in>set (edge_objs es'). port_node (e_from e) \<noteq> v"
    and "\<forall>e\<in>set (edge_objs es'). port_node (e_to e) = v" "n_id n = v"
  shows "gate_edges (ns @ [NodeObj n]) (es @ es') \<subseteq> gate_edges ns es \<union> (UNIV - {v}) \<times> {v}"
  using assms by (auto simp: gate_edges_def node_ids_def)

lemma acyclic_sink:
  assumes "acyclic r" "v \<notin> Domain r"
  shows "acyclic (r \<union> (UNIV - {v}) \<times> {v})"
proof -
  let ?s = "r \<union> (UNIV - {v}) \<times> {v}"
  have out: "(v, y) \<notin> ?s" for y using assms(2) by auto
  have "(x, y) \<in> r\<^sup>+ \<or> y = v" if "(x, y) \<in> ?s\<^sup>+" for x y
    using that
  proof (induction rule: trancl_induct)
    case (base y)
    then show ?case by auto
  next
    case (step y z)
    then show ?case using out by (auto intro: trancl_into_trancl)
  qed
  moreover have "(v, v) \<notin> ?s\<^sup>+" using out by (metis tranclD)
  ultimately show ?thesis using assms(1) unfolding acyclic_def by metis
qed

lemma policy_ok_again:
  assumes "validate_workflow_policy order w = Inr r" "pr_ok r"
    and "w' = w\<lparr>wf_nodes := Some (doc_nodes w @ [NodeObj n]), wf_edges := es, wf_notes := x\<rparr>"
    and "fst (check_node (NodeObj n)) = []" "acyclic (gate_edges (doc_nodes w @ [NodeObj n]) es)"
  shows "\<exists>r'. validate_workflow_policy order' w' = Inr r' \<and> pr_ok r'"
proof -
  obtain ns where ns: "wf_nodes w = Some ns" "ns \<noteq> []" "\<forall>x\<in>set ns. fst (check_node x) = []"
    "budget_errors (jor (wf_budgets w) (JObj [])) = Inr []"
    using validate_ok_parts [OF assms(1,2)] .
  then have d: "doc_nodes w = ns" by (simp add: doc_nodes_def)
  have e: "concat (List.map (\<lambda>r. fst (check_node r)) (ns @ [NodeObj n])) = []"
    using ns(3) assms(4) by auto
  show ?thesis
    using e ns(4) cycle_errors_none_acyclic [OF assms(5), of order'] d
    by (auto simp: assms(3) validate_workflow_policy_def Let_def simp del: map_append concat_append)
qed

definition fresh_for :: "string \<Rightarrow> workflow \<Rightarrow> bool" where
  "fresh_for v w \<longleftrightarrow> v \<notin> set (node_ids (doc_nodes w)) \<and> CHR 0x3A \<notin> set v \<and>
     (\<forall>e\<in>set (edge_objs (wf_edges w)). port_node (e_from e) \<noteq> v \<and> port_node (e_to e) \<noteq> v) \<and>
     (\<forall>n\<in>set (node_objs (doc_nodes w)). port_node (n_id n @ '':out'') \<noteq> v)"

lemma patched_acyclic:
  assumes "acyclic (gate_edges (doc_nodes w) (wf_edges w))" "fresh_for v w" "n_id n = v"
    and "es' = [] \<or> (\<exists>prev i. NodeObj prev \<in> set (doc_nodes w) \<and> es' = [EdgeObj (link i (n_id prev) v ''control'')])"
  shows "acyclic (gate_edges (doc_nodes w @ [NodeObj n]) (wf_edges w @ es'))"
proof (rule acyclic_subset)
  let ?r = "gate_edges (doc_nodes w) (wf_edges w)"
  show "acyclic (?r \<union> (UNIV - {v}) \<times> {v})"
    using assms(1,2) by (intro acyclic_sink) (auto simp: gate_edges_def fresh_for_def)
  have t: "port_node (v @ '':in'') = v" using assms(2) port_node_of_port [of v "''in''"] by (simp add: fresh_for_def)
  show "gate_edges (doc_nodes w @ [NodeObj n]) (wf_edges w @ es') \<subseteq> ?r \<union> (UNIV - {v}) \<times> {v}"
    using assms(2-4) t
    by (intro gate_edges_added) (auto simp: fresh_for_def link_def set_node_objs)
qed

lemma verify_node_clean: "fst (check_node (NodeObj (verify_node v key))) = []"
  by (simp add: clean_node verify_node_def declared_class_def normalize_permission_class_def
      KNOWN_CLASSES_def AUTO_APPLY_def bounded_loop_def)

lemma validated_objects:
  "validate_workflow_policy order w = Inr r \<Longrightarrow> pr_ok r \<Longrightarrow> x \<in> set (doc_nodes w) \<Longrightarrow> \<exists>n. x = NodeObj n"
  by (erule validate_ok_parts) (auto simp: doc_nodes_def clean_node)

lemma apply_patch_total:
  assumes "\<And>x. x \<in> set (doc_nodes w) \<Longrightarrow> \<exists>n. x = NodeObj n" "\<not> has_verify w"
  shows "\<exists>es' k'. apply_critic_verify_patch uu w k = Inr (w\<lparr>
      wf_nodes := Some (doc_nodes w @ [NodeObj (verify_node (uu k) (Some (''verify:'' @ wf_id w)))]),
      wf_edges := wf_edges w @ es', wf_notes := Some (note_added (wf_notes w))\<rparr>, k') \<and>
    (es' = [] \<or> (\<exists>prev i. NodeObj prev \<in> set (doc_nodes w) \<and> es' = [EdgeObj (link i (n_id prev) (uu k) ''control'')]))"
proof (cases "doc_nodes w = []")
  case True
  then show ?thesis using assms(2) by (auto simp: apply_critic_verify_patch_def Let_def)
next
  case False
  then have "last (doc_nodes w) \<in> set (doc_nodes w)" by simp
  then obtain prev where "last (doc_nodes w) = NodeObj prev" "NodeObj prev \<in> set (doc_nodes w)"
    using assms(1) by metis
  then show ?thesis using False assms(2) by (auto simp: apply_critic_verify_patch_def Let_def)
qed



end
