(* ===== verification/Budget.thy ===== *)
theory Budget
  imports PyData
begin

section \<open>Request budgets (gateway/budget.py)\<close>

text \<open>
  \<open>RequestBudget\<close>, the token, spend and request tracker every provider call goes through, its
  constructors from a workflow and from request parameters, and the token count read from a
  provider's response. Floats are exact; their rendering in messages is left out.
\<close>

record request_budget =
  b_max_tokens :: "int option"
  b_max_spend :: "rat option"
  b_max_requests :: "int option"
  b_tokens :: int
  b_spend :: rat
  b_requests :: int
  b_label :: string
  b_history :: "json dict list"

definition new_budget :: "int option \<Rightarrow> rat option \<Rightarrow> int option \<Rightarrow> string \<Rightarrow> request_budget" where
  "new_budget t s r l = \<lparr>b_max_tokens = t, b_max_spend = s, b_max_requests = r, b_tokens = 0,
     b_spend = 0, b_requests = 0, b_label = l, b_history = []\<rparr>"

definition remaining_tokens :: "request_budget \<Rightarrow> int option" where
  "remaining_tokens b = map_option (\<lambda>m. max 0 (m - b_tokens b)) (b_max_tokens b)"

definition budget_msg :: "request_budget \<Rightarrow> string \<Rightarrow> pyexn" where
  "budget_msg b m = BudgetExceeded (''budget['' @ b_label b @ ''] '' @ m)"

definition spend_reached :: "request_budget \<Rightarrow> bool" where
  "spend_reached b = (case b_max_spend b of None \<Rightarrow> False | Some m \<Rightarrow> b_spend b \<ge> m)"

definition check_before_request :: "int option \<Rightarrow> request_budget \<Rightarrow> unit res" where
  "check_before_request planned b =
     (let spend_and_tokens =
        (if spend_reached b then Inl (budget_msg b ''max_spend_usd exhausted'')
         else case remaining_tokens b of
           None \<Rightarrow> Inr ()
         | Some rem \<Rightarrow>
             if rem \<le> 0 then Inl (budget_msg b ''max_tokens exhausted'')
             else case planned of
               None \<Rightarrow> Inr ()
             | Some p \<Rightarrow>
                 if p > rem then Inl (budget_msg b (''planned_max_tokens='' @ show_int p @ '' > remaining='' @ show_int rem))
                 else Inr ())
      in case b_max_requests b of
           None \<Rightarrow> spend_and_tokens
         | Some m \<Rightarrow>
             if b_requests b \<ge> m then Inl (budget_msg b (''max_requests='' @ show_int m @ '' exhausted''))
             else spend_and_tokens)"

definition clamp_max_tokens :: "int option \<Rightarrow> int \<Rightarrow> request_budget \<Rightarrow> int res" where
  "clamp_max_tokens requested dflt b =
     (let base = (case requested of None \<Rightarrow> dflt | Some r \<Rightarrow> r) in
      case remaining_tokens b of
        None \<Rightarrow> Inr (max 1 base)
      | Some rem \<Rightarrow>
          if rem \<le> 0 then Inl (budget_msg b ''max_tokens exhausted'')
          else Inr (max 1 (min base rem)))"

text \<open>\<open>record_usage\<close> updates the tracker before it raises: the new state comes with the verdict.\<close>

definition over_spend :: "request_budget \<Rightarrow> unit res" where
  "over_spend b =
     (case b_max_spend b of
        None \<Rightarrow> Inr ()
      | Some s \<Rightarrow> if b_spend b > s then Inl (budget_msg b ''max_spend_usd exceeded after request'') else Inr ())"

definition usage_verdict :: "request_budget \<Rightarrow> unit res" where
  "usage_verdict b =
     (case b_max_tokens b of
        None \<Rightarrow> over_spend b
      | Some m \<Rightarrow>
          if b_tokens b > m then
            Inl (budget_msg b (''max_tokens exceeded after request ('' @ show_int (b_tokens b) @ ''/'' @ show_int m @ '')''))
          else over_spend b)"

definition record_usage :: "int \<Rightarrow> rat \<Rightarrow> json dict \<Rightarrow> request_budget \<Rightarrow> unit res \<times> request_budget" where
  "record_usage tokens spend meta b =
     (let b' = b\<lparr>b_tokens := b_tokens b + max 0 tokens, b_spend := b_spend b + max 0 spend,
                 b_requests := b_requests b + 1,
                 b_history := b_history b @
                   [dict_update [(''tokens'', JInt tokens), (''spend_usd'', JFloat spend)] meta]\<rparr>
      in (usage_verdict b', b'))"

definition budget_to_dict :: "request_budget \<Rightarrow> json dict" where
  "budget_to_dict b =
     (let oi = (\<lambda>v. case v of None \<Rightarrow> JNull | Some i \<Rightarrow> JInt i) in
      [(''label'', JStr (b_label b)), (''max_tokens'', oi (b_max_tokens b)),
       (''max_spend_usd'', case b_max_spend b of None \<Rightarrow> JNull | Some r \<Rightarrow> JFloat r),
       (''max_requests'', oi (b_max_requests b)), (''tokens_used'', JInt (b_tokens b)),
       (''spend_usd'', JFloat (b_spend b)), (''requests_used'', JInt (b_requests b)),
       (''remaining_tokens'', oi (remaining_tokens b))])"

subsection \<open>Construction\<close>

definition is_unset :: "json \<Rightarrow> bool" where
  "is_unset v \<longleftrightarrow> v = JNull \<or> v = JStr []"

definition optional_int :: "json \<Rightarrow> int option res" where
  "optional_int v = (if is_unset v then Inr None else bnd (py_int v) (\<lambda>i. Inr (Some i)))"

definition optional_float :: "json \<Rightarrow> rat option res" where
  "optional_float v = (if is_unset v then Inr None else bnd (py_float v) (\<lambda>r. Inr (Some r)))"

definition make_budget :: "json \<Rightarrow> json \<Rightarrow> json \<Rightarrow> string \<Rightarrow> request_budget res" where
  "make_budget t s r l =
     bnd (optional_int t) (\<lambda>mt. bnd (optional_float s) (\<lambda>ms. bnd (optional_int r) (\<lambda>mr.
       Inr (new_budget mt ms mr l))))"

definition budget_from_workflow :: "json dict \<Rightarrow> string \<Rightarrow> request_budget res" where
  "budget_from_workflow workflow label =
     (let budgets = jor (dget workflow ''budgets'') (JObj []) in
      bnd (jget budgets ''max_tokens'') (\<lambda>t.
      bnd (jget budgets ''max_cost_usd'') (\<lambda>c.
      bnd (jget budgets ''max_spend_usd'') (\<lambda>s.
      bnd (jget budgets ''max_llm_requests'') (\<lambda>r.
        make_budget t (jor c s) r label)))))"

definition budget_from_params :: "(json \<Rightarrow> string) \<Rightarrow> json dict \<Rightarrow> string \<Rightarrow> request_budget option res" where
  "budget_from_params str_of params label =
     (if params = [] then Inr None
      else if \<not> list_ex (\<lambda>k. map_of params k \<noteq> None)
                  [''max_tokens'', ''max_spend_usd'', ''max_cost_usd'', ''max_llm_requests''] then
        (case dget params ''budget'' of
           JObj nested \<Rightarrow>
             bnd (make_budget (dget nested ''max_tokens'')
                    (jor (dget nested ''max_spend_usd'') (dget nested ''max_cost_usd''))
                    (jor (dget nested ''max_llm_requests'') (dget nested ''max_requests''))
                    (case jor (dget nested ''label'') (JStr label) of JStr l \<Rightarrow> l | v \<Rightarrow> str_of v))
               (\<lambda>b. Inr (Some b))
         | _ \<Rightarrow> Inr None)
      else
        bnd (make_budget (jor (dget params ''max_tokens_budget'') (dget params ''budget_max_tokens''))
               (jor (dget params ''max_spend_usd'') (dget params ''max_cost_usd''))
               (dget params ''max_llm_requests'') label)
          (\<lambda>b. Inr (Some b)))"

subsection \<open>Token counts of a response\<close>

definition present_ints :: "json list \<Rightarrow> int list res" where
  "present_ints vs = map_res py_int (List.filter (\<lambda>v. v \<noteq> JNull) vs)"

text \<open>\<open>usage\<close>: the total, else the sum of the parts that are there, else nothing.\<close>

definition usage_count :: "json \<Rightarrow> string \<Rightarrow> string list \<Rightarrow> int option res" where
  "usage_count usage tot parts =
     (case usage of
        JObj u \<Rightarrow>
          if dget u tot \<noteq> JNull then bnd (py_int (dget u tot)) (\<lambda>i. Inr (Some i))
          else bnd (present_ints (List.map (dget u) parts)) (\<lambda>ns.
                 Inr (if ns = [] then None else Some (sum_list ns)))
      | _ \<Rightarrow> Inr None)"

definition extract_usage_tokens :: "json dict \<Rightarrow> int res" where
  "extract_usage_tokens raw =
     bnd (usage_count (jor (dget raw ''usage'') (JObj [])) ''total_tokens''
            [''input_tokens'', ''output_tokens'', ''prompt_tokens'', ''completion_tokens'']) (\<lambda>u.
     case u of Some n \<Rightarrow> Inr n
     | None \<Rightarrow>
         bnd (usage_count (jor (dget raw ''usageMetadata'') (JObj [])) ''totalTokenCount''
                [''promptTokenCount'', ''candidatesTokenCount'']) (\<lambda>m.
         case m of Some n \<Rightarrow> Inr n
         | None \<Rightarrow>
             if dget raw ''eval_count'' \<noteq> JNull \<or> dget raw ''prompt_eval_count'' \<noteq> JNull then
               bnd (py_int (jor (dget raw ''eval_count'') (JInt 0))) (\<lambda>a.
               bnd (py_int (jor (dget raw ''prompt_eval_count'') (JInt 0))) (\<lambda>b. Inr (a + b)))
             else Inr 0))"

subsection \<open>The life of a budget\<close>

text \<open>
  What the chat wrappers do with a budget: clamp the request, check, call the provider, record.
  A step is one such request; \<open>failed\<close> says whether recording raised.
\<close>

inductive request :: "request_budget \<Rightarrow> bool \<Rightarrow> request_budget \<Rightarrow> bool" where
  request: "check_before_request planned b = Inr () \<Longrightarrow> record_usage t s meta b = (r, b') \<Longrightarrow>
    request b (r \<noteq> Inr ()) b'"

inductive_cases requestE: "request b f b'"

text \<open>\<open>requests_made b k b'\<close>: \<open>k\<close> requests in a row, the last of which may have raised.\<close>

inductive requests_made :: "request_budget \<Rightarrow> nat \<Rightarrow> bool \<Rightarrow> request_budget \<Rightarrow> bool" where
  none: "requests_made b 0 False b"
| more: "requests_made b k False b' \<Longrightarrow> request b' f b'' \<Longrightarrow> requests_made b (Suc k) f b''"

lemma record_usage_fields:
  assumes "record_usage t s meta b = (r, b')"
  shows "b_tokens b' = b_tokens b + max 0 t" "b_spend b' = b_spend b + max 0 s"
    "b_requests b' = b_requests b + 1" "b_max_tokens b' = b_max_tokens b"
    "b_max_spend b' = b_max_spend b" "b_max_requests b' = b_max_requests b"
    "r = Inr () \<longleftrightarrow> (\<forall>m. b_max_tokens b = Some m \<longrightarrow> b_tokens b' \<le> m) \<and>
      (\<forall>m. b_max_spend b = Some m \<longrightarrow> b_spend b' \<le> m)"
  using assms
  by (auto simp: record_usage_def usage_verdict_def over_spend_def Let_def split: option.splits if_splits)

lemma check_ok:
  "check_before_request p b = Inr () \<longleftrightarrow>
    (\<forall>m. b_max_requests b = Some m \<longrightarrow> b_requests b < m) \<and>
    (\<forall>m. b_max_spend b = Some m \<longrightarrow> b_spend b < m) \<and>
    (\<forall>m. b_max_tokens b = Some m \<longrightarrow> b_tokens b < m \<and> (\<forall>q. p = Some q \<longrightarrow> q \<le> m - b_tokens b))"
  by (auto simp: check_before_request_def Let_def spend_reached_def remaining_tokens_def split: option.splits)

definition respected :: "request_budget \<Rightarrow> bool" where
  "respected b \<longleftrightarrow>
     (\<forall>m. b_max_requests b = Some m \<longrightarrow> b_requests b \<le> m) \<and>
     (\<forall>m. b_max_tokens b = Some m \<longrightarrow> b_tokens b \<le> m) \<and>
     (\<forall>m. b_max_spend b = Some m \<longrightarrow> b_spend b \<le> m)"

lemma requests_made_inv:
  assumes "requests_made b k f b'" "respected b"
  shows "(\<forall>m. b_max_requests b' = Some m \<longrightarrow> b_requests b' \<le> m) \<and> (\<not> f \<longrightarrow> respected b') \<and>
    b_requests b' = b_requests b + int k \<and> b_tokens b \<le> b_tokens b' \<and> b_max_requests b' = b_max_requests b"
  using assms
proof (induction rule: requests_made.induct)
  case (none b)
  then show ?case by (auto simp: respected_def)
next
  case (more b k b' f b'')
  from more.hyps(2) obtain p t s meta r where
    c: "check_before_request p b' = Inr ()" and u: "record_usage t s meta b' = (r, b'')" "f = (r \<noteq> Inr ())"
    by (rule requestE)
  note u' = record_usage_fields [OF u(1)]
  show ?case
    using more.IH more.prems c u(2) u' by (auto simp: respected_def check_ok)
qed

lemma requests_madeD:
  "requests_made b (Suc k) f b'' \<Longrightarrow> \<exists>b'. requests_made b k False b' \<and> request b' f b''"
  by (erule requests_made.cases) auto

subsection \<open>Properties\<close>

text \<open>C21: however many requests a budget sees, it never counts more of them than
  \<open>max_requests\<close>; as long as no request has raised, tokens and spend are within their limits
  too; and the request that raised is the only one that can have passed them: before it the
  budget was respected.\<close>

theorem budget_is_respected:
  assumes "requests_made b k f b'" "respected b"
  shows "(\<forall>m. b_max_requests b' = Some m \<longrightarrow> b_requests b' \<le> m) \<and>
    (\<not> f \<longrightarrow> respected b') \<and>
    (f \<longrightarrow> (\<exists>b0. respected b0 \<and> request b0 True b'))"
proof (intro conjI impI)
  show "\<forall>m. b_max_requests b' = Some m \<longrightarrow> b_requests b' \<le> m"
    using requests_made_inv [OF assms] by blast
  show "respected b'" if "\<not> f" using requests_made_inv [OF assms] that by blast
  show "\<exists>b0. respected b0 \<and> request b0 True b'" if "f"
  proof (cases k)
    case 0
    then show ?thesis using assms(1) that by (auto elim: requests_made.cases)
  next
    case (Suc j)
    then obtain b0 where "requests_made b j False b0" "request b0 f b'"
      using requests_madeD assms(1) by blast
    moreover from this have "respected b0" using requests_made_inv [OF _ assms(2)] by blast
    ultimately show ?thesis using that by auto
  qed
qed

theorem budget_is_respected_witness:
  "\<exists>b'. requests_made (new_budget (Some 10) None (Some 2) ''x'') 1 False b' \<and> respected b' \<and> b_tokens b' = 7"
proof -
  let ?b = "new_budget (Some 10) None (Some 2) ''x''"
  let ?b' = "snd (record_usage 7 0 [] ?b)"
  have v: "record_usage 7 0 [] ?b = (Inr (), ?b')"
    by (simp add: record_usage_def usage_verdict_def over_spend_def new_budget_def)
  have "check_before_request (Some 10) ?b = Inr ()"
    by (simp add: check_ok new_budget_def)
  then have "request ?b (Inr () \<noteq> (Inr () :: unit res)) ?b'" using v by (rule request.request)
  then have m: "requests_made ?b 1 False ?b'"
    using requests_made.more [OF requests_made.none] by simp
  have "respected ?b" by (simp add: respected_def new_budget_def)
  from budget_is_respected [OF m this] have "respected ?b'" by simp
  moreover have "b_tokens ?b' = 7" by (simp add: record_usage_def new_budget_def Let_def)
  ultimately show ?thesis using m by blast
qed

text \<open>The tracker is fail-closed: once a limit is used up or passed, every further request is
  refused before it is sent, and so is a clamp on tokens.\<close>

theorem exhausted_budget_refuses:
  assumes "b_max_tokens b = Some m \<and> b_tokens b \<ge> m \<or> b_max_spend b = Some s \<and> b_spend b \<ge> s
     \<or> b_max_requests b = Some q \<and> b_requests b \<ge> q"
  shows "\<exists>e. check_before_request planned b = Inl e"
proof -
  have "check_before_request planned b \<noteq> Inr ()"
    using assms by (auto simp: check_ok)
  then show ?thesis by (cases "check_before_request planned b") auto
qed

theorem exhausted_budget_refuses_witness:
  "\<exists>e. check_before_request None (snd (record_usage 12 0 [] (new_budget (Some 10) None None ''x''))) = Inl e"
  by (rule exhausted_budget_refuses [where m = 10 and s = 0 and q = 0])
    (simp add: record_usage_def new_budget_def Let_def)

text \<open>The token limit sent with a request is at least 1 and fits what is left of the budget, so
  a provider that keeps to it never makes \<open>record_usage\<close> raise for its tokens.\<close>

theorem clamped_request_fits:
  assumes "clamp_max_tokens requested dflt b = Inr n"
  shows "1 \<le> n \<and> (\<forall>m t. b_max_tokens b = Some m \<longrightarrow> n \<le> m - b_tokens b \<and>
    (t \<le> n \<longrightarrow> b_tokens (snd (record_usage t s meta b)) \<le> m))"
  using assms
  by (auto simp: clamp_max_tokens_def remaining_tokens_def record_usage_def Let_def
      split: option.splits if_splits)

theorem clamped_request_fits_witness:
  "clamp_max_tokens (Some 4096) 1024 (new_budget (Some 10) None None ''x'') = Inr 10 \<and> (1::int) \<le> 10"
  using clamped_request_fits [of "Some 4096" 1024 "new_budget (Some 10) None None ''x''" 10]
  by (simp add: clamp_max_tokens_def remaining_tokens_def new_budget_def)

text \<open>A \<open>max_tokens\<close> key at the top level of the parameters selects the branch that never reads
  it: the budget is made, with no token limit at all.\<close>

theorem top_level_max_tokens_is_ignored:
  assumes "map_of params ''max_tokens'' \<noteq> None" "map_of params ''max_tokens_budget'' = None"
    "map_of params ''budget_max_tokens'' = None" "budget_from_params str_of params label = Inr r"
  shows "\<exists>b. r = Some b \<and> b_max_tokens b = None"
proof -
  have "params \<noteq> []" using assms(1) by auto
  then show ?thesis
    using assms by (auto simp: budget_from_params_def make_budget_def optional_int_def is_unset_def dget_def jor_def
        new_budget_def bnd_Inr_iff split: option.splits)
qed

theorem top_level_max_tokens_is_ignored_witness:
  "budget_from_params str_of [(''max_tokens'', JInt 5)] ''chat'' = Inr (Some (new_budget None None None ''chat'')) \<and>
   (\<exists>b. Some (new_budget None None None ''chat'') = Some b \<and> b_max_tokens b = None)"
proof
  show r: "budget_from_params str_of [(''max_tokens'', JInt 5)] ''chat'' = Inr (Some (new_budget None None None ''chat''))"
    by (simp add: budget_from_params_def make_budget_def optional_int_def optional_float_def is_unset_def dget_def jor_def)
  show "\<exists>b. Some (new_budget None None None ''chat'') = Some b \<and> b_max_tokens b = None"
    by (rule top_level_max_tokens_is_ignored [OF _ _ _ r]) simp_all
qed

end
