(* ===== verification/Providers.thy ===== *)
theory Providers
  imports Budget
begin

section \<open>Provider adapters\<close>

text \<open>
  \<open>gateway/providers\<close>: the adapters for Ollama, OpenAI-compatible endpoints (OpenAI, OpenRouter and
  custom ones are subclasses), Anthropic and Gemini. HTTP is a parameter: a call yields the decoded
  body, or the exception of the transport, of \<open>raise_for_status\<close> or of the decoder. So are the secret
  store, the environment and the rendering of values. A chat returns the calls it made, its result and
  the budget as it left it.
\<close>

record http_call =
  hc_post :: bool
  hc_base :: string
  hc_path :: string
  hc_headers :: "string dict"
  hc_params :: "string dict"
  hc_body :: "json dict"

record net_env =
  ne_http :: "http_call \<Rightarrow> json res"
  ne_secret :: "string \<Rightarrow> string option res"
  ne_repr :: "json \<Rightarrow> string"
  ne_environ :: "string \<Rightarrow> string option"

datatype provider_class = Ollama | Compat | OpenAI | OpenRouter | Custom | Anthropic | Gemini

text \<open>\<open>ap_injected\<close>: a transport was passed in, as the tests do.\<close>

record provider =
  ap_class :: provider_class
  ap_id :: string
  ap_kind :: string
  ap_base :: string
  ap_key_ref :: string
  ap_tls :: bool
  ap_injected :: bool
  ap_budget :: "request_budget option"

subsection \<open>URLs\<close>

definition rstrip_slash :: "string \<Rightarrow> string" where
  "rstrip_slash s = rstrip_of (\<lambda>c. c = CHR ''/'') s"

definition scheme_char :: "char \<Rightarrow> bool" where
  "scheme_char c \<longleftrightarrow> lower_char c \<in> set ''abcdefghijklmnopqrstuvwxyz0123456789+-.''"

definition after_scheme :: "string \<Rightarrow> string" where
  "after_scheme url =
     (let s = before (CHR '':'') url in
      if s \<noteq> [] \<and> length s < length url \<and> lower_char (hd s) \<in> set ''abcdefghijklmnopqrstuvwxyz'' \<and> list_all scheme_char s
      then drop (Suc (length s)) url else url)"

definition net_location :: "string \<Rightarrow> string" where
  "net_location url =
     (let r = after_scheme url in
      if starts_with r ''//'' then takeWhile (\<lambda>c. c \<notin> set ''/?#'') (drop 2 r) else [])"

text \<open>\<open>urlparse(url).hostname or ""\<close> in lower case.\<close>

definition url_host :: "string \<Rightarrow> string res" where
  "url_host url =
     (let n = net_location url; h = after_last (CHR ''@'') n in
      if (CHR ''['' \<in> set n) \<noteq> (CHR '']'' \<in> set n) then Inl (ValueError ''Invalid IPv6 URL'')
      else if CHR ''['' \<in> set h
      then Inr (lower (before (CHR '']'') (drop 1 (dropWhile (\<lambda>c. c \<noteq> CHR ''['') h))))
      else Inr (lower (before (CHR '':'') h)))"

definition is_loopback :: "string \<Rightarrow> bool res" where
  "is_loopback url = bnd (url_host url) (\<lambda>h. Inr (h \<in> {''127.0.0.1'', ''localhost'', ''::1''}))"

subsection \<open>Construction\<close>

definition ollama_adapter :: "net_env \<Rightarrow> provider" where
  "ollama_adapter ne =
     \<lparr>ap_class = Ollama, ap_id = ''ollama'', ap_kind = ''local'',
      ap_base = rstrip_slash (case ne_environ ne ''BRAINFLOW_OLLAMA_BASE'' of Some u \<Rightarrow> u | None \<Rightarrow> ''http://127.0.0.1:11434''),
      ap_key_ref = [], ap_tls = False, ap_injected = False, ap_budget = None\<rparr>"

definition compat_adapter :: "provider_class \<Rightarrow> string \<Rightarrow> string \<Rightarrow> string \<Rightarrow> string \<Rightarrow> bool \<Rightarrow> provider res" where
  "compat_adapter cl pid kind url key_ref require_tls =
     bnd (if require_tls then is_loopback (rstrip_slash url) else Inr True) (\<lambda>local.
       Inr \<lparr>ap_class = cl, ap_id = pid, ap_kind = kind, ap_base = rstrip_slash url, ap_key_ref = key_ref,
            ap_tls = (require_tls \<and> \<not> local), ap_injected = False, ap_budget = None\<rparr>)"

definition openai_adapter :: "provider res" where
  "openai_adapter = compat_adapter OpenAI ''openai'' ''cloud'' ''https://api.openai.com/v1'' ''openai'' True"

definition openrouter_adapter :: "provider res" where
  "openrouter_adapter = compat_adapter OpenRouter ''openrouter'' ''cloud'' ''https://openrouter.ai/api/v1'' ''openrouter'' True"

definition custom_adapter :: "string \<Rightarrow> string \<Rightarrow> string \<Rightarrow> bool \<Rightarrow> provider res" where
  "custom_adapter url key_ref pid require_tls = compat_adapter Custom pid ''openai_compat'' url key_ref require_tls"

definition anthropic_adapter :: provider where
  "anthropic_adapter = \<lparr>ap_class = Anthropic, ap_id = ''anthropic'', ap_kind = ''cloud'', ap_base = ''https://api.anthropic.com'',
     ap_key_ref = ''anthropic'', ap_tls = False, ap_injected = False, ap_budget = None\<rparr>"

definition gemini_adapter :: provider where
  "gemini_adapter = \<lparr>ap_class = Gemini, ap_id = ''gemini'', ap_kind = ''cloud'',
     ap_base = ''https://generativelanguage.googleapis.com/v1beta'', ap_key_ref = ''gemini'', ap_tls = False,
     ap_injected = False, ap_budget = None\<rparr>"

definition environ_or :: "net_env \<Rightarrow> string \<Rightarrow> string \<Rightarrow> string" where
  "environ_or ne k d = (case ne_environ ne k of Some v \<Rightarrow> v | None \<Rightarrow> d)"

text \<open>A variable that is set and not empty.\<close>

definition environ_set :: "net_env \<Rightarrow> string \<Rightarrow> string option" where
  "environ_set ne k = (case ne_environ ne k of Some (c # cs) \<Rightarrow> Some (c # cs) | _ \<Rightarrow> None)"

definition custom_from_env :: "net_env \<Rightarrow> provider option res" where
  "custom_from_env ne =
     (case (case environ_set ne ''BRAINFLOW_CUSTOM_BASE'' of Some u \<Rightarrow> Some u | None \<Rightarrow> environ_set ne ''BRAINFLOW_OPENAI_COMPAT_BASE'') of
        None \<Rightarrow> Inr None
      | Some u \<Rightarrow> bnd (custom_adapter u (environ_or ne ''BRAINFLOW_CUSTOM_SECRET_REF'' ''custom'')
                   (environ_or ne ''BRAINFLOW_CUSTOM_PROVIDER_ID'' ''custom'') True) (\<lambda>p. Inr (Some p)))"

definition compat_from_env :: "net_env \<Rightarrow> provider list res" where
  "compat_from_env ne =
     (case (environ_set ne ''BRAINFLOW_OPENAI_COMPAT_BASE'', environ_set ne ''BRAINFLOW_CUSTOM_BASE'') of
        (Some u, None) \<Rightarrow> bnd (compat_adapter Compat ''openai_compat'' ''openai_compat'' u
            (environ_or ne ''BRAINFLOW_OPENAI_COMPAT_SECRET_REF'' ''openai_compat'') True) (\<lambda>p. Inr [p])
      | _ \<Rightarrow> Inr [])"

definition custom_slot :: "net_env \<Rightarrow> provider res" where
  "custom_slot ne = bnd (custom_from_env ne) (\<lambda>c. case c of
     Some p \<Rightarrow> Inr p
   | None \<Rightarrow> custom_adapter (environ_or ne ''BRAINFLOW_CUSTOM_BASE_HINT'' ''https://127.0.0.1:0/v1'') ''custom'' ''custom'' False)"

definition default_adapters :: "net_env \<Rightarrow> provider list res" where
  "default_adapters ne =
     bnd (compat_from_env ne) (\<lambda>compat.
     bnd (if ne_environ ne ''BRAINFLOW_ENABLE_OPENAI'' = Some ''1'' then bnd openai_adapter (\<lambda>p. Inr [p]) else Inr []) (\<lambda>openai.
     bnd openrouter_adapter (\<lambda>router.
     bnd (custom_slot ne) (\<lambda>custom.
       Inr ([ollama_adapter ne] @ compat @ openai @ [anthropic_adapter, gemini_adapter, router, custom])))))"

definition get_adapter :: "net_env \<Rightarrow> string \<Rightarrow> provider option res" where
  "get_adapter ne pid = bnd (default_adapters ne) (\<lambda>ps. Inr (List.find (\<lambda>p. ap_id p = pid) ps))"

subsection \<open>Planning and charging a request\<close>

text \<open>\<open>options\<close>, when it is passed, is a dictionary; the other keyword arguments are any values.\<close>

record chat_args =
  ca_model :: string
  ca_messages :: "json list"
  ca_options :: "json dict"
  ca_kw :: "json dict"
  ca_budget :: "request_budget option"

definition planned_int :: "json \<Rightarrow> int option res" where
  "planned_int v = (if v = JNull then Inr None else bnd (py_int v) (\<lambda>i. Inr (Some i)))"

definition or_zero :: "int option \<Rightarrow> int" where
  "or_zero v = (case v of None \<Rightarrow> 0 | Some i \<Rightarrow> i)"

definition budget_for :: "provider \<Rightarrow> chat_args \<Rightarrow> request_budget option" where
  "budget_for p a = (case ca_budget a of Some b \<Rightarrow> Some b | None \<Rightarrow> ap_budget p)"

text \<open>With a budget the requested number is clamped to what remains and the request is checked; without
  one it is taken as it is.\<close>

definition plan_tokens :: "int \<Rightarrow> int option \<Rightarrow> json \<Rightarrow> request_budget option \<Rightarrow> int option res" where
  "plan_tokens dflt unbudgeted planned budget =
     (case budget of
        Some b \<Rightarrow>
          bnd (planned_int planned) (\<lambda>p.
          bnd (clamp_max_tokens p dflt b) (\<lambda>mt.
          bnd (check_before_request (Some mt) b) (\<lambda>_. Inr (Some mt))))
      | None \<Rightarrow> bnd (planned_int planned) (\<lambda>p. Inr (case p of None \<Rightarrow> unbudgeted | Some n \<Rightarrow> Some n)))"

definition charge :: "string \<Rightarrow> string \<Rightarrow> json \<Rightarrow> int \<Rightarrow> request_budget \<Rightarrow> unit res \<times> request_budget" where
  "charge pid model data fallback b =
     (case bnd (jget data ''usage'') (\<lambda>_. extract_usage_tokens (obj_of data)) of
        Inl e \<Rightarrow> (Inl e, b)
      | Inr n \<Rightarrow> record_usage (if n = 0 then fallback else n) 0 [(''provider'', JStr pid), (''model'', JStr model)] b)"

type_synonym chat_result = "http_call list \<times> json res \<times> request_budget option"

definition exchange ::
  "net_env \<Rightarrow> provider \<Rightarrow> chat_args \<Rightarrow> (int option \<times> http_call) res \<Rightarrow> chat_result" where
  "exchange ne p a prepared =
     (let budget = budget_for p a in
      case prepared of
        Inl e \<Rightarrow> ([], Inl e, budget)
      | Inr (mt, call) \<Rightarrow>
          (case ne_http ne call of
             Inl e \<Rightarrow> ([call], Inl e, budget)
           | Inr data \<Rightarrow>
               (case budget of
                  None \<Rightarrow> ([call], Inr data, None)
                | Some b \<Rightarrow>
                    (case charge (ap_id p) (ca_model a) data (or_zero mt) b of
                       (v, b') \<Rightarrow> ([call], bnd v (\<lambda>_. Inr data), Some b')))))"

subsection \<open>Headers and TLS\<close>

definition no_tls :: "provider \<Rightarrow> pyexn" where
  "no_tls p = RuntimeError (ap_id p @ '': TLS required for non-loopback OpenAI-compatible endpoints'')"

definition ensure_tls :: "provider \<Rightarrow> unit res" where
  "ensure_tls p = (if ap_tls p \<and> \<not> starts_with (lower (ap_base p)) ''https://'' then Inl (no_tls p) else Inr ())"

text \<open>A secret that is there and not empty.\<close>

definition api_key :: "net_env \<Rightarrow> provider \<Rightarrow> string option res" where
  "api_key ne p = bnd (ne_secret ne (ap_key_ref p)) (\<lambda>k. Inr (case k of Some (c # cs) \<Rightarrow> Some (c # cs) | _ \<Rightarrow> None))"

definition json_header :: "string dict" where
  "json_header = [(''Content-Type'', ''application/json'')]"

definition compat_headers :: "net_env \<Rightarrow> provider \<Rightarrow> string dict res" where
  "compat_headers ne p = bnd (api_key ne p) (\<lambda>k. Inr (case k of
     None \<Rightarrow> json_header | Some v \<Rightarrow> AList.update ''Authorization'' (''Bearer '' @ v) json_header))"

definition set_default :: "string \<Rightarrow> 'v \<Rightarrow> 'v dict \<Rightarrow> 'v dict" where
  "set_default k v d = (if map_of d k = None then AList.update k v d else d)"

definition router_headers :: "net_env \<Rightarrow> provider \<Rightarrow> string dict res" where
  "router_headers ne p = bnd (compat_headers ne p) (\<lambda>h.
     Inr (set_default ''X-Title'' ''BrainFlow'' (set_default ''HTTP-Referer'' ''https://brainflow.local'' h)))"

definition anthropic_headers :: "net_env \<Rightarrow> provider \<Rightarrow> string dict res" where
  "anthropic_headers ne p = bnd (api_key ne p) (\<lambda>k.
     let h = AList.update ''anthropic-version'' ''2023-06-01'' json_header in
     Inr (case k of None \<Rightarrow> h | Some v \<Rightarrow> AList.update ''x-api-key'' v h))"

definition headers_of :: "net_env \<Rightarrow> provider \<Rightarrow> string dict res" where
  "headers_of ne p = (case ap_class p of
     Ollama \<Rightarrow> Inr [] | OpenRouter \<Rightarrow> router_headers ne p | Anthropic \<Rightarrow> anthropic_headers ne p
   | Gemini \<Rightarrow> Inr json_header | _ \<Rightarrow> compat_headers ne p)"

text \<open>The client: \<open>make_client\<close> strips the slashes of the base once more.\<close>

definition make_call :: "provider \<Rightarrow> bool \<Rightarrow> string \<Rightarrow> string dict \<Rightarrow> string dict \<Rightarrow> json dict \<Rightarrow> http_call" where
  "make_call p post path headers params body =
     \<lparr>hc_post = post, hc_base = rstrip_slash (ap_base p), hc_path = path, hc_headers = headers,
      hc_params = params, hc_body = body\<rparr>"

subsection \<open>Chat\<close>

definition opt_put :: "string \<Rightarrow> json \<Rightarrow> json dict \<Rightarrow> json dict" where
  "opt_put k v d = (if v = JNull then d else AList.update k v d)"

definition put_int :: "string \<Rightarrow> int option \<Rightarrow> json dict \<Rightarrow> json dict" where
  "put_int k v d = (case v of None \<Rightarrow> d | Some i \<Rightarrow> AList.update k (JInt i) d)"

definition ollama_body :: "chat_args \<Rightarrow> int option \<Rightarrow> json dict" where
  "ollama_body a mt =
     (let options = put_int ''num_predict'' mt (if ca_options a = [] then [(''temperature'', JFloat (2 / 10))] else ca_options a) in
      opt_put ''format'' (dget (ca_kw a) ''format'')
        [(''model'', JStr (ca_model a)), (''stream'', JBool (truthy (dget (ca_kw a) ''stream''))),
         (''messages'', JArr (ca_messages a)), (''options'', JObj options)])"

definition ollama_prepare :: "net_env \<Rightarrow> provider \<Rightarrow> chat_args \<Rightarrow> (int option \<times> http_call) res" where
  "ollama_prepare ne p a =
     bnd (plan_tokens 256 None (dget (ca_kw a) ''max_tokens'') (budget_for p a)) (\<lambda>mt.
     bnd (headers_of ne p) (\<lambda>h. Inr (mt, make_call p True ''/api/chat'' h [] (ollama_body a mt))))"

definition compat_body :: "chat_args \<Rightarrow> int option \<Rightarrow> json dict" where
  "compat_body a mt =
     opt_put ''tools'' (dget (ca_kw a) ''tools'') (opt_put ''response_format'' (dget (ca_kw a) ''response_format'')
       (put_int ''max_tokens'' mt
         [(''model'', JStr (ca_model a)), (''messages'', JArr (ca_messages a)),
          (''stream'', JBool (truthy (dget (ca_kw a) ''stream'')))]))"

definition compat_prepare :: "net_env \<Rightarrow> provider \<Rightarrow> chat_args \<Rightarrow> (int option \<times> http_call) res" where
  "compat_prepare ne p a =
     bnd (ensure_tls p) (\<lambda>_.
     bnd (plan_tokens 1024 None (dget (ca_kw a) ''max_tokens'') (budget_for p a)) (\<lambda>mt.
     bnd (headers_of ne p) (\<lambda>h. Inr (mt, make_call p True ''/chat/completions'' h [] (compat_body a mt)))))"

text \<open>\<open>role\<close> and \<open>content\<close> of a message.\<close>

definition role_of :: "net_env \<Rightarrow> json \<Rightarrow> string res" where
  "role_of ne m = bnd (jget m ''role'') (\<lambda>r. Inr (py_str (ne_repr ne) (jor r (JStr ''user''))))"

definition message_parts :: "net_env \<Rightarrow> json \<Rightarrow> (string \<times> json) res" where
  "message_parts ne m = bnd (role_of ne m) (\<lambda>r. bnd (jget m ''content'') (\<lambda>c. Inr (r, c)))"

definition content_str :: "net_env \<Rightarrow> json \<Rightarrow> string" where
  "content_str ne c = py_str (ne_repr ne) (jor c (JStr []))"

definition system_parts :: "net_env \<Rightarrow> (string \<times> json) list \<Rightarrow> string list" where
  "system_parts ne ms = List.map (\<lambda>m. content_str ne (snd m)) (List.filter (\<lambda>m. fst m = ''system'') ms)"

definition spoken :: "(string \<times> json) list \<Rightarrow> (string \<times> json) list" where
  "spoken ms = List.filter (\<lambda>m. fst m \<noteq> ''system'') ms"

definition or_ping :: "json \<Rightarrow> json list \<Rightarrow> json list" where
  "or_ping ping ms = (if ms = [] then [ping] else ms)"

definition anthropic_message :: "string \<times> json \<Rightarrow> json" where
  "anthropic_message m = JObj [(''role'', JStr (if fst m \<in> {''user'', ''assistant''} then fst m else ''user'')), (''content'', snd m)]"

definition wants_json :: "chat_args \<Rightarrow> bool" where
  "wants_json a \<longleftrightarrow> dget (ca_kw a) ''response_format'' \<noteq> JNull \<or> dget (ca_kw a) ''format'' = JStr ''json''"

definition anthropic_body :: "net_env \<Rightarrow> chat_args \<Rightarrow> (string \<times> json) list \<Rightarrow> int option \<Rightarrow> json dict" where
  "anthropic_body ne a ms mt =
     (let sys = system_parts ne ms;
          b0 = [(''model'', JStr (ca_model a)), (''max_tokens'', JInt (or_zero mt)),
                (''messages'', JArr (or_ping (anthropic_message (''user'', JStr ''ping'')) (List.map anthropic_message (spoken ms))))];
          b1 = (if sys = [] then b0 else AList.update ''system'' (JStr (join [CHR 0x0A] sys)) b0);
          b2 = opt_put ''tools'' (dget (ca_kw a) ''tools'') b1
      in if wants_json a
         then AList.update ''system'' (JStr (strip (join [CHR 0x0A] sys @ CHR 0x0A # ''Respond with valid JSON only.''))) b2
         else b2)"

definition anthropic_prepare :: "net_env \<Rightarrow> provider \<Rightarrow> chat_args \<Rightarrow> (int option \<times> http_call) res" where
  "anthropic_prepare ne p a =
     bnd (map_res (message_parts ne) (ca_messages a)) (\<lambda>ms.
     bnd (plan_tokens 1024 (Some 1024) (dget (ca_kw a) ''max_tokens'') (budget_for p a)) (\<lambda>mt.
     bnd (headers_of ne p) (\<lambda>h. Inr (mt, make_call p True ''/v1/messages'' h [] (anthropic_body ne a ms mt)))))"

definition missing_key :: "provider \<Rightarrow> string option \<Rightarrow> bool" where
  "missing_key p k \<longleftrightarrow> k = None \<and> \<not> ap_injected p"

text \<open>\<open>quote(s, safe='/')\<close> on the bytes of the string.\<close>

definition quote_char :: "char \<Rightarrow> string" where
  "quote_char c =
     (let n = (of_char c :: nat) in
      if (48 \<le> n \<and> n \<le> 57) \<or> (65 \<le> n \<and> n \<le> 90) \<or> (97 \<le> n \<and> n \<le> 122) \<or> c \<in> set ''_.-~/'' then [c]
      else [CHR ''%'', ''0123456789ABCDEF'' ! (n div 16), ''0123456789ABCDEF'' ! (n mod 16)])"

definition url_quote :: "string \<Rightarrow> string" where
  "url_quote s = List.concat (List.map quote_char s)"

definition gemini_path :: "string \<Rightarrow> string \<Rightarrow> string" where
  "gemini_path model verb =
     ''/'' @ url_quote (if starts_with model ''models/'' then model else ''models/'' @ model) @ '':'' @ verb"

definition key_params :: "string option \<Rightarrow> string dict" where
  "key_params k = (case k of None \<Rightarrow> [] | Some v \<Rightarrow> [(''key'', v)])"

definition gemini_part :: "string \<Rightarrow> json" where
  "gemini_part s = JArr [JObj [(''text'', JStr s)]]"

definition gemini_content :: "net_env \<Rightarrow> string \<times> json \<Rightarrow> json" where
  "gemini_content ne m = JObj [(''role'', JStr (if fst m = ''assistant'' then ''model'' else ''user'')),
     (''parts'', gemini_part (content_str ne (snd m)))]"

definition gemini_body :: "net_env \<Rightarrow> chat_args \<Rightarrow> (string \<times> json) list \<Rightarrow> int option \<Rightarrow> json dict" where
  "gemini_body ne a ms mt =
     (let sys = system_parts ne ms;
          cfg = [(''maxOutputTokens'', JInt (or_zero mt))] @
                (if wants_json a then [(''responseMimeType'', JStr ''application/json'')] else [])
      in [(''contents'', JArr (or_ping (gemini_content ne (''user'', JStr ''ping'')) (List.map (gemini_content ne) (spoken ms)))),
          (''generationConfig'', JObj cfg)] @
         (if sys = [] then [] else [(''systemInstruction'', JObj [(''parts'', gemini_part (join [CHR 0x0A] sys))])]))"

definition gemini_prepare :: "net_env \<Rightarrow> provider \<Rightarrow> chat_args \<Rightarrow> (int option \<times> http_call) res" where
  "gemini_prepare ne p a =
     bnd (api_key ne p) (\<lambda>k.
     if missing_key p k then Inl (RuntimeError ''Gemini API key missing'')
     else bnd (map_res (message_parts ne) (ca_messages a)) (\<lambda>ms.
       bnd (plan_tokens 1024 (Some 1024) (dget (ca_kw a) ''max_tokens'') (budget_for p a)) (\<lambda>mt.
       bnd (headers_of ne p) (\<lambda>h.
         Inr (mt, make_call p True (gemini_path (ca_model a) ''generateContent'') h (key_params k) (gemini_body ne a ms mt))))))"

definition prepare_chat :: "net_env \<Rightarrow> provider \<Rightarrow> chat_args \<Rightarrow> (int option \<times> http_call) res" where
  "prepare_chat ne p a = (case ap_class p of
     Ollama \<Rightarrow> ollama_prepare ne p a | Anthropic \<Rightarrow> anthropic_prepare ne p a | Gemini \<Rightarrow> gemini_prepare ne p a
   | _ \<Rightarrow> compat_prepare ne p a)"

text \<open>The \<open>chat\<close> methods, and the one an adapter has.\<close>

definition ollama_adapter_chat :: "net_env \<Rightarrow> provider \<Rightarrow> chat_args \<Rightarrow> chat_result" where
  "ollama_adapter_chat ne p a = exchange ne p a (ollama_prepare ne p a)"

definition compat_adapter_chat :: "net_env \<Rightarrow> provider \<Rightarrow> chat_args \<Rightarrow> chat_result" where
  "compat_adapter_chat ne p a = exchange ne p a (compat_prepare ne p a)"

definition anthropic_adapter_chat :: "net_env \<Rightarrow> provider \<Rightarrow> chat_args \<Rightarrow> chat_result" where
  "anthropic_adapter_chat ne p a = exchange ne p a (anthropic_prepare ne p a)"

definition gemini_adapter_chat :: "net_env \<Rightarrow> provider \<Rightarrow> chat_args \<Rightarrow> chat_result" where
  "gemini_adapter_chat ne p a = exchange ne p a (gemini_prepare ne p a)"

definition chat :: "net_env \<Rightarrow> provider \<Rightarrow> chat_args \<Rightarrow> chat_result" where
  "chat ne p a = (case ap_class p of
     Ollama \<Rightarrow> ollama_adapter_chat ne p a | Anthropic \<Rightarrow> anthropic_adapter_chat ne p a
   | Gemini \<Rightarrow> gemini_adapter_chat ne p a | _ \<Rightarrow> compat_adapter_chat ne p a)"

lemma chat_exchange: "chat ne p a = exchange ne p a (prepare_chat ne p a)"
  by (cases "ap_class p")
    (simp_all add: chat_def prepare_chat_def ollama_adapter_chat_def compat_adapter_chat_def
      anthropic_adapter_chat_def gemini_adapter_chat_def)

subsection \<open>Health and models\<close>

definition get_json :: "net_env \<Rightarrow> provider \<Rightarrow> string \<Rightarrow> string dict \<Rightarrow> json res" where
  "get_json ne p path params =
     bnd (headers_of ne p) (\<lambda>h. ne_http ne (make_call p False path h params []))"

definition identity_of :: "provider \<Rightarrow> bool \<Rightarrow> json dict" where
  "identity_of p ok = [(''ok'', JBool ok), (''provider'', JStr (ap_id p)), (''kind'', JStr (ap_kind p))]"

definition base_of :: "provider \<Rightarrow> json dict" where
  "base_of p = [(''base_url'', JStr (ap_base p))]"

definition unhealthy :: "provider \<Rightarrow> json dict \<Rightarrow> string \<Rightarrow> json dict" where
  "unhealthy p extra e = identity_of p False @ extra @ [(''error'', JStr e), (''models'', JArr [])]"

definition healthy :: "provider \<Rightarrow> json list \<Rightarrow> json dict \<Rightarrow> json \<Rightarrow> json dict" where
  "healthy p names extra preferred =
     identity_of p True @ base_of p @ [(''models'', JArr names)] @ extra @
     [(''preferred_model'', preferred), (''model_count'', JInt (int (length names)))]"

definition or_failed :: "provider \<Rightarrow> string \<Rightarrow> json dict res \<Rightarrow> json dict" where
  "or_failed p what r = (case r of Inr d \<Rightarrow> d | Inl e \<Rightarrow> unhealthy p (base_of p) (what @ '' probe failed: '' @ exn_str e))"

subsubsection \<open>Ollama\<close>

definition OLLAMA_PREFERRED :: "string list" where
  "OLLAMA_PREFERRED = [''llama3.2:3b'', ''llama3.2'', ''llama3.1'', ''qwen2.5'', ''mistral'']"

text \<open>\<open>n == candidate or n.startswith(candidate)\<close>: a name that is no string has no \<open>startswith\<close>.\<close>

fun first_named :: "string \<Rightarrow> json list \<Rightarrow> json option res" where
  "first_named c [] = Inr None"
| "first_named c (n # ns) = (case n of
     JStr s \<Rightarrow> if starts_with s c then Inr (Some n) else first_named c ns
   | _ \<Rightarrow> Inl (AttributeError (CHR 0x27 # py_type n @ CHR 0x27 # '' object has no attribute '' @ CHR 0x27 # ''startswith'' @ [CHR 0x27])))"

fun first_preferred :: "string list \<Rightarrow> json list \<Rightarrow> json option res" where
  "first_preferred [] ns = Inr None"
| "first_preferred (c # cs) ns = bnd (first_named c ns) (\<lambda>r. case r of None \<Rightarrow> first_preferred cs ns | Some n \<Rightarrow> Inr (Some n))"

definition name_len :: "json \<Rightarrow> nat" where
  "name_len v = (case v of JStr s \<Rightarrow> py_len s | _ \<Rightarrow> 0)"

definition prefer_model :: "json list \<Rightarrow> json res" where
  "prefer_model names = bnd (first_preferred OLLAMA_PREFERRED names) (\<lambda>r.
     Inr (case r of Some n \<Rightarrow> n | None \<Rightarrow> hd (sort_key name_len names)))"

text \<open>\<open>m.get("digest") or m.get("details", {}).get("parent_model")\<close>.\<close>

definition ollama_digest :: "json dict \<Rightarrow> json res" where
  "ollama_digest m =
     (if truthy (dget m ''digest'') then Inr (dget m ''digest'')
      else case map_of m ''details'' of None \<Rightarrow> Inr JNull | Some d \<Rightarrow> jget d ''parent_model'')"

text \<open>The key of a dictionary: a container cannot be one, a scalar that is no string is its rendering here.\<close>

definition dict_key :: "net_env \<Rightarrow> json \<Rightarrow> string res" where
  "dict_key ne n = (case n of
     JArr _ \<Rightarrow> Inl (TypeError (''unhashable type: '' @ CHR 0x27 # ''list'' @ [CHR 0x27]))
   | JObj _ \<Rightarrow> Inl (TypeError (''unhashable type: '' @ CHR 0x27 # ''dict'' @ [CHR 0x27]))
   | _ \<Rightarrow> Inr (py_str (ne_repr ne) n))"

fun digests_of :: "net_env \<Rightarrow> json list \<Rightarrow> json dict \<Rightarrow> json dict res" where
  "digests_of ne [] acc = Inr acc"
| "digests_of ne (m # ms) acc =
     (if truthy (dget (obj_of m) ''name'') then
        bnd (dict_key ne (dget (obj_of m) ''name'')) (\<lambda>k.
        bnd (ollama_digest (obj_of m)) (\<lambda>d. digests_of ne ms (AList.update k d acc)))
      else digests_of ne ms acc)"

definition ollama_models :: "net_env \<Rightarrow> provider \<Rightarrow> json \<Rightarrow> json dict res" where
  "ollama_models ne p payload =
     bnd (jget payload ''models'') (\<lambda>models.
     bnd (py_iter (jor models (JArr []))) (\<lambda>ms.
     bnd (map_res (\<lambda>m. jget m ''name'') ms) (\<lambda>all_names.
     bnd (digests_of ne ms []) (\<lambda>digests.
       let names = List.filter truthy all_names in
       if names = [] then Inr (unhealthy p (base_of p) ''Ollama is reachable but no models are installed'')
       else bnd (prefer_model names) (\<lambda>n.
         Inr (healthy p names [(''digests'', JObj (List.filter (\<lambda>kv. truthy (snd kv)) digests))] n))))))"

definition ollama_health :: "net_env \<Rightarrow> provider \<Rightarrow> json dict" where
  "ollama_health ne p = or_failed p ''Ollama'' (bnd (get_json ne p ''/api/tags'' []) (ollama_models ne p))"

subsubsection \<open>OpenAI-compatible endpoints\<close>

definition entries_of :: "json \<Rightarrow> json dict list res" where
  "entries_of v = bnd (py_iter v) (\<lambda>ms. Inr (List.map obj_of (List.filter is_obj ms)))"

definition compat_models :: "provider \<Rightarrow> json \<Rightarrow> json dict res" where
  "compat_models p payload =
     bnd (jget payload ''data'') (\<lambda>d.
     bnd (jget payload ''models'') (\<lambda>m.
     bnd (entries_of (jor d (jor m (JArr [])))) (\<lambda>ms.
       let names = List.filter truthy (List.map (\<lambda>e. jor (dget e ''id'') (dget e ''name'')) ms) in
       Inr (if names = [] then unhealthy p (base_of p) ''Endpoint reachable but no models listed''
            else healthy p names [] (hd names)))))"

definition compat_health :: "net_env \<Rightarrow> provider \<Rightarrow> json dict" where
  "compat_health ne p = or_failed p ''OpenAI-compatible''
     (bnd (ensure_tls p) (\<lambda>_. bnd (get_json ne p ''/models'' []) (compat_models p)))"

definition display_of :: "provider \<Rightarrow> string" where
  "display_of p = (case ap_class p of OpenAI \<Rightarrow> ''OpenAI'' | OpenRouter \<Rightarrow> ''OpenRouter'' | Anthropic \<Rightarrow> ''Anthropic''
     | Gemini \<Rightarrow> ''Google Gemini'' | _ \<Rightarrow> ''Custom provider ('' @ ap_id p @ '')'')"

definition docs_url :: "provider \<Rightarrow> string" where
  "docs_url p = (case ap_class p of OpenAI \<Rightarrow> ''https://platform.openai.com/docs'' | OpenRouter \<Rightarrow> ''https://openrouter.ai/docs''
     | Anthropic \<Rightarrow> ''https://docs.anthropic.com/'' | Gemini \<Rightarrow> ''https://ai.google.dev/''
     | _ \<Rightarrow> ''https://brainflow.local/docs/MODEL_SELECTION.md'')"

definition about :: "provider \<Rightarrow> json dict" where
  "about p = [(''display'', JStr (display_of p)), (''docs_url'', JStr (docs_url p)), (''secret_ref'', JStr (ap_key_ref p))]"

definition next_steps :: "provider \<Rightarrow> json dict" where
  "next_steps p = [(''next_steps'', JArr
     [JStr (''Store API key via secrets.set under ref '' @ CHR 0x27 # ap_key_ref p @ [CHR 0x27]), JStr (''See '' @ docs_url p)])]"

definition key_missing :: "provider \<Rightarrow> string \<Rightarrow> string \<Rightarrow> json dict" where
  "key_missing p nm ref =
     unhealthy p (about p) (nm @ '' API key missing (secrets ref '' @ CHR 0x27 # ref @ CHR 0x27 # '')'')"

definition openai_health :: "net_env \<Rightarrow> provider \<Rightarrow> json dict res" where
  "openai_health ne p = bnd (api_key ne p) (\<lambda>k. Inr
     (if missing_key p k then key_missing p ''OpenAI'' ''openai'' else compat_health ne p))"

definition openrouter_health :: "net_env \<Rightarrow> provider \<Rightarrow> json dict res" where
  "openrouter_health ne p = bnd (api_key ne p) (\<lambda>k. Inr
     (if missing_key p k then key_missing p ''OpenRouter'' ''openrouter'' @ next_steps p else compat_health ne p))"

definition custom_health :: "net_env \<Rightarrow> provider \<Rightarrow> json dict" where
  "custom_health ne p = dict_update (compat_health ne p) (about p)"

subsubsection \<open>Anthropic and Gemini\<close>

definition anthropic_models :: "provider \<Rightarrow> json \<Rightarrow> json dict res" where
  "anthropic_models p payload =
     bnd (jget payload ''data'') (\<lambda>d.
     bnd (entries_of (jor d (JArr []))) (\<lambda>ms.
       let names = List.filter truthy (List.map (\<lambda>e. dget e ''id'') ms) in
       Inr (if names = [] then unhealthy p [] ''Anthropic reachable but no models listed''
            else healthy p names [] (hd names))))"

definition anthropic_health :: "net_env \<Rightarrow> provider \<Rightarrow> json dict res" where
  "anthropic_health ne p = bnd (api_key ne p) (\<lambda>k. Inr
     (if missing_key p k then key_missing p ''Anthropic'' ''anthropic'' @ next_steps p
      else or_failed p ''Anthropic'' (bnd (get_json ne p ''/v1/models'' []) (anthropic_models p))))"

text \<open>\<open>"generateContent" in methods\<close> on whatever the API sent.\<close>

definition py_in :: "string \<Rightarrow> json \<Rightarrow> bool res" where
  "py_in s v = (case v of
     JArr xs \<Rightarrow> Inr (JStr s \<in> set xs)
   | JObj d \<Rightarrow> Inr (s \<in> set (dict_keys d))
   | JStr t \<Rightarrow> Inr (contains t s)
   | _ \<Rightarrow> Inl (TypeError (''argument of type '' @ CHR 0x27 # py_type v @ CHR 0x27 # '' is not iterable'')))"

definition gemini_name :: "net_env \<Rightarrow> json dict \<Rightarrow> string" where
  "gemini_name ne m =
     (let n = py_str (ne_repr ne) (jor (dget m ''name'') (JStr [])) in
      if starts_with n ''models/'' then drop 7 n else n)"

definition gemini_listed :: "net_env \<Rightarrow> json dict \<Rightarrow> string list res" where
  "gemini_listed ne m =
     (let n = gemini_name ne m; methods = jor (dget m ''supportedGenerationMethods'') (JArr []) in
      if n = [] then Inr []
      else bnd (py_in ''generateContent'' methods) (\<lambda>b. Inr (if b \<or> \<not> truthy methods then [n] else [])))"

definition gemini_models :: "net_env \<Rightarrow> provider \<Rightarrow> json \<Rightarrow> json dict res" where
  "gemini_models ne p payload =
     bnd (jget payload ''models'') (\<lambda>d.
     bnd (entries_of (jor d (JArr []))) (\<lambda>ms.
     bnd (map_res (gemini_listed ne) ms) (\<lambda>ns.
       let names = List.concat ns in
       Inr (if names = [] then unhealthy p [] ''Gemini reachable but no generative models listed''
            else healthy p (List.map JStr names) []
              (JStr (case List.find (\<lambda>n. contains (lower n) ''flash'') names of Some n \<Rightarrow> n | None \<Rightarrow> hd names))))))"

definition gemini_health :: "net_env \<Rightarrow> provider \<Rightarrow> json dict res" where
  "gemini_health ne p = bnd (api_key ne p) (\<lambda>k. Inr
     (if missing_key p k then key_missing p ''Gemini'' ''gemini'' @ next_steps p
      else or_failed p ''Gemini'' (bnd (get_json ne p ''/models'' (key_params k)) (gemini_models ne p))))"

definition health :: "net_env \<Rightarrow> provider \<Rightarrow> json dict res" where
  "health ne p = (case ap_class p of
     Ollama \<Rightarrow> Inr (ollama_health ne p) | Compat \<Rightarrow> Inr (compat_health ne p) | OpenAI \<Rightarrow> openai_health ne p
   | OpenRouter \<Rightarrow> openrouter_health ne p | Custom \<Rightarrow> Inr (custom_health ne p)
   | Anthropic \<Rightarrow> anthropic_health ne p | Gemini \<Rightarrow> gemini_health ne p)"

definition listed_model :: "provider \<Rightarrow> json \<Rightarrow> bool \<Rightarrow> json \<Rightarrow> json" where
  "listed_model p digest local n =
     JObj [(''provider'', JStr (ap_id p)), (''name'', n), (''digest'', digest), (''local'', JBool local)]"

text \<open>The models a health report lists; \<open>digests\<close> is keyed by names.\<close>

definition ollama_list_models :: "net_env \<Rightarrow> provider \<Rightarrow> json dict \<Rightarrow> json list" where
  "ollama_list_models ne p h =
     (let digests = obj_of (dget h ''digests'') in
      List.map (\<lambda>n. listed_model p (dget digests (py_str (ne_repr ne) n)) True n) (arr_of (dget h ''models'')))"

definition compat_list_models :: "provider \<Rightarrow> json dict \<Rightarrow> json list res" where
  "compat_list_models p h =
     (let names = arr_of (dget h ''models'') in
      if names = [] then Inr []
      else bnd (is_loopback (ap_base p)) (\<lambda>l. Inr (List.map (listed_model p JNull l) names)))"

definition anthropic_list_models :: "provider \<Rightarrow> json dict \<Rightarrow> json list" where
  "anthropic_list_models p h = List.map (listed_model p JNull False) (arr_of (dget h ''models''))"

definition gemini_list_models :: "provider \<Rightarrow> json dict \<Rightarrow> json list" where
  "gemini_list_models p h = List.map (listed_model p JNull False) (arr_of (dget h ''models''))"

definition list_models :: "net_env \<Rightarrow> provider \<Rightarrow> json list res" where
  "list_models ne p =
     bnd (health ne p) (\<lambda>h. case ap_class p of
       Ollama \<Rightarrow> Inr (ollama_list_models ne p h)
     | Anthropic \<Rightarrow> Inr (anthropic_list_models p h)
     | Gemini \<Rightarrow> Inr (gemini_list_models p h)
     | _ \<Rightarrow> compat_list_models p h)"

subsubsection \<open>All providers\<close>

definition healthy_provider :: "json dict \<Rightarrow> bool" where
  "healthy_provider h \<longleftrightarrow> truthy (dget h ''ok'')"

definition ollama_report :: "json dict list \<Rightarrow> json dict" where
  "ollama_report hs = (case List.find (\<lambda>h. dget h ''provider'' = JStr ''ollama'') hs of Some h \<Rightarrow> h | None \<Rightarrow> [])"

definition health_summary :: "json dict list \<Rightarrow> json dict" where
  "health_summary hs =
     (let ok = list_ex healthy_provider hs;
          pref = (case List.find healthy_provider hs of Some h \<Rightarrow> h | None \<Rightarrow> []);
          oll = ollama_report hs in
      [(''ok'', JBool ok),
       (''provider'', jor (dget pref ''provider'') (JStr ''none'')),
       (''preferred_model'', jor (dget pref ''preferred_model'') (dget oll ''preferred_model'')),
       (''models'', jor (dget oll ''models'') (JArr [])),
       (''model_count'', jor (dget oll ''model_count'') (JInt 0)),
       (''base_url'', dget oll ''base_url''),
       (''digests'', jor (dget oll ''digests'') (JObj [])),
       (''providers'', JArr (List.map JObj hs)),
       (''error'', if ok then JNull else JStr ''No validated LLM provider available'')])"

definition aggregate_health :: "net_env \<Rightarrow> json dict res" where
  "aggregate_health ne =
     bnd (default_adapters ne) (\<lambda>ps. bnd (map_res (health ne) ps) (\<lambda>hs. Inr (health_summary hs)))"

subsection \<open>Embeddings and hooks\<close>

text \<open>One call per input, in order; the first exception ends them.\<close>

fun embed_each :: "net_env \<Rightarrow> (string \<Rightarrow> http_call) \<Rightarrow> (json \<Rightarrow> json list res) \<Rightarrow> string list \<Rightarrow> http_call list \<times> json list res" where
  "embed_each ne mk vec [] = ([], Inr [])"
| "embed_each ne mk vec (i # inputs) =
     (case bnd (ne_http ne (mk i)) vec of
        Inl e \<Rightarrow> ([mk i], Inl e)
      | Inr v \<Rightarrow> (case embed_each ne mk vec inputs of (cs, r) \<Rightarrow> (mk i # cs, bnd r (\<lambda>vs. Inr (JArr v # vs)))))"

definition embedding_result :: "provider \<Rightarrow> string \<Rightarrow> json list \<Rightarrow> json dict" where
  "embedding_result p model vs =
     [(''embeddings'', JArr vs), (''model'', JStr model), (''provider'', JStr (ap_id p))]"

definition ollama_vector :: "json \<Rightarrow> json list res" where
  "ollama_vector data = bnd (jget data ''embedding'') (\<lambda>e. py_iter (jor e (JArr [])))"

definition gemini_vector :: "json \<Rightarrow> json list res" where
  "gemini_vector data =
     bnd (jget data ''embedding'') (\<lambda>e. bnd (jget (jor e (JObj [])) ''values'') (\<lambda>v.
       py_iter (jor v (jor (dget (obj_of data) ''values'') (JArr [])))))"

definition ollama_embeddings :: "net_env \<Rightarrow> provider \<Rightarrow> string \<Rightarrow> string list \<Rightarrow> http_call list \<times> json dict res" where
  "ollama_embeddings ne p model inputs =
     (case embed_each ne (\<lambda>i. make_call p True ''/api/embeddings'' [] [] [(''model'', JStr model), (''prompt'', JStr i)])
             ollama_vector inputs of
        (cs, r) \<Rightarrow> (cs, bnd r (\<lambda>vs. Inr (embedding_result p model vs))))"

definition compat_rows :: "json \<Rightarrow> json list res" where
  "compat_rows data = bnd (jget data ''data'') (\<lambda>d. bnd (py_iter (jor d (JArr []))) (map_res (\<lambda>row. jget row ''embedding'')))"

definition compat_embeddings :: "net_env \<Rightarrow> provider \<Rightarrow> string \<Rightarrow> string list \<Rightarrow> http_call list \<times> json dict res" where
  "compat_embeddings ne p model inputs =
     (case bnd (ensure_tls p) (\<lambda>_. headers_of ne p) of
        Inl e \<Rightarrow> ([], Inl e)
      | Inr h \<Rightarrow>
          (let call = make_call p True ''/embeddings'' h [] [(''model'', JStr model), (''input'', JArr (List.map JStr inputs))] in
           ([call], bnd (ne_http ne call) (\<lambda>data. bnd (compat_rows data) (\<lambda>vs. Inr (embedding_result p model vs))))))"

definition gemini_embeddings :: "net_env \<Rightarrow> provider \<Rightarrow> string \<Rightarrow> string list \<Rightarrow> http_call list \<times> json dict res" where
  "gemini_embeddings ne p model inputs =
     (case api_key ne p of
        Inl e \<Rightarrow> ([], Inl e)
      | Inr k \<Rightarrow>
          (if missing_key p k then ([], Inl (RuntimeError ''Gemini API key missing''))
           else case embed_each ne (\<lambda>i. make_call p True (gemini_path model ''embedContent'') json_header (key_params k)
                        [(''content'', JObj [(''parts'', gemini_part i)])]) gemini_vector inputs of
             (cs, r) \<Rightarrow> (cs, bnd r (\<lambda>vs. Inr (embedding_result p model vs)))))"

definition embeddings :: "net_env \<Rightarrow> provider \<Rightarrow> string \<Rightarrow> string list \<Rightarrow> http_call list \<times> json dict res" where
  "embeddings ne p model inputs = (case ap_class p of
     Ollama \<Rightarrow> ollama_embeddings ne p model inputs
   | Gemini \<Rightarrow> gemini_embeddings ne p model inputs
   | Anthropic \<Rightarrow> ([], Inl (RuntimeError (ap_id p @ '' embeddings not implemented'')))
   | _ \<Rightarrow> compat_embeddings ne p model inputs)"

definition probe_hooks :: "provider \<Rightarrow> (string \<times> bool) list" where
  "probe_hooks p =
     [(''json_schema'', True), (''tools'', True), (''vision'', True), (''embeddings'', ap_class p \<noteq> Anthropic),
      (''streaming'', True), (''cancellation'', True)]"

end
