(* ===== verification/ProvidersCorrect.thy ===== *)
theory ProvidersCorrect
  imports Providers
begin

section \<open>What the provider adapters promise\<close>

text \<open>
  Every chat asks its budget before it sends, sends at most one request that carries the agreed token
  cap, and charges the answer to the budget. The contract is a locale; a session of requests over one
  budget is bounded by it. And an adapter that requires TLS sends nothing in the clear.
\<close>

subsection \<open>The token cap of a request\<close>

definition body_cap :: "provider_class \<Rightarrow> json dict \<Rightarrow> json" where
  "body_cap c body = (case c of
     Ollama \<Rightarrow> dget (obj_of (dget body ''options'')) ''num_predict''
   | Gemini \<Rightarrow> dget (obj_of (dget body ''generationConfig'')) ''maxOutputTokens''
   | _ \<Rightarrow> dget body ''max_tokens'')"

lemma dget_opt_put: "dget (opt_put k v d) k' = (if k = k' \<and> v \<noteq> JNull then v else dget d k')"
  by (simp add: opt_put_def dget_put)

lemma dget_put_int: "dget (put_int k (Some i) d) k' = (if k = k' then JInt i else dget d k')"
  by (simp add: put_int_def dget_put)

lemma dget_Cons: "dget ((k, v) # d) k' = (if k = k' then v else dget d k')"
  by (auto simp: dget_def)

lemma or_zero_Some [simp]: "or_zero (Some n) = n"
  by (simp add: or_zero_def)

lemmas body_simps = dget_opt_put dget_put_int dget_put dget_Cons

lemma ollama_cap: "dget (obj_of (dget (ollama_body a (Some n)) ''options'')) ''num_predict'' = JInt n"
  by (simp add: ollama_body_def Let_def body_simps)

lemma compat_cap: "dget (compat_body a (Some n)) ''max_tokens'' = JInt n"
  by (simp add: compat_body_def body_simps)

lemma anthropic_cap: "dget (anthropic_body ne a ms (Some n)) ''max_tokens'' = JInt n"
  by (simp add: anthropic_body_def Let_def body_simps)

lemma gemini_cap: "dget (obj_of (dget (gemini_body ne a ms (Some n)) ''generationConfig'')) ''maxOutputTokens'' = JInt n"
  by (simp add: gemini_body_def Let_def body_simps)

lemma clamp_bounds:
  "clamp_max_tokens r d b = Inr n \<Longrightarrow> 1 \<le> n \<and> (\<forall>m. b_max_tokens b = Some m \<longrightarrow> n \<le> m - b_tokens b)"
  by (auto simp: clamp_max_tokens_def remaining_tokens_def Let_def split: option.splits if_splits)

lemma plan_tokens_agreed:
  assumes "plan_tokens d u planned (Some b) = Inr mt"
  shows "\<exists>n. mt = Some n \<and> 1 \<le> n \<and> check_before_request (Some n) b = Inr () \<and>
    (\<forall>m. b_max_tokens b = Some m \<longrightarrow> n \<le> m - b_tokens b)"
proof -
  obtain r n where "clamp_max_tokens r d b = Inr n" "check_before_request (Some n) b = Inr ()" "mt = Some n"
    using assms by (auto simp: plan_tokens_def bnd_Inr_iff)
  then show ?thesis using clamp_bounds by blast
qed

lemmas prepare_defs = ollama_prepare_def compat_prepare_def anthropic_prepare_def gemini_prepare_def

lemma prepared_plan:
  assumes "prepare_chat ne p a = Inr (mt, call)"
  shows "\<exists>d u planned. plan_tokens d u planned (budget_for p a) = Inr mt"
  using assms by (auto simp: prepare_chat_def prepare_defs bnd_Inr_iff split: provider_class.splits if_splits)

lemma prepared_cap:
  assumes "prepare_chat ne p a = Inr (Some n, call)"
  shows "body_cap (ap_class p) (hc_body call) = JInt n"
  using assms
  by (cases "ap_class p")
    (auto simp: prepare_chat_def prepare_defs bnd_Inr_iff make_call_def ollama_cap gemini_cap
      body_cap_def compat_cap anthropic_cap split: if_splits)

subsection \<open>The contract\<close>

locale metered =
  fixes send :: "'r \<Rightarrow> request_budget \<Rightarrow> 'c list \<times> 'a res \<times> request_budget"
  assumes one_call: "send r b = (cs, v, b') \<Longrightarrow> length cs \<le> 1"
    and consent: "send r b = (cs, v, b') \<Longrightarrow> cs \<noteq> [] \<Longrightarrow> \<exists>n. check_before_request (Some n) b = Inr ()"
    and answered: "send r b = (cs, Inr d, b') \<Longrightarrow> cs \<noteq> [] \<and> request b False b'"
    and kept: "send r b = (cs, v, b') \<Longrightarrow> b' = b \<or> (\<exists>f. request b f b')"

text \<open>Requests one after the other on one budget, whatever becomes of each.\<close>

fun session :: "('r \<Rightarrow> request_budget \<Rightarrow> 'c list \<times> 'a res \<times> request_budget) \<Rightarrow> 'r list \<Rightarrow> request_budget \<Rightarrow>
    ('c list \<times> 'a res) list \<times> request_budget" where
  "session send [] b = ([], b)"
| "session send (r # rs) b =
     (case send r b of (cs, v, b1) \<Rightarrow> (case session send rs b1 of (outs, b2) \<Rightarrow> ((cs, v) # outs, b2)))"

definition answers :: "('c list \<times> 'a res) list \<Rightarrow> nat" where
  "answers outs = length (List.filter (\<lambda>out. \<not> isl (snd out)) outs)"

lemma answers_simps [simp]:
  "answers [] = 0"
  "answers ((cs, v) # outs) = (if isl v then answers outs else Suc (answers outs))"
  by (simp_all add: answers_def)

lemma request_counts:
  assumes "request b f b'"
  shows "b_requests b' = b_requests b + 1" "b_max_requests b' = b_max_requests b"
    "b_tokens b \<le> b_tokens b'" "\<And>m. b_max_requests b = Some m \<Longrightarrow> b_requests b < m"
  using assms by (auto elim!: requestE simp: check_ok dest: record_usage_fields)

lemma request_respects: "request b False b' \<Longrightarrow> respected b \<Longrightarrow> respected b'"
  using requests_made_inv [OF requests_made.more [OF requests_made.none]] by blast

context metered
begin

lemma step_counts:
  assumes "send r b = (cs, v, b')"
  shows "b_requests b + (if isl v then 0 else 1) \<le> b_requests b' \<and> b_max_requests b' = b_max_requests b \<and>
    (\<forall>m. b_max_requests b = Some m \<longrightarrow> b_requests b' \<le> max (b_requests b) m)"
proof (cases v)
  case (Inl e)
  then show ?thesis using kept [OF assms] request_counts [of b _ b'] by fastforce
next
  case (Inr d)
  then show ?thesis using answered [of r b cs d b'] assms request_counts [of b False b'] by fastforce
qed

lemma session_bounded:
  assumes "session send rs b = (outs, b')"
  shows "b_requests b + int (answers outs) \<le> b_requests b' \<and> b_max_requests b' = b_max_requests b \<and>
    (\<forall>m. b_max_requests b = Some m \<longrightarrow> b_requests b' \<le> max (b_requests b) m) \<and>
    list_all (\<lambda>out. length (fst out) \<le> 1) outs"
  using assms
proof (induction rs arbitrary: b outs)
  case Nil
  then show ?case by simp
next
  case (Cons r rs)
  obtain cs v b1 where s: "send r b = (cs, v, b1)" by (cases "send r b")
  obtain outs1 b2 where t: "session send rs b1 = (outs1, b2)" by (cases "session send rs b1")
  have o: "outs = (cs, v) # outs1" "b2 = b'" using Cons.prems s t by auto
  show ?case using Cons.IH [OF t [unfolded o(2)]] step_counts [OF s] one_call [OF s] unfolding o by (auto simp: max_def split: if_splits)
qed

end

subsection \<open>The adapters keep it\<close>

definition send_chat :: "net_env \<Rightarrow> provider \<Rightarrow> chat_args \<Rightarrow> request_budget \<Rightarrow> http_call list \<times> json res \<times> request_budget" where
  "send_chat ne p a b =
     (case chat ne p (a\<lparr>ca_budget := Some b\<rparr>) of (cs, v, b') \<Rightarrow> (cs, v, case b' of Some c \<Rightarrow> c | None \<Rightarrow> b))"

lemma charged_request:
  assumes "charge pid model data n b = (v, b')" "check_before_request (Some k) b = Inr ()"
  shows "(b' = b \<and> isl v) \<or> request b (v \<noteq> Inr ()) b'"
  using assms by (auto simp: charge_def split: sum.splits intro: request.request)

lemma chat_cases:
  assumes "chat ne p a = (cs, v, bo)" "budget_for p a = Some b"
  obtains (refused) e where "cs = []" "v = Inl e" "bo = Some b"
  | (failed) n call e where "prepare_chat ne p a = Inr (Some n, call)" "cs = [call]" "v = Inl e" "bo = Some b"
      "ne_http ne call = Inl e" "1 \<le> n" "check_before_request (Some n) b = Inr ()"
  | (charged) n call data u b' where "prepare_chat ne p a = Inr (Some n, call)" "cs = [call]" "bo = Some b'"
      "ne_http ne call = Inr data" "charge (ap_id p) (ca_model a) data n b = (u, b')" "v = bnd u (\<lambda>_. Inr data)"
      "1 \<le> n" "check_before_request (Some n) b = Inr ()"
proof (cases "prepare_chat ne p a")
  case (Inl e)
  then show ?thesis using assms refused by (auto simp: chat_exchange exchange_def Let_def)
next
  case (Inr mc)
  obtain mt call where mc: "mc = (mt, call)" by (cases mc)
  obtain n where n: "mt = Some n" "1 \<le> n" "check_before_request (Some n) b = Inr ()"
    using prepared_plan [of ne p a mt call] plan_tokens_agreed assms(2) Inr mc by metis
  have p: "prepare_chat ne p a = Inr (Some n, call)" using Inr mc n by simp
  show ?thesis
  proof (cases "ne_http ne call")
    case (Inl e)
    then show ?thesis using failed [OF p _ _ _ Inl n(2,3)] assms by (auto simp: chat_exchange exchange_def p)
  next
    case (Inr data)
    obtain u b' where c: "charge (ap_id p) (ca_model a) data n b = (u, b')" by (cases "charge (ap_id p) (ca_model a) data n b")
    show ?thesis using charged [OF p _ _ Inr c _ n(2,3)] assms by (auto simp: chat_exchange exchange_def p Inr c)
  qed
qed

lemma send_chat_cases:
  assumes "send_chat ne p r b = (cs, v, b')"
  obtains (refused) e where "cs = []" "v = Inl e" "b' = b"
  | (failed) n call e where "cs = [call]" "v = Inl e" "b' = b" "check_before_request (Some n) b = Inr ()"
  | (charged) n call data u where "cs = [call]" "charge (ap_id p) (ca_model r) data n b = (u, b')"
      "v = bnd u (\<lambda>_. Inr data)" "check_before_request (Some n) b = Inr ()"
proof -
  let ?a = "r\<lparr>ca_budget := Some b\<rparr>"
  obtain bo where c: "chat ne p ?a = (cs, v, bo)" and b': "b' = (case bo of Some c \<Rightarrow> c | None \<Rightarrow> b)"
    using assms by (auto simp: send_chat_def split: prod.splits)
  have "budget_for p ?a = Some b" by (simp add: budget_for_def)
  from c this show ?thesis
  proof (cases rule: chat_cases)
    case refused then show ?thesis using that(1) b' by simp
  next
    case failed then show ?thesis using that(2) b' by simp
  next
    case charged then show ?thesis using that(3) b' by simp
  qed
qed

interpretation wire: metered "send_chat ne p" for ne p
proof
  fix r :: chat_args and b b' :: request_budget and cs :: "http_call list" and v :: "json res" and d :: json
  show "length cs \<le> 1" if "send_chat ne p r b = (cs, v, b')"
    using that by (cases rule: send_chat_cases) auto
  show "\<exists>n. check_before_request (Some n) b = Inr ()" if "send_chat ne p r b = (cs, v, b')" "cs \<noteq> []"
    using that by (cases rule: send_chat_cases) auto
  show "cs \<noteq> [] \<and> request b False b'" if "send_chat ne p r b = (cs, Inr d, b')"
    using that
  proof (cases rule: send_chat_cases)
    case (charged n call data u)
    then have "u = Inr ()" by (cases u) auto
    then show ?thesis using charged charged(2) [THEN charged_request] by auto
  qed auto
  show "b' = b \<or> (\<exists>f. request b f b')" if "send_chat ne p r b = (cs, v, b')"
    using that
  proof (cases rule: send_chat_cases)
    case (charged n call data u)
    then show ?thesis using charged(2) [THEN charged_request] by auto
  qed auto
qed

subsection \<open>Properties\<close>

text \<open>C36: No chat leaves without its budget's consent. A chat sends at most one request; if it sent one, the
  budget's check had passed for the token cap written in the request, a cap between 1 and what remained of
  the token limit; a chat that was refused sent nothing and left the budget as it was; and an answer comes
  only with the request charged to the budget, within its limits.\<close>

theorem chat_needs_consent:
  assumes "chat ne p a = (calls, v, bo)" "budget_for p a = Some b"
  shows "length calls \<le> 1 \<and> (calls = [] \<longrightarrow> bo = Some b \<and> isl v) \<and>
    (calls \<noteq> [] \<longrightarrow> (\<exists>n. body_cap (ap_class p) (hc_body (hd calls)) = JInt n \<and> 1 \<le> n \<and>
       (\<forall>m. b_max_tokens b = Some m \<longrightarrow> n \<le> m - b_tokens b) \<and> check_before_request (Some n) b = Inr ())) \<and>
    (\<forall>data. v = Inr data \<longrightarrow> (\<exists>b'. bo = Some b' \<and> request b False b' \<and> (respected b \<longrightarrow> respected b')))"
  using assms
proof (cases rule: chat_cases)
  case refused
  then show ?thesis by simp
next
  case (failed n call e)
  then show ?thesis using prepared_cap [OF failed(1)] by (auto simp: check_ok)
next
  case (charged n call data u b')
  have "v = Inr data' \<Longrightarrow> request b False b'" for data'
    using charged_request [OF charged(5,8)] charged(6) by (cases u) auto
  then show ?thesis
    using charged prepared_cap [OF charged(1)] request_respects [of b b'] by (auto simp: check_ok)
qed

definition demo_net :: net_env where
  "demo_net = \<lparr>ne_http = (\<lambda>_. Inr (JObj [(''usage'', JObj [(''total_tokens'', JInt 7)])])), ne_secret = (\<lambda>_. Inr (Some ''k'')),
     ne_repr = (\<lambda>_. []), ne_environ = (\<lambda>_. None)\<rparr>"

definition demo_chat :: chat_args where
  "demo_chat = \<lparr>ca_model = ''m'', ca_messages = [JObj [(''role'', JStr ''user''), (''content'', JStr ''hi'')]],
     ca_options = [], ca_kw = [(''max_tokens'', JInt 4096)], ca_budget = Some (new_budget (Some 10) None (Some 2) ''x'')\<rparr>"

theorem chat_needs_consent_witness:
  "\<exists>calls v bo. chat demo_net anthropic_adapter demo_chat = (calls, v, bo) \<and> length calls = 1 \<and>
     body_cap Anthropic (hc_body (hd calls)) = JInt 10"
proof -
  obtain calls v bo where c: "chat demo_net anthropic_adapter demo_chat = (calls, v, bo)"
    by (cases "chat demo_net anthropic_adapter demo_chat")
  have b: "budget_for anthropic_adapter demo_chat = Some (new_budget (Some 10) None (Some 2) ''x'')"
    by (simp add: budget_for_def demo_chat_def)
  have v: "fst (chat demo_net anthropic_adapter demo_chat) \<noteq> []
      \<and> body_cap Anthropic (hc_body (hd (fst (chat demo_net anthropic_adapter demo_chat)))) = JInt 10" by code_simp
  have "length calls \<le> 1" using chat_needs_consent [OF c b] by blast
  then have "length calls = 1" using v c by (cases calls) auto
  then show ?thesis using c v by auto
qed

text \<open>A session of chats over one budget, whatever becomes of each, gets at most as many answers as
  requests were left in the budget, and never counts more than \<open>max_requests\<close>. (A request that fails on
  the wire is not counted: \<open>chat\<close> leaves the budget as it was then.)\<close>

theorem session_is_bounded:
  assumes "session (send_chat ne p) as b = (outs, b')" "b_max_requests b = Some m"
  shows "int (answers outs) \<le> max 0 (m - b_requests b) \<and> b_requests b' \<le> max (b_requests b) m"
  using wire.session_bounded [OF assms(1)] assms(2) by (auto simp: max_def split: if_splits)

theorem session_is_bounded_witness:
  "int (answers (fst (session (send_chat demo_net anthropic_adapter) [demo_chat, demo_chat, demo_chat] (new_budget None None (Some 2) ''x'')))) \<le> 2"
  using session_is_bounded [where ne = demo_net and p = anthropic_adapter and as = "[demo_chat, demo_chat, demo_chat]"
      and b = "new_budget None None (Some 2) ''x''" and m = 2, OF surjective_pairing]
  by (simp add: new_budget_def)

text \<open>An HTTP failure leaves the budget as it was: such requests are free.\<close>

theorem failed_request_is_free:
  assumes "prepare_chat ne p a = Inr (mt, call)" "ne_http ne call = Inl e"
  shows "chat ne p a = ([call], Inl e, budget_for p a)"
  using assms by (simp add: chat_exchange exchange_def Let_def)

theorem failed_request_is_free_witness:
  "chat (demo_net\<lparr>ne_http := \<lambda>_. Inl (OSError ''timeout'')\<rparr>) anthropic_adapter demo_chat =
     ([snd (projr (prepare_chat demo_net anthropic_adapter demo_chat))], Inl (OSError ''timeout''), ca_budget demo_chat)"
proof -
  let ?ne = "demo_net\<lparr>ne_http := \<lambda>_. Inl (OSError ''timeout'')\<rparr>"
  have e: "prepare_chat ?ne anthropic_adapter demo_chat = prepare_chat demo_net anthropic_adapter demo_chat"
    "isl (prepare_chat demo_net anthropic_adapter demo_chat) = False" by code_simp+
  then obtain mt call where c: "prepare_chat ?ne anthropic_adapter demo_chat = Inr (mt, call)"
    by (cases "prepare_chat demo_net anthropic_adapter demo_chat") auto
  have "budget_for anthropic_adapter demo_chat = ca_budget demo_chat" by (simp add: budget_for_def demo_chat_def)
  then show ?thesis using failed_request_is_free [OF c, of "OSError ''timeout''"] e(1) [symmetric] c by (simp add: demo_net_def)
qed

text \<open>C37: Nothing goes to a remote host in the clear: an adapter built with TLS required for a base URL that
  is neither a loopback address nor \<open>https\<close> sends no chat and no embedding, and reports itself unhealthy,
  each time for want of TLS.\<close>

theorem no_request_in_the_clear:
  assumes "compat_adapter cl pid kind url key True = Inr p" "cl \<in> {Compat, OpenAI, OpenRouter, Custom}"
    and "is_loopback (rstrip_slash url) = Inr False" "\<not> starts_with (lower (rstrip_slash url)) ''https://''"
  shows "chat ne p a = ([], Inl (no_tls p), budget_for p a) \<and>
    embeddings ne p model inputs = ([], Inl (no_tls p)) \<and>
    compat_health ne p = unhealthy p (base_of p) (''OpenAI-compatible probe failed: '' @ exn_str (no_tls p))"
proof -
  have p: "ap_class p = cl" "ensure_tls p = Inl (no_tls p)"
    using assms by (auto simp: compat_adapter_def ensure_tls_def)
  then show ?thesis using assms(2)
    by (auto simp: chat_exchange exchange_def prepare_chat_def compat_prepare_def embeddings_def
        compat_embeddings_def compat_health_def or_failed_def)
qed

theorem no_request_in_the_clear_witness:
  "\<exists>p. compat_adapter Custom ''c'' ''openai_compat'' ''http://models.example/v1/'' ''c'' True = Inr p \<and>
     fst (chat demo_net p demo_chat) = []"
proof -
  let ?r = "compat_adapter Custom ''c'' ''openai_compat'' ''http://models.example/v1/'' ''c'' True"
  have "isl ?r = False" by code_simp
  then obtain p where p: "?r = Inr p" by (cases ?r) auto
  have l: "is_loopback (rstrip_slash ''http://models.example/v1/'') = Inr False"
    "\<not> starts_with (lower (rstrip_slash ''http://models.example/v1/'')) ''https://''" by code_simp+
  show ?thesis using no_request_in_the_clear [OF p _ l, of demo_net demo_chat] p by simp
qed

end
