(* ===== verification/Probes.thy ===== *)
theory Probes
  imports Providers WorkflowGen
begin

section \<open>Capability probes\<close>

text \<open>
  \<open>gateway/probes.py\<close>: the live probes of a model through its adapter, and the text of a reply in each
  provider's shape. \<open>json.loads\<close> is a parameter. A probe returns the calls it made and the adapter, whose
  own budget a chat may have charged.
\<close>

record probe_env =
  pe_net :: net_env
  pe_loads :: "string \<Rightarrow> json res"

type_synonym probe_out = "http_call list \<times> json dict res \<times> provider"

subsection \<open>The text of a reply\<close>

definition text_of :: "net_env \<Rightarrow> json \<Rightarrow> string" where
  "text_of ne v = py_str (ne_repr ne) (jor v (JStr []))"

text \<open>\<open>v[0]\<close> of a truthy value.\<close>

definition first_item :: "json \<Rightarrow> json res" where
  "first_item v = (case v of
     JArr xs \<Rightarrow> Inr (hd xs)
   | JStr s \<Rightarrow> Inr (JStr (hd (code_points s)))
   | JObj d \<Rightarrow> Inl (OtherError ''0'')
   | _ \<Rightarrow> Inl (TypeError (CHR 0x27 # py_type v @ CHR 0x27 # '' object is not subscriptable'')))"

text \<open>\<open>(v.get(k) or {}).get(k')\<close>.\<close>

definition jget2 :: "json \<Rightarrow> string \<Rightarrow> string \<Rightarrow> json res" where
  "jget2 v k k' = bnd (jget v k) (\<lambda>w. jget (jor w (JObj [])) k')"

text \<open>\<open>b.get("type") in {None, "text"}\<close>.\<close>

definition text_block :: "json dict \<Rightarrow> bool res" where
  "text_block b = (case dget b ''type'' of
     JNull \<Rightarrow> Inr True
   | JStr s \<Rightarrow> Inr (s = ''text'')
   | JArr _ \<Rightarrow> Inl (TypeError (''unhashable type: '' @ CHR 0x27 # ''list'' @ [CHR 0x27]))
   | JObj _ \<Rightarrow> Inl (TypeError (''unhashable type: '' @ CHR 0x27 # ''dict'' @ [CHR 0x27]))
   | _ \<Rightarrow> Inr False)"

fun block_texts :: "net_env \<Rightarrow> json list \<Rightarrow> string list res" where
  "block_texts ne [] = Inr []"
| "block_texts ne (b # bs) =
     (if \<not> is_obj b then block_texts ne bs
      else bnd (text_block (obj_of b)) (\<lambda>t.
        bnd (block_texts ne bs) (\<lambda>ts. Inr (if t then text_of ne (dget (obj_of b) ''text'') # ts else ts))))"

definition anthropic_text :: "net_env \<Rightarrow> json \<Rightarrow> string res" where
  "anthropic_text ne raw =
     bnd (jget raw ''content'') (\<lambda>c. bnd (py_iter (jor c (JArr []))) (\<lambda>bs. bnd (block_texts ne bs) (\<lambda>ts.
       Inr (join [CHR 0x0A] (List.filter (\<lambda>t. t \<noteq> []) ts)))))"

definition gemini_text :: "net_env \<Rightarrow> json \<Rightarrow> string res" where
  "gemini_text ne raw =
     bnd (jget raw ''candidates'') (\<lambda>cands.
       if \<not> truthy cands then Inr []
       else bnd (first_item cands) (\<lambda>c. bnd (jget2 c ''content'' ''parts'') (\<lambda>ps.
         bnd (py_iter (jor ps (JArr []))) (\<lambda>parts.
           Inr (List.concat (List.map (\<lambda>p. text_of ne (dget (obj_of p) ''text'')) (List.filter is_obj parts)))))))"

definition choice_text :: "net_env \<Rightarrow> json \<Rightarrow> string res" where
  "choice_text ne raw =
     bnd (jget raw ''choices'') (\<lambda>choices.
       if truthy choices
       then bnd (first_item choices) (\<lambda>c. bnd (jget2 c ''message'' ''content'') (\<lambda>t. Inr (text_of ne t)))
       else bnd (jget raw ''content'') (\<lambda>t. Inr (text_of ne t)))"

definition or_choice :: "net_env \<Rightarrow> json \<Rightarrow> string res \<Rightarrow> string res" where
  "or_choice ne raw r = bnd r (\<lambda>t. if t \<noteq> [] then Inr t else choice_text ne raw)"

definition extract_text :: "net_env \<Rightarrow> json \<Rightarrow> string \<Rightarrow> string res" where
  "extract_text ne raw provider_id =
     (if provider_id = ''ollama'' then bnd (jget2 raw ''message'' ''content'') (\<lambda>t. Inr (text_of ne t))
      else if provider_id = ''anthropic'' then or_choice ne raw (anthropic_text ne raw)
      else if provider_id = ''gemini'' then or_choice ne raw (gemini_text ne raw)
      else choice_text ne raw)"

definition probe_fences :: "string \<Rightarrow> string" where
  "probe_fences t = strip_fences t"

subsection \<open>The probes\<close>

definition said :: "string \<Rightarrow> string \<Rightarrow> json" where
  "said role t = JObj [(''role'', JStr role), (''content'', JStr t)]"

definition ask :: "probe_env \<Rightarrow> provider \<Rightarrow> string \<Rightarrow> json list \<Rightarrow> json dict \<Rightarrow> http_call list \<times> string res \<times> provider" where
  "ask pe p model messages kw =
     (case chat (pe_net pe) p \<lparr>ca_model = model, ca_messages = messages, ca_options = [], ca_kw = kw, ca_budget = None\<rparr> of
        (cs, v, b) \<Rightarrow> (cs, bnd v (\<lambda>raw. extract_text (pe_net pe) raw (ap_id p)), p\<lparr>ap_budget := b\<rparr>))"

definition Q :: "string" where
  "Q = [CHR 0x22]"

definition JSON_PROMPT :: string where
  "JSON_PROMPT = ''Reply with ONLY JSON: {'' @ Q @ ''ok'' @ Q @ '':true,'' @ Q @ ''probe'' @ Q @ '':'' @ Q @ ''json'' @ Q @ ''}''"

definition TOOLS_PROMPT :: string where
  "TOOLS_PROMPT = ''Emit ONLY JSON: {'' @ Q @ ''tool_calls'' @ Q @ '':[{'' @ Q @ ''name'' @ Q @ '':'' @ Q @ ''echo'' @ Q @ '','' @ Q @
     ''arguments'' @ Q @ '':{'' @ Q @ ''text'' @ Q @ '':'' @ Q @ ''hi'' @ Q @ ''}}]}''"

definition judged :: "string \<Rightarrow> string \<Rightarrow> (bool \<times> json) res \<Rightarrow> json dict" where
  "judged prefix_msg t r = (case r of
     Inr (ok, v) \<Rightarrow> [(''ok'', JBool ok), (''sample'', v)]
   | Inl e \<Rightarrow> [(''ok'', JBool False), (''error'', JStr (prefix_msg @ exn_str e)), (''raw'', JStr (py_take 200 t))])"

definition judge_json :: "probe_env \<Rightarrow> string \<Rightarrow> (bool \<times> json) res" where
  "judge_json pe t =
     bnd (pe_loads pe (probe_fences t)) (\<lambda>v. bnd (jget v ''ok'') (\<lambda>a. bnd (jget v ''probe'') (\<lambda>b.
       Inr (a = JBool True \<or> b = JStr ''json'', v))))"

definition probe_json :: "probe_env \<Rightarrow> provider \<Rightarrow> string \<Rightarrow> probe_out" where
  "probe_json pe p model =
     (let kw = (if ap_id p = ''ollama'' then [(''format'', JStr ''json'')]
                else [(''response_format'', JObj [(''type'', JStr ''json_object'')])]) in
      case ask pe p model [said ''system'' JSON_PROMPT, said ''user'' ''ping''] kw of
        (cs, r, p') \<Rightarrow> (cs, bnd r (\<lambda>t. Inr (judged ''json parse failed: '' t (judge_json pe t))), p'))"

definition judge_tools :: "probe_env \<Rightarrow> string \<Rightarrow> (bool \<times> json) res" where
  "judge_tools pe t =
     bnd (pe_loads pe (probe_fences t)) (\<lambda>v. bnd (jget v ''tool_calls'') (\<lambda>c.
       Inr (is_arr c \<and> arr_of c \<noteq> [], v)))"

definition probe_tools :: "probe_env \<Rightarrow> provider \<Rightarrow> string \<Rightarrow> probe_out" where
  "probe_tools pe p model =
     (case ask pe p model [said ''system'' TOOLS_PROMPT, said ''user'' ''call echo''] [(''format'', JStr ''json'')] of
        (cs, r, p') \<Rightarrow> (cs, bnd r (\<lambda>t. Inr (judged [] t (judge_tools pe t))), p'))"

definition VISION_WORDS :: "string list" where
  "VISION_WORDS = [''vision'', ''llava'', ''minicpm-v'', ''moondream'', ''bakllava'']"

definition EMBED_WORDS :: "string list" where
  "EMBED_WORDS = [''embed'', ''nomic'', ''bge'', ''e5'', ''minilm'']"

definition names_any :: "string list \<Rightarrow> string \<Rightarrow> bool" where
  "names_any ws model \<longleftrightarrow> list_ex (\<lambda>w. contains (lower model) w) ws"

definition soft :: "bool \<Rightarrow> string \<Rightarrow> json dict" where
  "soft ok reason = [(''ok'', JBool ok), (''soft'', JBool True), (''reason'', JStr reason)]"

definition probe_vision :: "provider \<Rightarrow> string \<Rightarrow> probe_out" where
  "probe_vision p model = ([], Inr (soft (names_any VISION_WORDS model) ''name heuristic; full image probe deferred to eval harness''), p)"

text \<open>\<open>len(v)\<close>.\<close>

definition len_of :: "json \<Rightarrow> int res" where
  "len_of v = (case v of JArr xs \<Rightarrow> Inr (int (length xs)) | JObj d \<Rightarrow> Inr (int (length d)) | JStr s \<Rightarrow> Inr (int (py_len s))
     | _ \<Rightarrow> Inl (TypeError (''object of type '' @ CHR 0x27 # py_type v @ CHR 0x27 # '' has no len()'')))"

definition judge_vectors :: "json dict \<Rightarrow> json dict res" where
  "judge_vectors data =
     (case arr_of (dget data ''embeddings'') of
        v # _ \<Rightarrow> if truthy v then bnd (len_of v) (\<lambda>n. Inr [(''ok'', JBool True), (''dims'', JInt n)])
                  else Inr [(''ok'', JBool False), (''dims'', JInt 0)]
      | [] \<Rightarrow> Inr [(''ok'', JBool False), (''dims'', JInt 0)])"

definition probe_embeddings :: "probe_env \<Rightarrow> provider \<Rightarrow> string \<Rightarrow> probe_out" where
  "probe_embeddings pe p model =
     (if names_any EMBED_WORDS model \<or> ap_id p = ''ollama'' then
        (case embeddings (pe_net pe) p model [''brainflow''] of
           (cs, r) \<Rightarrow> (cs, Inr (case bnd r judge_vectors of
              Inr d \<Rightarrow> d | Inl e \<Rightarrow> [(''ok'', JBool False), (''error'', JStr (exn_str e))]), p))
      else ([], Inr [(''ok'', JBool False), (''skipped'', JBool True), (''reason'', JStr ''model not embedding-tagged'')], p))"

definition probe_streaming :: "provider \<Rightarrow> probe_out" where
  "probe_streaming p = ([], Inr (soft True ''adapter declares streaming support''), p)"

definition probe_cancellation :: "provider \<Rightarrow> probe_out" where
  "probe_cancellation p = ([], Inr (soft True ''cancellation supported at worker supervision layer''), p)"

definition probe_named :: "probe_env \<Rightarrow> string \<Rightarrow> provider \<Rightarrow> string \<Rightarrow> probe_out option" where
  "probe_named pe name p model =
     (if name = ''json_schema'' then Some (probe_json pe p model)
      else if name = ''tools'' then Some (probe_tools pe p model)
      else if name = ''vision'' then Some (probe_vision p model)
      else if name = ''embeddings'' then Some (probe_embeddings pe p model)
      else if name = ''streaming'' then Some (probe_streaming p)
      else if name = ''cancellation'' then Some (probe_cancellation p)
      else None)"

subsection \<open>A run of probes\<close>

definition run_probe :: "probe_env \<Rightarrow> string \<Rightarrow> provider \<Rightarrow> string \<Rightarrow> http_call list \<times> json dict \<times> provider" where
  "run_probe pe name p model =
     (if map_of (probe_hooks p) name \<noteq> Some True
      then ([], [(''ok'', JBool False), (''skipped'', JBool True), (''reason'', JStr ''adapter hook disabled'')], p)
      else case probe_named pe name p model of
        None \<Rightarrow> ([], [(''ok'', JBool False), (''reason'', JStr ''unknown probe'')], p)
      | Some (cs, r, p') \<Rightarrow>
          (cs, (case r of Inr d \<Rightarrow> d | Inl e \<Rightarrow> [(''ok'', JBool False), (''error'', JStr (exn_str e))]), p'))"

fun run_probes :: "probe_env \<Rightarrow> string \<Rightarrow> json list \<Rightarrow> provider \<Rightarrow> json dict dict \<Rightarrow>
    http_call list \<times> json dict dict res \<times> provider" where
  "run_probes pe model [] p acc = ([], Inr acc, p)"
| "run_probes pe model (n # ns) p acc =
     (case dict_key (pe_net pe) n of
        Inl e \<Rightarrow> ([], Inl e, p)
      | Inr name \<Rightarrow>
          (case run_probe pe name p model of (cs, d, p1) \<Rightarrow>
             (case run_probes pe model ns p1 (AList.update name d acc) of (cs', r, p2) \<Rightarrow> (cs @ cs', r, p2))))"

definition probes_ok :: "json dict dict \<Rightarrow> bool" where
  "probes_ok ps \<longleftrightarrow> ps \<noteq> [] \<and>
     list_all (\<lambda>d. truthy (dget d ''ok'')) (List.filter (\<lambda>d. \<not> truthy (dget d ''skipped'')) (List.map snd ps))"

definition wanted_probes :: "provider \<Rightarrow> json \<Rightarrow> json list res" where
  "wanted_probes p which =
     (if truthy which then py_iter which
      else Inr (List.map (\<lambda>h. JStr (fst h)) (List.filter snd (probe_hooks p))))"

definition probe_report :: "provider \<Rightarrow> string \<Rightarrow> json dict dict \<Rightarrow> json dict" where
  "probe_report p model ps =
     [(''provider'', JStr (ap_id p)), (''model'', JStr model),
      (''probes'', JObj (List.map (\<lambda>(n, d). (n, JObj d)) ps)), (''ok'', JBool (probes_ok ps))]"

definition run_capability_probes :: "probe_env \<Rightarrow> provider \<Rightarrow> string \<Rightarrow> json \<Rightarrow> http_call list \<times> json dict res" where
  "run_capability_probes pe p model which =
     (case wanted_probes p which of
        Inl e \<Rightarrow> ([], Inl e)
      | Inr ns \<Rightarrow> (case run_probes pe model ns p [] of (cs, r, p') \<Rightarrow> (cs, bnd r (\<lambda>ps. Inr (probe_report p model ps)))))"

subsection \<open>Properties\<close>

lemma chat_one_call: "chat ne p a = (cs, v, b) \<Longrightarrow> length cs \<le> 1"
  by (auto simp: chat_exchange exchange_def Let_def split: sum.splits option.splits prod.splits)

lemma ask_one_call: "ask pe p model ms kw = (cs, r, p') \<Longrightarrow> length cs \<le> 1 \<and> probe_hooks p' = probe_hooks p"
  by (auto simp: ask_def probe_hooks_def split: prod.splits dest: chat_one_call)

lemma embeddings_one_call: "embeddings ne p model [i] = (cs, r) \<Longrightarrow> length cs \<le> 1"
  by (auto simp: embeddings_def ollama_embeddings_def gemini_embeddings_def compat_embeddings_def Let_def
      split: provider_class.splits sum.splits prod.splits if_splits)

lemma probe_one_call:
  assumes "probe_named pe name p model = Some (cs, r, p')"
  shows "length cs \<le> 1 \<and> probe_hooks p' = probe_hooks p"
  using assms
  by (auto simp: probe_named_def probe_json_def probe_tools_def probe_vision_def probe_embeddings_def
      probe_streaming_def probe_cancellation_def Let_def
      split: if_splits prod.splits dest: ask_one_call embeddings_one_call)

lemma run_probe_frame:
  assumes "run_probe pe name p model = (cs, d, p')"
  shows "length cs \<le> (if map_of (probe_hooks p) name = Some True then 1 else 0) \<and> probe_hooks p' = probe_hooks p"
  using assms by (auto simp: run_probe_def split: if_splits option.splits prod.splits dest: probe_one_call)

lemma run_probes_calls:
  assumes "run_probes pe model ns p acc = (cs, r, p')"
  shows "length cs \<le> length ns"
  using assms
proof (induction ns arbitrary: p acc cs r)
  case (Cons n ns)
  show ?case
  proof (cases "dict_key (pe_net pe) n")
    case (Inl e)
    then show ?thesis using Cons.prems by simp
  next
    case (Inr name)
    obtain c1 d p1 where s: "run_probe pe name p model = (c1, d, p1)" by (cases "run_probe pe name p model")
    obtain c2 r2 p2 where t: "run_probes pe model ns p1 (AList.update name d acc) = (c2, r2, p2)"
      by (cases "run_probes pe model ns p1 (AList.update name d acc)")
    have q: "p2 = p'" using Cons.prems Inr s t by simp
    show ?thesis using Cons.IH [OF t [unfolded q]] run_probe_frame [OF s] Cons.prems Inr s t by (auto split: if_splits)
  qed
qed simp

text \<open>The default probe run makes at most one request per enabled hook, whatever the provider answers.\<close>

lemma default_probes_are_bounded:
  assumes "run_capability_probes pe p model JNull = (calls, r)"
  shows "length calls \<le> length (List.filter snd (probe_hooks p))"
  using assms run_probes_calls
  by (fastforce simp: run_capability_probes_def wanted_probes_def split: prod.splits)

text \<open>When the caller names only probes the adapter does not have, nothing is probed and the report
  still says \<open>ok\<close>: \<open>all\<close> of no probes.\<close>

lemma unknown_probe_skipped:
  "map_of (probe_hooks p) s = None \<Longrightarrow>
    run_probes pe model [JStr s] p [] =
      ([], Inr [(s, [(''ok'', JBool False), (''skipped'', JBool True), (''reason'', JStr ''adapter hook disabled'')])], p)"
  by (simp add: run_probe_def dict_key_def)

theorem unknown_probe_is_reported_ok:
  assumes "map_of (probe_hooks p) s = None"
  shows "\<exists>report. run_capability_probes pe p model (JArr [JStr s]) = ([], Inr report) \<and> dget report ''ok'' = JBool True"
  using unknown_probe_skipped [OF assms, of pe model]
  by (simp add: run_capability_probes_def wanted_probes_def py_iter_def probe_report_def probes_ok_def dget_def)

theorem unknown_probe_is_reported_ok_witness:
  "\<exists>report. run_capability_probes pe anthropic_adapter ''m'' (JArr [JStr ''audio'']) = ([], Inr report) \<and> dget report ''ok'' = JBool True"
  by (rule unknown_probe_is_reported_ok) (simp add: probe_hooks_def)

end
