(* ===== verification/Secrets.thy ===== *)
theory Secrets
  imports PyData
begin

section \<open>Provider secrets (gateway/secrets.py)\<close>

text \<open>
  The three places a secret can come from, in the order they are consulted: the worker's memory,
  the environment, the operating system's key ring. The \<open>keyring\<close> package is third-party code: its
  three operations are components of a record, on a state of their own, and may raise (an import
  that fails is an operation that always raises).
\<close>

record 'k keyring_ops =
  get_password :: "'k \<Rightarrow> string \<Rightarrow> string option res"
  set_password :: "'k \<Rightarrow> string \<Rightarrow> string \<Rightarrow> 'k res"
  delete_password :: "'k \<Rightarrow> string \<Rightarrow> 'k res"

record 'k secret_state =
  s_memory :: "string dict"
  s_environ :: "string dict"
  s_ring :: 'k

definition ref_char :: "char \<Rightarrow> bool" where
  "ref_char c \<longleftrightarrow> (let n = (of_char c :: nat) in
     (97 \<le> n \<and> n \<le> 122) \<or> (65 \<le> n \<and> n \<le> 90) \<or> (48 \<le> n \<and> n \<le> 57)) \<or> c \<in> set ''_.:@-''"

text \<open>
  \<open>^[a-zA-Z0-9_.:@-]{1,128}$\<close> with \<open>match\<close>: the dollar sign also matches before a final line feed.
\<close>

definition plain_ref :: "string \<Rightarrow> bool" where
  "plain_ref s \<longleftrightarrow> s \<noteq> [] \<and> length s \<le> 128 \<and> list_all ref_char s"

definition ref_ok :: "string \<Rightarrow> bool" where
  "ref_ok s \<longleftrightarrow> plain_ref s \<or> (s \<noteq> [] \<and> last s = CHR 0x0A \<and> plain_ref (butlast s))"

definition validate_ref :: "string \<Rightarrow> string res" where
  "validate_ref ref = (if ref_ok ref then Inr ref else Inl (ValueError ''invalid secret ref''))"

definition env_key :: "string \<Rightarrow> string" where
  "env_key ref = ''BRAINFLOW_SECRET_'' @
     List.map (\<lambda>c. let n = (of_char c :: nat) in
       if (65 \<le> n \<and> n \<le> 90) \<or> (48 \<le> n \<and> n \<le> 57) \<or> c = CHR ''_'' then c else CHR ''_'') (upper ref)"

definition nonempty :: "string option \<Rightarrow> string option" where
  "nonempty v = (case v of None \<Rightarrow> None | Some s \<Rightarrow> if s = [] then None else Some s)"

definition env_secret :: "'k secret_state \<Rightarrow> string \<Rightarrow> string option" where
  "env_secret st ref = nonempty (map_of (s_environ st) (env_key ref))"

definition ring_secret :: "'k keyring_ops \<Rightarrow> 'k secret_state \<Rightarrow> string \<Rightarrow> string option" where
  "ring_secret ops st ref = (case get_password ops (s_ring st) ref of Inl _ \<Rightarrow> None | Inr v \<Rightarrow> nonempty v)"

definition get_secret :: "'k keyring_ops \<Rightarrow> 'k secret_state \<Rightarrow> string \<Rightarrow> string option res" where
  "get_secret ops st ref0 =
     bnd (validate_ref ref0) (\<lambda>ref.
       case map_of (s_memory st) ref of
         Some v \<Rightarrow> Inr (Some v)
       | None \<Rightarrow>
           (case env_secret st ref of
              Some v \<Rightarrow> Inr (Some v)
            | None \<Rightarrow> Inr (ring_secret ops st ref)))"

datatype backend = OsKeyring | ProcessMemory | Env | OsKeyringOrUnknown | Missing

record set_result =
  sr_ref :: string
  sr_backend :: backend
  sr_warning :: "string option"

definition remember :: "string \<Rightarrow> string \<Rightarrow> 'k secret_state \<Rightarrow> 'k secret_state" where
  "remember ref v st = st\<lparr>s_memory := AList.update ref v (s_memory st)\<rparr>"

definition forget_ref :: "string \<Rightarrow> 'k secret_state \<Rightarrow> 'k secret_state" where
  "forget_ref ref st = st\<lparr>s_memory := AList.delete ref (s_memory st)\<rparr>"

definition set_secret ::
  "'k keyring_ops \<Rightarrow> 'k secret_state \<Rightarrow> string \<Rightarrow> string \<Rightarrow> bool \<Rightarrow> (set_result \<times> 'k secret_state) res" where
  "set_secret ops st ref0 v prefer_keyring =
     bnd (validate_ref ref0) (\<lambda>ref.
       if v = [] then Inl (ValueError ''empty secret rejected'')
       else if prefer_keyring then
         (case set_password ops (s_ring st) ref v of
            Inr k \<Rightarrow> Inr (\<lparr>sr_ref = ref, sr_backend = OsKeyring, sr_warning = None\<rparr>,
                          (forget_ref ref st)\<lparr>s_ring := k\<rparr>)
          | Inl e \<Rightarrow> Inr (\<lparr>sr_ref = ref, sr_backend = ProcessMemory,
                           sr_warning = Some (''OS keyring unavailable ('' @ exn_str e @
                             ''); secret held in worker memory only'')\<rparr>, remember ref v st))
       else Inr (\<lparr>sr_ref = ref, sr_backend = ProcessMemory, sr_warning = None\<rparr>, remember ref v st))"

definition delete_secret :: "'k keyring_ops \<Rightarrow> 'k secret_state \<Rightarrow> string \<Rightarrow> (string \<times> 'k secret_state) res" where
  "delete_secret ops st ref0 =
     bnd (validate_ref ref0) (\<lambda>ref.
       let st1 = forget_ref ref st in
       Inr (ref, case delete_password ops (s_ring st1) ref of
                   Inl _ \<Rightarrow> st1 | Inr k \<Rightarrow> st1\<lparr>s_ring := k\<rparr>))"

record secret_report =
  st_ref :: string
  st_present :: bool
  st_backend :: backend

definition secret_status :: "'k keyring_ops \<Rightarrow> 'k secret_state \<Rightarrow> string \<Rightarrow> secret_report res" where
  "secret_status ops st ref0 =
     bnd (validate_ref ref0) (\<lambda>ref.
     bnd (get_secret ops st ref) (\<lambda>v.
       Inr \<lparr>st_ref = ref, st_present = (v \<noteq> None),
            st_backend = (if map_of (s_memory st) ref \<noteq> None then ProcessMemory
                          else if env_secret st ref \<noteq> None then Env
                          else if v \<noteq> None then OsKeyringOrUnknown else Missing)\<rparr>))"

subsection \<open>Properties\<close>

text \<open>
  What the worker relies on of the key ring: a password that was set without an exception is the
  one that is read back, and a deleted one is gone.
\<close>

definition ring_reads_back :: "'k keyring_ops \<Rightarrow> bool" where
  "ring_reads_back ops \<longleftrightarrow>
     (\<forall>k ref v k'. set_password ops k ref v = Inr k' \<longrightarrow> get_password ops k' ref = Inr (Some v))"

definition ring_deletes :: "'k keyring_ops \<Rightarrow> bool" where
  "ring_deletes ops \<longleftrightarrow>
     (\<forall>k ref k'. delete_password ops k ref = Inr k' \<longrightarrow> get_password ops k' ref = Inr None)"

definition alist_ring :: "string dict keyring_ops" where
  "alist_ring = \<lparr>get_password = (\<lambda>k ref. Inr (map_of k ref)),
     set_password = (\<lambda>k ref v. Inr (AList.update ref v k)),
     delete_password = (\<lambda>k ref. if map_of k ref = None then Inl (OtherError ''no such password'')
                                 else Inr (List.filter (\<lambda>(r, _). r \<noteq> ref) k))\<rparr>"

lemma alist_ring_ok: "ring_reads_back alist_ring" "ring_deletes alist_ring"
  by (auto simp: ring_reads_back_def ring_deletes_def alist_ring_def dict_simps map_of_eq_None_iff)

lemma nonempty_Some [simp]: "v \<noteq> [] \<Longrightarrow> nonempty (Some v) = Some v"
  by (simp add: nonempty_def)

text \<open>C27: a stored secret is read back, whichever backend took it, unless an environment variable
  shadows it; and it went to memory only when the key ring was not wanted or failed.\<close>

theorem stored_secret_is_read_back:
  assumes "set_secret ops st ref v prefer = Inr (r, st')" "ring_reads_back ops" "wf_dict (s_memory st)"
    and "env_secret st ref = None"
  shows "get_secret ops st' ref = Inr (Some v) \<and>
    (sr_backend r = OsKeyring \<longrightarrow> map_of (s_memory st') ref = None \<and> prefer)"
proof -
  have v: "v \<noteq> []" and ref: "validate_ref ref = Inr ref"
    using assms(1) by (auto simp: set_secret_def validate_ref_def bnd_Inr_iff split: if_splits)
  show ?thesis
  proof (cases "prefer \<and> (\<exists>k. set_password ops (s_ring st) ref v = Inr k)")
    case True
    then obtain k where k: "set_password ops (s_ring st) ref v = Inr k" by blast
    then have "st' = (forget_ref ref st)\<lparr>s_ring := k\<rparr>" "sr_backend r = OsKeyring"
      using assms(1) True ref v by (auto simp: set_secret_def)
    moreover have "get_password ops k ref = Inr (Some v)"
      using assms(2) k unfolding ring_reads_back_def by blast
    ultimately show ?thesis
      using assms(3,4) True ref v
      by (simp add: get_secret_def forget_ref_def env_secret_def ring_secret_def pydict.lookup_del)
  next
    case False
    then have "st' = remember ref v st \<and> sr_backend r = ProcessMemory"
      using assms(1) ref v by (auto simp: set_secret_def split: sum.splits if_splits)
    then show ?thesis using ref by (simp add: get_secret_def remember_def dict_simps)
  qed
qed

definition fresh_secrets :: "string dict secret_state" where
  "fresh_secrets = \<lparr>s_memory = [], s_environ = [], s_ring = []\<rparr>"

theorem stored_secret_is_read_back_witness:
  "\<exists>r st'. set_secret alist_ring fresh_secrets ''openai.key'' ''sk-1'' True = Inr (r, st') \<and>
     sr_backend r = OsKeyring \<and> get_secret alist_ring st' ''openai.key'' = Inr (Some ''sk-1'')"
proof -
  obtain r st' where s: "set_secret alist_ring fresh_secrets ''openai.key'' ''sk-1'' True = Inr (r, st')"
    and b: "sr_backend r = OsKeyring"
    by (simp add: set_secret_def validate_ref_def ref_ok_def plain_ref_def ref_char_def alist_ring_def
        fresh_secrets_def Let_def)
  with stored_secret_is_read_back [OF s alist_ring_ok(1)] show ?thesis
    by (auto simp: fresh_secrets_def env_secret_def nonempty_def wf_dict_def dict_keys_def)
qed

text \<open>An environment variable wins over the key ring: a secret stored there successfully is
  not the one that is read back while the variable is set.\<close>

theorem environment_shadows_keyring:
  assumes "set_secret ops st ref v True = Inr (r, st')" "sr_backend r = OsKeyring" "wf_dict (s_memory st)"
    and "env_secret st ref = Some e"
  shows "get_secret ops st' ref = Inr (Some e)"
proof -
  have ref: "validate_ref ref = Inr ref"
    using assms(1) by (auto simp: set_secret_def validate_ref_def bnd_Inr_iff split: if_splits)
  obtain k where "st' = (forget_ref ref st)\<lparr>s_ring := k\<rparr>"
    using assms(1,2) ref by (auto simp: set_secret_def split: sum.splits if_splits)
  then show ?thesis
    using assms(3,4) ref by (simp add: get_secret_def forget_ref_def env_secret_def pydict.lookup_del)
qed

theorem environment_shadows_keyring_witness:
  "\<exists>r st'. set_secret alist_ring (fresh_secrets\<lparr>s_environ := [(''BRAINFLOW_SECRET_K'', ''old'')]\<rparr>) ''k'' ''new'' True = Inr (r, st') \<and>
     get_secret alist_ring st' ''k'' = Inr (Some ''old'')"
proof -
  let ?st = "fresh_secrets\<lparr>s_environ := [(''BRAINFLOW_SECRET_K'', ''old'')]\<rparr>"
  obtain r st' where s: "set_secret alist_ring ?st ''k'' ''new'' True = Inr (r, st')"
    and b: "sr_backend r = OsKeyring"
    by (simp add: set_secret_def validate_ref_def ref_ok_def plain_ref_def ref_char_def alist_ring_def
        fresh_secrets_def Let_def)
  have "env_secret ?st ''k'' = Some ''old''" by code_simp
  with environment_shadows_keyring [OF s b] s show ?thesis
    by (auto simp: fresh_secrets_def wf_dict_def dict_keys_def)
qed

text \<open>After a deletion nothing of the secret is left in the worker's memory nor, when the key
  ring deleted it, in the key ring: only the environment can still supply one.\<close>

theorem deleted_secret_is_gone:
  assumes "delete_secret ops st ref = Inr (r, st')" "ring_deletes ops" "wf_dict (s_memory st)"
    and "delete_password ops (s_ring st) ref = Inr k"
  shows "get_secret ops st' ref = Inr (env_secret st ref)"
proof -
  have ref: "validate_ref ref = Inr ref"
    using assms(1) by (auto simp: delete_secret_def validate_ref_def bnd_Inr_iff split: if_splits)
  have "st' = (forget_ref ref st)\<lparr>s_ring := k\<rparr>"
    using assms(1,4) ref by (auto simp: delete_secret_def Let_def forget_ref_def)
  moreover have "get_password ops k ref = Inr None"
    using assms(2,4) unfolding ring_deletes_def by blast
  ultimately show ?thesis
    using assms(3) ref
    by (simp add: get_secret_def forget_ref_def env_secret_def ring_secret_def pydict.lookup_del
        nonempty_def split: option.splits)
qed

theorem deleted_secret_is_gone_witness:
  "\<exists>st'. delete_secret alist_ring (fresh_secrets\<lparr>s_memory := [(''k'', ''a'')], s_ring := [(''k'', ''b'')]\<rparr>) ''k'' = Inr (''k'', st') \<and>
     get_secret alist_ring st' ''k'' = Inr None"
proof -
  let ?st = "fresh_secrets\<lparr>s_memory := [(''k'', ''a'')], s_ring := [(''k'', ''b'')]\<rparr>"
  obtain st' where d: "delete_secret alist_ring ?st ''k'' = Inr (''k'', st')"
    by (simp add: delete_secret_def validate_ref_def ref_ok_def plain_ref_def ref_char_def Let_def)
  have "env_secret ?st ''k'' = None" by code_simp
  with deleted_secret_is_gone [OF d alist_ring_ok(2), of "[]"] d show ?thesis
    by (auto simp: fresh_secrets_def wf_dict_def dict_keys_def alist_ring_def)
qed

text \<open>The status never tells the value, and its backend is \<open>missing\<close> exactly when
  \<open>get_secret\<close> finds nothing.\<close>

theorem status_agrees_with_lookup:
  "case secret_status ops st ref of
     Inl e \<Rightarrow> get_secret ops st ref = Inl e
   | Inr r \<Rightarrow> st_ref r = ref \<and>
       (st_backend r = Missing) = (get_secret ops st ref = Inr None) \<and>
       st_present r = (get_secret ops st ref \<noteq> Inr None)"
  by (cases "ref_ok ref")
    (auto simp: secret_status_def get_secret_def validate_ref_def split: option.splits)

text \<open>Distinct refs can share one environment variable, so the secret of one is handed out for
  the other.\<close>

theorem refs_collide_in_environment:
  assumes "s_memory st = []" "map_of (s_environ st) ''BRAINFLOW_SECRET_A_B'' = Some v" "v \<noteq> []"
  shows "get_secret ops st ''a.b'' = Inr (Some v) \<and> get_secret ops st ''a:b'' = Inr (Some v)"
proof -
  have "env_key ''a.b'' = ''BRAINFLOW_SECRET_A_B''" "env_key ''a:b'' = ''BRAINFLOW_SECRET_A_B''"
    "ref_ok ''a.b''" "ref_ok ''a:b''" by code_simp+
  then show ?thesis
    using assms by (simp add: get_secret_def validate_ref_def env_secret_def)
qed

theorem refs_collide_in_environment_witness:
  "get_secret alist_ring (fresh_secrets\<lparr>s_environ := [(''BRAINFLOW_SECRET_A_B'', ''x'')]\<rparr>) ''a.b'' = Inr (Some ''x'')"
  using refs_collide_in_environment [of "fresh_secrets\<lparr>s_environ := [(''BRAINFLOW_SECRET_A_B'', ''x'')]\<rparr>" "''x''"]
  by (simp add: fresh_secrets_def)

end
