(* ===== verification/Utf8.thy ===== *)
theory Utf8
  imports PyData
begin

section \<open>Byte strings and their decoders\<close>

text \<open>
  The intake reads bytes. A \<open>bytes\<close> value is a list of 8-bit characters; a \<open>str\<close> is its UTF-8
  encoding, as in the other theories. So \<open>data.decode("utf-8")\<close> is a check that leaves the bytes as
  they are, \<open>errors="replace"\<close> puts U+FFFD for each ill-formed part, and the other codecs the text
  adapters try (UTF-16, Latin-1) translate code points.
\<close>

definition byte :: "char \<Rightarrow> int" where
  "byte c = of_char c"

definition between_bytes :: "int \<Rightarrow> int \<Rightarrow> char \<Rightarrow> bool" where
  "between_bytes l h c \<longleftrightarrow> l \<le> byte c \<and> byte c \<le> h"

subsection \<open>UTF-8\<close>

text \<open>The continuation bytes a lead byte asks for, each with the range its value may have. The first
  one is narrower after E0, ED, F0 and F4: overlong forms, surrogates, values above U+10FFFF.\<close>

definition tails :: "char \<Rightarrow> (int \<times> int) list option" where
  "tails c = (let b = byte c; k = (0x80, 0xBF) in
     if b < 0x80 then Some []
     else if b < 0xC2 then None
     else if b < 0xE0 then Some [k]
     else if b = 0xE0 then Some [(0xA0, 0xBF), k]
     else if b = 0xED then Some [(0x80, 0x9F), k]
     else if b < 0xF0 then Some [k, k]
     else if b = 0xF0 then Some [(0x90, 0xBF), k, k]
     else if b < 0xF4 then Some [k, k, k]
     else if b = 0xF4 then Some [(0x80, 0x8F), k, k]
     else None)"

text \<open>The bytes of \<open>s\<close> that fit the ranges, whether they are all there, and what is left.\<close>

fun take_tails :: "(int \<times> int) list \<Rightarrow> string \<Rightarrow> string \<times> bool \<times> string" where
  "take_tails [] s = ([], True, s)"
| "take_tails (r # rs) [] = ([], False, [])"
| "take_tails (r # rs) (c # cs) =
     (if between_bytes (fst r) (snd r) c
      then (case take_tails rs cs of (t, ok, rest) \<Rightarrow> (c # t, ok, rest))
      else ([], False, c # cs))"

lemma take_tails_length: "take_tails rs s = (t, ok, rest) \<Longrightarrow> length rest \<le> length s"
  by (induction rs s arbitrary: t ok rest rule: take_tails.induct)
    (auto split: if_splits prod.splits)

lemma take_tails_split: "take_tails rs s = (t, ok, rest) \<Longrightarrow> s = t @ rest"
  by (induction rs s arbitrary: t ok rest rule: take_tails.induct)
    (auto split: if_splits prod.splits)

text \<open>One step: the first character when it is well formed, else the maximal part to replace.\<close>

definition utf8_step :: "char \<Rightarrow> string \<Rightarrow> string option \<times> string" where
  "utf8_step c cs =
     (case tails c of
        None \<Rightarrow> (None, cs)
      | Some rs \<Rightarrow> (case take_tails rs cs of (t, ok, rest) \<Rightarrow> (if ok then Some (c # t) else None, rest)))"

lemma utf8_step_length: "utf8_step c cs = (x, rest) \<Longrightarrow> length rest \<le> length cs"
  by (auto simp: utf8_step_def dest: take_tails_length split: option.splits prod.splits if_splits)

definition REPLACEMENT :: string where
  "REPLACEMENT = [CHR 0xEF, CHR 0xBF, CHR 0xBD]"

text \<open>\<open>data.decode("utf-8", errors="replace")\<close>.\<close>

function decode_replace :: "string \<Rightarrow> string" where
  "decode_replace [] = []"
| "decode_replace (c # cs) =
     (case utf8_step c cs of (x, rest) \<Rightarrow>
        (case x of Some t \<Rightarrow> t | None \<Rightarrow> REPLACEMENT) @ decode_replace rest)"
  by pat_completeness auto
termination
  by (relation "measure length") (auto dest!: utf8_step_length[OF sym])

text \<open>\<open>data.decode("utf-8")\<close> raises on the first ill-formed part.\<close>

function utf8_valid :: "string \<Rightarrow> bool" where
  "utf8_valid [] \<longleftrightarrow> True"
| "utf8_valid (c # cs) \<longleftrightarrow>
     (case utf8_step c cs of (x, rest) \<Rightarrow> (case x of Some t \<Rightarrow> utf8_valid rest | None \<Rightarrow> False))"
  by pat_completeness auto
termination
  by (relation "measure length") (auto dest!: utf8_step_length[OF sym])

definition utf8_decode :: "string \<Rightarrow> string option" where
  "utf8_decode s = (if utf8_valid s then Some s else None)"

definition BOM :: string where
  "BOM = [CHR 0xEF, CHR 0xBB, CHR 0xBF]"

definition drop_bom :: "string \<Rightarrow> string" where
  "drop_bom s = (if prefix BOM s then drop 3 s else s)"

text \<open>The codec \<open>utf-8-sig\<close> drops one byte order mark.\<close>

definition utf8_sig_decode :: "string \<Rightarrow> string option" where
  "utf8_sig_decode s = utf8_decode (drop_bom s)"

subsection \<open>Latin-1 and UTF-16\<close>

definition chr8 :: "int \<Rightarrow> char" where
  "chr8 n = char_of n"

definition encode_cp :: "int \<Rightarrow> string" where
  "encode_cp n =
     (if n < 0x80 then [chr8 n]
      else if n < 0x800 then [chr8 (0xC0 + n div 64), chr8 (0x80 + n mod 64)]
      else if n < 0x10000 then [chr8 (0xE0 + n div 4096), chr8 (0x80 + n div 64 mod 64), chr8 (0x80 + n mod 64)]
      else [chr8 (0xF0 + n div 262144), chr8 (0x80 + n div 4096 mod 64),
            chr8 (0x80 + n div 64 mod 64), chr8 (0x80 + n mod 64)])"

definition latin1_decode :: "string \<Rightarrow> string" where
  "latin1_decode s = concat (List.map (\<lambda>c. encode_cp (byte c)) s)"

fun code_units :: "bool \<Rightarrow> string \<Rightarrow> int list option" where
  "code_units big [] = Some []"
| "code_units big [c] = None"
| "code_units big (c # d # cs) =
     map_option ((#) (if big then 256 * byte c + byte d else 256 * byte d + byte c)) (code_units big cs)"

fun pair_surrogates :: "int list \<Rightarrow> int list option" where
  "pair_surrogates [] = Some []"
| "pair_surrogates (u # us) =
     (if u < 0xD800 \<or> 0xDFFF < u then map_option ((#) u) (pair_surrogates us)
      else if 0xDC00 \<le> u then None
      else case us of
        [] \<Rightarrow> None
      | l # ls \<Rightarrow>
          if 0xDC00 \<le> l \<and> l \<le> 0xDFFF
          then map_option ((#) (0x10000 + (u - 0xD800) * 1024 + (l - 0xDC00))) (pair_surrogates ls)
          else None)"

text \<open>\<open>data.decode("utf-16")\<close>: a byte order mark selects the byte order and is dropped; without one
  the machine's order is used, little endian on the platforms the worker ships for.\<close>

definition utf16_decode :: "string \<Rightarrow> string option" where
  "utf16_decode s =
     (let big = prefix [CHR 0xFE, CHR 0xFF] s; marked = big \<or> prefix [CHR 0xFF, CHR 0xFE] s in
      map_option (\<lambda>cps. concat (List.map encode_cp cps))
        (Option.bind (code_units big (if marked then drop 2 s else s)) pair_surrogates))"

subsection \<open>What the decoders guarantee\<close>

lemma take_tails_complete: "take_tails rs s = (t, True, rest) \<Longrightarrow> take_tails rs (t @ more) = (t, True, more)"
  by (induction rs s arbitrary: t rest rule: take_tails.induct)
    (auto split: if_splits prod.splits)

lemma utf8_step_complete: "utf8_step c cs = (Some t, rest) \<Longrightarrow> \<exists>u. t = c # u \<and> utf8_step c (u @ more) = (Some t, more)"
  by (auto simp: utf8_step_def take_tails_complete split: option.splits prod.splits if_splits)

lemma utf8_step_rest: "utf8_step c cs = (Some t, rest) \<Longrightarrow> c # cs = t @ rest"
  by (auto simp: utf8_step_def dest: take_tails_split split: option.splits prod.splits if_splits)

lemma utf8_valid_step: "utf8_step c cs = (Some t, rest) \<Longrightarrow> utf8_valid (t @ more) = utf8_valid more"
  using utf8_step_complete [of c cs t rest more] by auto

lemma utf8_valid_replacement [simp]: "utf8_valid (REPLACEMENT @ s) = utf8_valid s"
proof -
  have "utf8_step (CHR 0xEF) [CHR 0xBF, CHR 0xBD] = (Some REPLACEMENT, [])" by code_simp
  from utf8_valid_step [OF this] show ?thesis .
qed

lemma utf8_valid_decode_replace [simp]: "utf8_valid (decode_replace s)"
proof (induction s rule: decode_replace.induct)
  case (2 c cs)
  obtain x rest where s: "utf8_step c cs = (x, rest)" by fastforce
  then have IH: "utf8_valid (decode_replace rest)" using 2 by auto
  show ?case
  proof (cases x)
    case None
    then show ?thesis using s IH by simp
  next
    case (Some t)
    then have "utf8_valid (t @ decode_replace rest)" using utf8_valid_step s IH by blast
    then show ?thesis using s Some by simp
  qed
qed simp

lemma decode_replace_valid: "utf8_valid s \<Longrightarrow> decode_replace s = s"
proof (induction s rule: utf8_valid.induct)
  case (2 c cs)
  obtain x rest where s: "utf8_step c cs = (x, rest)" by fastforce
  then obtain t where t: "x = Some t" "utf8_valid rest" using 2(2) by (auto split: option.splits)
  then have "decode_replace rest = rest" using 2(1) s by auto
  then have "decode_replace (c # cs) = t @ rest" using s t by simp
  also have "\<dots> = c # cs" using s t by (simp add: utf8_step_rest)
  finally show ?case .
qed simp

end
