(* ===== verification/ModelRegistry.thy ===== *)
theory ModelRegistry
  imports Utf8 "HOL-Library.List_Lexorder"
begin

section \<open>The signed model registry\<close>

text \<open>
  \<open>gateway/registry.py\<close>: canonical bytes and digest of a manifest, its signature, the cache directory
  with the current manifest and the snapshots kept for rollback. JSON rendering and parsing, SHA-256,
  HMAC, Ed25519 and the environment are parameters; the two key files, the bundled manifest and the
  cache are the fields of the disk; time stamps enter as arguments and are left out of the metadata.
\<close>

subsection \<open>Hexadecimal\<close>

definition hex_char :: "int \<Rightarrow> char" where
  "hex_char n = (if n < 10 then chr8 (48 + n) else chr8 (87 + n))"

definition to_hex :: "string \<Rightarrow> string" where
  "to_hex s = concat (List.map (\<lambda>c. [hex_char (byte c div 16), hex_char (byte c mod 16)]) s)"

definition hex_digit :: "char \<Rightarrow> int option" where
  "hex_digit c = (let n = byte c in
     if 48 \<le> n \<and> n \<le> 57 then Some (n - 48) else if 97 \<le> n \<and> n \<le> 102 then Some (n - 87)
     else if 65 \<le> n \<and> n \<le> 70 then Some (n - 55) else None)"

definition hex_space :: "char \<Rightarrow> bool" where
  "hex_space c \<longleftrightarrow> byte c = 32 \<or> (9 \<le> byte c \<and> byte c \<le> 13)"

text \<open>\<open>bytes.fromhex\<close>: two digits per byte, white space between bytes.\<close>

fun hex_bytes :: "string \<Rightarrow> string option" where
  "hex_bytes [] = Some []"
| "hex_bytes [c] = (if hex_space c then Some [] else None)"
| "hex_bytes (c # d # cs) =
     (if hex_space c then hex_bytes (d # cs)
      else case (hex_digit c, hex_digit d) of
        (Some h, Some l) \<Rightarrow> map_option ((#) (chr8 (16 * h + l))) (hex_bytes cs)
      | _ \<Rightarrow> None)"

definition from_hex :: "json \<Rightarrow> string res" where
  "from_hex v = (case v of
     JStr s \<Rightarrow> (case hex_bytes s of Some b \<Rightarrow> Inr b | None \<Rightarrow> Inl (ValueError ''non-hexadecimal number found in fromhex() arg''))
   | _ \<Rightarrow> Inl (TypeError (''fromhex() argument must be str, not '' @ py_type v)))"

lemma hex_digit_char: "0 \<le> n \<Longrightarrow> n < 16 \<Longrightarrow> hex_digit (hex_char n) = Some n \<and> \<not> hex_space (hex_char n)"
  by (auto simp: hex_digit_def hex_char_def hex_space_def byte_def chr8_def Let_def)

lemma hex_roundtrip: "hex_bytes (to_hex s) = Some s"
proof (induction s)
  case (Cons c s)
  have b: "0 \<le> byte c" "byte c < 256" by (simp_all add: byte_def of_char_def of_bool_def)
  have "0 \<le> byte c div 16" "byte c div 16 < 16" "0 \<le> byte c mod 16" "byte c mod 16 < 16" using b by auto
  moreover have "chr8 (16 * (byte c div 16) + byte c mod 16) = c" by (simp add: chr8_def byte_def)
  ultimately show ?case using Cons hex_digit_char by (simp add: to_hex_def)
qed (simp add: to_hex_def)

subsection \<open>Signatures\<close>

record reg_lib =
  rl_dumps :: "json \<Rightarrow> string"
  rl_pretty :: "json \<Rightarrow> string"
  rl_loads :: "string \<Rightarrow> json res"
  rl_repr :: "json \<Rightarrow> string"
  rl_sha :: "string \<Rightarrow> string"
  rl_hmac :: "string \<Rightarrow> string \<Rightarrow> string"
  rl_ed25519 :: "(string \<Rightarrow> (string \<Rightarrow> string \<Rightarrow> bool) res) option"
  rl_env :: "string option"
  rl_current_path :: string
  rl_bundled_path :: string

record reg_disk =
  rd_bundled :: "string option"
  rd_current :: "string option"
  rd_previous :: "(string \<times> string) list"
  rd_meta :: "json dict"
  rd_cache_keys :: "string option"
  rd_schema_keys :: "string option"

definition unsigned_part :: "json dict \<Rightarrow> json dict" where
  "unsigned_part m = List.filter (\<lambda>(k, v). k \<noteq> ''signature'') m"

definition canonical_bytes :: "reg_lib \<Rightarrow> json dict \<Rightarrow> string" where
  "canonical_bytes rl m = rl_dumps rl (JObj (unsigned_part m))"

definition content_digest :: "reg_lib \<Rightarrow> json dict \<Rightarrow> string" where
  "content_digest rl m = ''sha256:'' @ rl_sha rl (canonical_bytes rl m)"

definition dev_secret :: "reg_lib \<Rightarrow> string" where
  "dev_secret rl = (case rl_env rl of Some s \<Rightarrow> s | None \<Rightarrow> ''brainflow-dev-hmac-key'')"

definition dev_keys :: "reg_lib \<Rightarrow> json" where
  "dev_keys rl = JArr [JObj [(''key_id'', JStr ''brainflow-dev''), (''alg'', JStr ''bf-hmac-v1''),
     (''secret_hex'', JStr (to_hex (dev_secret rl)))]]"

definition key_file :: "reg_lib \<Rightarrow> string \<Rightarrow> json res" where
  "key_file rl t = bnd (rl_loads rl t) (\<lambda>v. bnd (jget v ''keys'') (\<lambda>ks. Inr (jor ks (JArr []))))"

definition load_pinned_keys :: "reg_lib \<Rightarrow> reg_disk \<Rightarrow> json res" where
  "load_pinned_keys rl d =
     (case rd_cache_keys d of Some t \<Rightarrow> key_file rl t
      | None \<Rightarrow> (case rd_schema_keys d of Some t \<Rightarrow> key_file rl t | None \<Rightarrow> Inr (dev_keys rl)))"

text \<open>\<open>next((k for k in keys if ...), None)\<close>.\<close>

fun find_key :: "string \<Rightarrow> json \<Rightarrow> json list \<Rightarrow> json res" where
  "find_key alg key_id [] = Inr JNull"
| "find_key alg key_id (k # ks) =
     bnd (jget k ''key_id'') (\<lambda>i.
       if py_eq i key_id
       then bnd (jget k ''alg'') (\<lambda>a. if a = JStr alg then Inr k else find_key alg key_id ks)
       else find_key alg key_id ks)"

definition refused :: "string \<Rightarrow> string \<Rightarrow> json dict" where
  "refused digest e = [(''ok'', JBool False), (''digest'', JStr digest), (''error'', JStr e)]"

definition verified :: "string \<Rightarrow> string \<Rightarrow> json \<Rightarrow> json dict" where
  "verified mode digest key_id = [(''ok'', JBool True), (''mode'', JStr mode), (''digest'', JStr digest), (''key_id'', key_id)]"

text \<open>The secret of a key entry, of the development key, or none.\<close>

definition key_secret :: "reg_lib \<Rightarrow> json \<Rightarrow> json \<Rightarrow> bool \<Rightarrow> string option res" where
  "key_secret rl k key_id allow_dev =
     (let hex = dget (obj_of k) ''secret_hex''; plain = dget (obj_of k) ''secret'' in
      if truthy hex then bnd (from_hex hex) (\<lambda>s. Inr (Some s))
      else if truthy plain then Inr (Some (py_str (rl_repr rl) plain))
      else if allow_dev \<and> key_id = JStr ''brainflow-dev'' then Inr (Some (dev_secret rl))
      else Inr None)"

definition all_ascii :: "string \<Rightarrow> bool" where
  "all_ascii s = list_all (\<lambda>c. byte c < 128) s"

text \<open>\<open>hmac.compare_digest\<close> on strings: both must be ASCII.\<close>

definition compare_digest :: "string \<Rightarrow> string \<Rightarrow> bool res" where
  "compare_digest a b =
     (if all_ascii a \<and> all_ascii b then Inr (a = b)
      else Inl (TypeError ''comparing strings with non-ASCII characters is not supported''))"

definition check_mac :: "reg_lib \<Rightarrow> json dict \<Rightarrow> string \<Rightarrow> json dict \<Rightarrow> string \<Rightarrow> json dict res" where
  "check_mac rl m digest sig secret =
     bnd (compare_digest (rl_hmac rl secret (canonical_bytes rl m)) (py_str (rl_repr rl) (jor (dget sig ''value'') (JStr [])))) (\<lambda>same.
       Inr (if \<not> same then refused digest ''hmac signature mismatch (tampered?)''
            else if truthy (dget sig ''content_digest'') \<and> \<not> py_eq (dget sig ''content_digest'') (JStr digest)
            then refused digest ''content_digest mismatch''
            else verified ''bf-hmac-v1'' digest (dget sig ''key_id'')))"

definition verify_hmac :: "reg_lib \<Rightarrow> json dict \<Rightarrow> string \<Rightarrow> json dict \<Rightarrow> json list \<Rightarrow> bool \<Rightarrow> json dict res" where
  "verify_hmac rl m digest sig keys allow_dev =
     (let key_id = dget sig ''key_id'' in
      bnd (find_key ''bf-hmac-v1'' key_id keys) (\<lambda>k.
      bnd (key_secret rl k key_id allow_dev) (\<lambda>secret.
        case secret of
          None \<Rightarrow> Inr (refused digest (''unknown hmac key_id: '' @ py_str (rl_repr rl) key_id))
        | Some s \<Rightarrow> check_mac rl m digest sig s)))"

definition verify_ed25519 :: "reg_lib \<Rightarrow> json dict \<Rightarrow> string \<Rightarrow> json dict \<Rightarrow> json list \<Rightarrow> json dict res" where
  "verify_ed25519 rl m digest sig keys =
     (case rl_ed25519 rl of
        None \<Rightarrow> Inr (refused digest ''cryptography package required for ed25519 verification'')
      | Some load_key \<Rightarrow>
          let key_id = dget sig ''key_id'' in
          bnd (find_key ''ed25519'' key_id keys) (\<lambda>k.
            if \<not> truthy k then Inr (refused digest (''unknown ed25519 key_id: '' @ py_str (rl_repr rl) key_id))
            else bnd (case map_of (obj_of k) ''public_key_hex'' of None \<Rightarrow> Inl (KeyError ''public_key_hex'') | Some h \<Rightarrow> from_hex h) (\<lambda>pk.
              bnd (load_key pk) (\<lambda>check.
              bnd (from_hex (JStr (py_str (rl_repr rl) (dget sig ''value'')))) (\<lambda>sig_bytes.
                Inr (if check sig_bytes (canonical_bytes rl m) then verified ''ed25519'' digest key_id
                     else refused digest ''ed25519 signature invalid''))))))"

definition EM_DASH :: string where
  "EM_DASH = [CHR 0xE2, CHR 0x80, CHR 0x94]"

text \<open>\<open>public_keys or _load_pinned_keys()\<close>.\<close>

definition keys_in_use :: "reg_lib \<Rightarrow> reg_disk \<Rightarrow> json list option \<Rightarrow> json list res" where
  "keys_in_use rl d given =
     (case given of Some (k # ks) \<Rightarrow> Inr (k # ks) | _ \<Rightarrow> bnd (load_pinned_keys rl d) py_iter)"

definition verify_manifest :: "reg_lib \<Rightarrow> reg_disk \<Rightarrow> json list option \<Rightarrow> bool \<Rightarrow> json dict \<Rightarrow> json dict res" where
  "verify_manifest rl d given allow_dev m =
     (let digest = content_digest rl m; sig = jor (dget m ''signature'') (JObj []) in
      bnd (jget sig ''alg'') (\<lambda>alg.
      bnd (keys_in_use rl d given) (\<lambda>keys.
        if alg = JStr ''ed25519'' then verify_ed25519 rl m digest (obj_of sig) keys
        else if alg = JStr ''bf-hmac-v1'' then verify_hmac rl m digest (obj_of sig) keys allow_dev
        else if alg = JStr ''dev-unsigned'' \<and> allow_dev
        then Inr [(''ok'', JBool True), (''mode'', JStr ''dev-unsigned''), (''digest'', JStr digest),
                  (''warning'', JStr (''Development unsigned registry '' @ EM_DASH @ '' not for production Auto downloads''))]
        else Inr (refused digest (''unsupported or missing signature alg: '' @ rl_repr rl alg)))))"

definition signature_of :: "reg_lib \<Rightarrow> json dict \<Rightarrow> string \<Rightarrow> string \<Rightarrow> json" where
  "signature_of rl m key_id secret = JObj [(''alg'', JStr ''bf-hmac-v1''), (''key_id'', JStr key_id),
     (''value'', JStr (rl_hmac rl secret (canonical_bytes rl m))), (''content_digest'', JStr (content_digest rl m))]"

definition sign_manifest_hmac :: "reg_lib \<Rightarrow> json dict \<Rightarrow> string \<Rightarrow> string \<Rightarrow> json dict" where
  "sign_manifest_hmac rl m key_id secret = AList.update ''signature'' (signature_of rl m key_id secret) m"

subsection \<open>The cache\<close>

definition snapshot_name :: "reg_lib \<Rightarrow> string \<Rightarrow> json dict \<Rightarrow> string" where
  "snapshot_name rl stamp m = stamp @ ''-'' @ replace_all '':'' ''_'' (content_digest rl m) @ ''.json''"

text \<open>\<open>.items()\<close> of a parsed document.\<close>

definition items_of :: "json \<Rightarrow> json dict res" where
  "items_of v = (case v of JObj d \<Rightarrow> Inr d
     | _ \<Rightarrow> Inl (AttributeError (CHR 0x27 # py_type v @ CHR 0x27 # '' object has no attribute '' @ CHR 0x27 # ''items'' @ [CHR 0x27])))"

definition read_manifest :: "reg_lib \<Rightarrow> string \<Rightarrow> json dict res" where
  "read_manifest rl t = bnd (rl_loads rl t) items_of"

definition rotate_current :: "reg_lib \<Rightarrow> string \<Rightarrow> reg_disk \<Rightarrow> reg_disk res" where
  "rotate_current rl stamp d =
     (case rd_current d of
        None \<Rightarrow> Inr d
      | Some t \<Rightarrow> bnd (read_manifest rl t) (\<lambda>m.
          Inr (d\<lparr>rd_previous := AList.update (snapshot_name rl stamp m) t (rd_previous d)\<rparr>)))"

definition store :: "reg_lib \<Rightarrow> string \<Rightarrow> json dict \<Rightarrow> reg_disk \<Rightarrow> reg_disk" where
  "store rl remark m d = d\<lparr>rd_current := Some (rl_pretty rl (JObj m) @ [CHR 0x0A]),
     rd_meta := [(''note'', JStr remark), (''digest'', JStr (content_digest rl m))]\<rparr>"

definition install_manifest :: "reg_lib \<Rightarrow> string \<Rightarrow> string \<Rightarrow> json dict \<Rightarrow> reg_disk \<Rightarrow> json dict res \<times> reg_disk" where
  "install_manifest rl stamp remark m d =
     (case verify_manifest rl d None True m of
        Inl e \<Rightarrow> (Inl e, d)
      | Inr v \<Rightarrow>
          if \<not> truthy (dget v ''ok'')
          then (Inr [(''ok'', JBool False), (''error'', JStr ''signature verification failed''), (''verify'', JObj v)], d)
          else case rotate_current rl stamp d of
            Inl e \<Rightarrow> (Inl e, d)
          | Inr d' \<Rightarrow> (Inr [(''ok'', JBool True), (''digest'', JStr (content_digest rl m)), (''path'', JStr (rl_current_path rl))],
                      store rl remark m d'))"

definition latest_snapshot :: "reg_disk \<Rightarrow> (string \<times> string) option" where
  "latest_snapshot d = (case rev (sort_key fst (rd_previous d)) of [] \<Rightarrow> None | s # _ \<Rightarrow> Some s)"

definition rollback_registry :: "reg_lib \<Rightarrow> string \<Rightarrow> reg_disk \<Rightarrow> json dict res \<times> reg_disk" where
  "rollback_registry rl stamp d =
     (case latest_snapshot d of
        None \<Rightarrow> (Inr [(''ok'', JBool False), (''error'', JStr ''no previous registry snapshot'')], d)
      | Some (name, t) \<Rightarrow>
          (case read_manifest rl t of
             Inl e \<Rightarrow> (Inl e, d)
           | Inr m \<Rightarrow>
               (case install_manifest rl stamp (''rollback_from:'' @ name) m d of
                  (Inl e, d') \<Rightarrow> (Inl e, d')
                | (Inr r, d') \<Rightarrow>
                    (Inr r, if truthy (dget r ''ok'') then d'\<lparr>rd_previous := AList.delete name (rd_previous d')\<rparr> else d'))))"

text \<open>The document read in the end: the given file, the cache, or the bundled manifest, installed first.\<close>

definition registry_source :: "reg_lib \<Rightarrow> string \<Rightarrow> bool \<Rightarrow> reg_disk \<Rightarrow> (string \<times> string) res \<times> reg_disk" where
  "registry_source rl stamp refresh d =
     (case (if refresh then None else rd_current d) of
        Some t \<Rightarrow> (Inr (rl_current_path rl, t), d)
      | None \<Rightarrow>
          (case rd_bundled d of
             None \<Rightarrow> (Inl (FileNotFoundError (''No bundled or cached model registry at '' @ rl_bundled_path rl)), d)
           | Some t \<Rightarrow>
               (case read_manifest rl t of
                  Inl e \<Rightarrow> (Inl e, d)
                | Inr m \<Rightarrow>
                    (case install_manifest rl stamp ''bundled_bootstrap'' m d of
                       (Inl e, d') \<Rightarrow> (Inl e, d')
                     | (Inr r, d') \<Rightarrow>
                         (case rd_current d' of
                            Some c \<Rightarrow> (Inr (if truthy (dget r ''ok'') then (rl_current_path rl, c) else (rl_bundled_path rl, t)), d')
                          | None \<Rightarrow> (Inr (rl_bundled_path rl, t), d'))))))"

definition registry_report :: "reg_lib \<Rightarrow> reg_disk \<Rightarrow> string \<times> string \<Rightarrow> json dict res" where
  "registry_report rl d = (\<lambda>(path, t).
     bnd (read_manifest rl t) (\<lambda>m.
     bnd (verify_manifest rl d None True m) (\<lambda>v.
       Inr [(''ok'', dget v ''ok''), (''path'', JStr path), (''verify'', JObj v), (''manifest'', JObj m),
            (''digest'', jor (dget v ''digest'') (JStr (content_digest rl m)))])))"

definition load_registry ::
  "reg_lib \<Rightarrow> string \<Rightarrow> (string \<times> string) option \<Rightarrow> bool \<Rightarrow> reg_disk \<Rightarrow> json dict res \<times> reg_disk" where
  "load_registry rl stamp given refresh d =
     (case given of
        Some s \<Rightarrow> (registry_report rl d s, d)
      | None \<Rightarrow>
          (case registry_source rl stamp refresh d of
             (Inl e, d') \<Rightarrow> (Inl e, d')
           | (Inr s, d') \<Rightarrow> (registry_report rl d' s, d')))"

subsection \<open>Signing and verifying\<close>

lemma unsigned_part_update [simp]: "unsigned_part (AList.update ''signature'' v m) = unsigned_part m"
  by (induction m) (auto simp: unsigned_part_def)

lemma canonical_update [simp]:
  "canonical_bytes rl (AList.update ''signature'' v m) = canonical_bytes rl m"
  "content_digest rl (AList.update ''signature'' v m) = content_digest rl m"
  by (simp_all add: canonical_bytes_def content_digest_def)

lemma ok_simps [simp]:
  "dget (refused digest e) ''ok'' = JBool False" "dget (verified mode digest k) ''ok'' = JBool True"
  by (simp_all add: refused_def verified_def dget_def)

lemma to_hex_nonempty: "s \<noteq> [] \<Longrightarrow> to_hex s \<noteq> []"
  by (cases s) (simp_all add: to_hex_def)

lemma key_secret_hex:
  "dget e ''secret_hex'' = JStr (to_hex secret) \<Longrightarrow> secret \<noteq> [] \<Longrightarrow> key_secret rl (JObj e) key_id dev = Inr (Some secret)"
  by (simp add: key_secret_def from_hex_def hex_roundtrip to_hex_nonempty)

lemma check_mac_own:
  assumes "\<And>msg. all_ascii (rl_hmac rl secret msg) \<and> rl_hmac rl secret msg \<noteq> []"
  shows "check_mac rl m' (content_digest rl m') (obj_of (signature_of rl m key_id secret)) secret =
    Inr (if rl_hmac rl secret (canonical_bytes rl m') \<noteq> rl_hmac rl secret (canonical_bytes rl m)
         then refused (content_digest rl m') ''hmac signature mismatch (tampered?)''
         else if content_digest rl m \<noteq> content_digest rl m'
         then refused (content_digest rl m') ''content_digest mismatch''
         else verified ''bf-hmac-v1'' (content_digest rl m') (JStr key_id))"
  using assms
  by (simp add: check_mac_def signature_of_def dget_def compare_digest_def jor_def py_eq_def)
    (simp add: content_digest_def)

lemma signature_simps [simp]:
  "jor (signature_of rl m key_id secret) x = signature_of rl m key_id secret"
  "jget (signature_of rl m key_id secret) ''alg'' = Inr (JStr ''bf-hmac-v1'')"
  "dget (obj_of (signature_of rl m key_id secret)) ''key_id'' = JStr key_id"
  by (simp_all add: signature_of_def jor_def jget_def dget_def)

text \<open>C39: Signatures: a signed manifest verifies under its key, and a manifest that carries the signature of
  another one verifies exactly when both have the same authentication code and the same digest. So a
  changed manifest is refused unless SHA-256 and HMAC collide. Extra keys, their order and the
  development mode make no difference once the key is found.\<close>

theorem signature_covers_the_manifest:
  assumes "find_key ''bf-hmac-v1'' (JStr key_id) (k # ks) = Inr (JObj e)"
    and "dget e ''secret_hex'' = JStr (to_hex secret)" "secret \<noteq> []"
    and "\<And>msg. all_ascii (rl_hmac rl secret msg) \<and> rl_hmac rl secret msg \<noteq> []"
  shows "verify_manifest rl d (Some (k # ks)) dev (sign_manifest_hmac rl m key_id secret) =
      Inr (verified ''bf-hmac-v1'' (content_digest rl m) (JStr key_id)) \<and>
    (\<exists>v. verify_manifest rl d (Some (k # ks)) dev (AList.update ''signature'' (signature_of rl m key_id secret) m') = Inr v \<and>
      (truthy (dget v ''ok'') \<longleftrightarrow>
         rl_hmac rl secret (canonical_bytes rl m') = rl_hmac rl secret (canonical_bytes rl m) \<and>
         content_digest rl m' = content_digest rl m))"
proof -
  have v: "verify_manifest rl d (Some (k # ks)) dev (AList.update ''signature'' (signature_of rl m key_id secret) m') =
      check_mac rl (AList.update ''signature'' (signature_of rl m key_id secret) m') (content_digest rl m')
        (obj_of (signature_of rl m key_id secret)) secret" for m'
    using assms(1) key_secret_hex [OF assms(2,3)]
    by (simp add: verify_manifest_def verify_hmac_def keys_in_use_def dget_put Let_def)
  have c: "check_mac rl (AList.update ''signature'' x m') g sig s = check_mac rl m' g sig s" for x m' g sig s
    by (simp add: check_mac_def)
  show ?thesis
    unfolding sign_manifest_hmac_def v c check_mac_own [OF assms(4)] by auto
qed

definition demo_manifest :: "string \<Rightarrow> json dict" where
  "demo_manifest k = [(k, JNull), (''signature'', JObj [(''alg'', JStr ''dev-unsigned'')])]"

definition demo_reg :: reg_lib where
  "demo_reg = \<lparr>rl_dumps = (\<lambda>v. case v of JObj d \<Rightarrow> concat (dict_keys d) | _ \<Rightarrow> []), rl_pretty = (\<lambda>v. case v of JObj d \<Rightarrow> concat (dict_keys d) | _ \<Rightarrow> []),
     rl_loads = (\<lambda>t. Inr (JObj (demo_manifest (take (length t - 10) t)))),
     rl_repr = (\<lambda>_. []), rl_sha = to_hex, rl_hmac = (\<lambda>k msg. ''0'' @ to_hex (k @ msg)), rl_ed25519 = None, rl_env = None,
     rl_current_path = ''current.json'', rl_bundled_path = ''registry.v1.json''\<rparr>"

definition no_disk :: reg_disk where
  "no_disk = \<lparr>rd_bundled = None, rd_current = None, rd_previous = [], rd_meta = [], rd_cache_keys = None, rd_schema_keys = None\<rparr>"

lemma hex_char_ascii: "0 \<le> n \<Longrightarrow> n < 16 \<Longrightarrow> byte (hex_char n) < 128"
  by (auto simp: hex_char_def byte_def chr8_def)

lemma to_hex_ascii: "all_ascii (to_hex s)"
proof (induction s)
  case (Cons c s)
  have "0 \<le> byte c" "byte c < 256" by (simp_all add: byte_def of_char_def of_bool_def)
  then show ?case using Cons by (auto simp: all_ascii_def to_hex_def intro!: hex_char_ascii)
qed (simp add: all_ascii_def to_hex_def)

theorem signature_covers_the_manifest_witness:
  "verify_manifest demo_reg no_disk (Some [JObj [(''key_id'', JStr ''k1''), (''alg'', JStr ''bf-hmac-v1''), (''secret_hex'', JStr (to_hex ''s''))]])
       False (sign_manifest_hmac demo_reg [(''models'', JNull)] ''k1'' ''s'') =
     Inr (verified ''bf-hmac-v1'' (content_digest demo_reg [(''models'', JNull)]) (JStr ''k1'')) \<and>
   content_digest demo_reg [(''evil'', JNull)] \<noteq> content_digest demo_reg [(''models'', JNull)]"
proof
  let ?e = "[(''key_id'', JStr ''k1''), (''alg'', JStr ''bf-hmac-v1''), (''secret_hex'', JStr (to_hex ''s''))]"
  have "find_key ''bf-hmac-v1'' (JStr ''k1'') [JObj ?e] = Inr (JObj ?e)" by (simp add: jget_def dget_def)
  moreover have "dget ?e ''secret_hex'' = JStr (to_hex ''s'')" by (simp add: dget_def)
  moreover have "all_ascii (rl_hmac demo_reg ''s'' msg) \<and> rl_hmac demo_reg ''s'' msg \<noteq> []" for msg
    using to_hex_ascii [of "''s'' @ msg"] by (simp add: demo_reg_def all_ascii_def byte_def)
  ultimately show "verify_manifest demo_reg no_disk (Some [JObj ?e]) False (sign_manifest_hmac demo_reg [(''models'', JNull)] ''k1'' ''s'') =
     Inr (verified ''bf-hmac-v1'' (content_digest demo_reg [(''models'', JNull)]) (JStr ''k1''))"
    using signature_covers_the_manifest [of "''k1''" "JObj ?e" "[]" ?e "''s''" demo_reg] by simp
  show "content_digest demo_reg [(''evil'', JNull)] \<noteq> content_digest demo_reg [(''models'', JNull)]" by code_simp
qed

text \<open>A manifest that declares itself unsigned is accepted in development mode, whatever keys are pinned;
  the callers never leave that mode.\<close>

lemma unsigned_is_accepted:
  "keys_in_use rl d given = Inr keys \<Longrightarrow>
     \<exists>v. verify_manifest rl d given True (AList.update ''signature'' (JObj [(''alg'', JStr ''dev-unsigned'')]) m) = Inr v \<and> truthy (dget v ''ok'')"
  by (simp add: verify_manifest_def Let_def dget_put jor_def jget_def) (simp add: dget_def)

subsection \<open>Install and roll back\<close>

lemma install_ok:
  assumes "install_manifest rl stamp remark m d = (Inr r, d')" "truthy (dget r ''ok'')"
  obtains d1 v where "verify_manifest rl d None True m = Inr v" "truthy (dget v ''ok'')" "rotate_current rl stamp d = Inr d1"
    "d' = store rl remark m d1"
  using assms by (auto simp: install_manifest_def dget_def split: sum.splits if_splits)

lemma verify_same_keys:
  "rd_cache_keys d = rd_cache_keys d' \<Longrightarrow> rd_schema_keys d = rd_schema_keys d' \<Longrightarrow>
     verify_manifest rl d g dev m = verify_manifest rl d' g dev m"
proof -
  assume "rd_cache_keys d = rd_cache_keys d'" "rd_schema_keys d = rd_schema_keys d'"
  then have "load_pinned_keys rl d = load_pinned_keys rl d'" by (simp add: load_pinned_keys_def split: option.split)
  then have "keys_in_use rl d g = keys_in_use rl d' g" by (simp add: keys_in_use_def split: option.split list.split)
  then show ?thesis by (simp only: verify_manifest_def)
qed

lemma rotate_current_keeps:
  "rotate_current rl stamp d = Inr d1 \<Longrightarrow> rd_cache_keys d1 = rd_cache_keys d \<and> rd_schema_keys d1 = rd_schema_keys d \<and>
     rd_current d1 = rd_current d \<and> rd_bundled d1 = rd_bundled d"
  by (auto simp: rotate_current_def bnd_Inr_iff split: option.splits)

lemma store_simps [simp]:
  "rd_current (store rl remark m d) = Some (rl_pretty rl (JObj m) @ [CHR 0x0A])" "rd_previous (store rl remark m d) = rd_previous d"
  "rd_cache_keys (store rl remark m d) = rd_cache_keys d" "rd_schema_keys (store rl remark m d) = rd_schema_keys d"
  by (simp_all add: store_def)

lemma insort_below: "f y \<le> f x \<Longrightarrow> insort_key f y (zs @ [x]) = insort_key f y zs @ [x]"
  by (induction zs) auto

lemma sort_above: "\<forall>y\<in>set xs. f y \<le> f x \<Longrightarrow> sort_key f (xs @ [x]) = sort_key f xs @ [x]"
  by (induction xs) (simp_all add: sort_key_def insort_below)

lemma latest_appended:
  "\<forall>s\<in>set (rd_previous d). fst s \<le> name \<Longrightarrow> latest_snapshot (d\<lparr>rd_previous := rd_previous d @ [(name, t)]\<rparr>) = Some (name, t)"
  by (simp add: latest_snapshot_def sort_above)

lemma update_fresh: "k \<notin> fst ` set d \<Longrightarrow> AList.update k v d = d @ [(k, v)]"
  by (induction d) auto

lemma installed_text:
  assumes "install_manifest rl stamp remark m d = (Inr r, d')" "truthy (dget r ''ok'')"
  shows "rd_current d' = Some (rl_pretty rl (JObj m) @ [CHR 0x0A])"
    "rd_cache_keys d' = rd_cache_keys d" "rd_schema_keys d' = rd_schema_keys d"
    "\<exists>v. verify_manifest rl d None True m = Inr v \<and> truthy (dget v ''ok'')"
  using assms by (auto elim!: install_ok dest: rotate_current_keeps)



end
