(* ===== verification/Pins.thy ===== *)
theory Pins
  imports PyData
begin

section \<open>Model pins (gateway/pins.py)\<close>

text \<open>
  Pins map a role to the model reference chosen for it; a pin of an active run may not change. A
  reference is the dictionary the workflow stores; a map of pins is a dictionary of those.
\<close>

type_synonym pins = "json dict dict"

definition pins_from_workflow :: "json dict \<Rightarrow> pins res" where
  "pins_from_workflow workflow =
     bnd (jget (jor (dget workflow ''pins'') (JObj [])) ''models'') (\<lambda>m.
     case jor m (JObj []) of
       JObj d \<Rightarrow> Inr (concat (List.map (\<lambda>(role, ref). case ref of JObj r \<Rightarrow> [(role, r)] | _ \<Rightarrow> []) d))
     | v \<Rightarrow> Inl (AttributeError (py_type v @ '' object has no attribute items'')))"

definition swapped :: "string \<Rightarrow> json dict \<Rightarrow> json dict \<Rightarrow> bool" where
  "swapped key pin nxt \<longleftrightarrow>
     truthy (dget pin key) \<and> truthy (dget nxt key) \<and> \<not> py_eq (dget pin key) (dget nxt key)"

definition swap_msg :: "string \<Rightarrow> string \<Rightarrow> pyexn" where
  "swap_msg role key = PinViolation (''Refuse mid-run swap for role '' @ CHR 0x27 # role @ CHR 0x27 # '': pinned ''
     @ key @ '' differs from requested'')"

fun check_pins :: "pins \<Rightarrow> pins \<Rightarrow> unit res" where
  "check_pins [] requested = Inr ()"
| "check_pins ((role, pin) # rest) requested =
     (case map_of requested role of
        None \<Rightarrow> check_pins rest requested
      | Some nxt \<Rightarrow>
          if nxt = [] then check_pins rest requested
          else if swapped ''digest'' pin nxt then Inl (swap_msg role ''digest'')
          else if swapped ''name'' pin nxt then Inl (swap_msg role ''name'')
          else check_pins rest requested)"

definition assert_pins_stable :: "pins \<Rightarrow> pins option \<Rightarrow> bool \<Rightarrow> unit res" where
  "assert_pins_stable pinned requested run_active =
     (if \<not> run_active then Inr ()
      else case requested of None \<Rightarrow> Inr () | Some r \<Rightarrow> if r = [] then Inr () else check_pins pinned r)"

definition key_of :: "json dict \<Rightarrow> string \<Rightarrow> json res" where
  "key_of d k = (case map_of d k of None \<Rightarrow> Inl (KeyError k) | Some v \<Rightarrow> Inr v)"

definition pin_entry :: "json dict \<Rightarrow> json res" where
  "pin_entry ref =
     bnd (key_of ref ''provider'') (\<lambda>p. bnd (key_of ref ''name'') (\<lambda>n.
       Inr (JObj [(''provider'', p), (''name'', n),
                  (''digest'', jor (dget ref ''digest'') (JStr ''unknown''))])))"

fun add_pins :: "bool \<Rightarrow> pins \<Rightarrow> json dict \<Rightarrow> json dict res" where
  "add_pins overwrite [] models = Inr models"
| "add_pins overwrite ((role, ref) # rest) models =
     (if map_of models role \<noteq> None \<and> \<not> overwrite then add_pins overwrite rest models
      else bnd (pin_entry ref) (\<lambda>e. add_pins overwrite rest (AList.update role e models)))"

text \<open>\<open>dict(v or {})\<close> of a value that is a dictionary or falsy.\<close>

definition as_dict :: "json \<Rightarrow> json dict res" where
  "as_dict v = (case jor v (JObj []) of JObj d \<Rightarrow> Inr d
     | w \<Rightarrow> Inl (TypeError (py_type w @ '' object is not a mapping'')))"

definition apply_pins_to_workflow :: "json dict \<Rightarrow> pins \<Rightarrow> bool \<Rightarrow> json dict res" where
  "apply_pins_to_workflow workflow pins overwrite =
     bnd (as_dict (dget workflow ''pins'')) (\<lambda>block.
     bnd (as_dict (dget block ''models'')) (\<lambda>models.
     bnd (add_pins overwrite pins models) (\<lambda>models'.
       let block1 = AList.update ''models'' (JObj models') block;
           block2 = (if map_of block1 ''prompt_pack_version'' = None
                     then AList.update ''prompt_pack_version'' (JStr ''0.1.0'') block1 else block1)
       in Inr (AList.update ''pins'' (JObj block2) workflow))))"

record resolution =
  rv_pins :: pins
  rv_changed :: bool
  rv_reason :: string
  rv_notification :: "string option"

definition resolve_for_run :: "string \<Rightarrow> pins option \<Rightarrow> pins \<Rightarrow> bool \<Rightarrow> bool \<Rightarrow> resolution" where
  "resolve_for_run policy pinned recommended allow_auto_reselect run_active =
     (let p = (case pinned of None \<Rightarrow> [] | Some x \<Rightarrow> x) in
      if run_active \<and> p \<noteq> [] then
        \<lparr>rv_pins = p, rv_changed = False, rv_reason = ''run_active_frozen'', rv_notification = None\<rparr>
      else if policy = ''pinned'' \<and> p \<noteq> [] then
        \<lparr>rv_pins = p, rv_changed = False, rv_reason = ''pinned_policy'',
         rv_notification = Some ''Newer registry recommendations available but pinned policy holds''\<rparr>
      else if p \<noteq> [] \<and> \<not> allow_auto_reselect then
        \<lparr>rv_pins = p, rv_changed = False, rv_reason = ''existing_pins_hold'',
         rv_notification = Some ''Recommendation differs; pin holds until user opts in''\<rparr>
      else \<lparr>rv_pins = recommended, rv_changed = True, rv_reason = ''auto_selected'', rv_notification = None\<rparr>)"

subsection \<open>Lemmas\<close>

lemma check_pins_ok:
  "check_pins pinned requested = Inr () \<longleftrightarrow>
   (\<forall>(role, pin)\<in>set pinned. \<forall>nxt. map_of requested role = Some nxt \<longrightarrow> nxt \<noteq> [] \<longrightarrow>
      \<not> swapped ''digest'' pin nxt \<and> \<not> swapped ''name'' pin nxt)"
  by (induction pinned requested rule: check_pins.induct) (auto split: option.splits)

lemma check_pins_self: "wf_dict p \<Longrightarrow> check_pins p p = Inr ()"
proof -
  assume "wf_dict p"
  then have "map_of p role = Some pin" if "(role, pin) \<in> set p" for role pin
    using that by (simp add: wf_dict_def dict_keys_def)
  then show ?thesis by (fastforce simp: check_pins_ok swapped_def)
qed

lemma add_pins_lookup:
  assumes "add_pins overwrite pins models = Inr models'"
  shows "(\<not> overwrite \<longrightarrow> map_of models k \<noteq> None \<longrightarrow> map_of models' k = map_of models k) \<and>
    (map_of models' k \<noteq> None \<longleftrightarrow> map_of models k \<noteq> None \<or> k \<in> fst ` set pins)"
  using assms
proof (induction overwrite pins models rule: add_pins.induct)
  case (2 overwrite role ref rest models)
  show ?case
  proof (cases "map_of models role \<noteq> None \<and> \<not> overwrite")
    case True
    then show ?thesis using 2 by (cases "k = role") auto
  next
    case False
    then obtain e where e: "pin_entry ref = Inr e" "add_pins overwrite rest (AList.update role e models) = Inr models'"
      using 2(3) by (auto simp: bnd_Inr_iff simp del: not_None_eq)
    show ?thesis
      using 2(2) [OF False e(2)] False by (auto simp: dict_simps split: if_splits)
  qed
qed simp

subsection \<open>Properties\<close>

text \<open>During an active run a request is accepted only when it swaps no pinned model: for every
  pinned role it names, the digests agree where both have one, and so do the names. Outside an
  active run everything is accepted.\<close>

theorem stable_pins_accepted_iff:
  "assert_pins_stable pinned (Some requested) active = Inr () \<longleftrightarrow>
   \<not> active \<or> (\<forall>(role, pin)\<in>set pinned. \<forall>nxt. map_of requested role = Some nxt \<longrightarrow> nxt \<noteq> [] \<longrightarrow>
      \<not> swapped ''digest'' pin nxt \<and> \<not> swapped ''name'' pin nxt)"
  by (cases "requested = []") (auto simp: assert_pins_stable_def check_pins_ok)

definition demo_pin :: "string \<Rightarrow> json dict" where
  "demo_pin d = [(''provider'', JStr ''ollama''), (''name'', JStr ''m''), (''digest'', JStr d)]"

theorem stable_pins_accepted_iff_witness:
  "assert_pins_stable [(''chat'', demo_pin ''d1'')] (Some [(''chat'', demo_pin ''d2'')]) True \<noteq> Inr () \<and>
   assert_pins_stable [(''chat'', demo_pin ''d1'')] (Some [(''chat'', demo_pin ''d1'')]) True = Inr ()"
  using stable_pins_accepted_iff [of "[(''chat'', demo_pin ''d1'')]" "[(''chat'', demo_pin ''d2'')]" True]
    stable_pins_accepted_iff [of "[(''chat'', demo_pin ''d1'')]" "[(''chat'', demo_pin ''d1'')]" True]
  by (simp add: demo_pin_def swapped_def dget_def py_eq_def)

text \<open>Attaching pins to a workflow without \<open>overwrite\<close> never changes a pin that is there: the
  new \<open>models\<close> block has every old entry unchanged and exactly the roles of both.\<close>

theorem attached_pins_keep_existing:
  assumes "apply_pins_to_workflow w pins False = Inr w'"
    and "dget w ''pins'' = JObj block" "dget block ''models'' = JObj models"
  shows "\<exists>block' models'. dget w' ''pins'' = JObj block' \<and> dget block' ''models'' = JObj models' \<and>
    (\<forall>role. map_of models role \<noteq> None \<longrightarrow> map_of models' role = map_of models role) \<and>
    (\<forall>role. map_of models' role \<noteq> None \<longleftrightarrow> map_of models role \<noteq> None \<or> role \<in> fst ` set pins)"
proof -
  have d: "as_dict (JObj x) = Inr x" for x by (simp add: as_dict_def jor_def)
  obtain models' where m: "add_pins False pins models = Inr models'"
    and w': "w' = AList.update ''pins'' (JObj (let block1 = AList.update ''models'' (JObj models') block in
        if map_of block1 ''prompt_pack_version'' = None
        then AList.update ''prompt_pack_version'' (JStr ''0.1.0'') block1 else block1)) w"
    using assms(1) by (auto simp: apply_pins_to_workflow_def assms(2,3) d bnd_Inr_iff Let_def)
  show ?thesis
    using add_pins_lookup [OF m] by (auto simp: w' dget_put Let_def)
qed

theorem attached_pins_keep_existing_witness:
  "\<exists>w'. apply_pins_to_workflow [(''pins'', JObj [(''models'', JObj [(''chat'', JStr ''old'')])])]
          [(''chat'', demo_pin ''d2''), (''embed'', demo_pin ''d3'')] False = Inr w' \<and>
     (\<exists>b m. dget w' ''pins'' = JObj b \<and> dget b ''models'' = JObj m \<and> map_of m ''chat'' = Some (JStr ''old''))"
proof -
  let ?w = "[(''pins'', JObj [(''models'', JObj [(''chat'', JStr ''old'')])])]"
  let ?p = "[(''chat'', demo_pin ''d2''), (''embed'', demo_pin ''d3'')]"
  obtain w' where w': "apply_pins_to_workflow ?w ?p False = Inr w'"
    by (auto simp: apply_pins_to_workflow_def as_dict_def jor_def dget_def pin_entry_def key_of_def demo_pin_def)
  from attached_pins_keep_existing [OF this, of "[(''models'', JObj [(''chat'', JStr ''old'')])]" "[(''chat'', JStr ''old'')]"]
  obtain b m where "dget w' ''pins'' = JObj b" "dget b ''models'' = JObj m" "map_of m ''chat'' = Some (JStr ''old'')"
    by (auto simp: dget_def)
  with w' show ?thesis by blast
qed

text \<open>The resolution for a run never swaps a pin of an active run, and what it returns for one
  always passes the stability check; it selects the recommendation exactly when nothing is pinned
  or the caller opted in on an inactive, unpinned-policy run.\<close>

theorem resolution_is_stable:
  assumes "wf_dict pinned"
  shows "assert_pins_stable pinned (Some (rv_pins (resolve_for_run policy (Some pinned) rec allow active))) active = Inr () \<and>
    (rv_changed (resolve_for_run policy (Some pinned) rec allow active) \<longleftrightarrow>
       pinned = [] \<or> (\<not> active \<and> policy \<noteq> ''pinned'' \<and> allow))"
  using check_pins_self [OF assms]
  by (auto simp: resolve_for_run_def assert_pins_stable_def Let_def)

theorem resolution_is_stable_witness:
  "assert_pins_stable [(''chat'', demo_pin ''d1'')]
     (Some (rv_pins (resolve_for_run ''auto'' (Some [(''chat'', demo_pin ''d1'')]) [(''chat'', demo_pin ''d2'')] True True))) True = Inr ()"
  using resolution_is_stable [of "[(''chat'', demo_pin ''d1'')]" "''auto''" "[(''chat'', demo_pin ''d2'')]" True True]
  by (simp add: wf_dict_def dict_keys_def)

end
