(* ===== verification/IntakeLimits.thy ===== *)
theory IntakeLimits
  imports PyData
begin

section \<open>Resource limits of the intake\<close>

text \<open>
  \<open>intake/limits.py\<close>: the limits as a record, the tracker of one analysis with its four checks. A
  check returns the message of a violated limit. Byte counts are integers, the ratio of two of them a
  rational; \<open>repr\<close> renders a float limit in the message.
\<close>

record intake_limits =
  max_file_bytes :: int
  max_archive_depth :: int
  max_archive_entries :: int
  max_decompressed_bytes :: int
  max_decompression_ratio :: rat
  max_pages :: int
  max_sheets :: int
  max_slides :: int
  max_media_duration_seconds :: rat
  max_segments :: int
  max_segment_chars :: int
  max_csv_rows :: int
  max_memory_hint_bytes :: int
  allow_remote_fetch :: bool

definition DEFAULT_LIMITS :: intake_limits where
  "DEFAULT_LIMITS =
     \<lparr>max_file_bytes = 50 * 1024 * 1024, max_archive_depth = 3, max_archive_entries = 500,
      max_decompressed_bytes = 100 * 1024 * 1024, max_decompression_ratio = 100, max_pages = 500,
      max_sheets = 100, max_slides = 200, max_media_duration_seconds = 3600, max_segments = 10000,
      max_segment_chars = 500000, max_csv_rows = 50000, max_memory_hint_bytes = 256 * 1024 * 1024,
      allow_remote_fetch = False\<rparr>"

record tracker =
  tk_limits :: intake_limits
  tk_decompressed :: int
  tk_depth :: int
  tk_pages :: int
  tk_entries :: int

definition new_tracker :: "intake_limits \<Rightarrow> tracker" where
  "new_tracker l = \<lparr>tk_limits = l, tk_decompressed = 0, tk_depth = 0, tk_pages = 0, tk_entries = 0\<rparr>"

text \<open>The format \<open>.1f\<close>: one digit, ties to even.\<close>

definition round_even :: "rat \<Rightarrow> int" where
  "round_even r = (let f = \<lfloor>r\<rfloor>; d = r - of_int f in
     if d < 1 / 2 then f else if 1 / 2 < d then f + 1 else if even f then f else f + 1)"

definition show_fixed1 :: "rat \<Rightarrow> string" where
  "show_fixed1 r = (let n = round_even (10 * r) in
     (if n < 0 then ''-'' else []) @ show_int (\<bar>n\<bar> div 10) @ ''.'' @ show_int (\<bar>n\<bar> mod 10))"

definition check_file_size :: "tracker \<Rightarrow> int \<Rightarrow> string option" where
  "check_file_size tk sz =
     (if max_file_bytes (tk_limits tk) < sz
      then Some (''file size '' @ show_int sz @ '' exceeds max_file_bytes '' @ show_int (max_file_bytes (tk_limits tk)))
      else None)"

definition ratio_error :: "(json \<Rightarrow> string) \<Rightarrow> intake_limits \<Rightarrow> int \<Rightarrow> int \<Rightarrow> string option" where
  "ratio_error repr l compressed expanded =
     (let ratio = of_int expanded / of_int compressed in
      if 0 < compressed \<and> max_decompression_ratio l < ratio
      then Some (''decompression ratio '' @ show_fixed1 ratio @ '' exceeds max_decompression_ratio ''
             @ repr (JFloat (max_decompression_ratio l)))
      else None)"

definition add_decompressed ::
  "(json \<Rightarrow> string) \<Rightarrow> int \<Rightarrow> int \<Rightarrow> tracker \<Rightarrow> string option \<times> tracker" where
  "add_decompressed repr compressed expanded tk =
     (let tk' = tk\<lparr>tk_decompressed := tk_decompressed tk + expanded\<rparr>; l = tk_limits tk' in
      (if max_decompressed_bytes l < tk_decompressed tk'
       then Some (''decompressed bytes '' @ show_int (tk_decompressed tk') @ '' exceed max_decompressed_bytes ''
              @ show_int (max_decompressed_bytes l))
       else ratio_error repr l compressed expanded, tk'))"

definition check_depth :: "tracker \<Rightarrow> int \<Rightarrow> string option" where
  "check_depth tk depth =
     (if max_archive_depth (tk_limits tk) < depth
      then Some (''archive nesting depth '' @ show_int depth @ '' exceeds max_archive_depth ''
             @ show_int (max_archive_depth (tk_limits tk)))
      else None)"

definition check_entry_count :: "tracker \<Rightarrow> string option \<times> tracker" where
  "check_entry_count tk =
     (let tk' = tk\<lparr>tk_entries := tk_entries tk + 1\<rparr> in
      (if max_archive_entries (tk_limits tk') < tk_entries tk'
       then Some (''archive entries exceed max_archive_entries '' @ show_int (max_archive_entries (tk_limits tk')))
       else None, tk'))"

subsection \<open>What a passed check means\<close>

lemma check_file_size_None: "check_file_size tk n = None \<longleftrightarrow> n \<le> max_file_bytes (tk_limits tk)"
  by (auto simp: check_file_size_def)

lemma check_depth_None: "check_depth tk d = None \<longleftrightarrow> d \<le> max_archive_depth (tk_limits tk)"
  by (auto simp: check_depth_def)

lemma check_entry_count_ok:
  "check_entry_count tk = (None, tk') \<Longrightarrow> tk' = tk\<lparr>tk_entries := tk_entries tk + 1\<rparr> \<and>
     tk_entries tk' \<le> max_archive_entries (tk_limits tk)"
  by (auto simp: check_entry_count_def Let_def split: if_splits)

lemma add_decompressed_ok:
  "add_decompressed repr c e tk = (None, tk') \<Longrightarrow> tk' = tk\<lparr>tk_decompressed := tk_decompressed tk + e\<rparr> \<and>
     tk_decompressed tk' \<le> max_decompressed_bytes (tk_limits tk) \<and>
     (0 < c \<longrightarrow> of_int e \<le> max_decompression_ratio (tk_limits tk) * of_int c)"
  by (auto simp: add_decompressed_def ratio_error_def Let_def field_simps split: if_splits)

text \<open>The guard of the tar branch compares a size with a tenth of itself: with a ratio limit of at
  least twenty it never fires.\<close>

lemma tar_ratio_guard_vacuous:
  assumes "20 \<le> max_decompression_ratio l" "0 \<le> sz"
  shows "ratio_error repr l (max 1 (sz div 10)) sz = None"
proof -
  have "sz \<le> 20 * max 1 (sz div 10)" using assms(2) by (simp add: max_def) presburger
  then have "(of_int sz :: rat) \<le> of_int (20 * max 1 (sz div 10))" by (simp only: of_int_le_iff)
  then have "of_int sz / of_int (max 1 (sz div 10)) \<le> (20 :: rat)"
    by (simp add: divide_le_eq)
  then show ?thesis using assms(1) by (simp add: ratio_error_def Let_def)
qed

end
