(* ===== verification/Quarantine.thy ===== *)
theory Quarantine
  imports PyData
begin

section \<open>Quarantine of imported content\<close>

text \<open>
  \<open>intake/quarantine.py\<close>: the verdict on a file name, the stricter one on the name of an archive
  member, the removal of active HTML content, and the merge of verdicts. The four regular expressions
  are matchers that return what follows a match; case is ignored as \<open>re.IGNORECASE\<close> does it on these
  letters (the long s, the dotted and dotless i and the Kelvin sign included), white space and word
  characters are those of ASCII.
\<close>

definition HARD_EXECUTABLE_EXTENSIONS :: "string list" where
  "HARD_EXECUTABLE_EXTENSIONS =
     [''.exe'', ''.dll'', ''.so'', ''.dylib'', ''.bat'', ''.cmd'', ''.com'', ''.msi'', ''.scr'', ''.vbs'',
      ''.vbe'', ''.jse'', ''.wsf'', ''.wsh'', ''.jar'', ''.apk'', ''.app'', ''.bin'', ''.run'', ''.gadget'',
      ''.hta'', ''.cpl'', ''.msc'', ''.reg'', ''.inf'', ''.lnk'', ''.url'', ''.scf'', ''.pif'']"

definition ARCHIVE_SCRIPT_EXTENSIONS :: "string list" where
  "ARCHIVE_SCRIPT_EXTENSIONS = [''.ps1'', ''.js'', ''.sh'', ''.bash'', ''.zsh'', ''.fish'']"

definition MACRO_CONTAINER_EXTENSIONS :: "string list" where
  "MACRO_CONTAINER_EXTENSIONS = [''.docm'', ''.xlsm'', ''.pptm'', ''.dotm'', ''.xltm'', ''.potm'', ''.docb'']"

definition OOXML_MACRO_PARTS :: "string list" where
  "OOXML_MACRO_PARTS = [''vbaProject.bin'', ''vbaData.xml'', ''vbaproject.bin'']"

record quarantine_result =
  qr_actions :: "string list"
  qr_flags :: "string list"
  qr_macros :: bool
  qr_scripts :: bool
  qr_blocked :: bool
  qr_reason :: "string option"

definition no_quarantine :: quarantine_result where
  "no_quarantine = \<lparr>qr_actions = [], qr_flags = [], qr_macros = False, qr_scripts = False,
     qr_blocked = False, qr_reason = None\<rparr>"

subsection \<open>File names\<close>

definition unix_lower :: "string \<Rightarrow> string" where
  "unix_lower name = List.map (\<lambda>c. if c = CHR 0x5C then CHR ''/'' else c) (lower name)"

definition ext_of :: "string \<Rightarrow> string" where
  "ext_of name = (let base = after_last (CHR ''/'') (unix_lower name) in
     if CHR ''.'' \<in> set base then ''.'' @ after_last (CHR ''.'') base else [])"

definition macro_part :: "string \<Rightarrow> bool" where
  "macro_part name = list_ex (\<lambda>p. contains (lower p) (unix_lower name)) OOXML_MACRO_PARTS"

definition quarantine_path_name :: "string \<Rightarrow> quarantine_result" where
  "quarantine_path_name name =
     (let ext = ext_of name in
      if ext \<in> set HARD_EXECUTABLE_EXTENSIONS then
        no_quarantine\<lparr>qr_blocked := True, qr_reason := Some (''executable extension blocked: '' @ ext),
          qr_flags := [''executable:'' @ ext], qr_actions := [''blocked_executable_entry'']\<rparr>
      else
        let r = (if ext \<in> set MACRO_CONTAINER_EXTENSIONS
                 then no_quarantine\<lparr>qr_macros := True, qr_flags := [''macro_container:'' @ ext],
                        qr_actions := [''macro_container_flagged'']\<rparr>
                 else no_quarantine) in
        if macro_part name then
          r\<lparr>qr_macros := True, qr_flags := qr_flags r @ [''ooxml_macro_part''],
            qr_actions := qr_actions r @ [''blocked_macro_part''], qr_blocked := True,
            qr_reason := Some ''Office macro payload part quarantined''\<rparr>
        else r)"

definition quarantine_archive_entry :: "string \<Rightarrow> quarantine_result" where
  "quarantine_archive_entry name =
     (let r = quarantine_path_name name; ext = ext_of name in
      if qr_blocked r then r
      else if ext \<in> set ARCHIVE_SCRIPT_EXTENSIONS then
        r\<lparr>qr_blocked := True, qr_reason := Some (''archive script entry blocked: '' @ ext),
          qr_flags := qr_flags r @ [''archive_script:'' @ ext],
          qr_actions := qr_actions r @ [''blocked_archive_script'']\<rparr>
      else r)"

subsection \<open>Merging verdicts\<close>

definition merge_one :: "quarantine_result \<Rightarrow> quarantine_result \<Rightarrow> quarantine_result" where
  "merge_one m p =
     \<lparr>qr_actions = qr_actions m @ qr_actions p, qr_flags = qr_flags m @ qr_flags p,
      qr_macros = (qr_macros m \<or> qr_macros p), qr_scripts = (qr_scripts m \<or> qr_scripts p),
      qr_blocked = (qr_blocked m \<or> qr_blocked p),
      qr_reason = (if qr_blocked p \<and> \<not> qr_blocked m then qr_reason p else qr_reason m)\<rparr>"

definition merge_quarantine :: "quarantine_result list \<Rightarrow> quarantine_result" where
  "merge_quarantine parts =
     (let m = foldl merge_one no_quarantine parts in
      m\<lparr>qr_actions := dedup (qr_actions m), qr_flags := dedup (qr_flags m)\<rparr>)"

subsection \<open>Active HTML content\<close>

text \<open>One pattern letter against the head of the text.\<close>

definition eat_ci :: "char \<Rightarrow> string \<Rightarrow> string option" where
  "eat_ci p s =
     (case s of
        [] \<Rightarrow> None
      | c # cs \<Rightarrow>
          if lower_char c = p then Some cs
          else if p = CHR ''s'' \<and> prefix [CHR 0xC5, CHR 0xBF] s then Some (drop 2 s)
          else if p = CHR ''i'' \<and> (prefix [CHR 0xC4, CHR 0xB0] s \<or> prefix [CHR 0xC4, CHR 0xB1] s) then Some (drop 2 s)
          else if p = CHR ''k'' \<and> prefix [CHR 0xE2, CHR 0x84, CHR 0xAA] s then Some (drop 3 s)
          else None)"

fun eat_word :: "string \<Rightarrow> string \<Rightarrow> string option" where
  "eat_word [] s = Some s"
| "eat_word (p # ps) s = Option.bind (eat_ci p s) (eat_word ps)"

text \<open>\<open>[a-z]\<close> with \<open>re.IGNORECASE\<close>.\<close>

definition eat_letter :: "string \<Rightarrow> string option" where
  "eat_letter s =
     (case s of
        [] \<Rightarrow> None
      | c # cs \<Rightarrow>
          if lower_char c \<in> set ''abcdefghijklmnopqrstuvwxyz'' then Some cs
          else if eat_ci (CHR ''s'') s \<noteq> None then eat_ci (CHR ''s'') s
          else if eat_ci (CHR ''i'') s \<noteq> None then eat_ci (CHR ''i'') s
          else eat_ci (CHR ''k'') s)"

text \<open>\<open>[a-z]*\<close>: no more letters than bytes.\<close>

fun eat_letters :: "nat \<Rightarrow> string \<Rightarrow> string" where
  "eat_letters 0 s = s"
| "eat_letters (Suc n) s = (case eat_letter s of None \<Rightarrow> s | Some r \<Rightarrow> eat_letters n r)"

definition is_word :: "char \<Rightarrow> bool" where
  "is_word c \<longleftrightarrow> lower_char c \<in> set ''abcdefghijklmnopqrstuvwxyz0123456789_''"

text \<open>What follows the first match of a word.\<close>

fun after_word :: "string \<Rightarrow> string \<Rightarrow> string option" where
  "after_word w [] = eat_word w []"
| "after_word w (c # cs) = (case eat_word w (c # cs) of Some r \<Rightarrow> Some r | None \<Rightarrow> after_word w cs)"

definition after_char :: "char \<Rightarrow> string \<Rightarrow> string option" where
  "after_char d s = (case dropWhile (\<lambda>c. c \<noteq> d) s of [] \<Rightarrow> None | _ # r \<Rightarrow> Some r)"

definition skip_space :: "string \<Rightarrow> string" where
  "skip_space s = dropWhile is_space s"

definition eat_quote :: "string \<Rightarrow> (char \<times> string) option" where
  "eat_quote s = (case s of [] \<Rightarrow> None | c # cs \<Rightarrow> if c = CHR 0x27 \<or> c = CHR 0x22 then Some (c, cs) else None)"

text \<open>The matchers get the character before the position, for the word boundary.\<close>

definition SCRIPT_TAG :: "char option \<Rightarrow> string \<Rightarrow> string option" where
  "SCRIPT_TAG prev s =
     Option.bind (eat_word ''<script'' s) (\<lambda>r.
       if (case r of [] \<Rightarrow> False | c # _ \<Rightarrow> is_word c) then None
       else Option.bind (after_char (CHR ''>'') r) (after_word ''</script>''))"

definition EVENT_HANDLER :: "char option \<Rightarrow> string \<Rightarrow> string option" where
  "EVENT_HANDLER prev s =
     (case s of
        [] \<Rightarrow> None
      | c # cs \<Rightarrow>
          if \<not> is_space c then None
          else Option.bind (eat_word ''on'' cs) (\<lambda>r.
               Option.bind (eat_letter r) (\<lambda>r1.
               Option.bind (eat_word ''='' (skip_space (eat_letters (length r1) r1))) (\<lambda>r2.
               Option.bind (eat_quote (skip_space r2)) (\<lambda>(q, r3). after_char q r3)))))"

definition JS_URL :: "char option \<Rightarrow> string \<Rightarrow> string option" where
  "JS_URL prev s =
     (if (case prev of None \<Rightarrow> False | Some c \<Rightarrow> is_word c) then None
      else Option.bind (eat_word ''javascript'' s) (\<lambda>r. eat_word '':'' (skip_space r)))"

definition REMOTE_REF :: "char option \<Rightarrow> string \<Rightarrow> string option" where
  "REMOTE_REF prev s =
     Option.bind (case eat_word ''src'' s of Some r \<Rightarrow> Some r
                  | None \<Rightarrow> (case eat_word ''href'' s of Some r \<Rightarrow> Some r | None \<Rightarrow> eat_word ''data'' s)) (\<lambda>r.
     Option.bind (eat_word ''='' (skip_space r)) (\<lambda>r1.
     Option.bind (eat_quote (skip_space r1)) (\<lambda>(q, r2).
     Option.bind (eat_word ''http'' (skip_space r2)) (\<lambda>r3.
       case eat_word ''s://'' r3 of Some r4 \<Rightarrow> Some r4 | None \<Rightarrow> eat_word ''://'' r3))))"

fun search :: "(char option \<Rightarrow> string \<Rightarrow> string option) \<Rightarrow> char option \<Rightarrow> string \<Rightarrow> bool" where
  "search m prev [] = (m prev [] \<noteq> None)"
| "search m prev (c # cs) = (m prev (c # cs) \<noteq> None \<or> search m (Some c) cs)"

text \<open>\<open>re.sub\<close>: replace every match, left to right, in one pass. A match is not empty.\<close>

function sub_all :: "(char option \<Rightarrow> string \<Rightarrow> string option) \<Rightarrow> string \<Rightarrow> char option \<Rightarrow> string \<Rightarrow> string" where
  "sub_all m r prev [] = []"
| "sub_all m r prev (c # cs) =
     (case m prev (c # cs) of
        None \<Rightarrow> c # sub_all m r (Some c) cs
      | Some rest \<Rightarrow>
          if length rest \<le> length cs
          then r @ sub_all m r (Some (last (take (Suc (length cs) - length rest) (c # cs)))) rest
          else c # sub_all m r (Some c) cs)"
  by pat_completeness auto
termination by (relation "measure (\<lambda>(m, r, prev, s). length s)") auto

definition flagged :: "string \<Rightarrow> string \<Rightarrow> quarantine_result \<Rightarrow> quarantine_result" where
  "flagged flag action r = r\<lparr>qr_flags := qr_flags r @ [flag], qr_actions := qr_actions r @ [action]\<rparr>"

definition strip_step ::
  "(char option \<Rightarrow> string \<Rightarrow> string option) \<Rightarrow> string \<Rightarrow> string \<Rightarrow> string \<Rightarrow>
     string \<times> quarantine_result \<Rightarrow> string \<times> quarantine_result" where
  "strip_step m repl flag action = (\<lambda>(out, r).
     if search m None out then (sub_all m repl None out, flagged flag action (r\<lparr>qr_scripts := True\<rparr>)) else (out, r))"

definition strip_html_active_content :: "string \<Rightarrow> string \<times> quarantine_result" where
  "strip_html_active_content html =
     (case strip_step JS_URL ''blocked:'' ''javascript_url'' ''stripped_javascript_urls''
        (strip_step EVENT_HANDLER [] ''html_event_handler'' ''stripped_event_handlers''
          (strip_step SCRIPT_TAG [] ''html_script'' ''stripped_script_tags'' (html, no_quarantine))) of
      (out, r) \<Rightarrow>
        (out, if search REMOTE_REF None out then flagged ''remote_reference'' ''noted_remote_reference_not_fetched'' r else r))"

subsection \<open>Lemmas\<close>

lemma no_quarantine_simps [simp]:
  "qr_actions no_quarantine = []" "qr_flags no_quarantine = []" "\<not> qr_macros no_quarantine"
  "\<not> qr_scripts no_quarantine" "\<not> qr_blocked no_quarantine" "qr_reason no_quarantine = None"
  by (simp_all add: no_quarantine_def)

lemma path_blocked_iff:
  "qr_blocked (quarantine_path_name name) \<longleftrightarrow> ext_of name \<in> set HARD_EXECUTABLE_EXTENSIONS \<or> macro_part name"
  by (simp add: quarantine_path_name_def Let_def)

lemma archive_blocked_iff:
  "qr_blocked (quarantine_archive_entry name) \<longleftrightarrow>
     ext_of name \<in> set HARD_EXECUTABLE_EXTENSIONS \<or> macro_part name \<or> ext_of name \<in> set ARCHIVE_SCRIPT_EXTENSIONS"
  by (simp add: quarantine_archive_entry_def Let_def path_blocked_iff)

lemma blocked_has_reason:
  "qr_blocked (quarantine_archive_entry name) \<Longrightarrow> qr_reason (quarantine_archive_entry name) \<noteq> None"
  by (simp add: quarantine_archive_entry_def quarantine_path_name_def Let_def split: if_splits)

lemma foldl_merge:
  "qr_blocked (foldl merge_one m ps) \<longleftrightarrow> qr_blocked m \<or> (\<exists>p\<in>set ps. qr_blocked p)"
  "set (qr_flags (foldl merge_one m ps)) = set (qr_flags m) \<union> (\<Union>p\<in>set ps. set (qr_flags p))"
  "set (qr_actions (foldl merge_one m ps)) = set (qr_actions m) \<union> (\<Union>p\<in>set ps. set (qr_actions p))"
  "qr_macros (foldl merge_one m ps) \<longleftrightarrow> qr_macros m \<or> (\<exists>p\<in>set ps. qr_macros p)"
  "qr_scripts (foldl merge_one m ps) \<longleftrightarrow> qr_scripts m \<or> (\<exists>p\<in>set ps. qr_scripts p)"
  by (induction ps arbitrary: m) (auto simp: merge_one_def)

lemma merge_quarantine_simps [simp]:
  "qr_blocked (merge_quarantine ps) \<longleftrightarrow> (\<exists>p\<in>set ps. qr_blocked p)"
  "set (qr_flags (merge_quarantine ps)) = (\<Union>p\<in>set ps. set (qr_flags p))"
  "set (qr_actions (merge_quarantine ps)) = (\<Union>p\<in>set ps. set (qr_actions p))"
  "qr_macros (merge_quarantine ps) \<longleftrightarrow> (\<exists>p\<in>set ps. qr_macros p)"
  "qr_scripts (merge_quarantine ps) \<longleftrightarrow> (\<exists>p\<in>set ps. qr_scripts p)"
  "distinct (qr_flags (merge_quarantine ps))" "distinct (qr_actions (merge_quarantine ps))"
  by (simp_all add: merge_quarantine_def Let_def foldl_merge)

text \<open>Without a match nothing changes.\<close>

lemma sub_all_no_match: "\<not> search m prev s \<Longrightarrow> sub_all m r prev s = s"
  by (induction s arbitrary: prev) simp_all

lemma strip_clean_text:
  assumes "\<not> search SCRIPT_TAG None h" "\<not> search EVENT_HANDLER None h" "\<not> search JS_URL None h"
  shows "fst (strip_html_active_content h) = h \<and> \<not> qr_scripts (snd (strip_html_active_content h))"
  using assms by (simp add: strip_html_active_content_def strip_step_def flagged_def)

text \<open>One pass is not enough: removing an element can put the halves of another tag together.\<close>

lemma stripping_can_leave_a_script:
  "fst (strip_html_active_content ''<scr<script></script>ipt>x</script>'') = ''<script>x</script>''"
  by code_simp

end
