(* ===== verification/Bundle.thy ===== *)
theory Bundle
  imports IntakeLimits Quarantine Delimit
begin

section \<open>Document bundles and the evidence block\<close>

text \<open>
  \<open>intake/bundle.py\<close>, \<open>intake/adapters/context.py\<close> and \<open>intake/evidence.py\<close>: the bundle every adapter
  fills, the context it gets, the security block, truncation, and the delimited block a planner
  sees. The bundle id comes from outside (a uuid), time stamps are left out.
\<close>

subsection \<open>Bundles\<close>

record intake_issue =
  is_code :: string
  is_message :: string
  is_detail :: "json dict"

definition issue :: "string \<Rightarrow> string \<Rightarrow> intake_issue" where
  "issue code message = \<lparr>is_code = code, is_message = message, is_detail = []\<rparr>"

record source_info =
  so_file_id :: string
  so_path_mode :: string
  so_hash :: string
  so_mime :: string
  so_size :: int
  so_path :: "string option"
  so_sniffed :: "string option"
  so_modified :: "string option"

record segment =
  sg_id :: string
  sg_kind :: string
  sg_text :: string
  sg_order :: int
  sg_locator :: "json dict"
  sg_confidence :: rat

record security =
  sc_actions :: "string list"
  sc_macros :: bool
  sc_scripts :: bool
  sc_flags :: "string list"
  sc_limits :: "json dict"

record doc_bundle =
  bn_id :: string
  bn_trust :: string
  bn_source :: source_info
  bn_adapter :: string
  bn_title :: "string option"
  bn_extra :: "json dict option"
  bn_segments :: "segment list"
  bn_structure :: "json dict"
  bn_images :: "json list"
  bn_transcripts :: "json list"
  bn_confidence :: rat
  bn_warnings :: "intake_issue list"
  bn_errors :: "intake_issue list"
  bn_security :: security
  bn_derived :: "(string \<times> string \<times> string) list"

text \<open>An absent or empty optional string is left out of the source block.\<close>

definition present :: "string option \<Rightarrow> string option" where
  "present x = (case x of Some (c # cs) \<Rightarrow> Some (c # cs) | _ \<Rightarrow> None)"

definition empty_bundle ::
  "string \<Rightarrow> string \<Rightarrow> string \<Rightarrow> string \<Rightarrow> int \<Rightarrow> string option \<Rightarrow> string \<Rightarrow> string \<Rightarrow>
     string option \<Rightarrow> string option \<Rightarrow> doc_bundle" where
  "empty_bundle bid file_id hash mime sz path mode adapter sniffed modified =
     \<lparr>bn_id = bid, bn_trust = ''untrusted'',
      bn_source = \<lparr>so_file_id = file_id, so_path_mode = mode, so_hash = hash, so_mime = mime, so_size = sz,
        so_path = present path, so_sniffed = present sniffed, so_modified = present modified\<rparr>,
      bn_adapter = adapter, bn_title = None, bn_extra = None, bn_segments = [], bn_structure = [],
      bn_images = [], bn_transcripts = [], bn_confidence = 0, bn_warnings = [], bn_errors = [],
      bn_security = \<lparr>sc_actions = [], sc_macros = False, sc_scripts = False, sc_flags = [], sc_limits = []\<rparr>,
      bn_derived = [(file_id, hash, ''source'')]\<rparr>"

text \<open>The keyword arguments of \<open>apply_security\<close>: those given are \<open>Some\<close>.\<close>

record sec_args =
  sa_actions :: "string list option"
  sa_flags :: "string list option"
  sa_macros :: "bool option"
  sa_scripts :: "bool option"
  sa_limits :: "json dict option"

definition no_args :: sec_args where
  "no_args = \<lparr>sa_actions = None, sa_flags = None, sa_macros = None, sa_scripts = None, sa_limits = None\<rparr>"

definition or_else :: "'a option \<Rightarrow> 'a \<Rightarrow> 'a" where
  "or_else x d = (case x of None \<Rightarrow> d | Some v \<Rightarrow> v)"

definition apply_security :: "sec_args \<Rightarrow> doc_bundle \<Rightarrow> doc_bundle" where
  "apply_security a b = b\<lparr>bn_security :=
     \<lparr>sc_actions = (case sa_actions a of None \<Rightarrow> sc_actions (bn_security b)
                    | Some xs \<Rightarrow> dedup (sc_actions (bn_security b) @ xs)),
      sc_macros = or_else (sa_macros a) (sc_macros (bn_security b)),
      sc_scripts = or_else (sa_scripts a) (sc_scripts (bn_security b)),
      sc_flags = (case sa_flags a of None \<Rightarrow> sc_flags (bn_security b)
                  | Some xs \<Rightarrow> dedup (sc_flags (bn_security b) @ xs)),
      sc_limits = (case sa_limits a of None \<Rightarrow> sc_limits (bn_security b)
                   | Some d \<Rightarrow> dict_update (sc_limits (bn_security b)) d)\<rparr>\<rparr>"

text \<open>\<open>text[:n]\<close>: a negative \<open>n\<close> counts from the end.\<close>

definition py_slice :: "int \<Rightarrow> string \<Rightarrow> string" where
  "py_slice n s = py_take (nat (if n < 0 then int (py_len s) + n else n)) s"

definition truncate_text :: "string \<Rightarrow> int \<Rightarrow> string \<times> bool" where
  "truncate_text s max_chars = (if int (py_len s) \<le> max_chars then (s, False) else (py_slice max_chars s, True))"

subsection \<open>The adapter context\<close>

record ctx =
  cx_filename :: "string option"
  cx_path :: "string option"
  cx_mode :: string
  cx_file_id :: string
  cx_hash :: string
  cx_mime :: string
  cx_sniffed :: string
  cx_size :: int
  cx_limits :: intake_limits
  cx_tracker :: tracker
  cx_quarantine :: quarantine_result
  cx_depth :: int

definition file_name :: "string option \<Rightarrow> string" where
  "file_name f = (case f of None \<Rightarrow> [] | Some n \<Rightarrow> n)"

definition start_bundle :: "string \<Rightarrow> string \<Rightarrow> string \<Rightarrow> ctx \<Rightarrow> doc_bundle" where
  "start_bundle bid adapter mime cx =
     empty_bundle bid (cx_file_id cx) (cx_hash cx) mime (cx_size cx) (cx_path cx) (cx_mode cx) adapter
       (Some (cx_sniffed cx)) None"

subsection \<open>What an adapter does to its bundle\<close>

definition add_segment :: "segment \<Rightarrow> doc_bundle \<Rightarrow> doc_bundle" where
  "add_segment s b = b\<lparr>bn_segments := bn_segments b @ [s]\<rparr>"

definition warn :: "string \<Rightarrow> string \<Rightarrow> doc_bundle \<Rightarrow> doc_bundle" where
  "warn code message b = b\<lparr>bn_warnings := bn_warnings b @ [issue code message]\<rparr>"

definition fail :: "string \<Rightarrow> string \<Rightarrow> doc_bundle \<Rightarrow> doc_bundle" where
  "fail code message b = b\<lparr>bn_errors := bn_errors b @ [issue code message]\<rparr>"

definition warn_if :: "bool \<Rightarrow> string \<Rightarrow> string \<Rightarrow> doc_bundle \<Rightarrow> doc_bundle" where
  "warn_if c code message b = (if c then warn code message b else b)"

definition add_structure :: "string \<Rightarrow> json \<Rightarrow> doc_bundle \<Rightarrow> doc_bundle" where
  "add_structure k v b = b\<lparr>bn_structure := AList.update k v (bn_structure b)\<rparr>"

text \<open>The security arguments most adapters end with.\<close>

definition ctx_security :: "string list \<Rightarrow> quarantine_result \<Rightarrow> sec_args" where
  "ctx_security acts q = no_args\<lparr>sa_actions := Some (qr_actions q @ acts), sa_flags := Some (qr_flags q),
     sa_macros := Some (qr_macros q), sa_scripts := Some (qr_scripts q)\<rparr>"

definition finish :: "sec_args \<Rightarrow> rat \<Rightarrow> doc_bundle \<Rightarrow> doc_bundle" where
  "finish a confidence b = apply_security a (b\<lparr>bn_confidence := confidence\<rparr>)"

subsection \<open>Evidence\<close>

definition chunk_of :: "segment \<Rightarrow> string" where
  "chunk_of s = ''['' @ sg_id s @ ''|'' @ sg_kind s @ ''] '' @ sg_text s"

fun evidence_lines :: "int \<Rightarrow> int \<Rightarrow> segment list \<Rightarrow> string list" where
  "evidence_lines max_chars used [] = []"
| "evidence_lines max_chars used (s # ss) =
     (let chunk = chunk_of s; n = int (py_len chunk) in
      if max_chars < used + n then [''...[truncated]...'']
      else chunk # evidence_lines max_chars (used + n) ss)"

definition evidence_header :: "doc_bundle \<Rightarrow> string list" where
  "evidence_header b =
     [''bundle_id='' @ bn_id b, ''adapter='' @ bn_adapter b, ''content_hash='' @ so_hash (bn_source b),
      ''--- segments ---'']"

definition format_untrusted_evidence_block :: "doc_bundle \<Rightarrow> int \<Rightarrow> string res" where
  "format_untrusted_evidence_block b max_chars =
     (if bn_trust b \<noteq> ''untrusted'' then Inl (ValueError (''bundle evidence_trust must be '' @ [CHR 0x27] @ ''untrusted'' @ [CHR 0x27]))
      else Inr (delimit_untrusted
        (join [CHR 0x0A] (evidence_header b @ evidence_lines max_chars 0 (bn_segments b))) ''document_bundle''))"

text \<open>\<open>s.find(p)\<close>: the text from the first occurrence on.\<close>

fun from_first :: "string \<Rightarrow> string \<Rightarrow> string option" where
  "from_first p [] = (if p = [] then Some [] else None)"
| "from_first p (c # cs) = (if prefix p (c # cs) then Some (c # cs) else from_first p cs)"

definition assert_evidence_delimited :: "string \<Rightarrow> bool" where
  "assert_evidence_delimited prompt =
     (case from_first ''<UNTRUSTED_EVIDENCE'' prompt of
        None \<Rightarrow> True
      | Some s \<Rightarrow> contains UNTRUSTED_CLOSE s)"

subsection \<open>Lemmas\<close>

lemma truncate_text_bound: "0 \<le> n \<Longrightarrow> int (py_len (fst (truncate_text s n))) \<le> n"
  using py_len_take [of "nat n" s] by (auto simp: truncate_text_def py_slice_def)

lemma truncate_text_prefix: "prefix (fst (truncate_text s n)) s"
  by (simp add: truncate_text_def py_slice_def py_take_prefix)

lemma truncate_text_flag: "\<not> snd (truncate_text s n) \<Longrightarrow> fst (truncate_text s n) = s"
  by (simp add: truncate_text_def split: if_splits)

text \<open>The identity of a bundle: what no step of an adapter touches.\<close>

definition frame :: "doc_bundle \<Rightarrow> string \<times> string \<times> source_info \<times> string \<times> (string \<times> string \<times> string) list" where
  "frame b = (bn_id b, bn_trust b, bn_source b, bn_adapter b, bn_derived b)"

lemma frame_steps [frame_simps]:
  "frame (add_segment s b) = frame b" "frame (warn c m b) = frame b" "frame (fail c m b) = frame b"
  "frame (warn_if p c m b) = frame b" "frame (add_structure k v b) = frame b"
  "frame (apply_security a b) = frame b" "frame (finish a r b) = frame b"
  "frame (b\<lparr>bn_title := t\<rparr>) = frame b" "frame (b\<lparr>bn_extra := e\<rparr>) = frame b"
  "frame (b\<lparr>bn_confidence := r\<rparr>) = frame b" "frame (b\<lparr>bn_images := xs\<rparr>) = frame b"
  "frame (b\<lparr>bn_transcripts := xs\<rparr>) = frame b" "frame (b\<lparr>bn_warnings := ws\<rparr>) = frame b"
  "frame (b\<lparr>bn_errors := ws\<rparr>) = frame b" "frame (b\<lparr>bn_security := se\<rparr>) = frame b"
  by (simp_all add: frame_def add_segment_def warn_def fail_def warn_if_def add_structure_def
      apply_security_def finish_def)

lemma frame_fold: "(\<And>x b. frame (f x b) = frame b) \<Longrightarrow> frame (fold f xs b) = frame b"
  by (induction xs arbitrary: b) simp_all

lemma frame_start:
  "frame (start_bundle bid adapter mime cx) =
     (bid, ''untrusted'', \<lparr>so_file_id = cx_file_id cx, so_path_mode = cx_mode cx, so_hash = cx_hash cx,
        so_mime = mime, so_size = cx_size cx, so_path = present (cx_path cx),
        so_sniffed = present (Some (cx_sniffed cx)), so_modified = None\<rparr>, adapter,
      [(cx_file_id cx, cx_hash cx, ''source'')])"
  by (simp add: frame_def start_bundle_def empty_bundle_def present_def)

lemma segments_steps [frame_simps]:
  "bn_segments (warn c m b) = bn_segments b" "bn_segments (fail c m b) = bn_segments b"
  "bn_segments (warn_if p c m b) = bn_segments b" "bn_segments (add_structure k v b) = bn_segments b"
  "bn_segments (apply_security a b) = bn_segments b" "bn_segments (finish a r b) = bn_segments b"
  "bn_segments (add_segment s b) = bn_segments b @ [s]"
  "bn_segments (start_bundle bid adapter mime cx) = []"
  by (simp_all add: add_segment_def warn_def fail_def warn_if_def add_structure_def
      apply_security_def finish_def start_bundle_def empty_bundle_def)

lemma security_steps [frame_simps]:
  "bn_security (warn c m b) = bn_security b" "bn_security (fail c m b) = bn_security b"
  "bn_security (warn_if p c m b) = bn_security b" "bn_security (add_structure k v b) = bn_security b"
  "bn_security (add_segment s b) = bn_security b"
  by (simp_all add: add_segment_def warn_def fail_def warn_if_def add_structure_def)

lemma security_flags:
  "set (sc_flags (bn_security (apply_security a b))) =
     set (sc_flags (bn_security b)) \<union> (case sa_flags a of None \<Rightarrow> {} | Some xs \<Rightarrow> set xs)"
  by (auto simp: apply_security_def split: option.splits)

lemma finish_flags [simp]:
  "set (sc_flags (bn_security (finish (ctx_security acts q) r b))) = set (sc_flags (bn_security b)) \<union> set (qr_flags q)"
  by (simp add: finish_def security_flags ctx_security_def no_args_def)

text \<open>The chunks of the evidence block respect the character budget, apart from the marker.\<close>

lemma evidence_lines_bound:
  "used \<le> max_chars \<Longrightarrow>
   (\<Sum>l\<leftarrow>evidence_lines max_chars used ss. int (py_len l)) \<le> max_chars - used + 17"
proof (induction ss arbitrary: used)
  case (Cons s ss)
  show ?case
  proof (cases "max_chars < used + int (py_len (chunk_of s))")
    case True
    then show ?thesis using Cons.prems by (simp add: Let_def is_cont_def)
  next
    case False
    with Cons.IH [of "used + int (py_len (chunk_of s))"] show ?thesis by (simp add: Let_def)
  qed
qed simp

lemma from_first_Some: "contains p s \<Longrightarrow> \<exists>t. from_first p s = Some t"
  by (induction s) auto

lemma from_first_keeps: "prefix p t \<Longrightarrow> \<exists>pre. from_first p (s @ t) = Some (pre @ t)"
proof (induction s)
  case Nil
  then show ?case by (cases t) auto
next
  case (Cons c s)
  then show ?case by (cases "prefix p (c # s @ t)") auto
qed

end
