(* ===== verification/Adapter.thy ===== *)
theory Adapter
  imports Bundle Utf8
begin

section \<open>The adapter interface\<close>

text \<open>
  Every intake adapter turns bytes and a context into a bundle. The pipeline relies on little: the
  bundle is the one started for this context (untrusted, with the hash, size and path of the file),
  it keeps the flags the quarantine raised, and its segments respect the character limit. These
  contracts are locales; each adapter's theory interprets the ones it meets.
\<close>

record adapter =
  ad_id :: string
  ad_supports :: "string \<Rightarrow> string option \<Rightarrow> string \<Rightarrow> bool res"
  ad_extract :: "string \<Rightarrow> ctx \<Rightarrow> doc_bundle res"

definition own_bundle :: "string \<Rightarrow> string \<Rightarrow> ctx \<Rightarrow> doc_bundle \<Rightarrow> bool" where
  "own_bundle bid aid cx b \<longleftrightarrow> (\<exists>mime. frame b = frame (start_bundle bid aid mime cx))"

definition segments_within :: "int \<Rightarrow> doc_bundle \<Rightarrow> bool" where
  "segments_within n b \<longleftrightarrow> (\<forall>s\<in>set (bn_segments b). int (py_len (sg_text s)) \<le> n)"

locale intake_adapter =
  fixes bid :: string and aid :: string
    and run :: "string \<Rightarrow> ctx \<Rightarrow> doc_bundle res"
  assumes extract_own: "run data cx = Inr b \<Longrightarrow> own_bundle bid aid cx b"
begin

lemma extract_source:
  assumes "run data cx = Inr b"
  shows "bn_trust b = ''untrusted''" "bn_adapter b = aid" "so_hash (bn_source b) = cx_hash cx"
    "so_size (bn_source b) = cx_size cx" "so_path (bn_source b) = present (cx_path cx)"
    "bn_derived b = [(cx_file_id cx, cx_hash cx, ''source'')]"
  using extract_own [OF assms] by (auto simp: own_bundle_def frame_def start_bundle_def empty_bundle_def)

lemma extract_evidence:
  assumes "run data cx = Inr b"
  shows "\<exists>s. format_untrusted_evidence_block b n = Inr s"
  using extract_source(1) [OF assms] by (simp add: format_untrusted_evidence_block_def)

end

locale flagging_adapter = intake_adapter +
  assumes extract_flags: "run data cx = Inr b \<Longrightarrow> set (qr_flags (cx_quarantine cx)) \<subseteq> set (sc_flags (bn_security b))"

locale bounded_adapter = intake_adapter +
  assumes extract_bounded: "0 \<le> max_segment_chars (cx_limits cx) \<Longrightarrow> run data cx = Inr b \<Longrightarrow>
    segments_within (max_segment_chars (cx_limits cx)) b"

lemma own_bundleI: "frame b = frame (start_bundle bid aid mime cx) \<Longrightarrow> own_bundle bid aid cx b"
  by (auto simp: own_bundle_def)

lemma segments_within_steps [simp]:
  "segments_within n (warn c m b) = segments_within n b" "segments_within n (fail c m b) = segments_within n b"
  "segments_within n (warn_if p c m b) = segments_within n b"
  "segments_within n (add_structure k v b) = segments_within n b"
  "segments_within n (apply_security a b) = segments_within n b" "segments_within n (finish a r b) = segments_within n b"
  "segments_within n (add_segment s b) \<longleftrightarrow> segments_within n b \<and> int (py_len (sg_text s)) \<le> n"
  "segments_within n (start_bundle bid aid mime cx)"
  "segments_within n (b\<lparr>bn_title := t\<rparr>) = segments_within n b"
  "segments_within n (b\<lparr>bn_extra := e\<rparr>) = segments_within n b"
  "segments_within n (b\<lparr>bn_confidence := r\<rparr>) = segments_within n b"
  by (auto simp: segments_within_def frame_simps)

text \<open>\<open>data[:n]\<close> on bytes, for a constant \<open>n\<close>.\<close>

definition byte_slice :: "int \<Rightarrow> string \<Rightarrow> string" where
  "byte_slice n s = (if int (length s) \<le> n then s else take (nat n) s)"

definition lower_name :: "string option \<Rightarrow> string" where
  "lower_name f = lower (file_name f)"

text \<open>A segment as every adapter builds it, and the locator of a text range.\<close>

definition seg :: "string \<Rightarrow> string \<Rightarrow> string \<Rightarrow> int \<Rightarrow> json dict \<Rightarrow> rat \<Rightarrow> segment" where
  "seg i kind body order loc conf = \<lparr>sg_id = i, sg_kind = kind, sg_text = body, sg_order = order,
     sg_locator = loc, sg_confidence = conf\<rparr>"

lemma seg_fields [simp]:
  "sg_text (seg i k t r l c) = t" "sg_order (seg i k t r l c) = r" "sg_id (seg i k t r l c) = i"
  "sg_kind (seg i k t r l c) = k" "sg_locator (seg i k t r l c) = l"
  by (simp_all add: seg_def)

definition offsets :: "string \<Rightarrow> json dict" where
  "offsets s = [(''kind'', JStr ''offset''), (''offset_start'', JInt 0), (''offset_end'', JInt (int (py_len s)))]"

end
