(* ===== verification/ZipFiles.thy ===== *)
theory ZipFiles
  imports Adapter
begin

section \<open>Archives as the adapters see them\<close>

text \<open>
  \<open>zipfile\<close> and \<open>tarfile\<close> are parameters: opening yields the members or an exception, reading a
  member yields its bytes or an exception. The lookup by name returns the last member of that name,
  as \<open>ZipFile.NameToInfo\<close> does.
\<close>

record zip_entry =
  ze_name :: string
  ze_dir :: bool
  ze_csize :: int
  ze_size :: int
  ze_read :: "string res"

type_synonym zip_open = "string \<Rightarrow> zip_entry list res"

definition zip_names :: "zip_entry list \<Rightarrow> string list" where
  "zip_names es = List.map ze_name es"

definition zip_member :: "zip_entry list \<Rightarrow> string \<Rightarrow> string res" where
  "zip_member es name =
     (case List.find (\<lambda>e. ze_name e = name) (rev es) of
        None \<Rightarrow> Inl (KeyError name)
      | Some e \<Rightarrow> ze_read e)"

definition is_bad_zip :: "pyexn \<Rightarrow> bool" where
  "is_bad_zip e = (case e of BadZipFile _ \<Rightarrow> True | _ \<Rightarrow> False)"

text \<open>\<open>except (BadZipFile, OSError, KeyError)\<close>.\<close>

definition zip_caught :: "pyexn \<Rightarrow> bool" where
  "zip_caught e = (case e of BadZipFile _ \<Rightarrow> True | OSError _ \<Rightarrow> True | FileNotFoundError _ \<Rightarrow> True
     | KeyError _ \<Rightarrow> True | _ \<Rightarrow> False)"

definition PK_HEAD :: string where
  "PK_HEAD = [CHR ''P'', CHR ''K'', CHR 0x03, CHR 0x04]"

definition ODF_PREFIX :: string where
  "ODF_PREFIX = ''application/vnd.oasis.opendocument.''"

record tar_entry =
  te_name :: string
  te_file :: bool
  te_size :: int
  te_read :: "string res"

record tar_lib =
  ta_is_tar :: "string \<Rightarrow> bool"
  ta_open_error :: "string \<Rightarrow> string option"
  ta_members :: "string \<Rightarrow> tar_entry list res"

end
