(* ===== verification/ArchiveAdapter.thy ===== *)
theory ArchiveAdapter
  imports ZipFiles
begin

section \<open>Archives\<close>

text \<open>
  \<open>intake/adapters/archive.py\<close>: the loop over the members of a zip or tar file with its guards
  (entry count, quarantine of names, declared sizes and ratio, nesting). The mutable tracker and the
  quarantine of the context are threaded through the loop.
\<close>

definition OFFICE_EXTS :: "string list" where
  "OFFICE_EXTS = [''.docx'', ''.pptx'', ''.xlsx'', ''.docm'', ''.pptm'', ''.xlsm'', ''.odt'', ''.ods'', ''.odp'']"

definition ARCHIVE_EXTS :: "string list" where
  "ARCHIVE_EXTS = [''.zip'', ''.tar'', ''.tgz'', ''.tar.gz'']"

definition archive_supports :: "zip_open \<Rightarrow> string \<Rightarrow> string option \<Rightarrow> string \<Rightarrow> bool res" where
  "archive_supports zo mime f data =
     (if mime \<in> {''application/zip'', ''application/x-zip-compressed'', ''application/gzip'', ''application/x-tar'',
                 ''application/x-gtar''} then
        if ends_with_any (lower_name f) OFFICE_EXTS then Inr False
        else (case bnd (zo data) (\<lambda>es. if ''mimetype'' \<in> set (zip_names es)
                     then bnd (zip_member es ''mimetype'') (\<lambda>raw. Inr (starts_with (decode_replace raw) ODF_PREFIX))
                     else Inr False) of
                Inr odf \<Rightarrow> Inr (\<not> odf)
              | Inl e \<Rightarrow> if zip_caught e then Inr True else Inl e)
      else Inr (ends_with_any (lower_name f) ARCHIVE_EXTS))"

text \<open>The state of the loop, and how one round ends.\<close>

record walk =
  wk_tracker :: tracker
  wk_quarantine :: quarantine_result
  wk_bundle :: doc_bundle
  wk_order :: int

datatype flow = Continue | Break | Return rat

definition warn_about :: "string \<Rightarrow> string \<Rightarrow> json dict \<Rightarrow> doc_bundle \<Rightarrow> doc_bundle" where
  "warn_about code message detail b =
     b\<lparr>bn_warnings := bn_warnings b @ [\<lparr>is_code = code, is_message = message, is_detail = detail\<rparr>]\<rparr>"

definition fail_about :: "string \<Rightarrow> string \<Rightarrow> json dict \<Rightarrow> doc_bundle \<Rightarrow> doc_bundle" where
  "fail_about code message detail b =
     b\<lparr>bn_errors := bn_errors b @ [\<lparr>is_code = code, is_message = message, is_detail = detail\<rparr>]\<rparr>"

definition on_bundle :: "(doc_bundle \<Rightarrow> doc_bundle) \<Rightarrow> walk \<Rightarrow> walk" where
  "on_bundle f w = w\<lparr>wk_bundle := f (wk_bundle w)\<rparr>"

definition entry_locator :: "string \<Rightarrow> json dict" where
  "entry_locator name = [(''kind'', JStr ''archive_entry''), (''entry_path'', JStr name)]"

definition preview_of :: "string \<Rightarrow> string" where
  "preview_of raw = (case utf8_decode raw of Some t \<Rightarrow> t | None \<Rightarrow> ''<binary '' @ show_int (int (length raw)) @ '' bytes>'')"

text \<open>The guards every member passes: the entry count, then the quarantine of its name.\<close>

definition entry_guard :: "string \<Rightarrow> (string option \<Rightarrow> string) \<Rightarrow> walk \<Rightarrow> walk \<times> flow option" where
  "entry_guard name reason w =
     (case check_entry_count (wk_tracker w) of
        (Some m, tk) \<Rightarrow> (on_bundle (fail ''ResourceLimit'' m) (w\<lparr>wk_tracker := tk\<rparr>), Some (Return (1 / 5)))
      | (None, tk) \<Rightarrow>
          let q = quarantine_archive_entry name;
              w1 = w\<lparr>wk_tracker := tk, wk_quarantine := merge_quarantine [wk_quarantine w, q]\<rparr> in
          if qr_blocked q
          then (on_bundle (warn_about ''Quarantined'' (reason (qr_reason q)) [(''entry'', JStr name)]) w1, Some Continue)
          else (w1, None))"

definition reason_or :: "string \<Rightarrow> string option \<Rightarrow> string" where
  "reason_or d r = (case r of None \<Rightarrow> d | Some m \<Rightarrow> if m = [] then d else m)"

definition size_guard :: "(json \<Rightarrow> string) \<Rightarrow> int \<Rightarrow> int \<Rightarrow> json dict \<Rightarrow> walk \<Rightarrow> walk \<times> flow option" where
  "size_guard repr compressed expanded detail w =
     (case add_decompressed repr compressed expanded (wk_tracker w) of
        (Some m, tk) \<Rightarrow> (on_bundle (fail_about ''ResourceLimit'' m detail) (w\<lparr>wk_tracker := tk\<rparr>), Some (Return (1 / 5)))
      | (None, tk) \<Rightarrow> (w\<lparr>wk_tracker := tk\<rparr>, None))"

definition guarded :: "(walk \<times> flow option) \<Rightarrow> (walk \<Rightarrow> walk \<times> flow) \<Rightarrow> walk \<times> flow" where
  "guarded g f = (case g of (w, Some fl) \<Rightarrow> (w, fl) | (w, None) \<Rightarrow> f w)"

definition entry_segment :: "int \<Rightarrow> string \<Rightarrow> string \<Rightarrow> segment" where
  "entry_segment order name body = seg (''entry-'' @ show_int order) ''text'' body order (entry_locator name) (7 / 10)"

definition could_not_read :: "string \<Rightarrow> pyexn \<Rightarrow> doc_bundle \<Rightarrow> doc_bundle" where
  "could_not_read name e = warn ''PartialSuccess'' (''could not read '' @ name @ '': '' @ exn_str e)"

subsection \<open>Zip\<close>

definition zip_detail :: "zip_entry \<Rightarrow> int \<Rightarrow> json dict" where
  "zip_detail e compressed = [(''entry'', JStr (ze_name e)), (''compress_size'', JInt compressed), (''file_size'', JInt (ze_size e))]"

definition zip_store :: "intake_limits \<Rightarrow> zip_entry \<Rightarrow> walk \<Rightarrow> walk \<times> flow" where
  "zip_store l e w =
     (case ze_read e of
        Inl x \<Rightarrow> (on_bundle (could_not_read (ze_name e) x) w, Continue)
      | Inr raw \<Rightarrow>
          let remaining = max_decompressed_bytes l - (tk_decompressed (wk_tracker w) - ze_size e) in
          if remaining + ze_size e < int (length raw)
          then (on_bundle (fail ''ResourceLimit'' ''read exceeded decompressed budget'') w, Return (1 / 5))
          else
            let (body, cut_off) = truncate_text (preview_of raw) (min 8000 (max_segment_chars l));
                b1 = warn_if cut_off ''Truncated'' (''archive entry preview truncated: '' @ ze_name e) (wk_bundle w);
                b2 = add_segment (entry_segment (wk_order w) (ze_name e) body) b1;
                w2 = w\<lparr>wk_bundle := b2, wk_order := wk_order w + 1\<rparr> in
            if max_segments l \<le> wk_order w2
            then (on_bundle (warn ''ResourceLimit'' ''archive segment limit'') w2, Break)
            else (w2, Continue))"

definition zip_step :: "(json \<Rightarrow> string) \<Rightarrow> intake_limits \<Rightarrow> int \<Rightarrow> zip_entry \<Rightarrow> walk \<Rightarrow> walk \<times> flow" where
  "zip_step repr l depth e w =
     (if ze_dir e then (w, Continue)
      else guarded (entry_guard (ze_name e) (reason_or (''blocked entry '' @ ze_name e)) w) (\<lambda>w1.
        let compressed = (if ze_csize e = 0 then 1 else ze_csize e) in
        guarded (size_guard repr compressed (ze_size e) (zip_detail e compressed) w1) (\<lambda>w2.
          if ends_with_any (lower (ze_name e)) ARCHIVE_EXTS \<and> max_archive_depth l < depth + 1
          then (on_bundle (fail ''ResourceLimit'' (''nested archive '' @ ze_name e @ '' exceeds max_archive_depth'')) w2,
                Return (1 / 5))
          else zip_store l e w2)))"

subsection \<open>Tar\<close>

definition tar_store :: "tar_entry \<Rightarrow> walk \<Rightarrow> walk \<times> flow" where
  "tar_store e w =
     (case te_read e of
        Inl x \<Rightarrow> (on_bundle (could_not_read (te_name e) x) w, Continue)
      | Inr raw \<Rightarrow>
          let (body, cut_off) = truncate_text (preview_of raw) 8000 in
          (w\<lparr>wk_bundle := add_segment (entry_segment (wk_order w) (te_name e) body) (wk_bundle w),
             wk_order := wk_order w + 1\<rparr>, Continue))"

definition tar_step :: "(json \<Rightarrow> string) \<Rightarrow> tar_entry \<Rightarrow> walk \<Rightarrow> walk \<times> flow" where
  "tar_step repr e w =
     (if \<not> te_file e then (w, Continue)
      else guarded (entry_guard (te_name e) (reason_or (te_name e)) w) (\<lambda>w1.
        guarded (size_guard repr (max 1 (te_size e div 10)) (te_size e) [] w1) (tar_store e)))"

subsection \<open>The adapter\<close>

fun walk_entries :: "('e \<Rightarrow> walk \<Rightarrow> walk \<times> flow) \<Rightarrow> 'e list \<Rightarrow> walk \<Rightarrow> walk \<times> flow" where
  "walk_entries step [] w = (w, Continue)"
| "walk_entries step (e # es) w =
     (case step e w of (w', Continue) \<Rightarrow> walk_entries step es w' | r \<Rightarrow> r)"

definition archive_limits :: "intake_limits \<Rightarrow> json dict" where
  "archive_limits l = [(''max_archive_depth'', JInt (max_archive_depth l)),
     (''max_decompression_ratio'', JFloat (max_decompression_ratio l)),
     (''max_decompressed_bytes'', JInt (max_decompressed_bytes l))]"

definition archive_done :: "intake_limits \<Rightarrow> quarantine_result \<Rightarrow> rat \<Rightarrow> doc_bundle \<Rightarrow> doc_bundle" where
  "archive_done l q confidence b =
     finish ((ctx_security [] q)\<lparr>sa_limits := Some (archive_limits l)\<rparr>) confidence b"

definition start_walk :: "ctx \<Rightarrow> doc_bundle \<Rightarrow> walk" where
  "start_walk cx b = \<lparr>wk_tracker = cx_tracker cx, wk_quarantine = cx_quarantine cx, wk_bundle = b, wk_order = 0\<rparr>"

text \<open>After the loop, unless a guard returned from it. The zip branch warns when nothing was readable.\<close>

definition close_walk :: "intake_limits \<Rightarrow> string \<Rightarrow> bool \<Rightarrow> walk \<times> flow \<Rightarrow> doc_bundle" where
  "close_walk l format warn_empty r =
     (case r of (w, fl) \<Rightarrow>
        (case fl of
           Return c \<Rightarrow> archive_done l (wk_quarantine w) c (wk_bundle w)
         | _ \<Rightarrow>
           let b = wk_bundle w;
               b1 = b\<lparr>bn_extra := Some [(''entry_count'', JInt (wk_order w)), (''archive_format'', JStr format)]\<rparr>;
               b2 = warn_if (warn_empty \<and> bn_segments b = [] \<and> bn_errors b = []) ''PartialSuccess''
                      ''archive yielded no readable entries'' b1 in
           archive_done l (wk_quarantine w) (if bn_segments b = [] then 3 / 10 else 8 / 10) b2))"

definition archive_extract ::
  "(json \<Rightarrow> string) \<Rightarrow> zip_open \<Rightarrow> tar_lib \<Rightarrow> string \<Rightarrow> string \<Rightarrow> ctx \<Rightarrow> doc_bundle res" where
  "archive_extract repr zo ta bid data cx =
     (let l = cx_limits cx; q = cx_quarantine cx;
          b0 = start_bundle bid ''archive'' (if cx_mime cx = [] then ''application/zip'' else cx_mime cx) cx in
      case check_depth (cx_tracker cx) (cx_depth cx) of
        Some m \<Rightarrow> Inr (archive_done l q 0 (fail ''ResourceLimit'' m b0))
      | None \<Rightarrow>
          if prefix ''PK'' data then
            (case zo data of
               Inl e \<Rightarrow> if is_bad_zip e then Inr (archive_done l q 0 (fail ''Corrupt'' (''Bad zip: '' @ exn_str e) b0)) else Inl e
             | Inr es \<Rightarrow> Inr (close_walk l ''zip'' True (walk_entries (zip_step repr l (cx_depth cx)) es (start_walk cx b0))))
          else if ta_is_tar ta data then
            (case ta_open_error ta data of
               Some m \<Rightarrow> Inr (archive_done l q 0 (fail ''Corrupt'' (''Bad tar: '' @ m) b0))
             | None \<Rightarrow> bnd (ta_members ta data) (\<lambda>es.
                 Inr (close_walk l ''tar'' False (walk_entries (tar_step repr) es (start_walk cx b0)))))
          else Inr (archive_done l q 0 (fail ''Corrupt'' ''Unrecognized or corrupt archive'' b0)))"

end
