(* ===== verification/TextAdapters.thy ===== *)
theory TextAdapters
  imports Adapter
begin

section \<open>Plain text, Markdown and source code\<close>

text \<open>\<open>intake/adapters/text.py\<close> and \<open>intake/adapters/code.py\<close>.\<close>

subsection \<open>Decoding and sniffing\<close>

definition decode_text :: "string \<Rightarrow> string \<times> string option" where
  "decode_text data =
     (case utf8_sig_decode data of Some t \<Rightarrow> (t, None)
      | None \<Rightarrow> (case utf8_decode data of Some t \<Rightarrow> (t, None)
      | None \<Rightarrow> (case utf16_decode data of Some t \<Rightarrow> (t, None)
      | None \<Rightarrow> (latin1_decode data, Some ''decoded as latin-1''))))"

definition looks_like_text :: "string \<Rightarrow> bool" where
  "looks_like_text data =
     (let sample = byte_slice 4096 data in
      if data = [] then True else if CHR 0x00 \<in> set sample then False else utf8_valid sample)"

definition CODE_NAMES :: "string list" where
  "CODE_NAMES = [''.py'', ''.ts'', ''.tsx'', ''.js'', ''.jsx'', ''.rs'', ''.go'', ''.java'', ''.c'', ''.cpp'', ''.h'',
     ''.hpp'', ''.cs'', ''.rb'', ''.php'', ''.swift'', ''.kt'', ''.scala'', ''.r'', ''.sql'', ''.sh'']"

definition looks_like_code :: "string option \<Rightarrow> bool" where
  "looks_like_code f = (file_name f \<noteq> [] \<and> ends_with_any (lower_name f) CODE_NAMES)"

definition text_confidence :: "string option \<Rightarrow> rat" where
  "text_confidence w = (if w = None then 95 / 100 else 70 / 100)"

definition warn_encoding :: "string option \<Rightarrow> doc_bundle \<Rightarrow> doc_bundle" where
  "warn_encoding w b = (case w of None \<Rightarrow> b | Some m \<Rightarrow> warn ''PartialSuccess'' m b)"

subsection \<open>Plain text\<close>

definition plain_supports :: "string \<Rightarrow> string option \<Rightarrow> string \<Rightarrow> bool" where
  "plain_supports mime f data =
     (if mime = ''application/octet-stream'' then looks_like_text data \<and> \<not> looks_like_code f
      else if mime = ''text/plain'' \<or> mime = ''text/log'' then True
      else ends_with_any (lower_name f) [''.txt'', ''.log'', ''.text''])"

definition plain_extract :: "string \<Rightarrow> string \<Rightarrow> ctx \<Rightarrow> doc_bundle res" where
  "plain_extract bid data cx =
     (let b0 = start_bundle bid ''plain_text'' (if cx_mime cx = [] then ''text/plain'' else cx_mime cx) cx;
          (dec, enc) = decode_text data;
          (body, cut) = truncate_text dec (max_segment_chars (cx_limits cx));
          b1 = warn_if cut ''Truncated'' ''text truncated to segment limit'' (warn_encoding enc b0);
          b2 = add_segment (seg ''seg-0'' ''text'' body 0 (offsets body) (text_confidence enc)) b1 in
      Inr (finish (ctx_security [] (cx_quarantine cx)) (text_confidence enc) b2))"

subsection \<open>Markdown\<close>

text \<open>
  The heading pattern at the start of a line: one to six hashes, white space (which may run over line
  ends), then the rest of a line. When only white space follows, backtracking leaves its last
  character that is no newline to the title. The result is the level, the raw title and the number
  of characters matched.
\<close>

definition heading_at :: "string \<Rightarrow> (nat \<times> string \<times> nat) option" where
  "heading_at s =
     (let n = length (takeWhile (\<lambda>c. c = CHR ''#'') s); r = dropWhile (\<lambda>c. c = CHR ''#'') s;
          w = takeWhile is_space r; body = dropWhile is_space r in
      if n = 0 \<or> 6 < n \<or> w = [] then None
      else if body \<noteq> [] then
        let title = takeWhile (\<lambda>c. c \<noteq> CHR 0x0A) body in Some (n, title, n + length w + length title)
      else
        case dropWhile (\<lambda>c. c = CHR 0x0A) (rev w) of
          c # d # p \<Rightarrow> Some (n, [c], n + length (c # d # p))
        | _ \<Rightarrow> None)"

record found_heading =
  fh_level :: nat
  fh_title :: string
  fh_start :: int
  fh_end :: int

text \<open>\<open>finditer\<close>: \<open>fresh\<close> tells that the position is at a line start.\<close>

function find_headings :: "bool \<Rightarrow> int \<Rightarrow> string \<Rightarrow> found_heading list" where
  "find_headings fresh off [] = []"
| "find_headings fresh off (c # cs) =
     (case if fresh then heading_at (c # cs) else None of
        Some (n, title, k) \<Rightarrow>
          let stop = off + int (py_len (take k (c # cs))) in
          \<lparr>fh_level = n, fh_title = strip title, fh_start = off, fh_end = stop\<rparr> # find_headings False stop (drop (k - 1) cs)
      | None \<Rightarrow> find_headings (c = CHR 0x0A) (if is_cont c then off else off + 1) cs)"
  by pat_completeness auto
termination by (relation "measure (\<lambda>(f, n, s). length s)") auto

definition push_heading :: "string list \<Rightarrow> nat \<Rightarrow> string \<Rightarrow> string list" where
  "push_heading stack level title = take (level - 1) stack @ [title]"

text \<open>The loop over the headings: the path stack, the order, the segments and the outline entries.\<close>

fun outline :: "string list \<Rightarrow> nat \<Rightarrow> found_heading list \<Rightarrow> (found_heading \<times> string list \<times> nat) list" where
  "outline stack i [] = []"
| "outline stack i (h # hs) =
     (let stack' = push_heading stack (fh_level h) (fh_title h) in (h, stack', i) # outline stack' (Suc i) hs)"

definition heading_id :: "nat \<Rightarrow> string" where
  "heading_id i = ''h-'' @ show_nat i"

definition jpath :: "string list \<Rightarrow> json" where
  "jpath ps = JArr (List.map JStr ps)"

definition heading_segment :: "found_heading \<times> string list \<times> nat \<Rightarrow> segment" where
  "heading_segment = (\<lambda>(h, path, i).
     seg (heading_id i) ''heading'' (fh_title h) (int i)
       [(''kind'', JStr ''heading_path''), (''heading_path'', jpath path),
        (''offset_start'', JInt (fh_start h)), (''offset_end'', JInt (fh_end h))] 1)"

definition heading_entry :: "found_heading \<times> string list \<times> nat \<Rightarrow> json" where
  "heading_entry = (\<lambda>(h, path, i).
     JObj [(''level'', JInt (int (fh_level h))), (''text'', JStr (fh_title h)), (''path'', jpath path),
           (''segment_id'', JStr (heading_id i))])"

definition markdown_supports :: "string \<Rightarrow> string option \<Rightarrow> string \<Rightarrow> bool" where
  "markdown_supports mime f data =
     (mime \<in> {''text/markdown'', ''text/x-markdown''} \<or>
      ends_with_any (lower_name f) [''.md'', ''.markdown'', ''.mdx''])"

definition markdown_extract :: "string \<Rightarrow> string \<Rightarrow> ctx \<Rightarrow> doc_bundle res" where
  "markdown_extract bid data cx =
     (let b0 = start_bundle bid ''markdown'' ''text/markdown'' cx;
          (dec, enc) = decode_text data;
          (body, cut) = truncate_text dec (max_segment_chars (cx_limits cx));
          b1 = warn_if cut ''Truncated'' ''markdown truncated to segment limit'' (warn_encoding enc b0);
          entries = outline [] 0 (find_headings True 0 body);
          b2 = fold (\<lambda>e. add_segment (heading_segment e)) entries b1;
          b3 = add_segment (seg ''body'' ''text'' body (int (length entries)) (offsets body) (98 / 100)) b2;
          b4 = add_structure ''headings'' (JArr (List.map heading_entry entries)) b3;
          b5 = (case entries of [] \<Rightarrow> b4 | (h, _) # _ \<Rightarrow> b4\<lparr>bn_title := Some (fh_title h)\<rparr>) in
      Inr (finish (ctx_security [] (cx_quarantine cx)) (98 / 100) b5))"

subsection \<open>Source code\<close>

definition CODE_EXTS :: "string list" where
  "CODE_EXTS = [''.py'', ''.pyi'', ''.ts'', ''.tsx'', ''.js'', ''.jsx'', ''.mjs'', ''.cjs'', ''.rs'', ''.go'', ''.java'',
     ''.kt'', ''.kts'', ''.c'', ''.cc'', ''.cpp'', ''.h'', ''.hpp'', ''.cs'', ''.rb'', ''.php'', ''.swift'', ''.scala'',
     ''.r'', ''.sql'', ''.toml'', ''.ini'', ''.cfg'', ''.scss'', ''.css'', ''.less'', ''.vue'', ''.svelte'', ''.dart'',
     ''.lua'', ''.pl'', ''.pm'', ''.zig'', ''.nim'']"

definition code_supports :: "string \<Rightarrow> string option \<Rightarrow> string \<Rightarrow> bool" where
  "code_supports mime f data =
     (starts_with mime ''text/x-'' \<or>
      mime \<in> {''text/javascript'', ''application/javascript'', ''application/typescript'', ''text/x-python'',
              ''text/x-rust'', ''text/x-java-source''} \<or>
      ends_with_any (lower_name f) CODE_EXTS)"

text \<open>The line boundaries of \<open>str.splitlines\<close>.\<close>

definition break_length :: "string \<Rightarrow> nat" where
  "break_length s =
     (if prefix [CHR 0x0D, CHR 0x0A] s then 2
      else if s \<noteq> [] \<and> hd s \<in> {CHR 0x0A, CHR 0x0D, CHR 0x0B, CHR 0x0C, CHR 0x1C, CHR 0x1D, CHR 0x1E} then 1
      else if prefix [CHR 0xC2, CHR 0x85] s then 2
      else if prefix [CHR 0xE2, CHR 0x80, CHR 0xA8] s \<or> prefix [CHR 0xE2, CHR 0x80, CHR 0xA9] s then 3
      else 0)"

function count_lines :: "bool \<Rightarrow> string \<Rightarrow> int" where
  "count_lines pending [] = (if pending then 1 else 0)"
| "count_lines pending (c # cs) =
     (case break_length (c # cs) of
        0 \<Rightarrow> count_lines True cs
      | Suc k \<Rightarrow> 1 + count_lines False (drop k cs))"
  by pat_completeness auto
termination by (relation "measure (\<lambda>(p, s). length s)") auto

definition file_ext :: "string option \<Rightarrow> string" where
  "file_ext f = (if CHR ''.'' \<in> set (file_name f) then ''.'' @ lower (after_last (CHR ''.'') (file_name f)) else [])"

definition language_hint :: "string \<Rightarrow> json" where
  "language_hint ext = (if ext = [] then JNull else JStr (dropWhile (\<lambda>c. c = CHR ''.'') ext))"

definition code_extract :: "string \<Rightarrow> string \<Rightarrow> ctx \<Rightarrow> doc_bundle res" where
  "code_extract bid data cx =
     (let mime = (if cx_mime cx \<noteq> ''application/octet-stream'' then cx_mime cx else ''text/x-code'');
          b0 = start_bundle bid ''code'' mime cx;
          (dec, b1) = (case utf8_sig_decode data of Some t \<Rightarrow> (t, b0)
             | None \<Rightarrow> (decode_replace data, warn ''PartialSuccess'' ''replaced undecodable bytes'' b0));
          (body, cut) = truncate_text dec (max_segment_chars (cx_limits cx));
          b2 = warn_if cut ''Truncated'' ''source truncated to segment limit'' b1;
          n = count_lines False body;
          b3 = add_segment (seg ''code-0'' ''code'' body 0
                 [(''kind'', JStr ''line''), (''line_start'', JInt 1), (''line_end'', JInt (max 1 n))] (99 / 100)) b2;
          b4 = b3\<lparr>bn_extra := Some [(''language_hint'', language_hint (file_ext (cx_filename cx))),
                 (''line_count'', JInt n), (''executed'', JBool False)]\<rparr> in
      Inr (finish (ctx_security [''source_not_executed''] (cx_quarantine cx)) (99 / 100) b4))"

subsection \<open>Contracts\<close>

lemma warn_encoding_simps [simp]:
  "frame (warn_encoding w b) = frame b" "segments_within n (warn_encoding w b) = segments_within n b"
  "bn_segments (warn_encoding w b) = bn_segments b"
  by (simp_all add: warn_encoding_def frame_simps split: option.split)

lemma frame_add_segments [simp]: "frame (fold (\<lambda>e. add_segment (g e)) es b) = frame b"
  by (rule frame_fold) (simp add: frame_simps)

lemma segments_add_segments [simp]:
  "bn_segments (fold (\<lambda>e. add_segment (g e)) es b) = bn_segments b @ List.map g es"
  by (induction es arbitrary: b) (simp_all add: frame_simps)

lemma within_add_segments [simp]:
  "segments_within n (fold (\<lambda>e. add_segment (g e)) es b) \<longleftrightarrow>
     segments_within n b \<and> (\<forall>e\<in>set es. int (py_len (sg_text (g e))) \<le> n)"
  by (auto simp: segments_within_def)

text \<open>Titles are no longer than the text they come from.\<close>

lemma py_len_strip: "py_len (strip s) \<le> py_len s"
proof -
  have d: "py_len (dropWhile p s) \<le> py_len s" for p s by (induction s) auto
  have r: "py_len (rev s) = py_len s" for s by (induction s) auto
  have "py_len (rstrip_of p s) \<le> py_len s" for p s
    using d [of p "rev s"] by (simp add: rstrip_of_def r)
  then show ?thesis using d by (metis (no_types) strip_def lstrip_def le_trans)
qed

lemma py_len_filter_mono: "py_len (takeWhile p s) \<le> py_len s" "py_len (dropWhile p s) \<le> py_len s"
  by (induction s) auto

lemma py_len_drop: "py_len (drop k s) \<le> py_len s"
  by (induction s arbitrary: k) (auto simp: drop_Cons split: nat.splits, (meson le_SucI)?)

lemma py_len_rev: "py_len (rev s) = py_len s"
  by (induction s) auto

lemma heading_at_title: "heading_at s = Some (n, title, k) \<Longrightarrow> py_len title \<le> py_len s"
proof -
  assume a: "heading_at s = Some (n, title, k)"
  let ?r = "dropWhile (\<lambda>c. c = CHR ''#'') s"
  have rs: "py_len (dropWhile is_space ?r) \<le> py_len s" "py_len (takeWhile is_space ?r) \<le> py_len s"
    using py_len_filter_mono [of is_space ?r] py_len_filter_mono(2) [of "\<lambda>c. c = CHR ''#''" s] by linarith+
  show ?thesis
  proof (cases "dropWhile is_space ?r = []")
    case False
    then have "title = takeWhile (\<lambda>c. c \<noteq> CHR 0x0A) (dropWhile is_space ?r)"
      using a by (auto simp: heading_at_def Let_def split: if_splits)
    then show ?thesis using rs(1) py_len_filter_mono(1) le_trans by blast
  next
    case True
    let ?w = "takeWhile is_space ?r"
    obtain c d p where w: "dropWhile (\<lambda>c. c = CHR 0x0A) (rev ?w) = c # d # p" "title = [c]"
      using a True by (auto simp: heading_at_def Let_def split: if_splits list.splits)
    have "py_len (c # d # p) \<le> py_len ?w"
      using py_len_filter_mono(2) [of "\<lambda>c. c = CHR 0x0A" "rev ?w"] w(1) by (simp add: py_len_rev)
    moreover have "py_len title \<le> py_len (c # d # p)" using w(2) by simp
    ultimately show ?thesis using rs(2) by linarith
  qed
qed

lemma find_headings_title: "h \<in> set (find_headings fresh off s) \<Longrightarrow> py_len (fh_title h) \<le> py_len s"
proof (induction fresh off s rule: find_headings.induct)
  case (2 fresh off c cs)
  show ?case
  proof (cases "if fresh then heading_at (c # cs) else None")
    case None
    then have "py_len (fh_title h) \<le> py_len cs" using 2 by auto
    then show ?thesis by simp
  next
    case (Some x)
    obtain n title k where x: "x = (n, title, k)" by (cases x)
    let ?stop = "off + int (py_len (take k (c # cs)))"
    have "h = \<lparr>fh_level = n, fh_title = strip title, fh_start = off, fh_end = ?stop\<rparr> \<or>
        h \<in> set (find_headings False ?stop (drop (k - 1) cs))"
      using 2(3) Some x by (simp add: Let_def)
    then show ?thesis
    proof
      assume "h = \<lparr>fh_level = n, fh_title = strip title, fh_start = off, fh_end = ?stop\<rparr>"
      moreover have "py_len title \<le> py_len (c # cs)"
        using Some x heading_at_title [of "c # cs"] by (auto split: if_splits)
      ultimately show ?thesis using py_len_strip [of title] by simp
    next
      assume "h \<in> set (find_headings False ?stop (drop (k - 1) cs))"
      then have "py_len (fh_title h) \<le> py_len (drop (k - 1) cs)" using 2(2) Some x by (auto simp: Let_def)
      then show ?thesis using py_len_drop [of "k - 1" cs] by simp
    qed
  qed
qed simp

lemma outline_heads: "(h, path, i) \<in> set (outline stack j hs) \<Longrightarrow> h \<in> set hs"
  by (induction stack j hs rule: outline.induct) (auto simp: Let_def)

interpretation plain: bounded_adapter bid "''plain_text''" "plain_extract bid" for bid
proof
  show "own_bundle bid ''plain_text'' cx b" if "plain_extract bid data cx = Inr b" for data cx b
    using that by (intro own_bundleI) (auto simp: plain_extract_def Let_def frame_simps split: prod.splits)
  show "segments_within (max_segment_chars (cx_limits cx)) b"
    if "0 \<le> max_segment_chars (cx_limits cx)" "plain_extract bid data cx = Inr b" for data cx b
    using that truncate_text_bound [OF that(1), of "fst (decode_text data)"]
    by (auto simp: plain_extract_def Let_def split: prod.splits)
qed

interpretation plain: flagging_adapter bid "''plain_text''" "plain_extract bid" for bid
  by unfold_locales (auto simp: plain_extract_def Let_def split: prod.splits)

interpretation code: bounded_adapter bid "''code''" "code_extract bid" for bid
proof
  show "own_bundle bid ''code'' cx b" if "code_extract bid data cx = Inr b" for data cx b
    using that by (intro own_bundleI)
      (auto simp: code_extract_def Let_def frame_simps split: prod.splits option.splits)
  show "segments_within (max_segment_chars (cx_limits cx)) b"
    if "0 \<le> max_segment_chars (cx_limits cx)" "code_extract bid data cx = Inr b" for data cx b
    using that truncate_text_bound [OF that(1)]
    by (auto simp: code_extract_def Let_def split: prod.splits option.splits) (metis fst_conv)+
qed

interpretation code: flagging_adapter bid "''code''" "code_extract bid" for bid
  by unfold_locales (auto simp: code_extract_def Let_def split: prod.splits option.splits)

interpretation markdown: bounded_adapter bid "''markdown''" "markdown_extract bid" for bid
proof
  show "own_bundle bid ''markdown'' cx b" if "markdown_extract bid data cx = Inr b" for data cx b
    using that by (intro own_bundleI)
      (auto simp: markdown_extract_def Let_def frame_simps split: prod.splits list.splits)
  show "segments_within (max_segment_chars (cx_limits cx)) b"
    if n: "0 \<le> max_segment_chars (cx_limits cx)" and e: "markdown_extract bid data cx = Inr b" for data cx b
  proof -
    let ?n = "max_segment_chars (cx_limits cx)"
    obtain body cut where t: "truncate_text (fst (decode_text data)) ?n = (body, cut)" by fastforce
    then have body: "int (py_len body) \<le> ?n" using truncate_text_bound [OF n, of "fst (decode_text data)"] by simp
    have "int (py_len (sg_text (heading_segment x))) \<le> ?n" if "x \<in> set (outline [] 0 (find_headings True 0 body))" for x
    proof -
      obtain h path i where x: "x = (h, path, i)" by (cases x)
      then have "py_len (fh_title h) \<le> py_len body" using that outline_heads find_headings_title by blast
      then show ?thesis using body x by (simp add: heading_segment_def)
    qed
    then show ?thesis using e t body
      by (auto simp: markdown_extract_def Let_def split: prod.splits list.splits)
  qed
qed

interpretation markdown: flagging_adapter bid "''markdown''" "markdown_extract bid" for bid
  by unfold_locales (auto simp: markdown_extract_def Let_def split: prod.splits list.splits)

end
