(* ===== verification/HtmlAdapter.thy ===== *)
theory HtmlAdapter
  imports TextAdapters
begin

section \<open>HTML\<close>

text \<open>
  \<open>intake/adapters/html.py\<close>: active content is stripped first, then \<open>html.parser\<close> drives an
  extractor. The tokenizer of \<open>HTMLParser\<close> is a parameter that yields the events (a self-closing tag
  is a start and an end, character references are resolved into data) or raises; the extractor's
  handlers, its state and the assembly of the bundle are modelled.
\<close>

subsection \<open>The extractor\<close>

datatype html_event = StartTag string | EndTag string | Text string

record extractor =
  ex_parts :: "string list"
  ex_headings :: "(nat \<times> string) list"
  ex_skip :: bool
  ex_level :: "nat option"
  ex_buf :: "string list"

definition new_extractor :: extractor where
  "new_extractor = \<lparr>ex_parts = [], ex_headings = [], ex_skip = False, ex_level = None, ex_buf = []\<rparr>"

definition SKIP_TAGS :: "string list" where
  "SKIP_TAGS = [''script'', ''style'', ''noscript'']"

definition BREAK_TAGS :: "string list" where
  "BREAK_TAGS = [''p'', ''div'', ''br'', ''li'', ''tr'']"

definition heading_level :: "string \<Rightarrow> nat option" where
  "heading_level t = map_of [(''h1'', 1), (''h2'', 2), (''h3'', 3), (''h4'', 4), (''h5'', 5), (''h6'', 6)] t"

definition handle_starttag :: "string \<Rightarrow> extractor \<Rightarrow> extractor" where
  "handle_starttag tag x =
     (let t = lower tag in
      if t \<in> set SKIP_TAGS then x\<lparr>ex_skip := True\<rparr>
      else
        let x1 = (case heading_level t of None \<Rightarrow> x | Some n \<Rightarrow> x\<lparr>ex_level := Some n, ex_buf := []\<rparr>) in
        if t \<in> set BREAK_TAGS then x1\<lparr>ex_parts := ex_parts x1 @ [[CHR 0x0A]]\<rparr> else x1)"

definition handle_endtag :: "string \<Rightarrow> extractor \<Rightarrow> extractor" where
  "handle_endtag tag x =
     (let t = lower tag in
      if t \<in> set SKIP_TAGS then x\<lparr>ex_skip := False\<rparr>
      else case (heading_level t, ex_level x) of
        (Some _, Some n) \<Rightarrow>
          let title = strip (concat (ex_buf x));
              x1 = (if title = [] then x
                    else x\<lparr>ex_headings := ex_headings x @ [(n, title)], ex_parts := ex_parts x @ [title @ [CHR 0x0A]]\<rparr>) in
          x1\<lparr>ex_level := None, ex_buf := []\<rparr>
      | _ \<Rightarrow> x)"

definition handle_data :: "string \<Rightarrow> extractor \<Rightarrow> extractor" where
  "handle_data d x =
     (if ex_skip x then x
      else case ex_level x of
        Some _ \<Rightarrow> x\<lparr>ex_buf := ex_buf x @ [d]\<rparr>
      | None \<Rightarrow> x\<lparr>ex_parts := ex_parts x @ [d]\<rparr>)"

fun handle :: "html_event \<Rightarrow> extractor \<Rightarrow> extractor" where
  "handle (StartTag t) = handle_starttag t"
| "handle (EndTag t) = handle_endtag t"
| "handle (Text d) = handle_data d"

subsection \<open>The adapter\<close>

definition html_supports :: "string \<Rightarrow> string option \<Rightarrow> string \<Rightarrow> bool" where
  "html_supports mime f data =
     (mime \<in> {''text/html'', ''application/xhtml+xml''} \<or>
      ends_with_any (lower_name f) [''.html'', ''.htm'', ''.xhtml''])"

text \<open>What precedes the first match of a word.\<close>

fun until_word :: "string \<Rightarrow> string \<Rightarrow> string option" where
  "until_word w [] = (if eat_word w [] = None then None else Some [])"
| "until_word w (c # cs) = (if eat_word w (c # cs) = None then map_option ((#) c) (until_word w cs) else Some [])"

text \<open>The first \<open>title\<close> element, found by a regular expression on the stripped text.\<close>

fun title_text :: "string \<Rightarrow> string option" where
  "title_text [] = None"
| "title_text (c # cs) =
     (case Option.bind (eat_word ''<title'' (c # cs)) (\<lambda>r. Option.bind (after_char (CHR ''>'') r) (until_word ''</title>'')) of
        Some t \<Rightarrow> Some t
      | None \<Rightarrow> title_text cs)"

text \<open>\<open>re.sub\<close> on runs of at least \<open>k\<close> characters of a class.\<close>

function sub_runs :: "(char \<Rightarrow> bool) \<Rightarrow> nat \<Rightarrow> string \<Rightarrow> string \<Rightarrow> string" where
  "sub_runs p k r [] = []"
| "sub_runs p k r (c # cs) =
     (if p c then
        let same = takeWhile p cs in
        (if k \<le> Suc (length same) then r else c # same) @ sub_runs p k r (dropWhile p cs)
      else c # sub_runs p k r cs)"
  by pat_completeness auto
termination
  by (relation "measure (\<lambda>(p, k, r, s). length s)") (auto simp: length_dropWhile_le le_imp_less_Suc)

definition html_title :: "string \<Rightarrow> string option" where
  "html_title cleaned = map_option (\<lambda>t. strip (sub_runs is_space 1 '' '' t)) (title_text cleaned)"

definition html_body :: "extractor \<Rightarrow> string" where
  "html_body x =
     strip (sub_runs (\<lambda>c. c = CHR 0x0A) 3 [CHR 0x0A, CHR 0x0A]
       (sub_runs (\<lambda>c. c = CHR '' '' \<or> c = CHR 0x09) 1 '' '' (concat (ex_parts x))))"

definition html_found :: "nat \<times> string \<Rightarrow> found_heading" where
  "html_found = (\<lambda>(level, t). \<lparr>fh_level = level, fh_title = t, fh_start = 0, fh_end = 0\<rparr>)"

definition html_heading_segment :: "found_heading \<times> string list \<times> nat \<Rightarrow> segment" where
  "html_heading_segment = (\<lambda>(h, path, i).
     seg (heading_id i) ''heading'' (fh_title h) (int i)
       [(''kind'', JStr ''heading_path''), (''heading_path'', jpath path)] (90 / 100))"

definition html_failed :: "quarantine_result \<Rightarrow> pyexn \<Rightarrow> doc_bundle \<Rightarrow> doc_bundle" where
  "html_failed q e b =
     finish (no_args\<lparr>sa_actions := Some (qr_actions q), sa_flags := Some (qr_flags q), sa_scripts := Some (qr_scripts q)\<rparr>)
       0 (fail ''Corrupt'' (''HTML parse failed: '' @ exn_str e) b)"

definition html_read :: "intake_limits \<Rightarrow> quarantine_result \<Rightarrow> extractor \<Rightarrow> doc_bundle \<Rightarrow> doc_bundle" where
  "html_read l q x b =
     (let (body, over) = truncate_text (html_body x) (max_segment_chars l);
          b1 = warn_if over ''Truncated'' ''HTML text truncated'' b;
          entries = outline [] 0 (List.map html_found (ex_headings x));
          b2 = fold (\<lambda>e. add_segment (html_heading_segment e)) entries b1;
          b3 = add_segment (seg ''body'' ''text'' body (int (length entries)) (offsets body) (90 / 100)) b2;
          b4 = add_structure ''headings'' (JArr (List.map heading_entry entries)) b3;
          b5 = warn_if (qr_scripts q) ''Quarantined'' ''Active HTML scripts/handlers stripped before extract''
                 (b4\<lparr>bn_confidence := 90 / 100\<rparr>) in
      apply_security ((ctx_security [] q)\<lparr>sa_limits := Some [(''allow_remote_fetch'', JBool False)]\<rparr>) b5)"

definition html_extract :: "(string \<Rightarrow> html_event list res) \<Rightarrow> string \<Rightarrow> string \<Rightarrow> ctx \<Rightarrow> doc_bundle res" where
  "html_extract tokens bid data cx =
     (let b0 = start_bundle bid ''html'' ''text/html'' cx;
          (cleaned, found) = strip_html_active_content (decode_replace data);
          q = merge_quarantine [cx_quarantine cx, found];
          b1 = (case html_title cleaned of None \<Rightarrow> b0 | Some t \<Rightarrow> b0\<lparr>bn_title := Some t\<rparr>) in
      case tokens cleaned of
        Inl e \<Rightarrow> Inr (html_failed q e b1)
      | Inr evs \<Rightarrow> Inr (html_read (cx_limits cx) q (fold handle evs new_extractor) b1))"

subsection \<open>What the extractor shows\<close>

text \<open>The events outside \<open>script\<close>, \<open>style\<close> and \<open>noscript\<close>: the data inside is dropped, tags are not.\<close>

fun shown :: "bool \<Rightarrow> html_event list \<Rightarrow> html_event list" where
  "shown off [] = []"
| "shown off (StartTag t # es) = StartTag t # shown (off \<or> lower t \<in> set SKIP_TAGS) es"
| "shown off (EndTag t # es) = EndTag t # shown (off \<and> lower t \<notin> set SKIP_TAGS) es"
| "shown off (Text d # es) = (if off then shown off es else Text d # shown off es)"

lemma skip_after [simp]:
  "ex_skip (handle_starttag t x) \<longleftrightarrow> ex_skip x \<or> lower t \<in> set SKIP_TAGS"
  "ex_skip (handle_endtag t x) \<longleftrightarrow> ex_skip x \<and> lower t \<notin> set SKIP_TAGS"
  "ex_skip (handle_data d x) = ex_skip x"
  by (auto simp: handle_starttag_def handle_endtag_def handle_data_def Let_def split: option.split)

lemma extractor_shows_only:
  "fold handle (shown (ex_skip x) evs) x = fold handle evs x"
proof (induction evs arbitrary: x)
  case (Cons e evs)
  show ?case
  proof (cases e)
    case (Text d)
    then show ?thesis
      using Cons [of x] Cons [of "handle_data d x"]
      by (cases "ex_skip x") (simp_all, simp add: handle_data_def)
  next
    case (StartTag t)
    then show ?thesis using Cons [of "handle_starttag t x"] by simp
  next
    case (EndTag t)
    then show ?thesis using Cons [of "handle_endtag t x"] by simp
  qed
qed simp

text \<open>Levels stay between one and six, and no heading is empty.\<close>

definition extractor_ok :: "extractor \<Rightarrow> bool" where
  "extractor_ok x \<longleftrightarrow> list_all (\<lambda>(n, t). n \<in> {1..6} \<and> t \<noteq> []) (ex_headings x) \<and>
     (case ex_level x of None \<Rightarrow> True | Some n \<Rightarrow> n \<in> {1..6})"

lemma heading_level_range: "heading_level t = Some n \<Longrightarrow> n \<in> {1..6}"
  by (auto simp: heading_level_def split: if_splits)

lemma handle_ok: "extractor_ok x \<Longrightarrow> extractor_ok (handle e x)"
  by (cases e) (auto simp: extractor_ok_def handle_starttag_def handle_endtag_def handle_data_def Let_def
      dest: heading_level_range split: option.splits)

lemma extractor_headings: "extractor_ok (fold handle evs new_extractor)"
proof -
  have "extractor_ok x \<Longrightarrow> extractor_ok (fold handle evs x)" for x
    by (induction evs arbitrary: x) (simp_all add: handle_ok)
  then show ?thesis by (simp add: extractor_ok_def new_extractor_def)
qed

subsection \<open>Contracts\<close>

lemma html_read_frame: "frame (html_read l q x b) = frame b"
  by (simp add: html_read_def Let_def split_beta frame_simps)

interpretation html_ad: flagging_adapter bid "''html''" "html_extract tokens bid" for bid tokens
proof
  show "own_bundle bid ''html'' cx b" if "html_extract tokens bid data cx = Inr b" for data cx b
    using that by (intro own_bundleI [where mime = "''text/html''"])
      (auto simp: html_extract_def html_failed_def html_read_frame Let_def split_beta frame_simps split: option.splits sum.splits)
  show "set (qr_flags (cx_quarantine cx)) \<subseteq> set (sc_flags (bn_security b))"
    if "html_extract tokens bid data cx = Inr b" for data cx b
    using that by (auto simp: html_extract_def html_failed_def html_read_def Let_def split_beta finish_def
        security_flags ctx_security_def no_args_def split: sum.splits)
qed

lemma html_total: "\<exists>b. html_extract tokens bid data cx = Inr b"
  by (simp add: html_extract_def Let_def split_beta split: sum.split)

end
