(* ===== verification/MediaAdapters.thy ===== *)
theory MediaAdapters
  imports TextAdapters
begin

section \<open>Images, audio and video\<close>

text \<open>
  \<open>intake/adapters/ocr.py\<close>, \<open>image.py\<close> and \<open>media.py\<close>. Pillow, Tesseract, ffprobe and Whisper are
  parameters, \<open>None\<close> when missing; the module-level hooks are arguments. The temporary file the media
  adapter writes holds the bytes it was given, so the tools are functions of those bytes.
\<close>

subsection \<open>OCR\<close>

record ocr_result =
  oc_text :: "string option"
  oc_status :: string
  oc_detail :: string

record ocr_tools =
  ot_hook :: "(string \<Rightarrow> string \<Rightarrow> string option res) option"
  ot_missing :: "string option"
  ot_binary :: bool
  ot_read :: "string \<Rightarrow> string option res"

text \<open>A text that is not blank is a result, stripped; else the run failed.\<close>

definition ocr_outcome :: "string \<Rightarrow> string \<Rightarrow> string \<Rightarrow> string option res \<Rightarrow> ocr_result" where
  "ocr_outcome ok blank broken r =
     (case r of
        Inl e \<Rightarrow> \<lparr>oc_text = None, oc_status = ''failed'', oc_detail = broken @ exn_str e\<rparr>
      | Inr t \<Rightarrow>
          if strip (file_name t) \<noteq> [] then \<lparr>oc_text = Some (strip (file_name t)), oc_status = ''ok'', oc_detail = ok\<rparr>
          else \<lparr>oc_text = None, oc_status = ''failed'', oc_detail = blank\<rparr>)"

definition run_ocr :: "ocr_tools \<Rightarrow> string \<Rightarrow> string \<Rightarrow> ocr_result" where
  "run_ocr ot data mime =
     (case ot_hook ot of
        Some hook \<Rightarrow> ocr_outcome ''hook'' ''hook returned empty'' ''OCR hook failed: '' (hook data mime)
      | None \<Rightarrow>
          (case ot_missing ot of
             Some m \<Rightarrow> \<lparr>oc_text = None, oc_status = ''unavailable'', oc_detail = ''OCR extras missing ('' @ m @
               ''); install intake[ocr] / pytesseract+Pillow and the Tesseract binary''\<rparr>
           | None \<Rightarrow>
               if \<not> ot_binary ot
               then \<lparr>oc_text = None, oc_status = ''unavailable'', oc_detail =
                 ''Tesseract binary not found on PATH; install Tesseract OCR to enable image text extraction''\<rparr>
               else ocr_outcome ''tesseract'' ''tesseract returned empty text'' ''tesseract failed: '' (ot_read ot data)))"

subsection \<open>Images\<close>

definition IMAGE_MIMES :: "string list" where
  "IMAGE_MIMES = [''image/png'', ''image/jpeg'', ''image/gif'', ''image/webp'', ''image/bmp'', ''image/tiff'']"

definition image_supports :: "string \<Rightarrow> string option \<Rightarrow> string \<Rightarrow> bool" where
  "image_supports mime f data =
     (mime \<in> set IMAGE_MIMES \<or>
      ends_with_any (lower_name f) [''.png'', ''.jpg'', ''.jpeg'', ''.gif'', ''.webp'', ''.bmp'', ''.tif'', ''.tiff''])"

text \<open>\<open>int.from_bytes(b, "big")\<close>.\<close>

definition big_endian :: "string \<Rightarrow> int" where
  "big_endian s = foldl (\<lambda>n c. 256 * n + byte c) 0 s"

definition PNG_HEAD :: string where
  "PNG_HEAD = [CHR 0x89, CHR ''P'', CHR ''N'', CHR ''G'']"

definition png_size :: "string \<Rightarrow> int \<times> int" where
  "png_size data =
     (if 24 \<le> length data \<and> prefix PNG_HEAD data
      then (big_endian (take 4 (drop 16 data)), big_endian (take 4 (drop 20 data))) else (0, 0))"

text \<open>What the block that opens the image assigned before it ended or raised; exif keys are rendered.\<close>

record pil_image =
  pi_size :: "(int \<times> int) option"
  pi_mime :: "string option"
  pi_exif :: "(string \<times> json) list"
  pi_error :: "pyexn option"

definition exif_value :: "json \<Rightarrow> bool" where
  "exif_value v = (case v of JBool _ \<Rightarrow> True | JInt _ \<Rightarrow> True | JFloat _ \<Rightarrow> True | JStr _ \<Rightarrow> True | _ \<Rightarrow> False)"

definition exif_of :: "(string \<times> json) list \<Rightarrow> json dict" where
  "exif_of items = dict_update [] (List.filter (\<lambda>(k, v). exif_value v) (take 40 items))"

definition image_mime :: "string \<Rightarrow> string \<Rightarrow> string \<Rightarrow> string" where
  "image_mime mime sniffed data =
     (let m = (if mime \<in> set IMAGE_MIMES then mime else sniffed) in
      if m \<in> set IMAGE_MIMES then m else if prefix PNG_HEAD data then ''image/png'' else ''image/jpeg'')"

record image_facts =
  if_width :: int
  if_height :: int
  if_mime :: string
  if_exif :: "json dict"

definition image_probe :: "(string \<Rightarrow> pil_image) option \<Rightarrow> string \<Rightarrow> string \<Rightarrow> doc_bundle \<Rightarrow> image_facts \<times> doc_bundle" where
  "image_probe pil data mime b =
     (case pil of
        None \<Rightarrow>
          let (w, h) = (if mime = ''image/png'' then png_size data else (0, 0)) in
          (\<lparr>if_width = w, if_height = h, if_mime = mime, if_exif = []\<rparr>,
           warn ''PartialSuccess'' ''Pillow not installed; dimensions/EXIF unavailable'' b)
      | Some opn \<Rightarrow>
          let im = opn data; (w, h) = or_else (pi_size im) (0, 0) in
          (\<lparr>if_width = w, if_height = h, if_mime = or_else (pi_mime im) mime, if_exif = exif_of (pi_exif im)\<rparr>,
           case pi_error im of None \<Rightarrow> b | Some e \<Rightarrow> warn ''PartialSuccess'' (''image open failed: '' @ exn_str e) b))"

definition report_ocr :: "ocr_result \<Rightarrow> doc_bundle \<Rightarrow> doc_bundle" where
  "report_ocr r b =
     (if oc_status r = ''unavailable'' then fail ''NeedsAdapter'' (oc_detail r) b
      else if oc_status r = ''failed'' then warn ''PartialSuccess'' (oc_detail r) b else b)"

definition IMAGE_LOCATOR :: "json dict" where
  "IMAGE_LOCATOR = [(''kind'', JStr ''image'')]"

definition opt_str :: "string option \<Rightarrow> json" where
  "opt_str t = (case t of None \<Rightarrow> JNull | Some s \<Rightarrow> JStr s)"

definition image_entry :: "image_facts \<Rightarrow> ocr_result \<Rightarrow> json" where
  "image_entry f r = JObj [(''id'', JStr ''img-0''), (''mime_type'', JStr (if_mime f)), (''width'', JInt (if_width f)),
     (''height'', JInt (if_height f)), (''exif'', JObj (if_exif f)), (''ocr_text'', opt_str (oc_text r)),
     (''ocr_status'', JStr (oc_status r)), (''locator'', JObj IMAGE_LOCATOR)]"

definition image_segments :: "image_facts \<Rightarrow> ocr_result \<Rightarrow> doc_bundle \<Rightarrow> doc_bundle" where
  "image_segments f r b =
     (let bits = [''mime='' @ if_mime f, show_int (if_width f) @ ''x'' @ show_int (if_height f)];
          info = (\<lambda>more_bits order. seg ''img-meta'' ''raw_meta'' (join ''; '' (bits @ more_bits)) order IMAGE_LOCATOR (90 / 100)) in
      case oc_text r of
        None \<Rightarrow> add_segment (info [] 0) b
      | Some t \<Rightarrow> add_segment (info [''ocr_chars='' @ show_int (int (py_len t))] 1)
          (add_segment (seg ''ocr-0'' ''text'' t 0 IMAGE_LOCATOR (60 / 100)) b))"

definition image_extract :: "(string \<Rightarrow> pil_image) option \<Rightarrow> ocr_tools \<Rightarrow> string \<Rightarrow> string \<Rightarrow> ctx \<Rightarrow> doc_bundle res" where
  "image_extract pil ot bid data cx =
     (let mime = image_mime (cx_mime cx) (cx_sniffed cx) data;
          (f, b1) = image_probe pil data mime (start_bundle bid ''image'' mime cx);
          r = run_ocr ot data (if_mime f);
          b2 = report_ocr r b1;
          b3 = image_segments f r (b2\<lparr>bn_images := bn_images b2 @ [image_entry f r]\<rparr>);
          b4 = b3\<lparr>bn_confidence := (if oc_text r = None then 50 / 100 else 70 / 100),
                 bn_extra := Some [(''ocr_backend'', JStr (oc_detail r)), (''ocr_status'', JStr (oc_status r))]\<rparr> in
      Inr (apply_security (no_args\<lparr>sa_actions := Some (qr_actions (cx_quarantine cx) @ [''image_not_executed'']),
             sa_flags := Some (qr_flags (cx_quarantine cx))\<rparr>) b4))"

subsection \<open>Contract of the image adapter\<close>

lemma report_ocr_frame: "frame (report_ocr r b) = frame b"
  by (simp add: report_ocr_def frame_simps)

lemma image_segments_frame: "frame (image_segments f r b) = frame b"
  by (simp add: image_segments_def Let_def frame_simps split: option.split)

lemma image_probe_frame: "frame (snd (image_probe pil data mime b)) = frame b"
  by (simp add: image_probe_def Let_def split_beta frame_simps split: option.split)

interpretation image_ad: flagging_adapter bid "''image''" "image_extract pil ot bid" for bid pil ot
proof
  show "own_bundle bid ''image'' cx b" if "image_extract pil ot bid data cx = Inr b" for data cx b
    using that by (intro own_bundleI [where mime = "image_mime (cx_mime cx) (cx_sniffed cx) data"])
      (auto simp: image_extract_def Let_def split_beta frame_simps image_segments_frame report_ocr_frame image_probe_frame)
  show "set (qr_flags (cx_quarantine cx)) \<subseteq> set (sc_flags (bn_security b))"
    if "image_extract pil ot bid data cx = Inr b" for data cx b
    using that by (auto simp: image_extract_def Let_def split_beta security_flags no_args_def)
qed

text \<open>OCR never reports success without text, and never text without success.\<close>

lemma ocr_status_text: "oc_status (run_ocr ot data mime) = ''ok'' \<longleftrightarrow> oc_text (run_ocr ot data mime) \<noteq> None"
  by (simp add: run_ocr_def ocr_outcome_def split: option.split sum.split)

lemma ocr_text_not_blank: "oc_text (run_ocr ot data mime) = Some t \<Longrightarrow> t \<noteq> []"
  by (auto simp: run_ocr_def ocr_outcome_def split: option.splits sum.splits if_splits)

end
