(* ===== verification/CsvReader.thy ===== *)
theory CsvReader
  imports Adapter
begin

section \<open>The CSV reader\<close>

text \<open>
  \<open>csv.reader\<close> on a \<open>StringIO\<close>, as \<open>CsvAdapter\<close> uses it: the state machine of the excel dialects
  (double quotes, not strict), fed line by line with an end-of-line mark after each, rows read until
  the row limit. Reading can raise \<open>csv.Error\<close>.
\<close>

datatype csv_state = StartRecord | StartField | InField | InQuoted | QuoteInQuoted | EatNewline

record csv =
  cs_state :: csv_state
  cs_field :: string
  cs_len :: int
  cs_fields :: "string list"

definition csv_start :: csv where
  "csv_start = \<lparr>cs_state = StartRecord, cs_field = [], cs_len = 0, cs_fields = []\<rparr>"

definition FIELD_LIMIT :: int where
  "FIELD_LIMIT = 131072"

definition csv_error :: "string \<Rightarrow> pyexn" where
  "csv_error m = OtherError m"

definition add_char :: "csv_state \<Rightarrow> char \<Rightarrow> csv \<Rightarrow> csv res" where
  "add_char s c m =
     (if \<not> is_cont c \<and> FIELD_LIMIT \<le> cs_len m then Inl (csv_error ''field larger than field limit (131072)'')
      else Inr (m\<lparr>cs_state := s, cs_field := cs_field m @ [c],
                  cs_len := (if is_cont c then cs_len m else cs_len m + 1)\<rparr>))"

definition save_field :: "csv_state \<Rightarrow> csv \<Rightarrow> csv" where
  "save_field s m = m\<lparr>cs_state := s, cs_field := [], cs_len := 0, cs_fields := cs_fields m @ [cs_field m]\<rparr>"

definition is_newline :: "char \<Rightarrow> bool" where
  "is_newline c \<longleftrightarrow> c = CHR 0x0A \<or> c = CHR 0x0D"

definition QUOTE :: char where
  "QUOTE = CHR 0x22"

text \<open>One character, \<open>None\<close> for the end of the line.\<close>

definition field_end :: "char option \<Rightarrow> csv_state" where
  "field_end c = (if c = None then StartRecord else EatNewline)"

definition ends_field :: "char option \<Rightarrow> bool" where
  "ends_field c = (case c of None \<Rightarrow> True | Some x \<Rightarrow> is_newline x)"

definition start_field :: "char \<Rightarrow> char option \<Rightarrow> csv \<Rightarrow> csv res" where
  "start_field delim c m =
     (if ends_field c then Inr (save_field (field_end c) m)
      else if c = Some QUOTE then Inr (m\<lparr>cs_state := InQuoted\<rparr>)
      else if c = Some delim then Inr (save_field StartField m)
      else add_char InField (the c) m)"

definition csv_step :: "char \<Rightarrow> char option \<Rightarrow> csv \<Rightarrow> csv res" where
  "csv_step delim c m =
     (case cs_state m of
        StartRecord \<Rightarrow>
          (if c = None then Inr m
           else if ends_field c then Inr (m\<lparr>cs_state := EatNewline\<rparr>)
           else start_field delim c m)
      | StartField \<Rightarrow> start_field delim c m
      | InField \<Rightarrow>
          (if ends_field c then Inr (save_field (field_end c) m)
           else if c = Some delim then Inr (save_field StartField m)
           else add_char InField (the c) m)
      | InQuoted \<Rightarrow>
          (if c = None then Inr m
           else if c = Some QUOTE then Inr (m\<lparr>cs_state := QuoteInQuoted\<rparr>)
           else add_char InQuoted (the c) m)
      | QuoteInQuoted \<Rightarrow>
          (if c = Some QUOTE then add_char InQuoted QUOTE m
           else if c = Some delim then Inr (save_field StartField m)
           else if ends_field c then Inr (save_field (field_end c) m)
           else add_char InField (the c) m)
      | EatNewline \<Rightarrow>
          (if c = None then Inr (m\<lparr>cs_state := StartRecord\<rparr>)
           else if ends_field c then Inr m
           else Inl (csv_error ''new-line character seen in unquoted field'')))"

fun csv_feed :: "char \<Rightarrow> string \<Rightarrow> csv \<Rightarrow> csv res" where
  "csv_feed delim [] m = csv_step delim None m"
| "csv_feed delim (c # cs) m = bnd (csv_step delim (Some c) m) (csv_feed delim cs)"

text \<open>The lines of a text, each with its newline.\<close>

fun lines_keep :: "string \<Rightarrow> string list" where
  "lines_keep [] = []"
| "lines_keep (c # cs) =
     (if c = CHR 0x0A then [c] # lines_keep cs
      else case lines_keep cs of [] \<Rightarrow> [[c]] | l # ls \<Rightarrow> (c # l) # ls)"

text \<open>The rows, at most \<open>left\<close> of them, and whether a further row was there.\<close>

fun csv_rows :: "char \<Rightarrow> int \<Rightarrow> csv \<Rightarrow> string list \<Rightarrow> (string list list \<times> bool) res" where
  "csv_rows delim left m [] =
     (if cs_state m = InQuoted
      then (if left \<le> 0 then Inr ([], True) else Inr ([cs_fields m @ [cs_field m]], False))
      else Inr ([], False))"
| "csv_rows delim left m (l # ls) =
     bnd (csv_feed delim l m) (\<lambda>m'.
       if cs_state m' = StartRecord then
         if left \<le> 0 then Inr ([], True)
         else bnd (csv_rows delim (left - 1) csv_start ls) (\<lambda>(rs, more_rows). Inr (cs_fields m' # rs, more_rows))
       else csv_rows delim left m' ls)"

definition csv_read :: "char \<Rightarrow> int \<Rightarrow> string \<Rightarrow> (string list list \<times> bool) res" where
  "csv_read delim limit s = csv_rows delim limit csv_start (lines_keep s)"

subsection \<open>What is read\<close>

lemma csv_rows_limit:
  "csv_rows delim left m ls = Inr (rs, t) \<Longrightarrow> int (length rs) \<le> max 0 left \<and> (t \<longrightarrow> max 0 left \<le> int (length rs))"
proof (induction delim left m ls arbitrary: rs t rule: csv_rows.induct)
  case (1 delim left m)
  then show ?case by (auto split: if_splits)
next
  case (2 delim left m l ls)
  then obtain m' where m': "csv_feed delim l m = Inr m'" by (auto simp: bnd_Inr_iff)
  show ?case
  proof (cases "cs_state m' = StartRecord")
    case False
    then show ?thesis using 2(2) [OF False] 2(3) m' by simp
  next
    case True
    show ?thesis
    proof (cases "left \<le> 0")
      case True
      then show ?thesis using 2(3) m' \<open>cs_state m' = StartRecord\<close> by auto
    next
      case False
      then obtain rs' where "csv_rows delim (left - 1) csv_start ls = Inr (rs', t)" "rs = cs_fields m' # rs'"
        using 2(3) m' True by (auto simp: bnd_Inr_iff)
      then show ?thesis using 2(1) [OF True False] False by fastforce
    qed
  qed
qed

text \<open>A written field without separators is read back as it is.\<close>

definition plain_field :: "char \<Rightarrow> string \<Rightarrow> bool" where
  "plain_field delim f \<longleftrightarrow> delim \<notin> set f \<and> QUOTE \<notin> set f \<and> \<not> list_ex is_newline f \<and> int (length f) \<le> FIELD_LIMIT"

lemma feed_in_field:
  assumes "cs_state m = InField" "delim \<notin> set f" "\<not> list_ex is_newline f" "0 \<le> cs_len m"
    and "cs_len m + int (length f) \<le> FIELD_LIMIT"
  shows "\<exists>n. 0 \<le> n \<and> csv_feed delim (f @ s) m = csv_feed delim s (m\<lparr>cs_field := cs_field m @ f, cs_len := n\<rparr>)"
  using assms
proof (induction f arbitrary: m)
  case Nil
  then show ?case by (intro exI [of _ "cs_len m"]) simp
next
  case (Cons c f)
  let ?m = "m\<lparr>cs_field := cs_field m @ [c], cs_len := (if is_cont c then cs_len m else cs_len m + 1)\<rparr>"
  have step: "csv_step delim (Some c) m = Inr ?m"
    using Cons.prems by (auto simp: csv_step_def ends_field_def add_char_def)
  have "\<exists>n. 0 \<le> n \<and> csv_feed delim (f @ s) ?m = csv_feed delim s (?m\<lparr>cs_field := cs_field ?m @ f, cs_len := n\<rparr>)"
    by (rule Cons.IH) (use Cons.prems in auto)
  then show ?case using step by auto
qed

lemma feed_field:
  assumes "cs_state m \<in> {StartField, StartRecord}" "cs_field m = []" "cs_len m = 0"
    and f: "plain_field delim f" "f \<noteq> [] \<or> cs_state m = StartField"
    and s: "s = [] \<or> hd s = delim \<or> is_newline (hd s)" "delim \<noteq> QUOTE" "\<not> is_newline delim"
  shows "\<exists>n. csv_feed delim (f @ s) m =
     csv_feed delim s (m\<lparr>cs_state := (if f = [] then StartField else InField), cs_field := f, cs_len := n\<rparr>)"
proof (cases f)
  case Nil
  then show ?thesis using assms by (intro exI [of _ 0], cases m) simp
next
  case (Cons c g)
  let ?m = "m\<lparr>cs_state := InField, cs_field := [c], cs_len := (if is_cont c then 0 else 1)\<rparr>"
  have "csv_step delim (Some c) m = Inr ?m"
    using assms Cons
    by (auto simp: csv_step_def start_field_def ends_field_def add_char_def plain_field_def FIELD_LIMIT_def)
  moreover have "\<exists>n. 0 \<le> n \<and> csv_feed delim (g @ s) ?m = csv_feed delim s (?m\<lparr>cs_field := cs_field ?m @ g, cs_len := n\<rparr>)"
    by (rule feed_in_field) (use f Cons in \<open>auto simp: plain_field_def\<close>)
  ultimately show ?thesis using Cons by auto
qed

lemma feed_row:
  assumes "cs_state m = StartField \<or> cs_state m = StartRecord \<and> fs \<noteq> [[]]" "cs_field m = []" "cs_len m = 0" "fs \<noteq> []"
    and "\<forall>f\<in>set fs. plain_field delim f" "delim \<noteq> QUOTE" "\<not> is_newline delim"
  shows "\<exists>m'. csv_feed delim (join [delim] fs @ [CHR 0x0A]) m = Inr m' \<and> cs_state m' = StartRecord \<and>
     cs_fields m' = cs_fields m @ fs"
  using assms
proof (induction fs arbitrary: m rule: induct_list012)
  case (2 f)
  obtain n where n: "csv_feed delim (f @ [CHR 0x0A]) m =
      csv_feed delim [CHR 0x0A] (m\<lparr>cs_state := (if f = [] then StartField else InField), cs_field := f, cs_len := n\<rparr>)"
    using feed_field [of m delim f "[CHR 0x0A]"] 2 by (auto simp: is_newline_def)
  then show ?case
    by (auto simp: csv_step_def start_field_def ends_field_def is_newline_def save_field_def field_end_def)
next
  case (3 f g fs)
  let ?s = "delim # join [delim] (g # fs) @ [CHR 0x0A]"
  have nd: "delim \<noteq> CHR 0x0A" "delim \<noteq> CHR 0x0D" using 3 by (auto simp: is_newline_def)
  let ?m1 = "m\<lparr>cs_state := StartField, cs_field := [], cs_len := 0, cs_fields := cs_fields m @ [f]\<rparr>"
  have first: "csv_feed delim (f @ ?s) m = csv_feed delim (join [delim] (g # fs) @ [CHR 0x0A]) ?m1"
  proof (cases "f = []")
    case True
    then show ?thesis using 3 nd
      by (auto simp: csv_step_def start_field_def ends_field_def is_newline_def save_field_def)
  next
    case False
    then obtain n where n: "csv_feed delim (f @ ?s) m =
        csv_feed delim ?s (m\<lparr>cs_state := InField, cs_field := f, cs_len := n\<rparr>)"
      using feed_field [of m delim f ?s] 3 by auto
    then show ?thesis using 3 nd
      by (simp add: csv_step_def ends_field_def is_newline_def save_field_def)
  qed
  have "\<exists>m'. csv_feed delim (join [delim] (g # fs) @ [CHR 0x0A]) ?m1 = Inr m' \<and> cs_state m' = StartRecord \<and>
     cs_fields m' = cs_fields ?m1 @ (g # fs)"
    by (rule 3(2)) (use 3 in auto)
  then show ?case using first by simp
qed simp

definition csv_line :: "char \<Rightarrow> string list \<Rightarrow> string" where
  "csv_line delim fs = join [delim] fs @ [CHR 0x0A]"

lemma lines_keep_line: "CHR 0x0A \<notin> set l \<Longrightarrow> lines_keep (l @ CHR 0x0A # s) = (l @ [CHR 0x0A]) # lines_keep s"
  by (induction l) auto

lemma set_join: "set (join sep xs) \<subseteq> set sep \<union> \<Union> (set ` set xs)"
  by (induction sep xs rule: join.induct) auto

text \<open>A table written with plain fields is read back.\<close>

lemma csv_read_roundtrip:
  assumes "\<forall>fs\<in>set rows. fs \<noteq> [] \<and> fs \<noteq> [[]] \<and> (\<forall>f\<in>set fs. plain_field delim f)"
    and "delim \<noteq> QUOTE" "\<not> is_newline delim" "int (length rows) \<le> limit"
  shows "csv_read delim limit (concat (List.map (csv_line delim) rows)) = Inr (rows, False)"
  using assms
proof (induction rows arbitrary: limit)
  case Nil
  then show ?case by (simp add: csv_read_def csv_start_def)
next
  case (Cons fs rows)
  have nl: "CHR 0x0A \<notin> set (join [delim] fs)"
    using set_join [of "[delim]" fs] Cons.prems by (fastforce simp: plain_field_def is_newline_def list_ex_iff)
  have lines: "lines_keep (concat (List.map (csv_line delim) (fs # rows))) =
      csv_line delim fs # lines_keep (concat (List.map (csv_line delim) rows))"
    using lines_keep_line [OF nl] by (simp add: csv_line_def)
  obtain m' where m': "csv_feed delim (csv_line delim fs) csv_start = Inr m'" "cs_state m' = StartRecord" "cs_fields m' = fs"
    using feed_row [of csv_start fs delim] Cons.prems by (auto simp: csv_start_def csv_line_def)
  have "csv_rows delim (limit - 1) csv_start (lines_keep (concat (List.map (csv_line delim) rows))) = Inr (rows, False)"
    using Cons.IH [of "limit - 1"] Cons.prems by (simp add: csv_read_def)
  then show ?case unfolding csv_read_def lines using m' Cons.prems by simp
qed

text \<open>A carriage return inside a line makes the reader raise.\<close>

lemma csv_read_bare_cr: "\<exists>e. csv_read (CHR '','') 10 [CHR ''a'', CHR 0x0D, CHR ''b''] = Inl e"
proof -
  have "csv_read (CHR '','') 10 [CHR ''a'', CHR 0x0D, CHR ''b''] = Inl (csv_error
    ''new-line character seen in unquoted field'')" by code_simp
  then show ?thesis by blast
qed

end
