(* ===== verification/StructuredAdapters.thy ===== *)
theory StructuredAdapters
  imports TextAdapters CsvReader
begin

section \<open>JSON, YAML, CSV and notebooks\<close>

text \<open>
  \<open>intake/adapters/structured.py\<close> and \<open>intake/adapters/notebook.py\<close>. \<open>json.loads\<close>, the rendering
  of JSON and YAML and the texts of decoding errors are parameters; a \<open>ValueError\<close> of \<open>loads\<close>
  stands for \<open>JSONDecodeError\<close>, the one the adapters catch.
\<close>

record json_lib =
  jl_loads :: "string \<Rightarrow> json res"
  jl_pretty :: "json \<Rightarrow> string"
  jl_decode_error :: "string \<Rightarrow> string"
  jl_repr :: "json \<Rightarrow> string"

record yaml_lib =
  yl_load :: "string \<Rightarrow> json res"
  yl_dump :: "json \<Rightarrow> string"

text \<open>Decode strictly, then parse: what the two \<open>except\<close> clauses catch is \<open>Inl\<close> of the inner sum.\<close>

definition parse_json :: "json_lib \<Rightarrow> string option \<Rightarrow> string \<Rightarrow> (string + json) res" where
  "parse_json jl decoded data =
     (case decoded of
        None \<Rightarrow> Inr (Inl (jl_decode_error jl data))
      | Some t \<Rightarrow> (case jl_loads jl t of
          Inr v \<Rightarrow> Inr (Inr v)
        | Inl (ValueError m) \<Rightarrow> Inr (Inl m)
        | Inl e \<Rightarrow> Inl e))"

definition finalize :: "ctx \<Rightarrow> rat \<Rightarrow> doc_bundle \<Rightarrow> doc_bundle" where
  "finalize cx confidence b = finish (ctx_security [] (cx_quarantine cx)) confidence b"

subsection \<open>JSON\<close>

definition json_supports :: "string \<Rightarrow> string option \<Rightarrow> string \<Rightarrow> bool" where
  "json_supports mime f data =
     (if ends_with (lower_name f) ''.ipynb'' then False
      else mime \<in> {''application/json'', ''text/json'', ''application/ld+json''} \<or> ends_with (lower_name f) ''.json'')"

definition json_shape :: "json \<Rightarrow> json dict" where
  "json_shape v = [(''json_root_type'', JStr (py_type v)),
     (''top_level_keys'', case v of JObj d \<Rightarrow> JArr (List.map JStr (take 50 (dict_keys d))) | _ \<Rightarrow> JNull)]"

definition json_extract :: "json_lib \<Rightarrow> string \<Rightarrow> string \<Rightarrow> ctx \<Rightarrow> doc_bundle res" where
  "json_extract jl bid data cx =
     (let b0 = start_bundle bid ''json'' ''application/json'' cx in
      bnd (parse_json jl (utf8_sig_decode data) data) (\<lambda>parsed.
        case parsed of
          Inl m \<Rightarrow> Inr (finalize cx 0 (fail ''Corrupt'' (''JSON parse failed: '' @ m) b0))
        | Inr v \<Rightarrow>
            let (body, cut) = truncate_text (jl_pretty jl v) (max_segment_chars (cx_limits cx));
                b1 = warn_if cut ''Truncated'' ''JSON text truncated'' b0;
                b2 = add_segment (seg ''json-0'' ''code'' body 0 (offsets body) 1) b1 in
            Inr (finalize cx 1 (b2\<lparr>bn_extra := Some (json_shape v)\<rparr>))))"

subsection \<open>YAML\<close>

definition yaml_supports :: "string \<Rightarrow> string option \<Rightarrow> string \<Rightarrow> bool" where
  "yaml_supports mime f data =
     (mime \<in> {''application/yaml'', ''text/yaml'', ''application/x-yaml''} \<or>
      ends_with_any (lower_name f) [''.yaml'', ''.yml''])"

definition yaml_extract :: "yaml_lib option \<Rightarrow> string \<Rightarrow> string \<Rightarrow> ctx \<Rightarrow> doc_bundle res" where
  "yaml_extract yl bid data cx =
     (let b0 = start_bundle bid ''yaml'' ''application/yaml'' cx; decoded = decode_replace (drop_bom data);
          limit = max_segment_chars (cx_limits cx) in
      case yl of
        None \<Rightarrow>
          let (body, cut) = truncate_text decoded limit;
              b1 = warn_if cut ''Truncated'' ''YAML truncated''
                     (warn ''PartialSuccess'' ''PyYAML not installed; returning raw text only'' b0) in
          Inr (finalize cx (1 / 2) (add_segment (seg ''yaml-raw'' ''text'' body 0 [] (1 / 2)) b1))
      | Some y \<Rightarrow>
          (case yl_load y decoded of
             Inl e \<Rightarrow> Inr (finalize cx 0 (fail ''Corrupt'' (''YAML parse failed: '' @ exn_str e) b0))
           | Inr v \<Rightarrow>
               let (body, cut) = truncate_text (yl_dump y v) limit;
                   b1 = warn_if cut ''Truncated'' ''YAML truncated'' b0 in
               Inr (finalize cx (95 / 100) (add_segment (seg ''yaml-0'' ''code'' body 0 (offsets body) (95 / 100)) b1))))"

subsection \<open>CSV\<close>

definition csv_supports :: "string \<Rightarrow> string option \<Rightarrow> string \<Rightarrow> bool" where
  "csv_supports mime f data =
     (mime \<in> {''text/csv'', ''text/tab-separated-values'', ''application/csv''} \<or>
      ends_with_any (lower_name f) [''.csv'', ''.tsv''])"

text \<open>Column names in bijective base 26.\<close>

function col_from :: "int \<Rightarrow> string \<Rightarrow> string" where
  "col_from n out = (if n \<le> 0 then out else col_from ((n - 1) div 26) (char_of (65 + (n - 1) mod 26) # out))"
  by pat_completeness auto
termination by (relation "measure (\<lambda>(n, out). nat n)") auto

declare col_from.simps [simp del]

definition col_letter :: "int \<Rightarrow> string" where
  "col_letter index = col_from (index + 1) []"

definition is_tsv :: "ctx \<Rightarrow> bool" where
  "is_tsv cx = (ends_with (lower_name (cx_filename cx)) ''.tsv'' \<or> ends_with (cx_mime cx) ''tab-separated-values'')"

fun enum_from :: "int \<Rightarrow> 'a list \<Rightarrow> (int \<times> 'a) list" where
  "enum_from i [] = []"
| "enum_from i (x # xs) = (i, x) # enum_from (i + 1) xs"

definition table_cells :: "string list list \<Rightarrow> (int \<times> int \<times> string) list" where
  "table_cells rows = concat (List.map (\<lambda>(ri, row).
     List.map (\<lambda>(ci, cell). (ri, ci, cell)) (enum_from 0 row)) (enum_from 0 rows))"

definition csv_cell :: "int \<Rightarrow> int \<Rightarrow> string \<Rightarrow> segment" where
  "csv_cell ri ci cell =
     seg (''c-'' @ show_int ri @ ''-'' @ show_int ci) ''cell'' cell (1 + ri * 1000 + ci)
       [(''kind'', JStr ''xlsx_cell''), (''sheet'', JStr ''csv''), (''cell'', JStr (col_letter ci @ show_int (ri + 1)))]
       (95 / 100)"

text \<open>The loop over the cells; \<open>False\<close> when the segment limit ended it.\<close>

fun add_cells :: "int \<Rightarrow> (int \<times> int \<times> string) list \<Rightarrow> doc_bundle \<Rightarrow> doc_bundle \<times> bool" where
  "add_cells limit [] b = (b, True)"
| "add_cells limit ((ri, ci, cell) # cells) b =
     (if cell = [] then add_cells limit cells b
      else let b' = add_segment (csv_cell ri ci cell) b in
        if limit \<le> int (length (bn_segments b'))
        then (warn ''ResourceLimit'' ''segment limit reached while expanding CSV cells'' b', False)
        else add_cells limit cells b')"

definition jrows :: "string list list \<Rightarrow> json" where
  "jrows rows = JArr (List.map (\<lambda>r. JArr (List.map JStr r)) rows)"

definition csv_extract :: "string \<Rightarrow> string \<Rightarrow> ctx \<Rightarrow> doc_bundle res" where
  "csv_extract bid data cx =
     (let tsv = is_tsv cx; lims = cx_limits cx;
          b0 = start_bundle bid ''csv'' (if tsv then ''text/tab-separated-values'' else ''text/csv'') cx in
      bnd (csv_read (if tsv then CHR 0x09 else CHR '','') (max_csv_rows lims) (decode_replace (drop_bom data))) (\<lambda>(rows, over).
        let b1 = warn_if over ''ResourceLimit'' (''CSV rows truncated at max_csv_rows='' @ show_int (max_csv_rows lims)) b0;
            b2 = add_structure ''tables'' (JArr [JObj [(''id'', JStr ''table-0''), (''rows'', jrows rows)]]) b1;
            (preview, cut) = truncate_text (join [CHR 0x0A] (List.map (join '','') (take 100 rows))) (max_segment_chars lims);
            b3 = warn_if cut ''Truncated'' ''CSV preview truncated'' b2;
            b4 = add_segment (seg ''csv-preview'' ''table'' preview 0
                   [(''kind'', JStr ''custom''), (''extra'', JObj [(''table_id'', JStr ''table-0'')])] (95 / 100)) b3;
            (b5, whole) = add_cells (max_segments lims) (table_cells (take 500 rows)) b4 in
        Inr (finalize cx (if whole then 95 / 100 else 90 / 100) b5)))"

subsection \<open>Notebooks\<close>

definition notebook_supports :: "string \<Rightarrow> string option \<Rightarrow> string \<Rightarrow> bool" where
  "notebook_supports mime f data =
     (ends_with (lower_name f) ''.ipynb'' \<or>
      (data \<noteq> [] \<and> hd data \<in> {CHR 0x7B, CHR 0xEF} \<and>
       contains ([CHR 0x22] @ ''cells'' @ [CHR 0x22]) (byte_slice 4096 data) \<and>
       contains ([CHR 0x22] @ ''nbformat'' @ [CHR 0x22]) (byte_slice 8192 data)))"

definition dict_or_empty :: "json \<Rightarrow> json dict" where
  "dict_or_empty v = (case v of JObj d \<Rightarrow> d | _ \<Rightarrow> [])"

definition is_code_cell :: "json \<Rightarrow> bool" where
  "is_code_cell c = (case c of JObj d \<Rightarrow> dget d ''cell_type'' = JStr ''code'' | _ \<Rightarrow> False)"

definition joined_text :: "json_lib \<Rightarrow> json \<Rightarrow> string" where
  "joined_text jl v = (case v of JArr xs \<Rightarrow> concat (List.map (py_str (jl_repr jl)) xs)
     | _ \<Rightarrow> if truthy v then py_str (jl_repr jl) v else [])"

definition dget_or :: "json dict \<Rightarrow> string \<Rightarrow> json \<Rightarrow> json" where
  "dget_or d k v = (case map_of d k of None \<Rightarrow> v | Some x \<Rightarrow> x)"

definition output_text :: "json_lib \<Rightarrow> json dict \<Rightarrow> string" where
  "output_text jl out =
     (if dget out ''output_type'' = JStr ''stream'' then strip (joined_text jl (dget_or out ''text'' (JStr [])))
      else case dget out ''data'' of
        JObj d \<Rightarrow> (case dget d ''text/plain'' of
            JArr xs \<Rightarrow> strip (joined_text jl (JArr xs))
          | JStr s \<Rightarrow> strip s
          | _ \<Rightarrow> [])
      | _ \<Rightarrow> [])"

definition cell_locator :: "int \<Rightarrow> string \<Rightarrow> json dict \<Rightarrow> json dict" where
  "cell_locator i cell_type more_keys = [(''kind'', JStr ''custom''),
     (''extra'', JObj ([(''notebook_cell'', JInt i), (''cell_type'', JStr cell_type)] @ more_keys))]"

fun add_outputs :: "json_lib \<Rightarrow> int \<Rightarrow> int \<Rightarrow> (int \<times> json) list \<Rightarrow> int \<Rightarrow> doc_bundle \<Rightarrow> doc_bundle \<times> int" where
  "add_outputs jl limit i [] order b = (b, order)"
| "add_outputs jl limit i ((oi, out) # outs) order b =
     (case out of
        JObj d \<Rightarrow>
          if output_text jl d = [] then add_outputs jl limit i outs order b
          else let (body, cut) = truncate_text (output_text jl d) limit;
                   b1 = warn_if cut ''Truncated'' (''cell '' @ show_int i @ '' output '' @ show_int oi @ '' truncated'') b;
                   b2 = add_segment (seg (''cell-'' @ show_int i @ ''-out-'' @ show_int oi) ''text'' body order
                          (cell_locator i ''output'' [(''output_index'', JInt oi)]) (80 / 100)) b1 in
               add_outputs jl limit i outs (order + 1) b2
      | _ \<Rightarrow> add_outputs jl limit i outs order b)"

definition cell_kind :: "string \<Rightarrow> string \<Rightarrow> string" where
  "cell_kind cell_type body =
     (if cell_type = ''markdown'' \<and> starts_with (lstrip body) ''#'' then ''heading''
      else if cell_type = ''code'' then ''code'' else ''text'')"

text \<open>The stripped source of a cell; an entry that is no object has none, and a cell without is skipped.\<close>

definition cell_source :: "json_lib \<Rightarrow> json \<Rightarrow> string" where
  "cell_source jl cell = (case cell of JObj d \<Rightarrow> strip (joined_text jl (dget_or d ''source'' (JStr []))) | _ \<Rightarrow> [])"

definition cell_outputs :: "json \<Rightarrow> (int \<times> json) list" where
  "cell_outputs cell = enum_from 0 (case dget (dict_or_empty cell) ''outputs'' of JArr xs \<Rightarrow> take 20 xs | _ \<Rightarrow> [])"

definition add_cell :: "json_lib \<Rightarrow> int \<Rightarrow> int \<Rightarrow> json \<Rightarrow> int \<Rightarrow> doc_bundle \<Rightarrow> doc_bundle \<times> int" where
  "add_cell jl limit i cell order b =
     (let cell_type = py_str (jl_repr jl) (jor (dget (dict_or_empty cell) ''cell_type'') (JStr ''raw''));
          (body, cut) = truncate_text (cell_source jl cell) limit;
          b1 = warn_if cut ''Truncated'' (''cell '' @ show_int i @ '' truncated'') b;
          b2 = add_segment (seg (''cell-'' @ show_int i) (cell_kind cell_type body) body order
                 (cell_locator i cell_type []) (95 / 100)) b1 in
      add_outputs jl limit i (cell_outputs cell) (order + 1) b2)"

fun add_notebook_cells ::
  "json_lib \<Rightarrow> intake_limits \<Rightarrow> (int \<times> json) list \<Rightarrow> int \<Rightarrow> doc_bundle \<Rightarrow> doc_bundle" where
  "add_notebook_cells jl lims [] order b = b"
| "add_notebook_cells jl lims ((i, cell) # cells) order b =
     (if cell_source jl cell = [] then add_notebook_cells jl lims cells order b
      else case add_cell jl (max_segment_chars lims) i cell order b of (b', order') \<Rightarrow>
        if max_segments lims \<le> order' then warn ''ResourceLimit'' ''notebook segment limit'' b'
        else add_notebook_cells jl lims cells order' b')"

definition notebook_done :: "ctx \<Rightarrow> rat \<Rightarrow> doc_bundle \<Rightarrow> doc_bundle" where
  "notebook_done cx confidence b =
     finish ((ctx_security [''notebook_not_executed''] (cx_quarantine cx))\<lparr>sa_macros := Some False, sa_scripts := Some False\<rparr>)
       confidence b"

definition notebook_extra :: "json dict \<Rightarrow> json list \<Rightarrow> json dict" where
  "notebook_extra nb cells =
     (let meta = dict_or_empty (dget nb ''metadata''); spec = dict_or_empty (dget meta ''kernelspec'') in
      [(''nbformat'', dget nb ''nbformat''), (''nbformat_minor'', dget nb ''nbformat_minor''),
       (''kernel'', jor (dget spec ''name'') (dget spec ''display_name'')),
       (''cell_count'', JInt (int (length cells))),
       (''code_cell_count'', JInt (int (length (List.filter is_code_cell cells)))), (''executed'', JBool False)])"

definition notebook_title :: "json dict \<Rightarrow> string option" where
  "notebook_title nb = (case dget (dict_or_empty (dget nb ''metadata'')) ''title'' of
     JStr (c # cs) \<Rightarrow> Some (c # cs) | _ \<Rightarrow> None)"

definition flag_code_cells :: "json list \<Rightarrow> doc_bundle \<Rightarrow> doc_bundle" where
  "flag_code_cells cells b =
     (if List.filter is_code_cell cells = [] then b
      else apply_security (no_args\<lparr>sa_flags := Some [''notebook_code_cells_not_executed'']\<rparr>) b)"

definition notebook_extract :: "json_lib \<Rightarrow> string \<Rightarrow> string \<Rightarrow> ctx \<Rightarrow> doc_bundle res" where
  "notebook_extract jl bid data cx =
     (let b0 = start_bundle bid ''notebook'' ''application/x-ipynb+json'' cx in
      bnd (parse_json jl (utf8_decode data) data) (\<lambda>parsed.
        case parsed of
          Inl m \<Rightarrow> Inr (notebook_done cx 0 (fail ''Corrupt'' (''invalid notebook JSON: '' @ m) b0))
        | Inr v \<Rightarrow>
            (case v of
               JObj nb \<Rightarrow>
                 if map_of nb ''cells'' = None
                 then Inr (notebook_done cx 0 (fail ''Corrupt'' ''JSON is not a Jupyter notebook (missing cells)'' b0))
                 else (case dget nb ''cells'' of
                     JArr cells \<Rightarrow>
                       let b1 = flag_code_cells cells b0;
                           b2 = b1\<lparr>bn_title := notebook_title nb, bn_extra := Some (notebook_extra nb cells)\<rparr>;
                           b3 = add_notebook_cells jl (cx_limits cx) (enum_from 0 cells) 0 b2 in
                       Inr (notebook_done cx (if bn_segments b3 = [] then 30 / 100 else 95 / 100) b3)
                   | _ \<Rightarrow> Inr (notebook_done cx 0 (fail ''Corrupt'' ''notebook cells must be a list'' b0)))
             | _ \<Rightarrow> Inr (notebook_done cx 0 (fail ''Corrupt'' ''JSON is not a Jupyter notebook (missing cells)'' b0)))))"

end
