(* ===== verification/MediaFiles.thy ===== *)
theory MediaFiles
  imports MediaAdapters StructuredAdapters
begin

section \<open>Audio and video\<close>

text \<open>
  \<open>intake/adapters/media.py\<close>. ffprobe is a function from the bytes to its exit code and output
  (\<open>None\<close>: missing, timed out, not startable); the transcription hook and the two Whisper packages are
  options. The suffix of the temporary file is left out.
\<close>

definition AUDIO_MIMES :: "string list" where
  "AUDIO_MIMES = [''audio/wav'', ''audio/x-wav'', ''audio/mpeg'', ''audio/mp3'', ''audio/ogg'', ''audio/flac'',
     ''audio/aac'', ''audio/mp4'', ''audio/webm'']"

definition VIDEO_MIMES :: "string list" where
  "VIDEO_MIMES = [''video/mp4'', ''video/webm'', ''video/ogg'', ''video/quicktime'', ''video/x-msvideo'', ''video/x-matroska'']"

definition AUDIO_EXTS :: "string list" where
  "AUDIO_EXTS = [''.wav'', ''.mp3'', ''.ogg'', ''.flac'', ''.aac'', ''.m4a'', ''.wma'']"

definition VIDEO_EXTS :: "string list" where
  "VIDEO_EXTS = [''.mp4'', ''.webm'', ''.ogv'', ''.mov'', ''.avi'', ''.mkv'', ''.m4v'']"

definition media_supports :: "string \<Rightarrow> string option \<Rightarrow> string \<Rightarrow> bool" where
  "media_supports mime f data =
     (mime \<in> set AUDIO_MIMES \<or> mime \<in> set VIDEO_MIMES \<or>
      starts_with mime ''audio/'' \<or> starts_with mime ''video/'' \<or>
      ends_with_any (lower_name f) (AUDIO_EXTS @ VIDEO_EXTS))"

definition media_mime :: "ctx \<Rightarrow> string \<Rightarrow> string" where
  "media_mime cx data =
     (let given = (if cx_mime cx \<noteq> [] then cx_mime cx else if cx_sniffed cx \<noteq> [] then cx_sniffed cx
                   else ''application/octet-stream''); name = lower_name (cx_filename cx) in
      if given \<in> set AUDIO_MIMES \<or> given \<in> set VIDEO_MIMES then given
      else if ends_with_any name VIDEO_EXTS then ''video/mp4''
      else if ends_with_any name AUDIO_EXTS then (if ends_with name ''.wav'' then ''audio/wav'' else ''audio/mpeg'')
      else if prefix ''RIFF'' data \<and> take 4 (drop 8 data) = ''WAVE'' then ''audio/wav''
      else ''application/octet-stream'')"

text \<open>\<open>(v or "").strip()\<close>.\<close>

definition strip_value :: "json \<Rightarrow> string res" where
  "strip_value v = (case jor v (JStr []) of
     JStr s \<Rightarrow> Inr (strip s)
   | w \<Rightarrow> Inl (AttributeError (CHR 0x27 # py_type w @ CHR 0x27 # '' object has no attribute '' @ CHR 0x27 # ''strip'' @ [CHR 0x27])))"

subsection \<open>ffprobe\<close>

record media_lib =
  ml_probe :: "string \<Rightarrow> (int \<times> string) option"
  ml_loads :: "string \<Rightarrow> json res"
  ml_repr :: "json \<Rightarrow> string"

definition safe_float :: "json \<Rightarrow> json" where
  "safe_float v = (case v of JNull \<Rightarrow> JNull | _ \<Rightarrow> (case py_float v of Inr r \<Rightarrow> JFloat r | Inl _ \<Rightarrow> JNull))"

text \<open>\<open>next((s for s in streams if s.get("codec_type") == kind), None)\<close>.\<close>

fun find_stream :: "string \<Rightarrow> json list \<Rightarrow> json res" where
  "find_stream kind [] = Inr JNull"
| "find_stream kind (s # ss) =
     bnd (jget s ''codec_type'') (\<lambda>t. if t = JStr kind then Inr s else find_stream kind ss)"

definition stream_fields :: "json dict \<Rightarrow> json dict" where
  "stream_fields s = List.map (\<lambda>k. (k, dget s k)) [''codec_name'', ''sample_rate'', ''channels'', ''width'', ''height'']"

definition probe_fields :: "json \<Rightarrow> json dict res" where
  "probe_fields payload =
     bnd (jget payload ''format'') (\<lambda>fmt0.
     bnd (jget payload ''streams'') (\<lambda>streams0.
       let fmt = jor fmt0 (JObj []) in
       bnd (jget fmt ''format_name'') (\<lambda>name.
       bnd (jget fmt ''duration'') (\<lambda>duration.
       bnd (jget fmt ''bit_rate'') (\<lambda>rate.
         let out = [(''format_name'', name), (''duration_seconds'', safe_float duration), (''bit_rate'', rate)] in
         bnd (py_iter (jor streams0 (JArr []))) (\<lambda>streams.
         bnd (find_stream ''audio'' streams) (\<lambda>audio.
         bnd (find_stream ''video'' streams) (\<lambda>video.
           case jor video audio of
             JObj s \<Rightarrow>
               let out1 = dict_update out (stream_fields s) in
               Inr (if truthy (dget out1 ''duration_seconds'') then out1
                    else AList.update ''duration_seconds'' (safe_float (dget s ''duration'')) out1)
           | _ \<Rightarrow> Inr out))))))))"

text \<open>A \<open>ValueError\<close> of \<open>loads\<close> stands for \<open>JSONDecodeError\<close>.\<close>

definition ffprobe_metadata :: "media_lib \<Rightarrow> string \<Rightarrow> json dict option res" where
  "ffprobe_metadata ml data =
     (case ml_probe ml data of
        None \<Rightarrow> Inr None
      | Some (code, out) \<Rightarrow>
          if code \<noteq> 0 \<or> strip out = [] then Inr None
          else case ml_loads ml out of
            Inl (ValueError _) \<Rightarrow> Inr None
          | Inl e \<Rightarrow> Inl e
          | Inr payload \<Rightarrow> bnd (probe_fields payload) (\<lambda>d. Inr (Some d)))"

subsection \<open>Transcription\<close>

record fast_segment =
  fs_start :: rat
  fs_end :: rat
  fs_text :: "string option"
  fs_logprob :: "rat option"

record transcriber =
  tr_hook :: "(string \<Rightarrow> string \<Rightarrow> json res) option"
  tr_fast :: "(string \<Rightarrow> fast_segment list res) option"
  tr_whisper :: "(string \<Rightarrow> json dict res) option"

definition span :: "int \<Rightarrow> int \<Rightarrow> string \<Rightarrow> rat \<Rightarrow> json" where
  "span start stop t confidence =
     JObj [(''start_ms'', JInt start), (''end_ms'', JInt stop), (''text'', JStr t), (''confidence'', JFloat confidence)]"

definition fast_span :: "fast_segment \<Rightarrow> json" where
  "fast_span s = span (trunc (fs_start s * 1000)) (trunc (fs_end s * 1000)) (strip (file_name (fs_text s)))
     (case fs_logprob s of Some p \<Rightarrow> p + 1 | None \<Rightarrow> 70 / 100)"

definition millis :: "json \<Rightarrow> int res" where
  "millis v = bnd (py_float v) (\<lambda>r. Inr (trunc (r * 1000)))"

text \<open>\<open>seg.get(k, 0)\<close>.\<close>

definition get_or_zero :: "json \<Rightarrow> string \<Rightarrow> json res" where
  "get_or_zero v k = bnd (jget v k) (\<lambda>x. Inr (case map_of (obj_of v) k of None \<Rightarrow> JInt 0 | Some _ \<Rightarrow> x))"

definition whisper_span :: "json \<Rightarrow> json res" where
  "whisper_span s =
     bnd (get_or_zero s ''start'') (\<lambda>a. bnd (millis a) (\<lambda>start.
     bnd (get_or_zero s ''end'') (\<lambda>z. bnd (millis z) (\<lambda>stop.
     bnd (jget s ''text'') (\<lambda>t. bnd (strip_value t) (\<lambda>body. Inr (span start stop body (70 / 100))))))))"

definition whole_span :: "(json \<Rightarrow> string) \<Rightarrow> json list \<Rightarrow> json \<Rightarrow> json res" where
  "whole_span repr segs t =
     bnd (if segs = [] then Inr 0 else bnd (get_or_zero (last segs) ''end'') millis) (\<lambda>stop.
       Inr (span 0 stop (strip (py_str repr t)) (60 / 100)))"

definition whisper_spans :: "(json \<Rightarrow> string) \<Rightarrow> json dict \<Rightarrow> json list res" where
  "whisper_spans repr result =
     bnd (py_iter (jor (dget result ''segments'') (JArr []))) (\<lambda>segs.
     bnd (map_res whisper_span segs) (\<lambda>spans.
       if spans = [] \<and> truthy (dget result ''text'')
       then bnd (whole_span repr segs (dget result ''text'')) (\<lambda>s. Inr [s]) else Inr spans))"

definition with_backend :: "string \<Rightarrow> doc_bundle \<Rightarrow> doc_bundle" where
  "with_backend name b = b\<lparr>bn_extra := Some (AList.update ''transcription_backend'' (JStr name) (or_else (bn_extra b) []))\<rparr>"

text \<open>Hook, faster-whisper, whisper, in this order; only missing packages pass the turn on.\<close>

definition transcribe :: "(json \<Rightarrow> string) \<Rightarrow> transcriber \<Rightarrow> string \<Rightarrow> string \<Rightarrow> doc_bundle \<Rightarrow> json list \<times> doc_bundle" where
  "transcribe repr tr data mime b =
     (case tr_hook tr of
        Some hook \<Rightarrow>
          (case bnd (hook data mime) (\<lambda>v. py_iter (jor v (JArr []))) of
             Inr spans \<Rightarrow> (spans, b)
           | Inl e \<Rightarrow> ([], warn ''PartialSuccess'' (''transcription hook failed: '' @ exn_str e) b))
      | None \<Rightarrow>
      (case tr_fast tr of
        Some run \<Rightarrow>
          (case run data of
             Inr segs \<Rightarrow> (List.map fast_span segs, with_backend ''faster-whisper'' b)
           | Inl e \<Rightarrow> ([], warn ''PartialSuccess'' (''faster-whisper failed: '' @ exn_str e) b))
      | None \<Rightarrow>
      (case tr_whisper tr of
        Some run \<Rightarrow>
          (case bnd (run data) (whisper_spans repr) of
             Inr spans \<Rightarrow> (spans, with_backend ''whisper'' b)
           | Inl e \<Rightarrow> ([], warn ''PartialSuccess'' (''whisper failed: '' @ exn_str e) b))
      | None \<Rightarrow> ([], fail ''NeedsAdapter''
          ''transcription unavailable; install intake[media] (faster-whisper or openai-whisper) for speech-to-text'' b))))"

subsection \<open>The bundle\<close>

record span_values =
  sv_text :: string
  sv_start :: int
  sv_end :: int
  sv_confidence :: rat

definition span_text :: "json \<Rightarrow> string res" where
  "span_text s = bnd (jget s ''text'') strip_value"

definition span_values_of :: "json \<Rightarrow> string \<Rightarrow> span_values res" where
  "span_values_of s t =
     bnd (jget s ''start_ms'') (\<lambda>a. bnd (py_int (jor a (JInt 0))) (\<lambda>start.
     bnd (jget s ''end_ms'') (\<lambda>z. bnd (py_int (jor z (JInt start))) (\<lambda>stop.
     bnd (jget s ''confidence'') (\<lambda>c. bnd (py_float (jor c (JFloat (70 / 100)))) (\<lambda>conf.
       Inr \<lparr>sv_text = t, sv_start = start, sv_end = stop, sv_confidence = conf\<rparr>))))))"

definition media_locator :: "json dict \<Rightarrow> json dict" where
  "media_locator extra = [(''kind'', JStr ''custom''), (''extra'', JObj extra)]"

definition transcript_entry :: "int \<Rightarrow> span_values \<Rightarrow> json" where
  "transcript_entry i v = JObj [(''id'', JStr (''tr-'' @ show_int i)), (''start_ms'', JInt (sv_start v)),
     (''end_ms'', JInt (sv_end v)), (''text'', JStr (sv_text v)), (''confidence'', JFloat (sv_confidence v))]"

definition span_segment :: "int \<Rightarrow> int \<Rightarrow> span_values \<Rightarrow> segment" where
  "span_segment i order v = seg (''tx-'' @ show_int i) ''media'' (sv_text v) order
     (media_locator [(''start_ms'', JInt (sv_start v)), (''end_ms'', JInt (sv_end v)),
       (''transcript_id'', JStr (''tr-'' @ show_int i))]) (sv_confidence v)"

definition add_span :: "int \<Rightarrow> int \<Rightarrow> span_values \<Rightarrow> doc_bundle \<Rightarrow> doc_bundle" where
  "add_span i order v b =
     add_segment (span_segment i order v) (b\<lparr>bn_transcripts := bn_transcripts b @ [transcript_entry i v]\<rparr>)"

fun add_spans :: "intake_limits \<Rightarrow> (int \<times> json) list \<Rightarrow> int \<Rightarrow> doc_bundle \<Rightarrow> doc_bundle res" where
  "add_spans l [] order b = Inr b"
| "add_spans l ((i, s) # ss) order b =
     bnd (span_text s) (\<lambda>t.
       if t = [] then add_spans l ss order b
       else
         let (body, over) = truncate_text t (max_segment_chars l);
             b1 = warn_if over ''Truncated'' (''transcript span '' @ show_int i @ '' truncated'') b in
         bnd (span_values_of s body) (\<lambda>v.
           let b2 = add_span i order v b1 in
           if max_segments l \<le> order + 1 then Inr (warn ''ResourceLimit'' ''media transcript segment limit'' b2)
           else add_spans l ss (order + 1) b2))"

text \<open>The format \<open>.3f\<close>.\<close>

definition pad3 :: "int \<Rightarrow> string" where
  "pad3 n = (if n < 10 then ''00'' else if n < 100 then ''0'' else []) @ show_int n"

definition show_fixed3 :: "rat \<Rightarrow> string" where
  "show_fixed3 r = (let n = round_even (1000 * r) in
     (if n < 0 then ''-'' else []) @ show_int (\<bar>n\<bar> div 1000) @ ''.'' @ pad3 (\<bar>n\<bar> mod 1000))"

definition labelled :: "(json \<Rightarrow> string) \<Rightarrow> string \<Rightarrow> json dict \<Rightarrow> string \<Rightarrow> string list" where
  "labelled repr label facts k = (if truthy (dget facts k) then [label @ py_str repr (dget facts k)] else [])"

definition media_bits :: "(json \<Rightarrow> string) \<Rightarrow> string \<Rightarrow> int \<Rightarrow> rat \<Rightarrow> json dict \<Rightarrow> string list" where
  "media_bits repr mime sz duration facts =
     [''mime='' @ mime, ''bytes='' @ show_int sz] @ labelled repr ''format='' facts ''format_name'' @
     (if duration = 0 then [] else [''duration_s='' @ show_fixed3 duration]) @
     labelled repr ''codec='' facts ''codec_name'' @ labelled repr ''sample_rate='' facts ''sample_rate'' @
     (if truthy (dget facts ''width'') \<and> truthy (dget facts ''height'')
      then [py_str repr (dget facts ''width'') @ ''x'' @ py_str repr (dget facts ''height'')] else [])"

definition media_done :: "ctx \<Rightarrow> rat \<Rightarrow> json dict \<Rightarrow> doc_bundle \<Rightarrow> doc_bundle" where
  "media_done cx confidence facts b =
     apply_security (no_args\<lparr>sa_actions := Some (qr_actions (cx_quarantine cx) @ [''media_not_executed'']),
         sa_flags := Some (qr_flags (cx_quarantine cx)),
         sa_limits := Some [(''max_media_duration_seconds'', JFloat (max_media_duration_seconds (cx_limits cx)))]\<rparr>)
       (b\<lparr>bn_confidence := confidence, bn_extra := Some (dict_update (or_else (bn_extra b) []) facts)\<rparr>)"

definition probe_result :: "json dict option \<Rightarrow> doc_bundle \<Rightarrow> json dict \<times> doc_bundle" where
  "probe_result found b =
     (case found of
        None \<Rightarrow> ([(''ffprobe'', JBool False)],
          warn ''PartialSuccess'' ''ffprobe not available; install FFmpeg for A/V metadata'' b)
      | Some d \<Rightarrow> (AList.update ''ffprobe'' (JBool True) d, b))"

definition media_read ::
  "media_lib \<Rightarrow> transcriber \<Rightarrow> string \<Rightarrow> string \<Rightarrow> ctx \<Rightarrow> rat \<Rightarrow> json dict \<Rightarrow> doc_bundle \<Rightarrow> doc_bundle res" where
  "media_read ml tr data mime cx duration facts b =
     (let probed = truthy (dget facts ''ffprobe'');
          b1 = add_segment (seg ''media-meta'' ''raw_meta'' (join ''; '' (media_bits (ml_repr ml) mime (cx_size cx) duration facts)) 0
                 (media_locator [(''media'', JBool True), (''start_ms'', JInt 0)]) (if probed then 90 / 100 else 40 / 100)) b;
          (spans, b2) = transcribe (ml_repr ml) tr data mime (b1\<lparr>bn_extra := Some facts\<rparr>) in
      if spans = [] then Inr (media_done cx (if probed then 55 / 100 else 30 / 100) facts b2)
      else bnd (add_spans (cx_limits cx) (enum_from 0 spans) 1 b2) (\<lambda>b3. Inr (media_done cx (85 / 100) facts b3)))"

definition media_extract :: "media_lib \<Rightarrow> transcriber \<Rightarrow> string \<Rightarrow> string \<Rightarrow> ctx \<Rightarrow> doc_bundle res" where
  "media_extract ml tr bid data cx =
     (let mime = media_mime cx data; b0 = start_bundle bid ''media'' mime cx in
      bnd (ffprobe_metadata ml data) (\<lambda>found.
        let (facts, b1) = probe_result found b0; max_dur = max_media_duration_seconds (cx_limits cx) in
        bnd (py_float (jor (dget facts ''duration_seconds'') (JInt 0))) (\<lambda>duration.
          if max_dur < duration
          then Inr (media_done cx 0 facts (fail ''ResourceLimit'' (''media duration '' @ show_fixed1 duration @
                 ''s exceeds max_media_duration_seconds='' @ ml_repr ml (JFloat max_dur)) b1))
          else media_read ml tr data mime cx duration facts b1)))"

subsection \<open>Contracts\<close>

lemma with_backend_simps [simp]:
  "frame (with_backend k b) = frame b" "segments_within n (with_backend k b) = segments_within n b"
  "bn_segments (with_backend k b) = bn_segments b"
  by (simp_all add: with_backend_def frame_simps)

lemma transcribe_frame: "frame (snd (transcribe repr tr data mime b)) = frame b"
  by (simp add: transcribe_def frame_simps split: option.split sum.split)

lemma add_span_frame [simp]: "frame (add_span i order v b) = frame b"
  by (simp add: add_span_def frame_simps)

lemma add_spans_frame: "add_spans l ss order b = Inr b' \<Longrightarrow> frame b' = frame b"
proof (induction ss arbitrary: order b)
  case (Cons x ss)
  obtain i s where x: "x = (i, s)" by (cases x)
  obtain t where t: "span_text s = Inr t" using Cons.prems x by (auto simp: bnd_Inr_iff)
  show ?case
  proof (cases "t = []")
    case True
    then show ?thesis using Cons x t by simp
  next
    case False
    obtain body over where c: "truncate_text t (max_segment_chars l) = (body, over)" by fastforce
    obtain v where v: "span_values_of s body = Inr v" using Cons.prems x t c False by (auto simp: bnd_Inr_iff)
    let ?b2 = "add_span i order v (warn_if over ''Truncated'' (''transcript span '' @ show_int i @ '' truncated'') b)"
    have "b' = warn ''ResourceLimit'' ''media transcript segment limit'' ?b2 \<or> add_spans l ss (order + 1) ?b2 = Inr b'"
      using Cons.prems x t c v False by (auto simp: Let_def split: if_splits)
    then show ?thesis using Cons.IH [of "order + 1" ?b2] by (auto simp: frame_simps)
  qed
qed simp

lemma media_done_frame: "frame (media_done cx r d b) = frame b"
  by (simp add: media_done_def frame_simps)

lemma media_done_flags: "set (qr_flags (cx_quarantine cx)) \<subseteq> set (sc_flags (bn_security (media_done cx r d b)))"
  by (simp add: media_done_def security_flags no_args_def)

lemma probe_result_frame: "frame (snd (probe_result found b)) = frame b"
  by (simp add: probe_result_def frame_simps split: option.split)

lemma media_read_done:
  assumes "media_read ml tr data mime cx duration facts b = Inr b'"
  obtains r b1 where "b' = media_done cx r facts b1" "frame b1 = frame b"
proof -
  let ?p = "truthy (dget facts ''ffprobe'')"
  let ?b1 = "add_segment (seg ''media-meta'' ''raw_meta'' (join ''; '' (media_bits (ml_repr ml) mime (cx_size cx) duration facts)) 0
                 (media_locator [(''media'', JBool True), (''start_ms'', JInt 0)]) (if ?p then 90 / 100 else 40 / 100)) b"
  obtain spans b2 where s: "transcribe (ml_repr ml) tr data mime (?b1\<lparr>bn_extra := Some facts\<rparr>) = (spans, b2)" by fastforce
  have f: "frame b2 = frame b" using transcribe_frame [of "ml_repr ml" tr data mime "?b1\<lparr>bn_extra := Some facts\<rparr>"] s
    by (simp add: frame_simps)
  show ?thesis
  proof (cases "spans = []")
    case True
    then show ?thesis using assms s f that by (auto simp: media_read_def Let_def)
  next
    case False
    then obtain b3 where "add_spans (cx_limits cx) (enum_from 0 spans) 1 b2 = Inr b3" "b' = media_done cx (85 / 100) facts b3"
      using assms s by (auto simp: media_read_def Let_def bnd_Inr_iff)
    then show ?thesis using that add_spans_frame f by metis
  qed
qed

lemma media_extract_done:
  assumes "media_extract ml tr bid data cx = Inr b"
  obtains r facts b1 where "b = media_done cx r facts b1" "frame b1 = frame (start_bundle bid ''media'' (media_mime cx data) cx)"
proof -
  let ?b0 = "start_bundle bid ''media'' (media_mime cx data) cx"
  obtain found where f: "ffprobe_metadata ml data = Inr found" using assms by (auto simp: media_extract_def Let_def bnd_Inr_iff)
  obtain facts b1 where p: "probe_result found ?b0 = (facts, b1)" by fastforce
  then have b1: "frame b1 = frame ?b0" using probe_result_frame [of found ?b0] by simp
  obtain duration where d: "py_float (jor (dget facts ''duration_seconds'') (JInt 0)) = Inr duration"
    using assms f p by (auto simp: media_extract_def Let_def bnd_Inr_iff)
  show ?thesis
  proof (cases "max_media_duration_seconds (cx_limits cx) < duration")
    case True
    then show ?thesis using assms f p d b1 that by (auto simp: media_extract_def Let_def frame_simps)
  next
    case False
    then have "media_read ml tr data (media_mime cx data) cx duration facts b1 = Inr b"
      using assms f p d by (simp add: media_extract_def Let_def)
    then show ?thesis by (rule media_read_done) (use that b1 in auto)
  qed
qed

interpretation media_ad: flagging_adapter bid "''media''" "media_extract ml tr bid" for bid ml tr
proof
  show "own_bundle bid ''media'' cx b" if "media_extract ml tr bid data cx = Inr b" for data cx b
    using that by (cases rule: media_extract_done) (auto simp: media_done_frame own_bundle_def)
  show "set (qr_flags (cx_quarantine cx)) \<subseteq> set (sc_flags (bn_security b))"
    if "media_extract ml tr bid data cx = Inr b" for data cx b
    using that media_done_flags by (cases rule: media_extract_done) metis
qed

text \<open>faster-whisper reports the mean log probability of a segment; below \<open>-1\<close> the confidence is negative.\<close>

lemma fast_confidence_can_be_negative:
  "dget (obj_of (fast_span \<lparr>fs_start = 0, fs_end = 1, fs_text = Some ''hm'', fs_logprob = Some (- 2)\<rparr>)) ''confidence''
     = JFloat (- 1)"
  by (simp add: fast_span_def span_def dget_def)

end
