(* ===== verification/OfficeAdapters.thy ===== *)
theory OfficeAdapters
  imports TextAdapters StructuredAdapters ZipFiles
begin

section \<open>PDF and Office documents\<close>

text \<open>
  \<open>intake/adapters/pdf.py\<close> and \<open>intake/adapters/office.py\<close>. The document libraries are parameters:
  \<open>None\<close> when the package is not installed, else a function that opens the bytes or raises. What the
  adapters read of an open document is a record; reading a page or a spreadsheet row can raise.
\<close>

subsection \<open>PDF\<close>

record pdf_doc =
  pd_encrypted :: bool
  pd_pages :: "string res list"
  pd_title :: "string option"

type_synonym pdf_lib = "(string \<Rightarrow> pdf_doc res) option"

definition pdf_supports :: "string \<Rightarrow> string option \<Rightarrow> string \<Rightarrow> bool" where
  "pdf_supports mime f data =
     (mime = ''application/pdf'' \<or> prefix ''%PDF'' data \<or> ends_with (lower_name f) ''.pdf'')"

definition pdf_security :: "string list \<Rightarrow> quarantine_result \<Rightarrow> sec_args" where
  "pdf_security acts q = no_args\<lparr>sa_actions := Some (qr_actions q @ acts), sa_flags := Some (qr_flags q)\<rparr>"

definition page_id :: "int \<Rightarrow> string" where
  "page_id i = ''page-'' @ show_int (i + 1)"

text \<open>One page: its text, or a warning and the empty text.\<close>

definition page_text :: "int \<Rightarrow> string res \<Rightarrow> doc_bundle \<Rightarrow> string \<times> doc_bundle" where
  "page_text i p b =
     (case p of
        Inr t \<Rightarrow> (t, b)
      | Inl e \<Rightarrow> ([], warn ''PartialSuccess'' (''page '' @ show_int (i + 1) @ '' extract failed: '' @ exn_str e) b))"

definition add_page :: "int \<Rightarrow> int \<Rightarrow> string res \<Rightarrow> doc_bundle \<Rightarrow> doc_bundle" where
  "add_page limit i p b =
     (case page_text i p b of (t, b0) \<Rightarrow>
        let (body, over) = truncate_text t limit;
            b1 = warn_if over ''Truncated'' (''page '' @ show_int (i + 1) @ '' truncated'') b0 in
        add_segment (seg (page_id i) ''text'' body i [(''kind'', JStr ''pdf_page''), (''page'', JInt (i + 1))]
          (if strip body = [] then 30 / 100 else 85 / 100)) b1)"

text \<open>The page loop; it returns the page entries of the outline too.\<close>

fun add_pages :: "intake_limits \<Rightarrow> int \<Rightarrow> string res list \<Rightarrow> doc_bundle \<Rightarrow> doc_bundle \<times> json list" where
  "add_pages l i [] b = (b, [])"
| "add_pages l i (p # ps) b =
     (let b1 = add_page (max_segment_chars l) i p b;
          entry = JObj [(''page'', JInt (i + 1)), (''segment_ids'', JArr [JStr (page_id i)])] in
      if max_segments l \<le> i + 1
      then (warn ''ResourceLimit'' ''segment limit on PDF pages'' b1, [entry])
      else (case add_pages l (i + 1) ps b1 of (b2, entries) \<Rightarrow> (b2, entry # entries)))"

definition pdf_open_error :: "pyexn \<Rightarrow> doc_bundle \<Rightarrow> doc_bundle" where
  "pdf_open_error e =
     (if contains ''password'' (lower (exn_str e)) \<or> contains ''encrypted'' (lower (exn_str e))
      then fail ''NeedsPassword'' (''PDF encrypted: '' @ exn_str e)
      else fail ''Corrupt'' (''PDF open failed: '' @ exn_str e))"

definition has_text :: "doc_bundle \<Rightarrow> bool" where
  "has_text b = list_ex (\<lambda>s. strip (sg_text s) \<noteq> []) (bn_segments b)"

definition pdf_read :: "ctx \<Rightarrow> pdf_doc \<Rightarrow> doc_bundle \<Rightarrow> doc_bundle" where
  "pdf_read cx d b =
     (let l = cx_limits cx; (b1, pages) = add_pages l 0 (pd_pages d) b;
          b2 = (case present (pd_title d) of None \<Rightarrow> b1 | Some t \<Rightarrow> b1\<lparr>bn_title := Some t\<rparr>);
          b3 = add_structure ''pages'' (JArr pages) b2;
          b4 = warn_if (\<not> has_text b3) ''PartialSuccess'' ''No extractable text (possible scan); OCR not run in core adapter'' b3 in
      finish ((pdf_security [''pdf_js_not_executed''] (cx_quarantine cx))\<lparr>sa_limits := Some [(''max_pages'', JInt (max_pages l))]\<rparr>)
        (if has_text b3 then 85 / 100 else 20 / 100) b4)"

definition pdf_extract :: "pdf_lib \<Rightarrow> string \<Rightarrow> string \<Rightarrow> ctx \<Rightarrow> doc_bundle res" where
  "pdf_extract lib bid data cx =
     (let b0 = start_bundle bid ''pdf'' ''application/pdf'' cx;
          stop = (\<lambda>f. Inr (finish (pdf_security [] (cx_quarantine cx)) 0 (f b0))) in
      if contains ''/Encrypt'' (byte_slice 200000 data)
      then Inr (apply_security (no_args\<lparr>sa_actions := Some [''noted_encrypted_pdf'']\<rparr>)
             (fail ''NeedsPassword'' ''PDF appears encrypted; password required'' b0))
      else case lib of
        None \<Rightarrow> stop (fail ''NeedsAdapter'' ''pypdf not installed; install intake extras for PDF text extraction'')
      | Some opn \<Rightarrow>
          (case opn data of
             Inl e \<Rightarrow> stop (pdf_open_error e)
           | Inr d \<Rightarrow>
               if pd_encrypted d then stop (fail ''NeedsPassword'' ''PDF is encrypted'')
               else if max_pages (cx_limits cx) < int (length (pd_pages d))
               then stop (fail ''ResourceLimit'' (''PDF has '' @ show_int (int (length (pd_pages d)))
                      @ '' pages; max_pages='' @ show_int (max_pages (cx_limits cx))))
               else Inr (pdf_read cx d b0)))"

subsection \<open>Office Open XML\<close>

definition DOCX_MIME :: string where
  "DOCX_MIME = ''application/vnd.openxmlformats-officedocument.wordprocessingml.document''"

definition PPTX_MIME :: string where
  "PPTX_MIME = ''application/vnd.openxmlformats-officedocument.presentationml.presentation''"

definition XLSX_MIME :: string where
  "XLSX_MIME = ''application/vnd.openxmlformats-officedocument.spreadsheetml.sheet''"

text \<open>The names of the parts decide; a file that is no zip is left to the library.\<close>

definition scan_name :: "string \<Rightarrow> quarantine_result \<Rightarrow> quarantine_result" where
  "scan_name name q =
     (let r = quarantine_path_name name in if qr_macros r \<or> qr_blocked r then merge_quarantine [q, r] else q)"

definition scan_ooxml_macros :: "zip_open \<Rightarrow> string \<Rightarrow> quarantine_result \<Rightarrow> quarantine_result res" where
  "scan_ooxml_macros zo data q =
     (case zo data of
        Inl e \<Rightarrow> if is_bad_zip e then Inr q else Inl e
      | Inr es \<Rightarrow> Inr (fold scan_name (zip_names es) q))"

definition office_done :: "intake_limits \<Rightarrow> quarantine_result \<Rightarrow> rat \<Rightarrow> doc_bundle \<Rightarrow> doc_bundle" where
  "office_done l q confidence b =
     finish ((ctx_security [] q)\<lparr>sa_limits := Some [(''max_sheets'', JInt (max_sheets l)), (''max_slides'', JInt (max_slides l))]\<rparr>)
       confidence b"

definition office_supports :: "string \<Rightarrow> string \<Rightarrow> string \<Rightarrow> string option \<Rightarrow> string \<Rightarrow> bool" where
  "office_supports own ext mime f data = (mime = own \<or> ends_with (lower_name f) ext)"

text \<open>Missing package, failed open, or the document: the part the three adapters share.\<close>

definition with_library ::
  "('d \<Rightarrow> 'e) \<Rightarrow> (string \<Rightarrow> 'e) \<Rightarrow> (pyexn \<Rightarrow> 'e) \<Rightarrow> (string \<Rightarrow> 'd res) option \<Rightarrow> string \<Rightarrow> string \<Rightarrow> 'e" where
  "with_library use missing broken lib what data =
     (case lib of None \<Rightarrow> missing what
      | Some opn \<Rightarrow> (case opn data of Inl e \<Rightarrow> broken e | Inr d \<Rightarrow> use d))"

definition office_missing :: "intake_limits \<Rightarrow> quarantine_result \<Rightarrow> doc_bundle \<Rightarrow> string \<Rightarrow> doc_bundle res" where
  "office_missing l q b what = Inr (office_done l q 0 (fail ''NeedsAdapter'' (what @ '' not installed; install intake extras'') b))"

definition office_broken :: "intake_limits \<Rightarrow> quarantine_result \<Rightarrow> doc_bundle \<Rightarrow> string \<Rightarrow> pyexn \<Rightarrow> doc_bundle res" where
  "office_broken l q b what e = Inr (office_done l q 0 (fail ''Corrupt'' (what @ '' open failed: '' @ exn_str e) b))"

subsection \<open>DOCX\<close>

record docx_doc =
  dx_paragraphs :: "string list"
  dx_title :: "string option"

fun add_paragraphs :: "intake_limits \<Rightarrow> (int \<times> string) list \<Rightarrow> int \<Rightarrow> doc_bundle \<Rightarrow> doc_bundle" where
  "add_paragraphs l [] order b = b"
| "add_paragraphs l ((i, para) # ps) order b =
     (if strip para = [] then add_paragraphs l ps order b
      else
        let (body, over) = truncate_text (strip para) (max_segment_chars l);
            b1 = warn_if over ''Truncated'' (''paragraph '' @ show_int i @ '' truncated'') b;
            b2 = add_segment (seg (''p-'' @ show_int i) ''text'' body order
                   [(''kind'', JStr ''docx_para''), (''paragraph_index'', JInt i)] (95 / 100)) b1 in
        if max_segments l \<le> order + 1 then warn ''ResourceLimit'' ''DOCX segment limit'' b2
        else add_paragraphs l ps (order + 1) b2)"

definition set_title :: "string option \<Rightarrow> doc_bundle \<Rightarrow> doc_bundle" where
  "set_title t b = (case present t of None \<Rightarrow> b | Some s \<Rightarrow> b\<lparr>bn_title := Some s\<rparr>)"

definition docx_extract ::
  "zip_open \<Rightarrow> (string \<Rightarrow> docx_doc res) option \<Rightarrow> string \<Rightarrow> string \<Rightarrow> ctx \<Rightarrow> doc_bundle res" where
  "docx_extract zo lib bid data cx =
     (let l = cx_limits cx; b0 = start_bundle bid ''docx'' DOCX_MIME cx in
      bnd (scan_ooxml_macros zo data (cx_quarantine cx)) (\<lambda>q.
        let b1 = warn_if (qr_macros q) ''Quarantined'' ''Macro-enabled payload detected; macros not executed'' b0 in
        with_library (\<lambda>d.
            let b2 = set_title (dx_title d) (add_paragraphs l (enum_from 0 (dx_paragraphs d)) 0 b1) in
            Inr (office_done l q (if bn_segments b2 = [] then 40 / 100 else 95 / 100) b2))
          (office_missing l q b1) (office_broken l q b1 ''DOCX'') lib ''python-docx'' data))"

subsection \<open>PPTX\<close>

text \<open>A slide is the list of its shapes' texts; \<open>None\<close> for a shape without the attribute.\<close>

definition slide_texts :: "string option list \<Rightarrow> string list" where
  "slide_texts shapes = List.filter (\<lambda>t. t \<noteq> []) (List.map (\<lambda>s. file_name s) shapes)"

definition slide_id :: "int \<Rightarrow> string" where
  "slide_id i = ''slide-'' @ show_int (i + 1)"

definition slide_entry :: "int \<Rightarrow> string \<Rightarrow> json" where
  "slide_entry i title = JObj [(''slide'', JInt (i + 1)), (''title'', JStr title), (''segment_ids'', JArr [JStr (slide_id i)])]"

definition slide_title :: "string list \<Rightarrow> string" where
  "slide_title ts = (case ts of [] \<Rightarrow> [] | t # _ \<Rightarrow> py_take 120 t)"

definition add_slide :: "intake_limits \<Rightarrow> int \<times> string option list \<Rightarrow> doc_bundle \<Rightarrow> doc_bundle" where
  "add_slide l = (\<lambda>(i, shapes) b.
     let (body, over) = truncate_text (join [CHR 0x0A] (slide_texts shapes)) (max_segment_chars l);
         b1 = warn_if over ''Truncated'' (''slide '' @ show_int (i + 1) @ '' truncated'') b in
     add_segment (seg (slide_id i) ''text'' body i [(''kind'', JStr ''pptx_slide''), (''slide'', JInt (i + 1))] (90 / 100)) b1)"

definition pptx_read :: "intake_limits \<Rightarrow> quarantine_result \<Rightarrow> string option list list \<Rightarrow> doc_bundle \<Rightarrow> doc_bundle" where
  "pptx_read l q slides b =
     (if max_slides l < int (length slides)
      then office_done l q 0 (fail ''ResourceLimit'' (''PPTX has '' @ show_int (int (length slides)) @ '' slides; max=''
             @ show_int (max_slides l)) b)
      else
        let b1 = fold (add_slide l) (enum_from 0 slides) b;
            entries = List.map (\<lambda>(i, shapes). slide_entry i (slide_title (slide_texts shapes))) (enum_from 0 slides) in
        office_done l q (if bn_segments b1 = [] then 30 / 100 else 90 / 100) (add_structure ''slides'' (JArr entries) b1))"

definition pptx_extract ::
  "zip_open \<Rightarrow> (string \<Rightarrow> string option list list res) option \<Rightarrow> string \<Rightarrow> string \<Rightarrow> ctx \<Rightarrow> doc_bundle res" where
  "pptx_extract zo lib bid data cx =
     (let l = cx_limits cx; b0 = start_bundle bid ''pptx'' PPTX_MIME cx in
      bnd (scan_ooxml_macros zo data (cx_quarantine cx)) (\<lambda>q.
        with_library (\<lambda>slides. Inr (pptx_read l q slides b0))
          (office_missing l q b0) (office_broken l q b0 ''PPTX'') lib ''python-pptx'' data))"

subsection \<open>XLSX\<close>

record xlsx_sheet =
  xs_name :: string
  xs_rows :: "string option list res list"

text \<open>\<open>structure.setdefault(k, []).append(v)\<close>.\<close>

definition append_structure :: "string \<Rightarrow> json \<Rightarrow> doc_bundle \<Rightarrow> doc_bundle" where
  "append_structure k v b = add_structure k (JArr (arr_of (dget (bn_structure b) k) @ [v])) b"

text \<open>What a sheet's loops thread: the next order, the segment ids, the rows for the preview.\<close>

record sheet_walk =
  sw_bundle :: doc_bundle
  sw_order :: int
  sw_ids :: "string list"
  sw_rows :: "string list list"

definition cell_ref :: "int \<Rightarrow> int \<Rightarrow> string" where
  "cell_ref ri ci = col_letter ci @ show_int (ri + 1)"

definition add_sheet_cell :: "(string \<Rightarrow> int \<Rightarrow> int \<Rightarrow> string) \<Rightarrow> (string \<Rightarrow> int \<Rightarrow> int \<Rightarrow> json dict) \<Rightarrow> string \<Rightarrow> int \<Rightarrow> int \<Rightarrow> string
    \<Rightarrow> sheet_walk \<Rightarrow> sheet_walk" where
  "add_sheet_cell mk_id mk_loc sheet ri ci val w =
     w\<lparr>sw_bundle := add_segment (seg (mk_id sheet ri ci) ''cell'' val (sw_order w) (mk_loc sheet ri ci) (95 / 100)) (sw_bundle w),
       sw_ids := sw_ids w @ [mk_id sheet ri ci], sw_order := sw_order w + 1\<rparr>"

fun walk_cells :: "(int \<Rightarrow> string \<Rightarrow> sheet_walk \<Rightarrow> sheet_walk) \<Rightarrow> (sheet_walk \<Rightarrow> sheet_walk) \<Rightarrow> int \<Rightarrow> (int \<times> string) list
    \<Rightarrow> sheet_walk \<Rightarrow> sheet_walk" where
  "walk_cells add full limit [] w = w"
| "walk_cells add full limit ((ci, val) # cells) w =
     (if val = [] then walk_cells add full limit cells w
      else let w' = add ci val w in
        if limit \<le> sw_order w' then full w' else walk_cells add full limit cells w')"

definition warn_walk :: "string \<Rightarrow> sheet_walk \<Rightarrow> sheet_walk" where
  "warn_walk m w = w\<lparr>sw_bundle := warn ''ResourceLimit'' m (sw_bundle w)\<rparr>"

text \<open>The rows of a sheet: the row limit warns, the segment limit just stops.\<close>

fun walk_rows :: "(int \<Rightarrow> (int \<times> string) list \<Rightarrow> sheet_walk \<Rightarrow> sheet_walk) \<Rightarrow> string \<Rightarrow> intake_limits \<Rightarrow> (int \<times> string list res) list
    \<Rightarrow> sheet_walk \<Rightarrow> sheet_walk res" where
  "walk_rows cells_of row_msg l [] w = Inr w"
| "walk_rows cells_of row_msg l ((ri, row) # rows) w =
     bnd row (\<lambda>cells.
       if max_csv_rows l \<le> ri then Inr (warn_walk row_msg w)
       else
         let w' = cells_of ri (enum_from 0 cells) (w\<lparr>sw_rows := sw_rows w @ [cells]\<rparr>) in
         if max_segments l \<le> sw_order w' then Inr w' else walk_rows cells_of row_msg l rows w')"

definition xlsx_cells :: "intake_limits \<Rightarrow> string \<Rightarrow> int \<Rightarrow> (int \<times> string) list \<Rightarrow> sheet_walk \<Rightarrow> sheet_walk" where
  "xlsx_cells l sheet ri =
     walk_cells (add_sheet_cell (\<lambda>s r c. s @ ''-'' @ cell_ref r c)
         (\<lambda>s r c. [(''kind'', JStr ''xlsx_cell''), (''sheet'', JStr s), (''cell'', JStr (cell_ref r c))]) sheet ri)
       (warn_walk ''XLSX segment limit'') (max_segments l)"

definition sheet_entry :: "string \<Rightarrow> string list \<Rightarrow> json" where
  "sheet_entry name seg_ids = JObj [(''name'', JStr name), (''segment_ids'', JArr (List.map JStr (take 50 seg_ids)))]"

definition sheet_table :: "string \<Rightarrow> json dict \<Rightarrow> string list list \<Rightarrow> json" where
  "sheet_table name loc rows = JObj [(''id'', JStr (''sheet-'' @ name)), (''caption'', JStr name),
     (''rows'', jrows (take 100 rows)), (''locator'', JObj loc)]"

definition row_texts :: "string option list res \<Rightarrow> string list res" where
  "row_texts r = bnd r (\<lambda>cells. Inr (List.map file_name cells))"

fun xlsx_sheets :: "intake_limits \<Rightarrow> xlsx_sheet list \<Rightarrow> int \<Rightarrow> doc_bundle \<Rightarrow> (doc_bundle \<times> json list) res" where
  "xlsx_sheets l [] order b = Inr (b, [])"
| "xlsx_sheets l (s # ss) order b =
     bnd (walk_rows (xlsx_cells l (xs_name s)) (''sheet '' @ xs_name s @ '' row limit reached'') l
            (enum_from 0 (List.map row_texts (xs_rows s)))
            \<lparr>sw_bundle = b, sw_order = order, sw_ids = [], sw_rows = []\<rparr>) (\<lambda>w.
       let entry = sheet_entry (xs_name s) (sw_ids w);
           b1 = (if sw_rows w = [] then sw_bundle w
                 else append_structure ''tables'' (sheet_table (xs_name s)
                        [(''kind'', JStr ''xlsx_cell''), (''sheet'', JStr (xs_name s))] (sw_rows w)) (sw_bundle w)) in
       if max_segments l \<le> sw_order w then Inr (b1, [entry])
       else bnd (xlsx_sheets l ss (sw_order w) b1) (\<lambda>(b2, entries). Inr (b2, entry # entries)))"

definition xlsx_read :: "intake_limits \<Rightarrow> quarantine_result \<Rightarrow> xlsx_sheet list \<Rightarrow> doc_bundle \<Rightarrow> doc_bundle res" where
  "xlsx_read l q sheets b =
     (if max_sheets l < int (length sheets)
      then Inr (office_done l q 0 (fail ''ResourceLimit'' (''workbook has '' @ show_int (int (length sheets)) @ '' sheets; max=''
             @ show_int (max_sheets l)) b))
      else bnd (xlsx_sheets l sheets 0 b) (\<lambda>(b1, entries).
        Inr (office_done l q (if bn_segments b1 = [] then 30 / 100 else 95 / 100) (add_structure ''sheets'' (JArr entries) b1))))"

definition xlsx_extract ::
  "zip_open \<Rightarrow> (string \<Rightarrow> xlsx_sheet list res) option \<Rightarrow> string \<Rightarrow> string \<Rightarrow> ctx \<Rightarrow> doc_bundle res" where
  "xlsx_extract zo lib bid data cx =
     (let l = cx_limits cx; b0 = start_bundle bid ''xlsx'' XLSX_MIME cx in
      bnd (scan_ooxml_macros zo data (cx_quarantine cx)) (\<lambda>q.
        with_library (\<lambda>sheets. xlsx_read l q sheets b0)
          (office_missing l q b0) (office_broken l q b0 ''XLSX'') lib ''openpyxl'' data))"

end
