(* ===== verification/StructuredCorrect.thy ===== *)
theory StructuredCorrect
  imports StructuredAdapters
begin

section \<open>Contracts of the structured adapters\<close>

text \<open>
  The interface laws for JSON, YAML, CSV and notebooks; the column names of the CSV cells are
  decoded back to the index; the segments of a notebook are numbered consecutively and bounded in
  number.
\<close>

lemma truncate_text_pair: "0 \<le> n \<Longrightarrow> truncate_text s n = (body, tail) \<Longrightarrow> int (py_len body) \<le> n"
  using truncate_text_bound [of n s] by simp

lemma finalize_simps [simp]:
  "frame (finalize cx r b) = frame b" "segments_within n (finalize cx r b) = segments_within n b"
  "bn_segments (finalize cx r b) = bn_segments b"
  "set (sc_flags (bn_security (finalize cx r b))) = set (sc_flags (bn_security b)) \<union> set (qr_flags (cx_quarantine cx))"
  by (simp_all add: finalize_def frame_simps)

subsection \<open>JSON and YAML\<close>

interpretation json_ad: bounded_adapter bid "''json''" "json_extract jl bid" for bid jl
proof
  show "own_bundle bid ''json'' cx b" if "json_extract jl bid data cx = Inr b" for data cx b
    using that unfolding json_extract_def Let_def bnd_Inr_iff
    by (intro own_bundleI [where mime = "''application/json''"], elim exE conjE)
      (auto simp: frame_simps split: prod.splits sum.splits)
  show "segments_within (max_segment_chars (cx_limits cx)) b"
    if "0 \<le> max_segment_chars (cx_limits cx)" "json_extract jl bid data cx = Inr b" for data cx b
    using that(2) unfolding json_extract_def Let_def bnd_Inr_iff
    by (elim exE conjE) (auto dest: truncate_text_pair [OF that(1)] split: prod.splits sum.splits)
qed

interpretation json_ad: flagging_adapter bid "''json''" "json_extract jl bid" for bid jl
proof
  show "set (qr_flags (cx_quarantine cx)) \<subseteq> set (sc_flags (bn_security b))" if "json_extract jl bid data cx = Inr b" for data cx b
    using that unfolding json_extract_def Let_def bnd_Inr_iff
    by (elim exE conjE) (auto split: prod.splits sum.splits)
qed

interpretation yaml_ad: bounded_adapter bid "''yaml''" "yaml_extract yl bid" for bid yl
proof
  show "own_bundle bid ''yaml'' cx b" if "yaml_extract yl bid data cx = Inr b" for data cx b
    using that by (intro own_bundleI)
      (auto simp: yaml_extract_def Let_def frame_simps split: prod.splits sum.splits option.splits)
  show "segments_within (max_segment_chars (cx_limits cx)) b"
    if "0 \<le> max_segment_chars (cx_limits cx)" "yaml_extract yl bid data cx = Inr b" for data cx b
    using that(2) by (auto simp: yaml_extract_def Let_def dest: truncate_text_pair [OF that(1)]
        split: prod.splits sum.splits option.splits)
qed

interpretation yaml_ad: flagging_adapter bid "''yaml''" "yaml_extract yl bid" for bid yl
  by unfold_locales (auto simp: yaml_extract_def Let_def split: prod.splits sum.splits option.splits)

subsection \<open>CSV\<close>

lemma add_cells_frame: "add_cells limit cells b = (b', w) \<Longrightarrow> frame b' = frame b"
  by (induction limit cells b arbitrary: b' w rule: add_cells.induct)
    (auto simp: Let_def frame_simps split: if_splits)

interpretation csv_ad: intake_adapter bid "''csv''" "csv_extract bid" for bid
proof
  show "own_bundle bid ''csv'' cx b" if "csv_extract bid data cx = Inr b" for data cx b
    using that unfolding csv_extract_def Let_def bnd_Inr_iff
    by (intro own_bundleI [where mime = "if is_tsv cx then ''text/tab-separated-values'' else ''text/csv''"], elim exE conjE)
      (auto simp: frame_simps dest!: add_cells_frame split: prod.splits)
qed

interpretation csv_ad: flagging_adapter bid "''csv''" "csv_extract bid" for bid
proof
  show "set (qr_flags (cx_quarantine cx)) \<subseteq> set (sc_flags (bn_security b))" if "csv_extract bid data cx = Inr b" for data cx b
    using that unfolding csv_extract_def Let_def bnd_Inr_iff by (elim exE conjE) (auto split: prod.splits)
qed

lemma add_cells_count:
  "add_cells limit cells b = (b', w) \<Longrightarrow> int (length (bn_segments b)) < limit \<Longrightarrow>
     int (length (bn_segments b')) \<le> limit"
  by (induction limit cells b arbitrary: b' w rule: add_cells.induct)
    (auto simp: Let_def frame_simps split: if_splits)

text \<open>The value of a column name, most significant letter first.\<close>

fun col_value :: "int \<Rightarrow> string \<Rightarrow> int" where
  "col_value acc [] = acc"
| "col_value acc (c # cs) = col_value (26 * acc + (of_char c - 64)) cs"

lemma col_value_from: "0 \<le> n \<Longrightarrow> col_value 0 (col_from n out) = col_value n out"
proof (induction n out rule: col_from.induct)
  case (1 n out)
  show ?case
  proof (cases "n \<le> 0")
    case True
    then have "n = 0" using 1(2) by simp
    then show ?thesis by (simp add: col_from.simps [of 0])
  next
    case False
    then have "0 \<le> (n - 1) mod 26" "(n - 1) mod 26 < 26" by simp_all
    then have "(of_char (char_of (65 + (n - 1) mod 26) :: char) :: int) = 65 + (n - 1) mod 26" by simp
    moreover have "26 * ((n - 1) div 26) + ((n - 1) mod 26 + 1) = n"
      using mult_div_mod_eq [of 26 "n - 1"] by simp
    ultimately show ?thesis
      using False 1 by (simp add: col_from.simps [of n])
  qed
qed

lemma col_letter_roundtrip: "0 \<le> i \<Longrightarrow> col_value 0 (col_letter i) = i + 1"
  by (simp add: col_letter_def col_value_from)

subsection \<open>Notebooks\<close>

text \<open>One output: skipped, or one segment more.\<close>

lemma add_outputs_Cons:
  "add_outputs jl limit i (x # outs) order b =
     (case snd x of
        JObj d \<Rightarrow>
          if output_text jl d = [] then add_outputs jl limit i outs order b
          else add_outputs jl limit i outs (order + 1)
            (add_segment (seg (''cell-'' @ show_int i @ ''-out-'' @ show_int (fst x)) ''text''
                (fst (truncate_text (output_text jl d) limit)) order
                (cell_locator i ''output'' [(''output_index'', JInt (fst x))]) (80 / 100))
              (warn_if (snd (truncate_text (output_text jl d) limit)) ''Truncated''
                (''cell '' @ show_int i @ '' output '' @ show_int (fst x) @ '' truncated'') b))
      | _ \<Rightarrow> add_outputs jl limit i outs order b)"
  by (cases x; cases "snd x") (simp_all add: Let_def split_beta)

lemma add_outputs_props:
  "add_outputs jl limit i outs order b = (b', order') \<Longrightarrow>
   frame b' = frame b \<and> bn_security b' = bn_security b \<and>
   (0 \<le> limit \<longrightarrow> segments_within limit b \<longrightarrow> segments_within limit b')"
proof (induction outs arbitrary: order b)
  case (Cons x outs)
  show ?case
  proof (cases "\<exists>d. snd x = JObj d \<and> output_text jl d \<noteq> []")
    case True
    then obtain d where d: "snd x = JObj d" "output_text jl d \<noteq> []" by blast
    show ?thesis
      using Cons.prems d truncate_text_bound [of limit "output_text jl d"]
      unfolding add_outputs_Cons by (auto dest!: Cons.IH simp: frame_simps security_steps)
  next
    case False
    then show ?thesis using Cons by (cases "snd x") (auto simp: add_outputs_Cons simp del: add_outputs.simps)
  qed
qed simp

definition numbered :: "doc_bundle \<Rightarrow> int \<Rightarrow> bool" where
  "numbered b order \<longleftrightarrow> List.map sg_order (bn_segments b) = List.map int [0..<length (bn_segments b)] \<and>
     order = int (length (bn_segments b))"

lemma numbered_add: "numbered b order \<Longrightarrow> numbered (add_segment (seg i k t order l c) (warn_if p w m b)) (order + 1)"
  by (simp add: numbered_def frame_simps)

lemma add_outputs_numbered:
  "add_outputs jl limit i outs order b = (b', order') \<Longrightarrow> numbered b order \<Longrightarrow>
     numbered b' order' \<and> order' \<le> order + int (length outs)"
proof (induction outs arbitrary: order b)
  case (Cons x outs)
  show ?case
  proof (cases "\<exists>d. snd x = JObj d \<and> output_text jl d \<noteq> []")
    case True
    then obtain d where d: "snd x = JObj d" "output_text jl d \<noteq> []" by blast
    show ?thesis
      using Cons.prems d unfolding add_outputs_Cons by (auto dest!: Cons.IH simp: numbered_add)
  next
    case False
    then have "add_outputs jl limit i (x # outs) order b = add_outputs jl limit i outs order b"
      by (cases "snd x") (auto simp: add_outputs_Cons simp del: add_outputs.simps)
    then show ?thesis using Cons by fastforce
  qed
qed simp

lemma length_enum_from [simp]: "length (enum_from i xs) = length xs"
  by (induction xs arbitrary: i) simp_all

lemma length_cell_outputs: "length (cell_outputs cell) \<le> 20"
  by (simp add: cell_outputs_def split: json.split)

lemma add_cell_props:
  assumes "add_cell jl limit i cell order b = (b', order')"
  shows "frame b' = frame b" "bn_security b' = bn_security b"
    "0 \<le> limit \<Longrightarrow> segments_within limit b \<Longrightarrow> segments_within limit b'"
    "numbered b order \<Longrightarrow> numbered b' order' \<and> order' \<le> order + 21"
proof -
  obtain k w m kind l b1 where
    b1: "b1 = add_segment (seg k kind (fst (truncate_text (cell_source jl cell) limit)) order l (95 / 100)) (warn_if w ''Truncated'' m b)"
    and o: "add_outputs jl limit i (cell_outputs cell) (order + 1) b1 = (b', order')"
    using assms unfolding add_cell_def Let_def split_beta by blast
  show "frame b' = frame b" "bn_security b' = bn_security b"
    using add_outputs_props [OF o] b1 by (simp_all add: frame_simps)
  show "segments_within limit b'" if "0 \<le> limit" "segments_within limit b"
    using add_outputs_props [OF o] b1 that truncate_text_bound [of limit "cell_source jl cell"] by simp
  show "numbered b' order' \<and> order' \<le> order + 21" if "numbered b order"
    using add_outputs_numbered [OF o] b1 numbered_add [OF that] length_cell_outputs [of cell] by fastforce
qed

lemma add_notebook_cells_props:
  "frame (add_notebook_cells jl lims cells order b) = frame b \<and>
   bn_security (add_notebook_cells jl lims cells order b) = bn_security b \<and>
   (0 \<le> max_segment_chars lims \<longrightarrow> segments_within (max_segment_chars lims) b \<longrightarrow>
      segments_within (max_segment_chars lims) (add_notebook_cells jl lims cells order b))"
proof (induction jl lims cells order b rule: add_notebook_cells.induct)
  case (2 jl lims i cell cells order b)
  obtain b' order' where o: "add_cell jl (max_segment_chars lims) i cell order b = (b', order')" by fastforce
  show ?case
    using 2(1) 2(2) [OF _ o [symmetric]] add_cell_props(1-3) [OF o] o by (auto simp: frame_simps)
qed simp

lemma add_notebook_cells_numbered:
  "numbered b order \<Longrightarrow> order < max_segments lims \<Longrightarrow>
     \<exists>k. numbered (add_notebook_cells jl lims cells order b) k \<and> k \<le> max_segments lims + 20"
proof (induction jl lims cells order b rule: add_notebook_cells.induct)
  case (1 jl lims order b)
  then show ?case by (intro exI [of _ order]) simp
next
  case (2 jl lims i cell cells order b)
  obtain b' order' where o: "add_cell jl (max_segment_chars lims) i cell order b = (b', order')" by fastforce
  have n: "numbered b' order'" "order' \<le> max_segments lims + 20"
    using add_cell_props(4) [OF o 2(3)] 2(4) by auto
  consider "cell_source jl cell = []" | "cell_source jl cell \<noteq> []" "max_segments lims \<le> order'"
    | "cell_source jl cell \<noteq> []" "order' < max_segments lims" by linarith
  then show ?case
  proof cases
    case 2
    then show ?thesis using n o by (intro exI [of _ order']) (simp add: numbered_def frame_simps)
  next
    case 3
    then show ?thesis using 2(2) [OF _ o [symmetric]] n o by simp
  qed (use 2 in simp)
qed

lemma notebook_done_simps [simp]:
  "frame (notebook_done cx r b) = frame b" "segments_within n (notebook_done cx r b) = segments_within n b"
  "bn_segments (notebook_done cx r b) = bn_segments b"
  "set (sc_flags (bn_security (notebook_done cx r b))) = set (sc_flags (bn_security b)) \<union> set (qr_flags (cx_quarantine cx))"
  by (simp_all add: notebook_done_def frame_simps finish_def security_flags ctx_security_def no_args_def)

lemma flag_code_cells_simps [simp]:
  "frame (flag_code_cells cells b) = frame b" "segments_within n (flag_code_cells cells b) = segments_within n b"
  "bn_segments (flag_code_cells cells b) = bn_segments b"
  by (simp_all add: flag_code_cells_def frame_simps)

text \<open>A notebook bundle is an error report without segments, or the cells of a parsed document.\<close>

lemma notebook_extract_cases:
  assumes "notebook_extract jl bid data cx = Inr b"
  obtains (corrupt) m where "b = notebook_done cx 0 (fail ''Corrupt'' m (start_bundle bid ''notebook'' ''application/x-ipynb+json'' cx))"
  | (cells) nb cells r where "parse_json jl (utf8_decode data) data = Inr (Inr (JObj nb))" "dget nb ''cells'' = JArr cells"
      "b = notebook_done cx r (add_notebook_cells jl (cx_limits cx) (enum_from 0 cells) 0
         (flag_code_cells cells (start_bundle bid ''notebook'' ''application/x-ipynb+json'' cx)
            \<lparr>bn_title := notebook_title nb, bn_extra := Some (notebook_extra nb cells)\<rparr>))"
  using assms unfolding notebook_extract_def Let_def bnd_Inr_iff
  by (elim exE conjE) (auto split: sum.splits json.splits if_splits)

interpretation notebook_ad: bounded_adapter bid "''notebook''" "notebook_extract jl bid" for bid jl
proof
  show "own_bundle bid ''notebook'' cx b" if "notebook_extract jl bid data cx = Inr b" for data cx b
    using that
    by (cases rule: notebook_extract_cases)
      (auto simp: frame_simps add_notebook_cells_props intro!: own_bundleI [where mime = "''application/x-ipynb+json''"])
  show "segments_within (max_segment_chars (cx_limits cx)) b"
    if "0 \<le> max_segment_chars (cx_limits cx)" "notebook_extract jl bid data cx = Inr b" for data cx b
    using that(2,1) by (cases rule: notebook_extract_cases) (auto simp: add_notebook_cells_props)
qed

interpretation notebook_ad: flagging_adapter bid "''notebook''" "notebook_extract jl bid" for bid jl
proof
  show "set (qr_flags (cx_quarantine cx)) \<subseteq> set (sc_flags (bn_security b))"
    if "notebook_extract jl bid data cx = Inr b" for data cx b
    using that by (cases rule: notebook_extract_cases) auto
qed

lemma notebook_numbered:
  assumes "notebook_extract jl bid data cx = Inr b" "0 < max_segments (cx_limits cx)"
  shows "List.map sg_order (bn_segments b) = List.map int [0..<length (bn_segments b)] \<and>
    int (length (bn_segments b)) \<le> max_segments (cx_limits cx) + 20"
  using assms(1)
proof (cases rule: notebook_extract_cases)
  case (corrupt m)
  then show ?thesis using assms(2) by (simp add: frame_simps)
next
  case (cells nb cells r)
  let ?b = "flag_code_cells cells (start_bundle bid ''notebook'' ''application/x-ipynb+json'' cx)
            \<lparr>bn_title := notebook_title nb, bn_extra := Some (notebook_extra nb cells)\<rparr>"
  have "numbered ?b 0" by (simp add: numbered_def frame_simps)
  then show ?thesis
    using add_notebook_cells_numbered [of ?b 0 "cx_limits cx" jl "enum_from 0 cells"] assms(2) cells(3)
    by (auto simp: numbered_def)
qed

end
