(* ===== verification/OfficeCorrect.thy ===== *)
theory OfficeCorrect
  imports OfficeAdapters StructuredCorrect
begin

section \<open>PDF and Office documents: contracts\<close>

text \<open>
  The four adapters keep the identity of their bundle. PDF, DOCX and PPTX respect the character limit
  (the cells of a spreadsheet are not cut). The OOXML adapters report every flag of the name and of the
  parts; the PDF adapter drops them when it gives up on an encrypted file.
\<close>

subsection \<open>PDF\<close>

lemma page_text_frame: "frame (snd (page_text i p b)) = frame b"
  by (simp add: page_text_def frame_simps split: sum.split)

lemma page_text_within: "segments_within n (snd (page_text i p b)) = segments_within n b"
  by (simp add: page_text_def split: sum.split)

lemma add_page_frame: "frame (add_page limit i p b) = frame b"
  by (simp add: add_page_def Let_def frame_simps split_beta page_text_frame)

lemma add_page_within:
  "0 \<le> limit \<Longrightarrow> segments_within limit b \<Longrightarrow> segments_within limit (add_page limit i p b)"
  by (simp add: add_page_def Let_def split_beta page_text_within truncate_text_bound)

lemma add_pages_frame: "frame (fst (add_pages l i ps b)) = frame b"
  by (induction l i ps b rule: add_pages.induct) (simp_all add: Let_def add_page_frame frame_simps split_beta)

lemma add_pages_within:
  "0 \<le> max_segment_chars l \<Longrightarrow> segments_within (max_segment_chars l) b \<Longrightarrow>
     segments_within (max_segment_chars l) (fst (add_pages l i ps b))"
proof (induction ps arbitrary: i b)
  case (Cons p ps)
  then have "segments_within (max_segment_chars l) (add_page (max_segment_chars l) i p b)"
    by (simp add: add_page_within)
  then show ?case using Cons by (simp add: Let_def split_beta)
qed simp

lemma pdf_read_frame: "frame (pdf_read cx d b) = frame b"
  by (simp add: pdf_read_def Let_def frame_simps split_beta add_pages_frame split: option.split)

lemma pdf_read_within:
  "0 \<le> max_segment_chars (cx_limits cx) \<Longrightarrow> segments_within (max_segment_chars (cx_limits cx)) b \<Longrightarrow>
     segments_within (max_segment_chars (cx_limits cx)) (pdf_read cx d b)"
  by (simp add: pdf_read_def Let_def split_beta add_pages_within split: option.split)

lemma pdf_open_error_simps [simp]:
  "frame (pdf_open_error e b) = frame b" "segments_within n (pdf_open_error e b) = segments_within n b"
  by (simp_all add: pdf_open_error_def frame_simps)

interpretation pdf_ad: bounded_adapter bid "''pdf''" "pdf_extract lib bid" for bid lib
proof
  show "own_bundle bid ''pdf'' cx b" if "pdf_extract lib bid data cx = Inr b" for data cx b
    using that by (intro own_bundleI [where mime = "''application/pdf''"])
      (auto simp: pdf_extract_def Let_def frame_simps pdf_read_frame split: if_splits option.splits sum.splits)
  show "segments_within (max_segment_chars (cx_limits cx)) b"
    if "0 \<le> max_segment_chars (cx_limits cx)" "pdf_extract lib bid data cx = Inr b" for data cx b
    using that(2) by (auto simp: pdf_extract_def Let_def pdf_read_within [OF that(1)]
        split: if_splits option.splits sum.splits)
qed

text \<open>The adapter never raises: whatever the library does becomes a bundle.\<close>

lemma pdf_total: "\<exists>b. pdf_extract lib bid data cx = Inr b"
  by (simp add: pdf_extract_def Let_def split: option.split sum.split)

subsection \<open>OOXML\<close>

lemma office_done_simps [simp]:
  "frame (office_done l q r b) = frame b" "segments_within n (office_done l q r b) = segments_within n b"
  "bn_segments (office_done l q r b) = bn_segments b"
  "set (sc_flags (bn_security (office_done l q r b))) = set (sc_flags (bn_security b)) \<union> set (qr_flags q)"
  by (simp_all add: office_done_def frame_simps finish_def security_flags ctx_security_def no_args_def)

lemma set_title_simps [simp]:
  "frame (set_title t b) = frame b" "segments_within n (set_title t b) = segments_within n b"
  "bn_segments (set_title t b) = bn_segments b"
  by (simp_all add: set_title_def frame_simps split: option.split)

lemma scan_names_flags: "set (qr_flags q) \<subseteq> set (qr_flags (fold scan_name names q))"
proof (induction names arbitrary: q)
  case (Cons n names)
  have "set (qr_flags q) \<subseteq> set (qr_flags (scan_name n q))" by (simp add: scan_name_def Let_def)
  then show ?case using Cons [of "scan_name n q"] by auto
qed simp

lemma scan_flags: "scan_ooxml_macros zo data q = Inr q' \<Longrightarrow> set (qr_flags q) \<subseteq> set (qr_flags q')"
  using scan_names_flags by (force simp: scan_ooxml_macros_def split: sum.splits if_splits)

text \<open>Every macro part and every executable of the package is reported.\<close>

lemma scan_finds:
  "name \<in> set names \<Longrightarrow> f \<in> set (qr_flags (quarantine_path_name name)) \<Longrightarrow>
     qr_macros (quarantine_path_name name) \<or> qr_blocked (quarantine_path_name name) \<Longrightarrow>
     f \<in> set (qr_flags (fold scan_name names q))"
proof (induction names arbitrary: q)
  case (Cons n names)
  show ?case
  proof (cases "name = n")
    case True
    then have "f \<in> set (qr_flags (scan_name n q))" using Cons.prems by (auto simp: scan_name_def Let_def)
    then show ?thesis using scan_names_flags [of "scan_name n q" names] by auto
  next
    case False
    then show ?thesis using Cons by simp
  qed
qed simp

text \<open>The frame the three adapters share: library missing, open failed, or the document read.\<close>

lemma with_library_cases:
  assumes "with_library use (office_missing l q b0) (office_broken l q b0 what) lib pkg data = Inr b"
  obtains d where "use d = Inr b"
  | m c where "b = office_done l q 0 (fail c m b0)"
  using assms by (auto simp: with_library_def office_missing_def office_broken_def split: option.splits sum.splits)

lemma add_paragraphs_frame [simp]: "frame (add_paragraphs l ps order b) = frame b"
  by (induction l ps order b rule: add_paragraphs.induct) (auto simp: Let_def frame_simps split: prod.split)

lemma add_paragraphs_within:
  "0 \<le> max_segment_chars l \<Longrightarrow> segments_within (max_segment_chars l) b \<Longrightarrow>
     segments_within (max_segment_chars l) (add_paragraphs l ps order b)"
  by (induction l ps order b rule: add_paragraphs.induct)
    (auto simp: Let_def truncate_text_pair split: prod.split)

text \<open>What the three results share: a bundle of this file, closed with the merged verdict.\<close>

definition scanned_bundle :: "zip_open \<Rightarrow> string \<Rightarrow> string \<Rightarrow> string \<Rightarrow> string \<Rightarrow> ctx \<Rightarrow> doc_bundle \<Rightarrow> bool" where
  "scanned_bundle zo bid aid mime data cx b \<longleftrightarrow>
     (\<exists>q r b1. scan_ooxml_macros zo data (cx_quarantine cx) = Inr q \<and> b = office_done (cx_limits cx) q r b1 \<and>
        frame b1 = frame (start_bundle bid aid mime cx))"

lemma scanned_bundleI:
  "scan_ooxml_macros zo data (cx_quarantine cx) = Inr q \<Longrightarrow> frame b1 = frame (start_bundle bid aid mime cx) \<Longrightarrow>
     scanned_bundle zo bid aid mime data cx (office_done (cx_limits cx) q r b1)"
  by (auto simp: scanned_bundle_def)

lemma scanned_bundleD:
  assumes "scanned_bundle zo bid aid mime data cx b"
  shows "own_bundle bid aid cx b" "set (qr_flags (cx_quarantine cx)) \<subseteq> set (sc_flags (bn_security b))"
  using assms scan_flags by (fastforce simp: scanned_bundle_def own_bundle_def)+

lemma docx_scanned:
  assumes "docx_extract zo lib bid data cx = Inr b"
  shows "scanned_bundle zo bid ''docx'' DOCX_MIME data cx b"
  using assms unfolding docx_extract_def Let_def bnd_Inr_iff
  by (elim exE conjE, elim with_library_cases) (auto intro!: scanned_bundleI simp: frame_simps)

lemma docx_within:
  assumes "docx_extract zo lib bid data cx = Inr b" "0 \<le> max_segment_chars (cx_limits cx)"
  shows "segments_within (max_segment_chars (cx_limits cx)) b"
  using assms unfolding docx_extract_def Let_def bnd_Inr_iff
  by (elim exE conjE, elim with_library_cases) (auto intro!: add_paragraphs_within)

interpretation docx_ad: bounded_adapter bid "''docx''" "docx_extract zo lib bid" for bid zo lib
  by unfold_locales (auto dest: docx_scanned scanned_bundleD intro: docx_within)

interpretation docx_ad: flagging_adapter bid "''docx''" "docx_extract zo lib bid" for bid zo lib
  by unfold_locales (blast dest: docx_scanned scanned_bundleD)

lemma add_slide_frame: "frame (add_slide l x b) = frame b"
  by (cases x) (simp add: add_slide_def Let_def frame_simps split: prod.split)

lemma add_slides_within:
  "0 \<le> max_segment_chars l \<Longrightarrow> segments_within (max_segment_chars l) b \<Longrightarrow>
     segments_within (max_segment_chars l) (fold (add_slide l) xs b)"
  by (induction xs arbitrary: b) (auto simp: add_slide_def Let_def truncate_text_pair split: prod.split)

lemma pptx_read_done:
  "\<exists>r b1. pptx_read l q slides b = office_done l q r b1 \<and> frame b1 = frame b"
proof (cases "max_slides l < int (length slides)")
  case True
  then show ?thesis
    unfolding pptx_read_def by (simp only: if_True) (intro exI conjI, rule refl, simp add: frame_simps)
next
  case False
  have "frame (fold (add_slide l) (enum_from 0 slides) b) = frame b"
    by (rule frame_fold) (rule add_slide_frame)
  then show ?thesis
    using False unfolding pptx_read_def Let_def by (simp only: if_False) (intro exI conjI, rule refl, simp add: frame_simps)
qed

lemma pptx_read_within:
  "0 \<le> max_segment_chars l \<Longrightarrow> segments_within (max_segment_chars l) b \<Longrightarrow>
     segments_within (max_segment_chars l) (pptx_read l q slides b)"
  by (simp add: pptx_read_def Let_def add_slides_within)

lemma pptx_scanned:
  assumes "pptx_extract zo lib bid data cx = Inr b"
  shows "scanned_bundle zo bid ''pptx'' PPTX_MIME data cx b"
proof -
  obtain q where q: "scan_ooxml_macros zo data (cx_quarantine cx) = Inr q"
    using assms by (auto simp: pptx_extract_def Let_def bnd_Inr_iff)
  then have "with_library (\<lambda>slides. Inr (pptx_read (cx_limits cx) q slides (start_bundle bid ''pptx'' PPTX_MIME cx)))
      (office_missing (cx_limits cx) q (start_bundle bid ''pptx'' PPTX_MIME cx))
      (office_broken (cx_limits cx) q (start_bundle bid ''pptx'' PPTX_MIME cx) ''PPTX'') lib ''python-pptx'' data = Inr b"
    using assms by (simp add: pptx_extract_def Let_def)
  then show ?thesis
  proof (cases rule: with_library_cases)
    case (1 d)
    then show ?thesis using pptx_read_done [of "cx_limits cx" q d "start_bundle bid ''pptx'' PPTX_MIME cx"] q
      by (auto intro: scanned_bundleI)
  next
    case (2 m c)
    then show ?thesis using q by (simp add: scanned_bundleI frame_simps)
  qed
qed

interpretation pptx_ad: bounded_adapter bid "''pptx''" "pptx_extract zo lib bid" for bid zo lib
proof
  show "own_bundle bid ''pptx'' cx b" if "pptx_extract zo lib bid data cx = Inr b" for data cx b
    using that by (blast dest: pptx_scanned scanned_bundleD)
  show "segments_within (max_segment_chars (cx_limits cx)) b"
    if "0 \<le> max_segment_chars (cx_limits cx)" "pptx_extract zo lib bid data cx = Inr b" for data cx b
    using that(2) unfolding pptx_extract_def Let_def bnd_Inr_iff
    by (elim exE conjE, elim with_library_cases) (auto intro!: pptx_read_within [OF that(1)])
qed

interpretation pptx_ad: flagging_adapter bid "''pptx''" "pptx_extract zo lib bid" for bid zo lib
  by unfold_locales (blast dest: pptx_scanned scanned_bundleD)

subsection \<open>Sheets\<close>

text \<open>The walk over a sheet, for any way to add a cell that keeps the bundle's identity.\<close>

lemma walk_cells_frame:
  assumes "\<And>ci v w. frame (sw_bundle (add ci v w)) = frame (sw_bundle w)"
    and "\<And>w. frame (sw_bundle (full w)) = frame (sw_bundle w)"
  shows "frame (sw_bundle (walk_cells add full limit cells w)) = frame (sw_bundle w)"
proof (induction cells arbitrary: w)
  case (Cons c cells)
  show ?case by (cases c) (simp add: Let_def assms Cons)
qed simp

lemma add_sheet_cell_frame [simp]: "frame (sw_bundle (add_sheet_cell mi ml sh ri ci v w)) = frame (sw_bundle w)"
  by (simp add: add_sheet_cell_def frame_simps)

lemma warn_walk_frame [simp]: "frame (sw_bundle (warn_walk m w)) = frame (sw_bundle w)"
  by (simp add: warn_walk_def frame_simps)

lemma xlsx_cells_frame: "frame (sw_bundle (xlsx_cells l sh ri cells w)) = frame (sw_bundle w)"
  by (simp add: xlsx_cells_def walk_cells_frame)

lemma walk_rows_frame:
  assumes "\<And>ri cells w. frame (sw_bundle (cells_of ri cells w)) = frame (sw_bundle w)"
  shows "walk_rows cells_of msg l rows w = Inr w' \<Longrightarrow> frame (sw_bundle w') = frame (sw_bundle w)"
proof (induction rows arbitrary: w)
  case (Cons r rows)
  obtain ri row where r: "r = (ri, row)" by (cases r)
  then obtain cells where c: "row = Inr cells" using Cons.prems by (cases row) simp_all
  let ?w = "cells_of ri (enum_from 0 cells) (w\<lparr>sw_rows := sw_rows w @ [cells]\<rparr>)"
  have f: "frame (sw_bundle ?w) = frame (sw_bundle w)" by (simp add: assms)
  show ?case
  proof (cases "max_csv_rows l \<le> ri \<or> max_segments l \<le> sw_order ?w")
    case True
    then have "w' = warn_walk msg w \<or> w' = ?w" using Cons.prems r c by (auto simp: Let_def split: if_splits)
    then show ?thesis using f by auto
  next
    case False
    then have "walk_rows cells_of msg l rows ?w = Inr w'" using Cons.prems r c by (simp add: Let_def)
    then show ?thesis using Cons.IH f by simp
  qed
qed simp

lemma append_structure_simps [simp]:
  "frame (append_structure k v b) = frame b" "bn_segments (append_structure k v b) = bn_segments b"
  by (simp_all add: append_structure_def frame_simps)

lemma xlsx_sheets_frame: "xlsx_sheets l ss order b = Inr (b', es) \<Longrightarrow> frame b' = frame b"
proof (induction ss arbitrary: order b es)
  case (Cons s ss)
  then obtain w where w: "walk_rows (xlsx_cells l (xs_name s)) (''sheet '' @ xs_name s @ '' row limit reached'') l
      (enum_from 0 (List.map row_texts (xs_rows s))) \<lparr>sw_bundle = b, sw_order = order, sw_ids = [], sw_rows = []\<rparr> = Inr w"
    by (auto simp: bnd_Inr_iff)
  then have "frame (sw_bundle w) = frame b" using walk_rows_frame [OF xlsx_cells_frame w] by simp
  then show ?case using Cons w by (auto simp: Let_def bnd_Inr_iff split: if_splits prod.splits)
qed simp

lemma xlsx_scanned:
  assumes "xlsx_extract zo lib bid data cx = Inr b"
  shows "scanned_bundle zo bid ''xlsx'' XLSX_MIME data cx b"
  using assms unfolding xlsx_extract_def Let_def bnd_Inr_iff
  by (elim exE conjE, elim with_library_cases)
    (auto simp: frame_simps xlsx_read_def bnd_Inr_iff xlsx_sheets_frame intro!: scanned_bundleI split: if_splits)

interpretation xlsx_ad: flagging_adapter bid "''xlsx''" "xlsx_extract zo lib bid" for bid zo lib
  by unfold_locales (blast dest: xlsx_scanned scanned_bundleD)+

end
