(* ===== verification/OdfAdapter.thy ===== *)
theory OdfAdapter
  imports OfficeCorrect
begin

section \<open>OpenDocument\<close>

text \<open>
  \<open>intake/adapters/opendocument.py\<close>: the scan of the package for macros, the extraction through
  odfpy (a parameter: \<open>None\<close> when not installed) and the fallback that reads the text nodes of
  \<open>content.xml\<close>. The XML parser is a parameter as well; its \<open>ParseError\<close> is \<open>Inl\<close> of the inner sum.
\<close>

definition ODT_MIME :: string where
  "ODT_MIME = ''application/vnd.oasis.opendocument.text''"

definition ODS_MIME :: string where
  "ODS_MIME = ''application/vnd.oasis.opendocument.spreadsheet''"

definition ODP_MIME :: string where
  "ODP_MIME = ''application/vnd.oasis.opendocument.presentation''"

subsection \<open>The package\<close>

definition odf_macro_entry :: quarantine_result where
  "odf_macro_entry = no_quarantine\<lparr>qr_macros := True, qr_actions := [''odf_macros_quarantined''], qr_flags := [''odf_macro_entry'']\<rparr>"

definition scan_odf_name :: "string \<Rightarrow> quarantine_result \<Rightarrow> quarantine_result" where
  "scan_odf_name name q =
     (let r = quarantine_path_name name;
          q1 = (if qr_macros r \<or> qr_blocked r \<or> qr_scripts r then merge_quarantine [q, r] else q) in
      if contains ''basic'' (lower name) \<or> ends_with (lower name) ''.bas'' \<or> contains ''macros'' (lower name)
      then merge_quarantine [q1, odf_macro_entry] else q1)"

definition scan_odf_package :: "zip_open \<Rightarrow> string \<Rightarrow> quarantine_result \<Rightarrow> quarantine_result res" where
  "scan_odf_package zo data q =
     (case zo data of
        Inl e \<Rightarrow> if is_bad_zip e then Inr q else Inl e
      | Inr es \<Rightarrow> Inr (fold scan_odf_name (zip_names es) q))"

definition is_odf_zip :: "zip_open \<Rightarrow> string \<Rightarrow> bool res" where
  "is_odf_zip zo data =
     (if \<not> prefix PK_HEAD data then Inr False
      else case zo data of
        Inl e \<Rightarrow> if is_bad_zip e then Inr False else Inl e
      | Inr es \<Rightarrow> Inr (''mimetype'' \<in> set (zip_names es) \<and> ''content.xml'' \<in> set (zip_names es)))"

definition read_mimetype :: "zip_open \<Rightarrow> string \<Rightarrow> string option res" where
  "read_mimetype zo data =
     (case bnd (zo data) (\<lambda>es. zip_member es ''mimetype'') of
        Inr raw \<Rightarrow> Inr (Some (strip (decode_replace raw)))
      | Inl e \<Rightarrow> if zip_caught e then Inr None else Inl e)"

subsection \<open>Text of a node\<close>

datatype odf_node = OText "string option" | ONode "odf_node list"

fun node_parts :: "odf_node \<Rightarrow> string" where
  "node_parts (OText d) = file_name d"
| "node_parts (ONode ns) = concat (List.map node_parts ns)"

text \<open>\<open>s.split()\<close>: the maximal runs without white space.\<close>

function words :: "string \<Rightarrow> string list" where
  "words s = (let r = lstrip s in
     if r = [] then [] else takeWhile (\<lambda>c. \<not> is_space c) r # words (dropWhile (\<lambda>c. \<not> is_space c) r))"
  by pat_completeness auto

lemma words_shorter: "lstrip s \<noteq> [] \<Longrightarrow> length (dropWhile (\<lambda>c. \<not> is_space c) (lstrip s)) < length s"
proof -
  assume "lstrip s \<noteq> []"
  moreover from this have "\<not> is_space (hd (lstrip s))" unfolding lstrip_def by (rule hd_dropWhile)
  ultimately have "length (dropWhile (\<lambda>c. \<not> is_space c) (lstrip s)) < length (lstrip s)"
    by (cases "lstrip s") (simp_all add: length_dropWhile_le le_imp_less_Suc)
  then show ?thesis using length_dropWhile_le [of is_space s] by (simp add: lstrip_def)
qed

termination words
  by (relation "measure length") (simp_all add: words_shorter)

declare words.simps [simp del]

definition odf_node_text :: "odf_node \<Rightarrow> string" where
  "odf_node_text n = join '' '' (words (node_parts n))"

subsection \<open>odfpy\<close>

record odf_doc =
  od_paragraphs :: "odf_node list"
  od_tables :: "(string option \<times> odf_node list list) list"
  od_pages :: "odf_node list"

type_synonym odf_lib = "(string \<Rightarrow> odf_doc res) option"

text \<open>A loop that numbers texts and stops at the segment limit.\<close>

fun add_numbered :: "(int \<Rightarrow> int \<Rightarrow> string \<Rightarrow> segment) \<Rightarrow> (int \<Rightarrow> string) \<Rightarrow> string \<Rightarrow> intake_limits \<Rightarrow> (int \<times> string) list
    \<Rightarrow> int \<Rightarrow> doc_bundle \<Rightarrow> doc_bundle" where
  "add_numbered mk msg full l [] order b = b"
| "add_numbered mk msg full l ((i, t) # ts) order b =
     (let (body, over) = truncate_text t (max_segment_chars l);
          b1 = add_segment (mk i order body) (warn_if over ''Truncated'' (msg i) b) in
      if max_segments l \<le> order + 1 then warn ''ResourceLimit'' full b1
      else add_numbered mk msg full l ts (order + 1) b1)"

definition custom_locator :: "json dict \<Rightarrow> json dict" where
  "custom_locator extra = [(''kind'', JStr ''custom''), (''extra'', JObj extra)]"

definition odt_segment :: "int \<Rightarrow> int \<Rightarrow> string \<Rightarrow> segment" where
  "odt_segment i order body =
     seg (''p-'' @ show_int i) ''text'' body order (custom_locator [(''odf'', JStr ''paragraph''), (''index'', JInt i)]) (95 / 100)"

definition odt_read :: "intake_limits \<Rightarrow> odf_node list \<Rightarrow> doc_bundle \<Rightarrow> doc_bundle" where
  "odt_read l ps b =
     add_numbered odt_segment (\<lambda>i. ''paragraph '' @ show_int i @ '' truncated'') ''ODT segment limit'' l
       (List.filter (\<lambda>(i, t). t \<noteq> []) (enum_from 0 (List.map (\<lambda>p. strip (odf_node_text p)) ps))) 0 b"

definition ods_cells :: "intake_limits \<Rightarrow> string \<Rightarrow> int \<Rightarrow> (int \<times> string) list \<Rightarrow> sheet_walk \<Rightarrow> sheet_walk" where
  "ods_cells l sheet ri =
     walk_cells (add_sheet_cell (\<lambda>s r c. s @ ''-r'' @ show_int r @ ''c'' @ show_int c)
         (\<lambda>s r c. custom_locator [(''odf'', JStr ''cell''), (''sheet'', JStr s), (''row'', JInt r), (''col'', JInt c)]) sheet ri)
       id (max_segments l)"

definition table_name :: "int \<Rightarrow> string option \<Rightarrow> string" where
  "table_name ti name = (case present name of Some n \<Rightarrow> n | None \<Rightarrow> ''Sheet'' @ show_int (ti + 1))"

definition cell_texts :: "odf_node list \<Rightarrow> string list res" where
  "cell_texts cells = Inr (List.map (\<lambda>c. strip (odf_node_text c)) cells)"

fun ods_tables :: "intake_limits \<Rightarrow> (int \<times> string option \<times> odf_node list list) list \<Rightarrow> int \<Rightarrow> doc_bundle
    \<Rightarrow> (doc_bundle \<times> json list) res" where
  "ods_tables l [] order b = Inr (b, [])"
| "ods_tables l ((ti, attr, rows) # ts) order b =
     (let name = table_name ti attr in
      bnd (walk_rows (ods_cells l name) (''sheet '' @ name @ '' row limit'') l (enum_from 0 (List.map cell_texts rows))
             \<lparr>sw_bundle = b, sw_order = order, sw_ids = [], sw_rows = []\<rparr>) (\<lambda>w.
        let entry = sheet_entry name (sw_ids w);
            b1 = (if sw_rows w = [] then sw_bundle w
                  else append_structure ''tables''
                    (sheet_table name (custom_locator [(''sheet'', JStr name)]) (sw_rows w)) (sw_bundle w)) in
        if max_segments l \<le> sw_order w then Inr (warn ''ResourceLimit'' ''ODS segment limit'' b1, [entry])
        else bnd (ods_tables l ts (sw_order w) b1) (\<lambda>(b2, entries). Inr (b2, entry # entries))))"

definition odp_slide :: "intake_limits \<Rightarrow> int \<times> odf_node \<Rightarrow> doc_bundle \<Rightarrow> doc_bundle" where
  "odp_slide l = (\<lambda>(i, page) b.
     let (body, over) = truncate_text (strip (odf_node_text page)) (max_segment_chars l);
         b1 = warn_if over ''Truncated'' (''slide '' @ show_int (i + 1) @ '' truncated'') b in
     add_segment (seg (slide_id i) ''text'' body i
       (custom_locator [(''odf'', JStr ''slide''), (''slide'', JInt (i + 1))]) (90 / 100)) b1)"

definition odp_entry :: "intake_limits \<Rightarrow> int \<times> odf_node \<Rightarrow> json" where
  "odp_entry l = (\<lambda>(i, page).
     let body = fst (truncate_text (strip (odf_node_text page)) (max_segment_chars l)) in
     slide_entry i (py_take 120 (before (CHR 0x0A) body)))"

definition odf_extra :: "string \<Rightarrow> string \<Rightarrow> doc_bundle \<Rightarrow> doc_bundle" where
  "odf_extra backend kind b = b\<lparr>bn_extra := Some [(''backend'', JStr backend), (''odf_kind'', JStr kind)]\<rparr>"

definition odfpy_done :: "string \<Rightarrow> doc_bundle \<Rightarrow> doc_bundle" where
  "odfpy_done kind b = (odf_extra ''odfpy'' kind b)\<lparr>bn_confidence := (if bn_segments b = [] then 40 / 100 else 95 / 100)\<rparr>"

definition odfpy_read :: "string \<Rightarrow> intake_limits \<Rightarrow> odf_doc \<Rightarrow> doc_bundle \<Rightarrow> doc_bundle res" where
  "odfpy_read kind l d b =
     (if kind = ''odt'' then Inr (odfpy_done kind (odt_read l (od_paragraphs d) b))
      else if kind = ''ods'' then
        bnd (ods_tables l (enum_from 0 (od_tables d)) 0 b) (\<lambda>(b1, entries).
          Inr (odfpy_done kind (add_structure ''sheets'' (JArr entries) b1)))
      else if max_slides l < int (length (od_pages d))
      then Inr (fail ''ResourceLimit'' (''ODP has '' @ show_int (int (length (od_pages d))) @ '' slides; max=''
             @ show_int (max_slides l)) b)
      else Inr (odfpy_done kind (add_structure ''slides'' (JArr (List.map (odp_entry l) (enum_from 0 (od_pages d))))
             (fold (odp_slide l) (enum_from 0 (od_pages d)) b))))"

text \<open>\<open>None\<close>: odfpy is not installed.\<close>

definition odfpy_extract :: "odf_lib \<Rightarrow> string \<Rightarrow> string \<Rightarrow> intake_limits \<Rightarrow> doc_bundle \<Rightarrow> doc_bundle option res" where
  "odfpy_extract lib data kind l b =
     (case lib of
        None \<Rightarrow> Inr None
      | Some load \<Rightarrow>
          (case load data of
             Inl e \<Rightarrow> Inr (Some (fail ''Corrupt'' (''OpenDocument open failed: '' @ exn_str e) b))
           | Inr d \<Rightarrow> bnd (odfpy_read kind l d b) (\<lambda>b'. Inr (Some b'))))"

subsection \<open>The fallback\<close>

datatype xml_elem = XElem string "string option" "(xml_elem \<times> string option) list"

fun xml_iter :: "xml_elem \<Rightarrow> xml_elem list" where
  "xml_iter (XElem t x cs) = XElem t x cs # concat (List.map (\<lambda>c. xml_iter (fst c)) cs)"

text \<open>\<open>itertext()\<close>: the text, then per child its texts and its tail; empty ones are not yielded.\<close>

definition some_text :: "string option \<Rightarrow> string list" where
  "some_text t = (case present t of None \<Rightarrow> [] | Some s \<Rightarrow> [s])"

fun itertext :: "xml_elem \<Rightarrow> string list" where
  "itertext (XElem t x cs) = some_text x @ concat (List.map (\<lambda>c. itertext (fst c) @ some_text (snd c)) cs)"

fun elem_texts :: "xml_elem \<Rightarrow> string list" where
  "elem_texts (XElem t x cs) =
     (let tag = after_last (CHR ''}'') t; own = strip (file_name x);
          bits = List.filter (\<lambda>s. s \<noteq> []) (List.map strip (itertext (XElem t x cs))) in
      if tag \<in> {''p'', ''h'', ''span''} \<and> own \<noteq> [] then [own]
      else if tag = ''table-cell'' \<and> bits \<noteq> [] then [join '' '' bits]
      else [])"

text \<open>Consecutive repetitions are dropped.\<close>

definition dedup_runs :: "string list \<Rightarrow> string list" where
  "dedup_runs ts = foldl (\<lambda>acc t. if acc = [] \<or> last acc \<noteq> t then acc @ [t] else acc) [] ts"

definition odf_texts :: "xml_elem \<Rightarrow> string list" where
  "odf_texts doc = dedup_runs (concat (List.map elem_texts (xml_iter doc)))"

definition odf_segment :: "string \<Rightarrow> int \<Rightarrow> int \<Rightarrow> string \<Rightarrow> segment" where
  "odf_segment kind i order body =
     seg (''odf-'' @ show_int i) (if kind = ''ods'' then ''cell'' else ''text'') body order
       (custom_locator [(''odf'', JStr kind), (''index'', JInt i), (''backend'', JStr ''content.xml'')]) (75 / 100)"

definition fallback_read :: "string \<Rightarrow> intake_limits \<Rightarrow> xml_elem \<Rightarrow> doc_bundle \<Rightarrow> doc_bundle" where
  "fallback_read kind l doc b =
     (let b1 = odf_extra ''content.xml'' kind (add_numbered (odf_segment kind) (\<lambda>i. ''odf text '' @ show_int i @ '' truncated'')
                 ''ODF segment limit'' l (enum_from 0 (odf_texts doc)) 0 b) in
      if bn_segments b1 = []
      then (warn ''PartialSuccess'' ''OpenDocument opened but no text nodes found; install intake extras (odfpy) for richer structure'' b1)
             \<lparr>bn_confidence := 20 / 100\<rparr>
      else warn ''PartialSuccess'' ''odfpy not installed; used content.xml fallback (install intake extras for structured ODF extract)''
             (b1\<lparr>bn_confidence := 75 / 100\<rparr>))"

definition package_error :: "pyexn \<Rightarrow> bool" where
  "package_error e = (case e of BadZipFile _ \<Rightarrow> True | KeyError _ \<Rightarrow> True | _ \<Rightarrow> False)"

definition fallback_extract ::
  "zip_open \<Rightarrow> (string \<Rightarrow> (string + xml_elem) res) \<Rightarrow> string \<Rightarrow> string \<Rightarrow> intake_limits \<Rightarrow> doc_bundle \<Rightarrow> doc_bundle res" where
  "fallback_extract zo parse data kind l b =
     (case bnd (zo data) (\<lambda>es. zip_member es ''content.xml'') of
        Inl e \<Rightarrow> if package_error e then Inr (fail ''Corrupt'' (''OpenDocument package invalid: '' @ exn_str e) b) else Inl e
      | Inr raw \<Rightarrow> bnd (parse raw) (\<lambda>r. Inr (case r of
            Inl m \<Rightarrow> fail ''Corrupt'' (''content.xml parse failed: '' @ m) b
          | Inr doc \<Rightarrow> fallback_read kind l doc b)))"

subsection \<open>The adapter\<close>

definition odf_supports :: "zip_open \<Rightarrow> string \<Rightarrow> string option \<Rightarrow> string \<Rightarrow> bool res" where
  "odf_supports zo mime f data =
     (if mime \<in> {ODT_MIME, ODS_MIME, ODP_MIME} then Inr True
      else if ends_with_any (lower_name f) [''.odt'', ''.ods'', ''.odp''] then Inr True
      else bnd (is_odf_zip zo data) (\<lambda>odf.
        if odf then bnd (read_mimetype zo data) (\<lambda>mt. Inr (starts_with (file_name mt) ODF_PREFIX)) else Inr False))"

definition odf_kind :: "string \<Rightarrow> string option \<Rightarrow> string \<times> string" where
  "odf_kind name mt =
     (if ends_with name ''.ods'' \<or> contains ''spreadsheet'' (file_name mt) \<or> mt = Some ODS_MIME then (''ods'', ODS_MIME)
      else if ends_with name ''.odp'' \<or> contains ''presentation'' (file_name mt) \<or> mt = Some ODP_MIME then (''odp'', ODP_MIME)
      else (''odt'', ODT_MIME))"

definition odf_done :: "quarantine_result \<Rightarrow> rat \<Rightarrow> doc_bundle \<Rightarrow> doc_bundle" where
  "odf_done q confidence b = finish (ctx_security [''odf_not_executed''] q) confidence b"

definition odf_contents ::
  "zip_open \<Rightarrow> odf_lib \<Rightarrow> (string \<Rightarrow> (string + xml_elem) res) \<Rightarrow> string \<Rightarrow> string \<Rightarrow> intake_limits \<Rightarrow> doc_bundle \<Rightarrow> doc_bundle res" where
  "odf_contents zo lib parse data kind l b =
     bnd (odfpy_extract lib data kind l b) (\<lambda>r.
       case r of
         Some b' \<Rightarrow> Inr b'
       | None \<Rightarrow> bnd (is_odf_zip zo data) (\<lambda>odf.
           if odf then fallback_extract zo parse data kind l b
           else Inr (fail ''NeedsAdapter'' ''OpenDocument package unreadable and odfpy not installed; install intake extras (odfpy)'' b)))"

definition odf_extract ::
  "zip_open \<Rightarrow> odf_lib \<Rightarrow> (string \<Rightarrow> (string + xml_elem) res) \<Rightarrow> string \<Rightarrow> string \<Rightarrow> ctx \<Rightarrow> doc_bundle res" where
  "odf_extract zo lib parse bid data cx =
     bnd (if prefix PK_HEAD data then read_mimetype zo data else Inr None) (\<lambda>mt.
       let (kind, mime) = odf_kind (lower_name (cx_filename cx)) mt; b0 = start_bundle bid ''opendocument'' mime cx in
       if \<not> prefix PK_HEAD data
       then Inr (odf_done (cx_quarantine cx) 0 (fail ''Corrupt'' ''OpenDocument must be a ZIP package'' b0))
       else bnd (scan_odf_package zo data (cx_quarantine cx)) (\<lambda>q.
         let b1 = warn_if (qr_macros q) ''Quarantined'' ''ODF macro/basic payload detected; not executed'' b0 in
         bnd (odf_contents zo lib parse data kind (cx_limits cx) b1) (\<lambda>b2. Inr (odf_done q (bn_confidence b2) b2))))"

subsection \<open>Contract\<close>

lemma add_numbered_frame: "frame (add_numbered mk msg full l ts order b) = frame b"
  by (induction mk msg full l ts order b rule: add_numbered.induct) (simp_all add: Let_def split_beta frame_simps)

lemma odf_extra_simps [simp]:
  "frame (odf_extra k x b) = frame b" "frame (odfpy_done x b) = frame b" "bn_security (odf_extra k x b) = bn_security b"
  by (simp_all add: odf_extra_def odfpy_done_def frame_simps)

lemma odp_slide_frame: "frame (odp_slide l x b) = frame b"
  by (cases x) (simp add: odp_slide_def Let_def split_beta frame_simps)

lemma ods_cells_frame: "frame (sw_bundle (ods_cells l sh ri cells w)) = frame (sw_bundle w)"
  by (simp add: ods_cells_def walk_cells_frame)

lemma ods_tables_frame: "ods_tables l ts order b = Inr (b', es) \<Longrightarrow> frame b' = frame b"
proof (induction ts arbitrary: order b es)
  case (Cons t ts)
  obtain ti attr rows where t: "t = (ti, attr, rows)" by (cases t)
  let ?n = "table_name ti attr"
  obtain w where w: "walk_rows (ods_cells l ?n) (''sheet '' @ ?n @ '' row limit'') l
      (enum_from 0 (List.map cell_texts rows)) \<lparr>sw_bundle = b, sw_order = order, sw_ids = [], sw_rows = []\<rparr> = Inr w"
    using Cons.prems t by (auto simp: bnd_Inr_iff Let_def)
  then have "frame (sw_bundle w) = frame b" using walk_rows_frame [OF ods_cells_frame w] by simp
  moreover obtain b1 where b1: "frame b1 = frame (sw_bundle w)"
    "b' = warn ''ResourceLimit'' ''ODS segment limit'' b1 \<or> (\<exists>es'. ods_tables l ts (sw_order w) b1 = Inr (b', es'))"
  proof
    let ?b1 = "if sw_rows w = [] then sw_bundle w else append_structure ''tables''
      (sheet_table ?n (custom_locator [(''sheet'', JStr ?n)]) (sw_rows w)) (sw_bundle w)"
    show "frame ?b1 = frame (sw_bundle w)" by simp
    show "b' = warn ''ResourceLimit'' ''ODS segment limit'' ?b1 \<or> (\<exists>es'. ods_tables l ts (sw_order w) ?b1 = Inr (b', es'))"
      using Cons.prems t w
      by (cases "max_segments l \<le> sw_order w"; cases "ods_tables l ts (sw_order w) ?b1") (auto simp: Let_def)
  qed
  ultimately show ?case using Cons.IH by (auto simp: frame_simps)
qed simp

lemma odfpy_read_frame: "odfpy_read kind l d b = Inr b' \<Longrightarrow> frame b' = frame b"
  by (auto simp: odfpy_read_def odt_read_def bnd_Inr_iff frame_simps add_numbered_frame ods_tables_frame
      frame_fold odp_slide_frame split: if_splits)

lemma fallback_read_frame: "frame (fallback_read kind l doc b) = frame b"
  by (simp add: fallback_read_def Let_def frame_simps add_numbered_frame)

lemma odfpy_extract_frame: "odfpy_extract lib data kind l b = Inr (Some b') \<Longrightarrow> frame b' = frame b"
  unfolding odfpy_extract_def
  by (cases lib) (auto simp: bnd_Inr_iff frame_simps dest: odfpy_read_frame split: sum.splits)

lemma fallback_extract_frame:
  assumes "fallback_extract zo parse data kind l b = Inr b'"
  shows "frame b' = frame b"
proof (cases "bnd (zo data) (\<lambda>es. zip_member es ''content.xml'')")
  case (Inl e)
  then show ?thesis using assms by (auto simp: fallback_extract_def frame_simps split: if_splits)
next
  case (Inr raw)
  then obtain r where "parse raw = Inr r" using assms by (auto simp: fallback_extract_def bnd_Inr_iff)
  then show ?thesis
    using assms Inr by (cases r) (auto simp: fallback_extract_def frame_simps fallback_read_frame)
qed

lemma odf_contents_frame:
  assumes "odf_contents zo lib parse data kind l b = Inr b'"
  shows "frame b' = frame b"
proof -
  obtain r where r: "odfpy_extract lib data kind l b = Inr r" using assms by (auto simp: odf_contents_def bnd_Inr_iff)
  show ?thesis
  proof (cases r)
    case (Some x)
    then show ?thesis using assms r odfpy_extract_frame by (simp add: odf_contents_def)
  next
    case None
    then obtain odf where odf: "is_odf_zip zo data = Inr odf" using assms r by (auto simp: odf_contents_def bnd_Inr_iff)
    show ?thesis
    proof (cases odf)
      case True
      then have "fallback_extract zo parse data kind l b = Inr b'" using assms r None odf by (simp add: odf_contents_def)
      then show ?thesis by (rule fallback_extract_frame)
    next
      case False
      then show ?thesis using assms r None odf by (auto simp: odf_contents_def frame_simps)
    qed
  qed
qed

lemma scan_odf_flags: "scan_odf_package zo data q = Inr q' \<Longrightarrow> set (qr_flags q) \<subseteq> set (qr_flags q')"
proof -
  have "set (qr_flags q) \<subseteq> set (qr_flags (fold scan_odf_name names q))" for names
  proof (induction names arbitrary: q)
    case (Cons n names)
    have "set (qr_flags q) \<subseteq> set (qr_flags (scan_odf_name n q))" by (auto simp: scan_odf_name_def Let_def)
    then show ?case using Cons [of "scan_odf_name n q"] by auto
  qed simp
  then show "scan_odf_package zo data q = Inr q' \<Longrightarrow> set (qr_flags q) \<subseteq> set (qr_flags q')"
    by (force simp: scan_odf_package_def split: sum.splits if_splits)
qed

lemma odf_extract_cases:
  assumes "odf_extract zo lib parse bid data cx = Inr b"
  obtains q b2 mime r where "b = odf_done q r b2" "frame b2 = frame (start_bundle bid ''opendocument'' mime cx)"
    "set (qr_flags (cx_quarantine cx)) \<subseteq> set (qr_flags q)"
proof -
  obtain mt where mt: "(if prefix PK_HEAD data then read_mimetype zo data else Inr None) = Inr mt"
    using assms by (auto simp: odf_extract_def bnd_Inr_iff)
  obtain kind mime where k: "odf_kind (lower_name (cx_filename cx)) mt = (kind, mime)" by fastforce
  let ?b0 = "start_bundle bid ''opendocument'' mime cx"
  show ?thesis
  proof (cases "prefix PK_HEAD data")
    case False
    then show ?thesis using assms mt k that [of "cx_quarantine cx" 0 "fail ''Corrupt'' ''OpenDocument must be a ZIP package'' ?b0" mime]
      by (simp add: odf_extract_def frame_simps)
  next
    case True
    then obtain q b2 where "scan_odf_package zo data (cx_quarantine cx) = Inr q"
      "odf_contents zo lib parse data kind (cx_limits cx)
         (warn_if (qr_macros q) ''Quarantined'' ''ODF macro/basic payload detected; not executed'' ?b0) = Inr b2"
      "b = odf_done q (bn_confidence b2) b2"
      using assms mt k by (auto simp: odf_extract_def bnd_Inr_iff Let_def)
    then show ?thesis using that [of q "bn_confidence b2" b2 mime] odf_contents_frame scan_odf_flags
      by (metis frame_steps(4))
  qed
qed

interpretation odf_ad: flagging_adapter bid "''opendocument''" "odf_extract zo lib parse bid" for bid zo lib parse
proof
  show "own_bundle bid ''opendocument'' cx b" if "odf_extract zo lib parse bid data cx = Inr b" for data cx b
    using that by (cases rule: odf_extract_cases) (auto simp: odf_done_def own_bundle_def frame_simps)
  show "set (qr_flags (cx_quarantine cx)) \<subseteq> set (sc_flags (bn_security b))"
    if "odf_extract zo lib parse bid data cx = Inr b" for data cx b
    using that by (cases rule: odf_extract_cases) (auto simp: odf_done_def)
qed

end
