(* ===== verification/Identity.thy ===== *)
theory Identity
  imports OdfAdapter
begin

section \<open>File identity\<close>

text \<open>
  \<open>intake/identity.py\<close>: the content hash and the media type sniffed from the first bytes, then from
  the name. SHA-256 (its hex digest), \<open>mimetypes.guess_type\<close> and \<open>zipfile\<close> are parameters. The slices
  of the decoded sample the code takes are longer than the sample, so they are left out.
\<close>

record file_identity =
  fi_hash :: string
  fi_size :: int
  fi_mime :: string
  fi_ext :: "string option"

definition file_hash :: "(string \<Rightarrow> string) \<Rightarrow> string \<Rightarrow> string" where
  "file_hash sha data = ''sha256:'' @ sha data"

text \<open>Sound and video; a signature without a fitting name falls through.\<close>

definition mpeg_frame :: "string \<Rightarrow> bool" where
  "mpeg_frame data = (prefix ''ID3'' data \<or>
     (case data of c # d # _ \<Rightarrow> byte c = 0xFF \<and> 0xE0 \<le> byte d | _ \<Rightarrow> False))"

definition sniff_media :: "string \<Rightarrow> string \<Rightarrow> string option" where
  "sniff_media data name =
     (if prefix ''RIFF'' data \<and> take 4 (drop 8 data) = ''WAVE'' then Some ''audio/wav''
      else if prefix ''RIFF'' data \<and> take 4 (drop 8 data) = ''WEBP'' then Some ''image/webp''
      else if prefix ''OggS'' data then Some (if ends_with_any name [''.ogv'', ''.ogm''] then ''video/ogg'' else ''audio/ogg'')
      else if mpeg_frame data \<and> ends_with_any name [''.mp3'', ''.mp2''] then Some ''audio/mpeg''
      else if (prefix ''ftyp'' data \<or> take 4 (drop 4 data) = ''ftyp'') \<and> ends_with_any name [''.mp4'', ''.m4v'', ''.mov'', ''.m4a'']
      then Some (if ends_with name ''.m4a'' then ''audio/mp4'' else ''video/mp4'')
      else None)"

definition zip_mime :: "zip_open \<Rightarrow> string \<Rightarrow> string" where
  "zip_mime zo data =
     (case bnd (zo data) (\<lambda>es. if ''mimetype'' \<in> set (zip_names es) then zip_member es ''mimetype'' else Inr []) of
        Inl _ \<Rightarrow> ''application/zip''
      | Inr raw \<Rightarrow>
          let mt = strip (decode_replace raw) in if starts_with mt ODF_PREFIX then mt else ''application/zip'')"

definition sniff_zip :: "zip_open \<Rightarrow> string \<Rightarrow> string \<Rightarrow> string" where
  "sniff_zip zo data name =
     (if ends_with name ''.docx'' then DOCX_MIME else if ends_with name ''.pptx'' then PPTX_MIME
      else if ends_with name ''.xlsx'' then XLSX_MIME else if ends_with name ''.odt'' then ODT_MIME
      else if ends_with name ''.ods'' then ODS_MIME else if ends_with name ''.odp'' then ODP_MIME
      else zip_mime zo data)"

definition sniff_markup :: "string \<Rightarrow> string option" where
  "sniff_markup data =
     (if prefix [CHR 0x89, CHR ''P'', CHR ''N'', CHR ''G'', CHR 0x0D, CHR 0x0A, CHR 0x1A, CHR 0x0A] data then Some ''image/png''
      else if prefix [CHR 0xFF, CHR 0xD8, CHR 0xFF] data then Some ''image/jpeg''
      else if prefix ''GIF87a'' data \<or> prefix ''GIF89a'' data then Some ''image/gif''
      else if prefix ''BM'' data then Some ''image/bmp''
      else if prefix ''<!DOCTYPE html'' data \<or> prefix ''<html'' data \<or> prefix ''<HTML'' data then Some ''text/html''
      else None)"

definition guess_or :: "(string \<Rightarrow> string option) \<Rightarrow> string option \<Rightarrow> string \<Rightarrow> string" where
  "guess_or guess f d =
     (case Option.bind (present f) (\<lambda>n. present (guess n)) of Some m \<Rightarrow> m | None \<Rightarrow> d)"

definition sniff_text :: "(string \<Rightarrow> string option) \<Rightarrow> string \<Rightarrow> string option \<Rightarrow> string" where
  "sniff_text guess t f =
     (let name = lower_name f; body = lstrip t in
      if ends_with name ''.ipynb'' \<or> contains ([CHR 0x22] @ ''cells'' @ [CHR 0x22]) t \<and> contains ([CHR 0x22] @ ''nbformat'' @ [CHR 0x22]) t
      then ''application/x-ipynb+json''
      else if prefix ''{'' body \<or> prefix ''['' body then ''application/json''
      else if ends_with_any name [''.yaml'', ''.yml''] then ''application/yaml''
      else if ends_with name ''.csv'' then ''text/csv''
      else if ends_with name ''.tsv'' then ''text/tab-separated-values''
      else if ends_with_any name [''.md'', ''.markdown''] then ''text/markdown''
      else if contains ''<html'' (lower body) \<or> contains ''<!doctype html'' (lower body) then ''text/html''
      else guess_or guess f ''text/plain'')"

definition sniff_mime :: "zip_open \<Rightarrow> (string \<Rightarrow> string option) \<Rightarrow> string \<Rightarrow> string option \<Rightarrow> string" where
  "sniff_mime zo guess data f =
     (if prefix ''%PDF'' data then ''application/pdf''
      else case sniff_media data (lower_name f) of Some m \<Rightarrow> m
      | None \<Rightarrow> if prefix PK_HEAD data then sniff_zip zo data (lower_name f)
      else case sniff_markup data of Some m \<Rightarrow> m
      | None \<Rightarrow> (case utf8_decode (drop_bom (byte_slice 2048 data)) of
          None \<Rightarrow> guess_or guess f ''application/octet-stream''
        | Some t \<Rightarrow> sniff_text guess t f))"

definition ext_guess :: "string option \<Rightarrow> string option" where
  "ext_guess f = (case f of
     Some n \<Rightarrow> if CHR ''.'' \<in> set n then Some (''.'' @ lower (after_last (CHR ''.'') n)) else None
   | None \<Rightarrow> None)"

definition identify :: "(string \<Rightarrow> string) \<Rightarrow> zip_open \<Rightarrow> (string \<Rightarrow> string option) \<Rightarrow> string \<Rightarrow> string option \<Rightarrow> file_identity" where
  "identify sha zo guess data f =
     \<lparr>fi_hash = file_hash sha data, fi_size = int (length data), fi_mime = sniff_mime zo guess data f,
      fi_ext = ext_guess f\<rparr>"

subsection \<open>What sniffing can return\<close>

text \<open>A media type is never empty: every rule names one, and a guess is used only when there is one.\<close>

lemma present_Some: "present x = Some s \<longleftrightarrow> x = Some s \<and> s \<noteq> []"
  by (auto simp: present_def split: option.split list.split)

lemma guess_or_nonempty: "d \<noteq> [] \<Longrightarrow> guess_or guess f d \<noteq> []"
  by (auto simp: guess_or_def present_Some bind_eq_Some_conv split: option.split)

lemma sniff_text_nonempty: "sniff_text guess t f \<noteq> []"
  using guess_or_nonempty [of "''text/plain''" guess f] by (simp add: sniff_text_def Let_def)

lemma zip_mime_nonempty: "zip_mime zo data \<noteq> []"
  by (auto simp: zip_mime_def starts_with_def ODF_PREFIX_def Let_def split: sum.split)

lemma sniff_zip_nonempty: "sniff_zip zo data name \<noteq> []"
  using zip_mime_nonempty
  by (simp add: sniff_zip_def DOCX_MIME_def PPTX_MIME_def XLSX_MIME_def ODT_MIME_def ODS_MIME_def ODP_MIME_def)

lemma sniff_some_nonempty: "sniff_media data name = Some m \<Longrightarrow> m \<noteq> []" "sniff_markup data = Some m \<Longrightarrow> m \<noteq> []"
  by (simp only: sniff_media_def split: if_splits; clarsimp split: if_splits; fail)
    (simp only: sniff_markup_def split: if_splits; clarsimp; fail)

lemma sniff_mime_nonempty: "sniff_mime zo guess data f \<noteq> []"
  unfolding sniff_mime_def
  by (simp add: sniff_text_nonempty sniff_zip_nonempty guess_or_nonempty split: option.split)
    (blast dest: sniff_some_nonempty)

text \<open>The sample is cut after 2048 bytes, wherever that is: a longer UTF-8 text with a character across
  the cut is taken for binary data.\<close>

lemma utf8_valid_ascii_prefix: "utf8_valid (replicate n (CHR ''a'') @ s) = utf8_valid s"
proof (induction n)
  case (Suc n)
  have "utf8_step (CHR ''a'') (replicate n (CHR ''a'') @ s) = (Some [CHR ''a''], replicate n (CHR ''a'') @ s)"
    by (simp add: utf8_step_def tails_def Let_def byte_def)
  then show ?case using Suc by simp
qed simp

definition split_sample :: string where
  "split_sample = replicate 2047 (CHR ''a'') @ [CHR 0xC3, CHR 0xA9]"

lemma text_cut_inside_a_character:
  "utf8_valid split_sample" "sniff_mime zo guess split_sample None = ''application/octet-stream''"
proof -
  show "utf8_valid split_sample" unfolding split_sample_def utf8_valid_ascii_prefix by code_simp
  have s: "split_sample = CHR ''a'' # CHR ''a'' # CHR ''a'' # CHR ''a'' # CHR ''a'' # CHR ''a'' # CHR ''a'' # CHR ''a'' # CHR ''a'' #
      CHR ''a'' # CHR ''a'' # CHR ''a'' # CHR ''a'' # CHR ''a'' # replicate 2033 (CHR ''a'') @ [CHR 0xC3, CHR 0xA9]"
    by (simp add: split_sample_def numeral_eq_Suc)
  have b: "byte_slice 2048 split_sample = replicate 2047 (CHR ''a'') @ [CHR 0xC3]"
    by (simp add: byte_slice_def split_sample_def)
  then have "\<not> utf8_valid (drop_bom (byte_slice 2048 split_sample))"
  proof -
    have "\<not> prefix BOM (replicate 2047 (CHR ''a'') @ [CHR 0xC3])"
      by (simp add: BOM_def numeral_eq_Suc)
    moreover have "\<not> utf8_valid [CHR 0xC3]" by code_simp
    ultimately show ?thesis by (simp add: b drop_bom_def utf8_valid_ascii_prefix)
  qed
  moreover have "sniff_media split_sample [] = None" "\<not> prefix ''%PDF'' split_sample" "\<not> prefix PK_HEAD split_sample"
    "sniff_markup split_sample = None"
    unfolding s by (simp_all add: sniff_media_def mpeg_frame_def byte_def PK_HEAD_def sniff_markup_def)
  ultimately show "sniff_mime zo guess split_sample None = ''application/octet-stream''"
    by (simp add: sniff_mime_def utf8_decode_def lower_name_def file_name_def lower_def guess_or_def present_def)
qed

end
