(* ===== verification/IntakePipeline.thy ===== *)
theory IntakePipeline
  imports ArchiveAdapter HtmlAdapter MediaFiles Identity
begin

section \<open>The intake pipeline\<close>

text \<open>
  \<open>intake/registry.py\<close>, \<open>intake/schema_validate.py\<close> and \<open>intake/pipeline.py\<close>: the registry with its
  catch-all adapter, the choice of an adapter, and the two entry points. The packages the adapters load
  and the library functions they call are one record of parameters.
\<close>

record tools =
  tl_sha :: "string \<Rightarrow> string"
  tl_guess :: "string \<Rightarrow> string option"
  tl_repr :: "json \<Rightarrow> string"
  tl_json :: json_lib
  tl_yaml :: "yaml_lib option"
  tl_html :: "string \<Rightarrow> html_event list res"
  tl_pdf :: pdf_lib
  tl_zip :: zip_open
  tl_tar :: tar_lib
  tl_docx :: "(string \<Rightarrow> docx_doc res) option"
  tl_pptx :: "(string \<Rightarrow> string option list list res) option"
  tl_xlsx :: "(string \<Rightarrow> xlsx_sheet list res) option"
  tl_odf :: odf_lib
  tl_xml :: "string \<Rightarrow> (string + xml_elem) res"
  tl_pil :: "(string \<Rightarrow> pil_image) option"
  tl_ocr :: ocr_tools
  tl_media :: media_lib
  tl_transcribe :: transcriber
  tl_schema :: "doc_bundle \<Rightarrow> (string list \<times> string) list"

subsection \<open>The catch-all adapter\<close>

definition is_printable :: "char \<Rightarrow> bool" where
  "is_printable c \<longleftrightarrow> (32 \<le> byte c \<and> byte c < 127) \<or> byte c \<in> {9, 10, 13}"

text \<open>The printable runs of at least four bytes, the current one in \<open>buf\<close>.\<close>

fun printable_runs :: "string \<Rightarrow> string \<Rightarrow> string list" where
  "printable_runs buf [] = (if 4 \<le> length buf then [buf] else [])"
| "printable_runs buf (c # cs) =
     (if is_printable c then printable_runs (buf @ [c]) cs
      else (if 4 \<le> length buf then [buf] else []) @ printable_runs [] cs)"

definition unknown_supports :: "string \<Rightarrow> string option \<Rightarrow> string \<Rightarrow> bool" where
  "unknown_supports mime f data = True"

definition unknown_extract :: "string \<Rightarrow> string \<Rightarrow> ctx \<Rightarrow> doc_bundle res" where
  "unknown_extract bid data cx =
     (let b0 = start_bundle bid ''unknown_binary'' (if cx_mime cx = [] then ''application/octet-stream'' else cx_mime cx) cx;
          strings = join [CHR 0x0A] (take 200 (printable_runs [] (byte_slice 64000 data)));
          b1 = (if strip strings \<noteq> []
                then (warn ''NeedsAdapter'' ''Unknown binary: metadata/printable strings only; install adapter pack''
                       (add_segment (seg ''strings-0'' ''raw_meta'' (fst (truncate_text strings 8000)) 0 [] (20 / 100)) b0))
                       \<lparr>bn_confidence := 20 / 100\<rparr>
                else (fail ''NeedsAdapter'' ''No semantic extract available for this file type'' b0)\<lparr>bn_confidence := 0\<rparr>) in
      Inr (apply_security (no_args\<lparr>sa_actions := Some (qr_actions (cx_quarantine cx) @ [''binary_not_executed'']),
             sa_flags := Some (qr_flags (cx_quarantine cx))\<rparr>) b1))"

subsection \<open>The registry\<close>

definition pure_adapter ::
  "string \<Rightarrow> (string \<Rightarrow> string option \<Rightarrow> string \<Rightarrow> bool) \<Rightarrow> (string \<Rightarrow> ctx \<Rightarrow> doc_bundle res) \<Rightarrow> adapter" where
  "pure_adapter aid supp run = \<lparr>ad_id = aid, ad_supports = (\<lambda>m f d. Inr (supp m f d)), ad_extract = run\<rparr>"

definition unknown_adapter :: "string \<Rightarrow> adapter" where
  "unknown_adapter bid = pure_adapter ''unknown_binary'' unknown_supports (unknown_extract bid)"

definition ADAPTERS :: "tools \<Rightarrow> string \<Rightarrow> adapter list" where
  "ADAPTERS tls bid =
     [pure_adapter ''markdown'' markdown_supports (markdown_extract bid),
      pure_adapter ''html'' html_supports (html_extract (tl_html tls) bid),
      pure_adapter ''notebook'' notebook_supports (notebook_extract (tl_json tls) bid),
      pure_adapter ''json'' json_supports (json_extract (tl_json tls) bid),
      pure_adapter ''yaml'' yaml_supports (yaml_extract (tl_yaml tls) bid),
      pure_adapter ''csv'' csv_supports (csv_extract bid),
      pure_adapter ''pdf'' pdf_supports (pdf_extract (tl_pdf tls) bid),
      pure_adapter ''docx'' (office_supports DOCX_MIME ''.docx'') (docx_extract (tl_zip tls) (tl_docx tls) bid),
      pure_adapter ''pptx'' (office_supports PPTX_MIME ''.pptx'') (pptx_extract (tl_zip tls) (tl_pptx tls) bid),
      pure_adapter ''xlsx'' (office_supports XLSX_MIME ''.xlsx'') (xlsx_extract (tl_zip tls) (tl_xlsx tls) bid),
      \<lparr>ad_id = ''opendocument'', ad_supports = odf_supports (tl_zip tls),
       ad_extract = odf_extract (tl_zip tls) (tl_odf tls) (tl_xml tls) bid\<rparr>,
      pure_adapter ''image'' image_supports (image_extract (tl_pil tls) (tl_ocr tls) bid),
      pure_adapter ''media'' media_supports (media_extract (tl_media tls) (tl_transcribe tls) bid),
      pure_adapter ''code'' code_supports (code_extract bid),
      \<lparr>ad_id = ''archive'', ad_supports = archive_supports (tl_zip tls),
       ad_extract = archive_extract (tl_repr tls) (tl_zip tls) (tl_tar tls) bid\<rparr>,
      pure_adapter ''plain_text'' plain_supports (plain_extract bid),
      unknown_adapter bid]"

fun first_supporting :: "string \<Rightarrow> string option \<Rightarrow> string \<Rightarrow> adapter list \<Rightarrow> adapter option res" where
  "first_supporting mime f data [] = Inr None"
| "first_supporting mime f data (a # as) =
     (if ad_id a = ''unknown_binary'' then first_supporting mime f data as
      else bnd (ad_supports a mime f data) (\<lambda>s. if s then Inr (Some a) else first_supporting mime f data as))"

definition resolve_adapter :: "tools \<Rightarrow> string \<Rightarrow> string \<Rightarrow> string option \<Rightarrow> string \<Rightarrow> adapter res" where
  "resolve_adapter tls bid mime f data =
     bnd (first_supporting mime f data (ADAPTERS tls bid)) (\<lambda>r.
       Inr (case r of Some a \<Rightarrow> a | None \<Rightarrow> last (ADAPTERS tls bid)))"

definition list_adapters :: "tools \<Rightarrow> string \<Rightarrow> (string \<times> string) list" where
  "list_adapters tls bid =
     List.map (\<lambda>a. (ad_id a, ''1.0.0'')) (List.filter (\<lambda>a. ad_id a \<noteq> ''unknown_binary'') (ADAPTERS tls bid))"

subsection \<open>Validation and result\<close>

record bundle_report =
  br_ok :: bool
  br_errors :: "string list"

definition validate_document_bundle :: "tools \<Rightarrow> doc_bundle \<Rightarrow> bundle_report" where
  "validate_document_bundle tls b =
     (if tl_schema tls b \<noteq> [] then \<lparr>br_ok = False, br_errors = List.map error_line (tl_schema tls b)\<rparr>
      else \<lparr>br_ok = True, br_errors = []\<rparr>)"

record intake_result =
  ir_bundle :: doc_bundle
  ir_validation :: bundle_report
  ir_adapters :: "(string \<times> string) list"
  ir_evidence :: "string option"

definition wrap_bundle :: "tools \<Rightarrow> doc_bundle \<Rightarrow> bool \<Rightarrow> intake_result res" where
  "wrap_bundle tls b include_evidence =
     (let out = \<lparr>ir_bundle = b, ir_validation = validate_document_bundle tls b,
                 ir_adapters = list_adapters tls (bn_id b), ir_evidence = None\<rparr> in
      if include_evidence
      then bnd (format_untrusted_evidence_block b 12000) (\<lambda>s. Inr (out\<lparr>ir_evidence := Some s\<rparr>))
      else Inr out)"

subsection \<open>Entry points\<close>

text \<open>The keyword arguments of \<open>analyze_bytes\<close> and the ids drawn for it.\<close>

record request =
  rq_filename :: "string option"
  rq_path :: "string option"
  rq_mode :: string
  rq_file_id :: "string option"
  rq_limits :: "intake_limits option"
  rq_evidence :: bool
  rq_modified :: "string option"
  rq_depth :: int
  rq_fresh_id :: string
  rq_bundle_id :: string

definition given_or :: "string option \<Rightarrow> string \<Rightarrow> string" where
  "given_or x d = (case present x of Some s \<Rightarrow> s | None \<Rightarrow> d)"

definition request_file_id :: "request \<Rightarrow> string" where
  "request_file_id rq = given_or (rq_file_id rq) (rq_fresh_id rq)"

definition request_limits :: "request \<Rightarrow> intake_limits" where
  "request_limits rq = or_else (rq_limits rq) DEFAULT_LIMITS"

definition refused_bundle :: "request \<Rightarrow> file_identity \<Rightarrow> string \<Rightarrow> doc_bundle" where
  "refused_bundle rq fi adapter =
     empty_bundle (rq_bundle_id rq) (request_file_id rq) (fi_hash fi) (fi_mime fi) (fi_size fi) (rq_path rq) (rq_mode rq)
       adapter (Some (fi_mime fi)) (rq_modified rq)"

definition BLOCKED_EXTS :: "string list" where
  "BLOCKED_EXTS = [''.exe'', ''.dll'', ''.bat'', ''.cmd'', ''.msi'', ''.scr'', ''.com'']"

definition blocked_file :: "quarantine_result \<Rightarrow> file_identity \<Rightarrow> bool" where
  "blocked_file q fi = (qr_blocked q \<and> (case fi_ext fi of Some e \<Rightarrow> e \<in> set BLOCKED_EXTS | None \<Rightarrow> False))"

definition request_ctx :: "request \<Rightarrow> file_identity \<Rightarrow> quarantine_result \<Rightarrow> ctx" where
  "request_ctx rq fi q =
     \<lparr>cx_filename = rq_filename rq, cx_path = rq_path rq, cx_mode = rq_mode rq, cx_file_id = request_file_id rq,
      cx_hash = fi_hash fi, cx_mime = fi_mime fi, cx_sniffed = fi_mime fi, cx_size = fi_size fi,
      cx_limits = request_limits rq, cx_tracker = new_tracker (request_limits rq), cx_quarantine = q,
      cx_depth = rq_depth rq\<rparr>"

definition set_modified :: "string option \<Rightarrow> doc_bundle \<Rightarrow> doc_bundle" where
  "set_modified m b =
     (case present m of
        None \<Rightarrow> b
      | Some s \<Rightarrow> if so_modified (bn_source b) = None then b\<lparr>bn_source := (bn_source b)\<lparr>so_modified := Some s\<rparr>\<rparr> else b)"

definition request_quarantine :: "request \<Rightarrow> quarantine_result" where
  "request_quarantine rq = quarantine_path_name (given_or (rq_filename rq) (given_or (rq_path rq) ''unknown''))"

definition size_bundle :: "request \<Rightarrow> file_identity \<Rightarrow> string \<Rightarrow> doc_bundle" where
  "size_bundle rq fi m =
     apply_security (no_args\<lparr>sa_limits := Some [(''max_file_bytes'', JInt (max_file_bytes (request_limits rq)))]\<rparr>)
       (fail ''ResourceLimit'' m (refused_bundle rq fi ''limits''))"

definition blocked_bundle :: "request \<Rightarrow> file_identity \<Rightarrow> quarantine_result \<Rightarrow> doc_bundle" where
  "blocked_bundle rq fi q =
     apply_security (no_args\<lparr>sa_actions := Some (qr_actions q), sa_flags := Some (qr_flags q), sa_macros := Some (qr_macros q)\<rparr>)
       (fail ''Quarantined'' (given_or (qr_reason q) ''executable content blocked'') (refused_bundle rq fi ''quarantine''))"

definition analyze_bytes :: "tools \<Rightarrow> string \<Rightarrow> request \<Rightarrow> intake_result res" where
  "analyze_bytes tls data rq =
     (let fi = identify (tl_sha tls) (tl_zip tls) (tl_guess tls) data (rq_filename rq); q = request_quarantine rq in
      case check_file_size (new_tracker (request_limits rq)) (int (length data)) of
        Some m \<Rightarrow> wrap_bundle tls (size_bundle rq fi m) (rq_evidence rq)
      | None \<Rightarrow>
          if blocked_file q fi then wrap_bundle tls (blocked_bundle rq fi q) (rq_evidence rq)
          else
            bnd (resolve_adapter tls (rq_bundle_id rq) (fi_mime fi) (rq_filename rq) data) (\<lambda>a.
            bnd (ad_extract a data (request_ctx rq fi q)) (\<lambda>b.
              wrap_bundle tls (set_modified (rq_modified rq) b) (rq_evidence rq))))"

text \<open>The file as \<open>analyze_path\<close> meets it: both reads, its name, its resolved path, its time stamp.\<close>

record disk_file =
  df_first :: "string res"
  df_second :: "string res"
  df_name :: string
  df_resolved :: string
  df_mtime :: "string option"

definition path_request :: "disk_file \<Rightarrow> request \<Rightarrow> request" where
  "path_request df rq = rq\<lparr>rq_filename := Some (df_name df), rq_path := Some (df_resolved df),
     rq_modified := df_mtime df, rq_depth := 0\<rparr>"

definition analyze_path :: "tools \<Rightarrow> disk_file \<Rightarrow> request \<Rightarrow> intake_result res" where
  "analyze_path tls df rq =
     bnd (df_first df) (\<lambda>data.
       let ident = (\<lambda>d. identify (tl_sha tls) (tl_zip tls) (tl_guess tls) d (Some (df_name df))); pre = fi_hash (ident data) in
       bnd (analyze_bytes tls data (path_request df rq)) (\<lambda>r.
       bnd (df_second df) (\<lambda>again.
         if fi_hash (ident again) \<noteq> pre then Inl (RuntimeError ''source file mutated during intake (forbidden)'')
         else if so_hash (bn_source (ir_bundle r)) \<noteq> pre then Inl (RuntimeError ''bundle content_hash mismatch vs source'')
         else Inr r)))"

end
