(* ===== verification/Rpc.thy ===== *)
theory Rpc
  imports Probes Secrets ModelRegistry Pins IntakePipeline
begin

section \<open>The JSON-RPC worker\<close>

text \<open>
  \<open>rpc.py\<close> and the loop of \<open>__main__.py\<close>: one request in, one response out. The state between requests is
  the secret store and the registry cache; health, probes, registry, secrets, pins and the list of
  adapters are the modelled functions, run on that state. The JSON forms of the hardware profile, the
  selection, the analysis, the compiler and the schema validation enter as functions of a record, and so
  do base64 and the JSON codec.
\<close>

record 'k worker =
  wk_secrets :: "'k secret_state"
  wk_disk :: reg_disk

record select_call =
  sl_policy :: string
  sl_requirements :: json
  sl_pinned :: json
  sl_run_active :: bool
  sl_allow :: bool
  sl_single :: bool
  sl_refresh :: bool

datatype intake_source = FromPath string | FromBytes string json json

record analyze_call =
  an_source :: intake_source
  an_mode :: string
  an_file_id :: json
  an_limits :: "json dict option"

record generate_call =
  gn_prompt :: string
  gn_source :: string
  gn_model :: string
  gn_health :: "json dict"
  gn_pack :: "json dict option"
  gn_digest :: json

record 'k rpc_env =
  re_http :: "http_call \<Rightarrow> json res"
  re_repr :: "json \<Rightarrow> string"
  re_loads :: "string \<Rightarrow> json res"
  re_b64 :: "string \<Rightarrow> string res"
  re_ring :: "'k keyring_ops"
  re_reg :: reg_lib
  re_stamp :: string
  re_schema_root :: string
  re_tools :: tools
  re_hardware :: "json res"
  re_select :: "select_call \<Rightarrow> 'k worker \<Rightarrow> json dict res \<times> 'k worker"
  re_analyze :: "analyze_call \<Rightarrow> json res"
  re_generate :: "generate_call \<Rightarrow> json dict res"
  re_validate :: "json dict \<Rightarrow> json dict res"

text \<open>The providers see the environment and the secrets of the moment.\<close>

definition net_of :: "'k rpc_env \<Rightarrow> 'k worker \<Rightarrow> net_env" where
  "net_of re wk = \<lparr>ne_http = re_http re, ne_secret = get_secret (re_ring re) (wk_secrets wk),
     ne_repr = re_repr re, ne_environ = map_of (s_environ (wk_secrets wk))\<rparr>"

subsection \<open>Responses\<close>

datatype rpc_outcome = Answer json | Failure int string "json option"

fun response :: "json \<Rightarrow> rpc_outcome \<Rightarrow> json dict" where
  "response req_id (Answer v) = [(''jsonrpc'', JStr ''2.0''), (''id'', req_id), (''result'', v)]"
| "response req_id (Failure code m data) =
     [(''jsonrpc'', JStr ''2.0''), (''id'', req_id),
      (''error'', JObj ([(''code'', JInt code), (''message'', JStr m)] @ (case data of None \<Rightarrow> [] | Some v \<Rightarrow> [(''data'', v)])))]"

text \<open>A handler ends with an outcome or an exception, and with the state it leaves.\<close>

type_synonym 'k handled = "rpc_outcome res \<times> 'k worker"

definition answering :: "json dict res \<Rightarrow> rpc_outcome res" where
  "answering r = bnd r (\<lambda>d. Inr (Answer (JObj d)))"

text \<open>\<open>str(params.get(k) or d)\<close>.\<close>

definition str_param :: "'k rpc_env \<Rightarrow> json \<Rightarrow> string \<Rightarrow> string \<Rightarrow> string res" where
  "str_param re params k d = bnd (jget params k) (\<lambda>v. Inr (py_str (re_repr re) (jor v (JStr d))))"

definition flag :: "json \<Rightarrow> string \<Rightarrow> bool res" where
  "flag params k = bnd (jget params k) (\<lambda>v. Inr (truthy v))"

subsection \<open>Selection and probes\<close>

definition read_select :: "'k rpc_env \<Rightarrow> json \<Rightarrow> bool \<Rightarrow> select_call res" where
  "read_select re params full =
     bnd (str_param re params ''policy'' ''auto'') (\<lambda>pol.
       let d = obj_of params in
       Inr \<lparr>sl_policy = pol, sl_requirements = dget d ''requirements'', sl_pinned = dget d ''pinned'',
            sl_run_active = truthy (dget d ''run_active''), sl_allow = truthy (dget d ''allow_auto_reselect''),
            sl_single = (full \<and> truthy (dget d ''single_model_only'')),
            sl_refresh = (full \<and> truthy (dget d ''refresh_registry''))\<rparr>)"

definition recommendation :: "json dict \<Rightarrow> json dict" where
  "recommendation r = List.map (\<lambda>k. (k, dget r k)) [''ok'', ''recommendation'', ''pin_resolution'', ''error'', ''policy'']"

definition on_select :: "'k rpc_env \<Rightarrow> bool \<Rightarrow> json \<Rightarrow> 'k worker \<Rightarrow> 'k handled" where
  "on_select re brief params wk =
     (case read_select re params True of
        Inl e \<Rightarrow> (Inl e, wk)
      | Inr c \<Rightarrow> (case re_select re c wk of
          (r, wk') \<Rightarrow> (answering (bnd r (\<lambda>d. Inr (if brief then recommendation d else d))), wk')))"

definition on_probe :: "'k rpc_env \<Rightarrow> json \<Rightarrow> 'k worker \<Rightarrow> 'k handled" where
  "on_probe re params wk =
     (let ne = net_of re wk in
      (bnd (str_param re params ''provider'' ''ollama'') (\<lambda>provider.
       bnd (str_param re params ''model'' []) (\<lambda>model.
       bnd (get_adapter ne provider) (\<lambda>a. case a of
         None \<Rightarrow> Inr (Failure 1003 (''unknown provider: '' @ provider) None)
       | Some p \<Rightarrow>
           if model = [] then Inr (Failure (- 32602) ''model required'' None)
           else bnd (py_float (jor (dget (obj_of params) ''timeout_s'') (JFloat 20))) (\<lambda>_.
             answering (snd (run_capability_probes \<lparr>pe_net = ne, pe_loads = re_loads re\<rparr> p model (dget (obj_of params) ''probes''))))))),
       wk))"

subsection \<open>Registry and secrets\<close>

definition on_disk :: "(reg_disk \<Rightarrow> json dict res \<times> reg_disk) \<Rightarrow> 'k worker \<Rightarrow> 'k handled" where
  "on_disk f wk = (case f (wk_disk wk) of (r, d) \<Rightarrow> (answering r, wk\<lparr>wk_disk := d\<rparr>))"

definition on_load :: "'k rpc_env \<Rightarrow> json \<Rightarrow> 'k worker \<Rightarrow> 'k handled" where
  "on_load re params wk =
     (case flag params ''refresh'' of
        Inl e \<Rightarrow> (Inl e, wk)
      | Inr refresh \<Rightarrow> on_disk (load_registry (re_reg re) (re_stamp re) None refresh) wk)"

definition on_install :: "'k rpc_env \<Rightarrow> json \<Rightarrow> 'k worker \<Rightarrow> 'k handled" where
  "on_install re params wk =
     (case jget params ''manifest'' of
        Inl e \<Rightarrow> (Inl e, wk)
      | Inr (JObj m) \<Rightarrow>
          on_disk (install_manifest (re_reg re) (re_stamp re)
            (py_str (re_repr re) (jor (dget (obj_of params) ''note'') (JStr ''rpc''))) m) wk
      | Inr _ \<Rightarrow> (Inr (Failure (- 32602) ''manifest object required'' None), wk))"

fun backend_name :: "backend \<Rightarrow> string" where
  "backend_name OsKeyring = ''os_keyring''"
| "backend_name ProcessMemory = ''process_memory''"
| "backend_name Env = ''env''"
| "backend_name OsKeyringOrUnknown = ''os_keyring_or_unknown''"
| "backend_name Missing = ''missing''"

definition set_report :: "set_result \<Rightarrow> json dict" where
  "set_report r = [(''ok'', JBool True), (''ref'', JStr (sr_ref r)), (''backend'', JStr (backend_name (sr_backend r)))] @
     (case sr_warning r of None \<Rightarrow> [] | Some w \<Rightarrow> [(''warning'', JStr w)])"

definition status_report :: "secret_report \<Rightarrow> json dict" where
  "status_report r = [(''ref'', JStr (st_ref r)), (''present'', JBool (st_present r)), (''backend'', JStr (backend_name (st_backend r)))]"

definition on_secrets :: "('a \<Rightarrow> json dict) \<Rightarrow> 'k worker \<Rightarrow> ('a \<times> 'k secret_state) res \<Rightarrow> 'k handled" where
  "on_secrets report wk r = (case r of
     Inl e \<Rightarrow> (Inl e, wk) | Inr (v, st) \<Rightarrow> (Inr (Answer (JObj (report v))), wk\<lparr>wk_secrets := st\<rparr>))"

definition on_set :: "'k rpc_env \<Rightarrow> json \<Rightarrow> 'k worker \<Rightarrow> 'k handled" where
  "on_set re params wk = on_secrets set_report wk
     (bnd (str_param re params ''ref'' []) (\<lambda>ref. bnd (str_param re params ''value'' []) (\<lambda>v.
        set_secret (re_ring re) (wk_secrets wk) ref v True)))"

definition on_delete :: "'k rpc_env \<Rightarrow> json \<Rightarrow> 'k worker \<Rightarrow> 'k handled" where
  "on_delete re params wk = on_secrets (\<lambda>ref. [(''ok'', JBool True), (''ref'', JStr ref)]) wk
     (bnd (str_param re params ''ref'' []) (delete_secret (re_ring re) (wk_secrets wk)))"

definition on_status :: "'k rpc_env \<Rightarrow> json \<Rightarrow> 'k worker \<Rightarrow> 'k handled" where
  "on_status re params wk =
     (answering (bnd (str_param re params ''ref'' []) (\<lambda>ref.
        bnd (secret_status (re_ring re) (wk_secrets wk) ref) (\<lambda>r. Inr (status_report r)))), wk)"

subsection \<open>Pins\<close>

text \<open>\<open>assert_pins_stable\<close> on the JSON of a request, whose shapes nobody has checked.\<close>

definition stable_key :: "string \<Rightarrow> json \<Rightarrow> json \<Rightarrow> string \<Rightarrow> unit res" where
  "stable_key role pin nxt k =
     bnd (jget pin k) (\<lambda>p.
       if \<not> truthy p then Inr ()
       else bnd (jget nxt k) (\<lambda>n. if truthy n \<and> \<not> py_eq p n then Inl (swap_msg role k) else Inr ()))"

fun stable_pins :: "json dict \<Rightarrow> json \<Rightarrow> unit res" where
  "stable_pins [] requested = Inr ()"
| "stable_pins ((role, pin) # rest) requested =
     bnd (jget requested role) (\<lambda>nxt.
       if \<not> truthy nxt then stable_pins rest requested
       else bnd (stable_key role pin nxt ''digest'') (\<lambda>_.
         bnd (stable_key role pin nxt ''name'') (\<lambda>_. stable_pins rest requested)))"

definition pins_stable :: "json \<Rightarrow> json \<Rightarrow> bool \<Rightarrow> unit res" where
  "pins_stable pinned requested run_active =
     (if \<not> run_active \<or> \<not> truthy requested then Inr ()
      else bnd (items_of pinned) (\<lambda>ps. stable_pins ps requested))"

lemma stable_pins_typed:
  "stable_pins (List.map (\<lambda>(r, d). (r, JObj d)) pinned) (JObj (List.map (\<lambda>(r, d). (r, JObj d)) requested)) =
     check_pins pinned requested"
  by (induction pinned requested rule: check_pins.induct)
    (auto simp: jget_def dget_def map_of_map stable_key_def swapped_def split: option.splits)

definition on_pins :: "json \<Rightarrow> rpc_outcome res" where
  "on_pins params =
     (case bnd (jget params ''pinned'') (\<lambda>pinned.
             pins_stable (jor pinned (JObj [])) (dget (obj_of params) ''requested'')
               (case map_of (obj_of params) ''run_active'' of None \<Rightarrow> True | Some v \<Rightarrow> truthy v)) of
        Inr _ \<Rightarrow> Inr (Answer (JObj [(''ok'', JBool True)]))
      | Inl e \<Rightarrow> Inr (Failure 1004 (exn_str e) None))"

subsection \<open>Intake\<close>

definition adapters_json :: "'k rpc_env \<Rightarrow> json list" where
  "adapters_json re = List.map (\<lambda>(i, v). JObj [(''id'', JStr i), (''version'', JStr v)]) (list_adapters (re_tools re) [])"

definition LIMIT_FIELDS :: "string list" where
  "LIMIT_FIELDS = [''max_file_bytes'', ''max_archive_depth'', ''max_archive_entries'', ''max_decompressed_bytes'',
     ''max_decompression_ratio'', ''max_pages'', ''max_sheets'', ''max_slides'', ''max_media_duration_seconds'',
     ''max_segments'', ''max_segment_chars'', ''max_csv_rows'', ''max_memory_hint_bytes'', ''allow_remote_fetch'']"

definition read_limits_param :: "json \<Rightarrow> json dict option" where
  "read_limits_param v = (case v of
     JObj raw \<Rightarrow> Some (List.concat (List.map (\<lambda>k. case map_of raw k of None \<Rightarrow> [] | Some x \<Rightarrow> [(k, x)]) LIMIT_FIELDS))
   | _ \<Rightarrow> None)"

definition on_analyze :: "'k rpc_env \<Rightarrow> json \<Rightarrow> rpc_outcome res" where
  "on_analyze re params =
     bnd (str_param re params ''path_mode'' ''link'') (\<lambda>mode.
       let d = obj_of params;
           run = (\<lambda>src. bnd (re_analyze re \<lparr>an_source = src, an_mode = mode, an_file_id = dget d ''file_id'',
                                            an_limits = read_limits_param (dget d ''limits'')\<rparr>) (\<lambda>v. Inr (Answer v)))
       in if truthy (dget d ''path'') then run (FromPath (py_str (re_repr re) (dget d ''path'')))
          else if dget d ''content_base64'' \<noteq> JNull then
            bnd (re_b64 re (py_str (re_repr re) (dget d ''content_base64''))) (\<lambda>data.
              run (FromBytes data (dget d ''filename'') (dget d ''logical_path'')))
          else Inr (Failure (- 32602) ''path or content_base64 required'' None))"

subsection \<open>Compiling a workflow\<close>

text \<open>\<open>v.get(k) or {}\<close>.\<close>

definition sub_obj :: "json \<Rightarrow> string \<Rightarrow> json res" where
  "sub_obj v k = bnd (jget v k) (\<lambda>w. Inr (jor w (JObj [])))"

text \<open>The references of a map of pins, as \<open>apply_pins_to_workflow\<close> reads them.\<close>

definition refs_of :: "json \<Rightarrow> pins res" where
  "refs_of pins = bnd (items_of pins) (map_res (\<lambda>(role, ref). case ref of
     JObj d \<Rightarrow> Inr (role, d)
   | _ \<Rightarrow> Inl (TypeError (CHR 0x27 # py_type ref @ CHR 0x27 # '' object is not subscriptable''))))"

definition with_pins :: "json \<Rightarrow> json dict \<Rightarrow> json dict res" where
  "with_pins pins workflow =
     (if truthy pins then bnd (refs_of pins) (\<lambda>ps. apply_pins_to_workflow workflow ps True) else Inr workflow)"

definition generated :: "json dict \<Rightarrow> json dict \<Rightarrow> json dict \<Rightarrow> json \<Rightarrow> rpc_outcome" where
  "generated workflow validation selection pin_res =
     (if \<not> truthy (dget validation ''ok'')
      then Failure 1002 ''Generated workflow failed schema validation'' (Some (JObj validation))
      else Answer (JObj [(''workflow'', JObj workflow), (''validation'', JObj validation),
        (''selection'', JObj [(''ok'', dget selection ''ok''), (''policy'', dget selection ''policy''),
          (''recommendation'', dget selection ''recommendation''), (''pin_resolution'', pin_res)])]))"

definition generate_with :: "'k rpc_env \<Rightarrow> json dict \<Rightarrow> json dict \<Rightarrow> json dict \<Rightarrow> rpc_outcome res" where
  "generate_with re params hr selection =
     bnd (sub_obj (JObj selection) ''pin_resolution'') (\<lambda>pin_res.
     bnd (sub_obj pin_res ''pins'') (\<lambda>pins.
     bnd (sub_obj pins ''planner'') (\<lambda>planner.
     bnd (if truthy (dget params ''model'') then Inr (dget params ''model'')
          else bnd (jget planner ''name'') (\<lambda>n. Inr (jor n (dget hr ''preferred_model'')))) (\<lambda>model.
     bnd (if truthy (dget params ''run_active'') \<and> truthy (dget params ''pinned'')
          then pins_stable (dget params ''pinned'') pins True else Inr ()) (\<lambda>_.
     bnd (jget planner ''digest'') (\<lambda>digest.
     bnd (re_generate re \<lparr>gn_prompt = py_str (re_repr re) (jor (dget params ''prompt'') (JStr [])),
            gn_source = py_str (re_repr re) (jor (dget params ''source_text'') (JStr [])),
            gn_model = py_str (re_repr re) model, gn_health = hr,
            gn_pack = (case dget params ''pack'' of JObj p \<Rightarrow> Some p | _ \<Rightarrow> None),
            gn_digest = digest\<rparr>) (\<lambda>w0.
     bnd (with_pins pins w0) (\<lambda>workflow.
     bnd (re_validate re workflow) (\<lambda>validation.
       Inr (generated workflow validation selection pin_res))))))))))"

definition on_generate :: "'k rpc_env \<Rightarrow> json \<Rightarrow> 'k worker \<Rightarrow> 'k handled" where
  "on_generate re params wk =
     (case aggregate_health (net_of re wk) of
        Inl e \<Rightarrow> (Inl e, wk)
      | Inr hr \<Rightarrow>
          if \<not> truthy (dget hr ''ok'') then
            (Inr (Failure 1001 (''LLM unavailable (fail-closed): '' @ py_str (re_repr re) (dget hr ''error''))
               (Some (JObj hr))), wk)
          else
            (case read_select re params False of
               Inl e \<Rightarrow> (Inl e, wk)
             | Inr c \<Rightarrow> (case re_select re c wk of
                 (r, wk') \<Rightarrow> (bnd r (generate_with re (obj_of params) hr), wk'))))"

subsection \<open>Dispatch\<close>

definition pure_reply :: "'k worker \<Rightarrow> rpc_outcome res \<Rightarrow> 'k handled" where
  "pure_reply wk r = (r, wk)"

definition dispatch :: "'k rpc_env \<Rightarrow> string \<Rightarrow> json \<Rightarrow> 'k worker \<Rightarrow> 'k handled" where
  "dispatch re m params wk =
     (if m = ''ping'' then pure_reply wk (Inr (Answer (JObj [(''ok'', JBool True), (''service'', JStr ''brainflow-ai-worker'')])))
      else if m = ''llm.health'' then pure_reply wk (answering (aggregate_health (net_of re wk)))
      else if m = ''llm.hardware'' then pure_reply wk (bnd (re_hardware re) (\<lambda>v. Inr (Answer v)))
      else if m = ''llm.select'' then on_select re False params wk
      else if m = ''llm.recommend'' then on_select re True params wk
      else if m = ''llm.probe'' then on_probe re params wk
      else if m = ''registry.load'' then on_load re params wk
      else if m = ''registry.install'' then on_install re params wk
      else if m = ''registry.rollback'' then on_disk (rollback_registry (re_reg re) (re_stamp re)) wk
      else if m = ''secrets.set'' then on_set re params wk
      else if m = ''secrets.delete'' then on_delete re params wk
      else if m = ''secrets.status'' then on_status re params wk
      else if m = ''pins.assert_stable'' then pure_reply wk (on_pins params)
      else if m = ''intake.adapters'' then pure_reply wk (Inr (Answer (JObj [(''adapters'', JArr (adapters_json re))])))
      else if m = ''intake.analyze'' then pure_reply wk (on_analyze re params)
      else if m = ''workflow.generate'' then on_generate re params wk
      else if m = ''schema.root'' then pure_reply wk (Inr (Answer (JObj [(''path'', JStr (re_schema_root re))])))
      else pure_reply wk (Inr (Failure (- 32601) (''method not found: '' @ m) None)))"

text \<open>A method that is no string matches none; one that cannot be hashed fails at the first set.\<close>

definition call_method :: "'k rpc_env \<Rightarrow> json \<Rightarrow> json \<Rightarrow> 'k worker \<Rightarrow> 'k handled" where
  "call_method re method params wk = (case method of
     JStr m \<Rightarrow> dispatch re m params wk
   | JArr _ \<Rightarrow> (Inl (TypeError (''unhashable type: '' @ CHR 0x27 # ''list'' @ [CHR 0x27])), wk)
   | JObj _ \<Rightarrow> (Inl (TypeError (''unhashable type: '' @ CHR 0x27 # ''dict'' @ [CHR 0x27])), wk)
   | _ \<Rightarrow> (Inr (Failure (- 32601) (''method not found: '' @ py_str (re_repr re) method) None), wk))"

definition surfaced :: "rpc_outcome res \<Rightarrow> rpc_outcome" where
  "surfaced r = (case r of Inr oc \<Rightarrow> oc | Inl e \<Rightarrow> Failure (- 32000) (exn_str e) None)"

text \<open>A request that is no object has no \<open>get\<close>: that exception leaves \<open>handle_request\<close>.\<close>

definition handle_request :: "'k rpc_env \<Rightarrow> json \<Rightarrow> 'k worker \<Rightarrow> json dict res \<times> 'k worker" where
  "handle_request re req wk =
     (case bnd (jget req ''id'') (\<lambda>i. Inr (i, obj_of req)) of
        Inl e \<Rightarrow> (Inl e, wk)
      | Inr (req_id, d) \<Rightarrow>
          if dget d ''jsonrpc'' \<noteq> JStr ''2.0'' then (Inr (response req_id (Failure (- 32600) ''invalid jsonrpc version'' None)), wk)
          else (case call_method re (dget d ''method'') (jor (dget d ''params'') (JObj [])) wk of
                  (r, wk') \<Rightarrow> (Inr (response req_id (surfaced r)), wk')))"

subsection \<open>The loop on standard input\<close>

definition parse_failure :: "pyexn \<Rightarrow> json dict" where
  "parse_failure e = response JNull (Failure (- 32700) (''parse error: '' @ exn_str e) None)"

text \<open>The responses printed, and the exception that ended the loop if one did.\<close>

fun serve :: "'k rpc_env \<Rightarrow> string list \<Rightarrow> 'k worker \<Rightarrow> json dict list \<times> pyexn option \<times> 'k worker" where
  "serve re [] wk = ([], None, wk)"
| "serve re (l # ls) wk =
     (if strip l = [] then serve re ls wk
      else case re_loads re (strip l) of
        Inl e \<Rightarrow> (case serve re ls wk of (rs, x, wk') \<Rightarrow> (parse_failure e # rs, x, wk'))
      | Inr req \<Rightarrow>
          (case handle_request re req wk of
             (Inl e, wk1) \<Rightarrow> ([], Some e, wk1)
           | (Inr r, wk1) \<Rightarrow> (case serve re ls wk1 of (rs, x, wk') \<Rightarrow> (r # rs, x, wk'))))"

end
