(* ===== verification/ArchiveCorrect.thy ===== *)
theory ArchiveCorrect
  imports ArchiveAdapter
begin

section \<open>What an archive may put into a bundle\<close>

text \<open>
  The loop invariant of the archive walk: the segments are those of some of the members, in order;
  each of them passed the quarantine, and together they respect the entry count and the declared
  byte budget. From it the interface laws of the adapter and its limits.
\<close>

lemma issue_about_simps [simp]:
  "frame (warn_about c m d b) = frame b" "frame (fail_about c m d b) = frame b"
  "frame (could_not_read n e b) = frame b"
  "bn_segments (warn_about c m d b) = bn_segments b" "bn_segments (fail_about c m d b) = bn_segments b"
  "bn_segments (could_not_read n e b) = bn_segments b"
  by (simp_all add: warn_about_def fail_about_def could_not_read_def frame_def warn_def)

lemma on_bundle_simps [simp]:
  "wk_bundle (on_bundle f w) = f (wk_bundle w)" "wk_tracker (on_bundle f w) = wk_tracker w"
  "wk_quarantine (on_bundle f w) = wk_quarantine w" "wk_order (on_bundle f w) = wk_order w"
  by (simp_all add: on_bundle_def)

subsection \<open>The invariant\<close>

text \<open>\<open>kept\<close> are the names and declared sizes of the members that got a segment.\<close>

definition walk_inv :: "intake_limits \<Rightarrow> doc_bundle \<Rightarrow> quarantine_result \<Rightarrow> (string \<times> int) list \<Rightarrow> walk \<Rightarrow> bool" where
  "walk_inv l b0 q0 kept w \<longleftrightarrow>
     frame (wk_bundle w) = frame b0 \<and>
     List.map sg_locator (bn_segments (wk_bundle w)) = List.map (entry_locator \<circ> fst) kept \<and>
     tk_limits (wk_tracker w) = l \<and> set (qr_flags q0) \<subseteq> set (qr_flags (wk_quarantine w)) \<and>
     int (length kept) \<le> tk_entries (wk_tracker w) \<and> int (length kept) \<le> max_archive_entries l \<and>
     sum_list (List.map snd kept) \<le> tk_decompressed (wk_tracker w) \<and>
     sum_list (List.map snd kept) \<le> max_decompressed_bytes l \<and>
     list_all (\<lambda>k. \<not> qr_blocked (quarantine_archive_entry (fst k))) kept"

text \<open>The guards: when they pass, the name is not blocked and the counters are within their limits.\<close>

definition passed :: "intake_limits \<Rightarrow> doc_bundle \<Rightarrow> quarantine_result \<Rightarrow> (string \<times> int) list \<Rightarrow> string \<Rightarrow> walk \<Rightarrow> bool" where
  "passed l b0 q0 kept name w \<longleftrightarrow> walk_inv l b0 q0 kept w \<and> \<not> qr_blocked (quarantine_archive_entry name) \<and>
     int (length kept) < tk_entries (wk_tracker w) \<and> tk_entries (wk_tracker w) \<le> max_archive_entries l"

definition sized :: "intake_limits \<Rightarrow> doc_bundle \<Rightarrow> quarantine_result \<Rightarrow> (string \<times> int) list \<Rightarrow> string \<Rightarrow> int \<Rightarrow> walk \<Rightarrow> bool" where
  "sized l b0 q0 kept name n w \<longleftrightarrow> passed l b0 q0 kept name w \<and>
     sum_list (List.map snd kept) + n \<le> tk_decompressed (wk_tracker w) \<and>
     tk_decompressed (wk_tracker w) \<le> max_decompressed_bytes l"

lemma entry_guard_inv:
  assumes "entry_guard name reason w = (w', fl)" "walk_inv l b0 q0 kept w"
  shows "walk_inv l b0 q0 kept w'" "fl = None \<Longrightarrow> passed l b0 q0 kept name w'"
  using assms
  by (auto simp: entry_guard_def check_entry_count_def walk_inv_def passed_def Let_def frame_simps
      split: prod.splits option.splits if_splits)

lemma size_guard_inv:
  assumes "size_guard repr c n d w = (w', fl)" "passed l b0 q0 kept name w" "0 \<le> n"
  shows "walk_inv l b0 q0 kept w'" "fl = None \<Longrightarrow> sized l b0 q0 kept name n w'"
  using assms
  by (auto simp: size_guard_def add_decompressed_def walk_inv_def passed_def sized_def Let_def
      split: prod.splits option.splits if_splits)

lemma sized_store:
  assumes "sized l b0 q0 kept name n w"
  shows "walk_inv l b0 q0 (kept @ [(name, n)])
     (w\<lparr>wk_bundle := add_segment (entry_segment k name body) (warn_if p c m (wk_bundle w)), wk_order := k'\<rparr>)"
  using assms by (auto simp: sized_def passed_def walk_inv_def entry_segment_def frame_simps)

lemma walk_inv_note:
  assumes "walk_inv l b0 q0 kept w"
  shows "walk_inv l b0 q0 kept (on_bundle (warn c m) w)" "walk_inv l b0 q0 kept (on_bundle (fail c m) w)"
    "walk_inv l b0 q0 kept (on_bundle (could_not_read n e) w)"
  using assms by (simp_all add: walk_inv_def frame_simps)

lemma sized_inv: "sized l b0 q0 kept name n w \<Longrightarrow> walk_inv l b0 q0 kept w"
  by (simp add: sized_def passed_def)

lemma guarded_inv:
  assumes "guarded g f = (w', fl)" "\<And>w. fst g = w \<Longrightarrow> P kept w" "\<And>w. g = (w, None) \<Longrightarrow> Q w"
    and "\<And>w. Q w \<Longrightarrow> f w = (w', fl) \<Longrightarrow> R"
  shows "P kept w' \<or> R"
  using assms by (cases g; cases "snd g") (auto simp: guarded_def)

lemma zip_store_inv:
  assumes "zip_store l' e w = (w', fl)" "sized l b0 q0 kept (ze_name e) (ze_size e) w"
  shows "walk_inv l b0 q0 kept w' \<or> walk_inv l b0 q0 (kept @ [(ze_name e, ze_size e)]) w'"
  using assms sized_inv [OF assms(2)] sized_store [OF assms(2)]
  by (auto simp: zip_store_def Let_def walk_inv_note split: sum.splits prod.splits if_splits)

lemma tar_store_inv:
  assumes "tar_store e w = (w', fl)" "sized l b0 q0 kept (te_name e) (te_size e) w"
  shows "walk_inv l b0 q0 kept w' \<or> walk_inv l b0 q0 (kept @ [(te_name e, te_size e)]) w'"
  using assms sized_inv [OF assms(2)] sized_store [OF assms(2), where p = False]
  by (auto simp: tar_store_def Let_def walk_inv_note warn_if_def split: sum.splits prod.splits)

text \<open>One round keeps the invariant, with the member added or not.\<close>

definition round_ok :: "('e \<Rightarrow> walk \<Rightarrow> walk \<times> flow) \<Rightarrow> ('e \<Rightarrow> string) \<Rightarrow> ('e \<Rightarrow> int) \<Rightarrow> 'e \<Rightarrow> bool" where
  "round_ok step name size_of e \<longleftrightarrow> (\<forall>l b0 q0 kept w w' fl. step e w = (w', fl) \<longrightarrow> walk_inv l b0 q0 kept w \<longrightarrow>
     walk_inv l b0 q0 kept w' \<or> walk_inv l b0 q0 (kept @ [(name e, size_of e)]) w')"

lemma zip_step_ok:
  assumes "0 \<le> ze_size e"
  shows "round_ok (zip_step repr l' depth) ze_name ze_size e"
  unfolding round_ok_def
proof (intro allI impI)
  fix l b0 q0 kept w w' fl
  assume s: "zip_step repr l' depth e w = (w', fl)" and i: "walk_inv l b0 q0 kept w"
  let ?c = "if ze_csize e = 0 then 1 else ze_csize e"
  obtain w1 f1 where g1: "entry_guard (ze_name e) (reason_or (''blocked entry '' @ ze_name e)) w = (w1, f1)" by fastforce
  obtain w2 f2 where g2: "size_guard repr ?c (ze_size e) (zip_detail e ?c) w1 = (w2, f2)" by fastforce
  note i1 = entry_guard_inv [OF g1 i]
  consider "ze_dir e" | x where "\<not> ze_dir e" "f1 = Some x" | y where "\<not> ze_dir e" "f1 = None" "f2 = Some y"
    | "\<not> ze_dir e" "f1 = None" "f2 = None" by (cases f1; cases f2) auto
  then show "walk_inv l b0 q0 kept w' \<or> walk_inv l b0 q0 (kept @ [(ze_name e, ze_size e)]) w'"
  proof cases
    case 1
    then show ?thesis using s i by (simp add: zip_step_def)
  next
    case (2 x)
    then show ?thesis using s i1 g1 by (simp add: zip_step_def guarded_def)
  next
    case (3 y)
    then show ?thesis using s i1 g1 g2 size_guard_inv(1) [OF g2 i1(2) assms]
      by (simp add: zip_step_def guarded_def Let_def)
  next
    case 4
    then have z: "sized l b0 q0 kept (ze_name e) (ze_size e) w2"
      using size_guard_inv(2) [OF g2 i1(2) assms] by simp
    show ?thesis
    proof (cases "ends_with_any (lower (ze_name e)) ARCHIVE_EXTS \<and> max_archive_depth l' < depth + 1")
      case True
      then show ?thesis using s 4 g1 g2 walk_inv_note(2) [OF sized_inv [OF z]]
        by (auto simp: zip_step_def guarded_def Let_def)
    next
      case False
      then have "zip_store l' e w2 = (w', fl)"
        using s 4 g1 g2 by (auto simp: zip_step_def guarded_def Let_def)
      then show ?thesis using zip_store_inv [OF _ z] by blast
    qed
  qed
qed

lemma tar_step_ok:
  assumes "0 \<le> te_size e"
  shows "round_ok (tar_step repr) te_name te_size e"
  unfolding round_ok_def
proof (intro allI impI)
  fix l b0 q0 kept w w' fl
  assume s: "tar_step repr e w = (w', fl)" and i: "walk_inv l b0 q0 kept w"
  obtain w1 f1 where g1: "entry_guard (te_name e) (reason_or (te_name e)) w = (w1, f1)" by fastforce
  obtain w2 f2 where g2: "size_guard repr (max 1 (te_size e div 10)) (te_size e) [] w1 = (w2, f2)" by fastforce
  note i1 = entry_guard_inv [OF g1 i]
  consider "\<not> te_file e" | x where "te_file e" "f1 = Some x" | y where "te_file e" "f1 = None" "f2 = Some y"
    | "te_file e" "f1 = None" "f2 = None" by (cases f1; cases f2) auto
  then show "walk_inv l b0 q0 kept w' \<or> walk_inv l b0 q0 (kept @ [(te_name e, te_size e)]) w'"
  proof cases
    case 1
    then show ?thesis using s i by (simp add: tar_step_def)
  next
    case (2 x)
    then show ?thesis using s i1 g1 by (simp add: tar_step_def guarded_def)
  next
    case (3 y)
    then show ?thesis using s i1 g1 g2 size_guard_inv(1) [OF g2 i1(2) assms]
      by (simp add: tar_step_def guarded_def)
  next
    case 4
    then have "sized l b0 q0 kept (te_name e) (te_size e) w2"
      using size_guard_inv(2) [OF g2 i1(2) assms] by simp
    moreover have "tar_store e w2 = (w', fl)"
      using s 4 g1 g2 by (simp add: tar_step_def guarded_def)
    ultimately show ?thesis using tar_store_inv by blast
  qed
qed

lemma walk_entries_inv:
  assumes "\<And>e. e \<in> set es \<Longrightarrow> round_ok step name size_of e" "walk_inv l b0 q0 kept w"
  shows "\<exists>more_kept. walk_inv l b0 q0 (kept @ more_kept) (fst (walk_entries step es w)) \<and>
    subseq more_kept (List.map (\<lambda>e. (name e, size_of e)) es)"
  using assms
proof (induction es arbitrary: kept w)
  case Nil
  then show ?case by (intro exI [of _ "[]"]) simp
next
  case (Cons e es)
  obtain w' fl where s: "step e w = (w', fl)" by fastforce
  have "round_ok step name size_of e" using Cons.prems(1) by simp
  then obtain k where k: "walk_inv l b0 q0 (kept @ k) w'" "k = [] \<or> k = [(name e, size_of e)]"
    using s Cons.prems(2) unfolding round_ok_def by (metis append_Nil2)
  show ?case
  proof (cases fl)
    case Continue
    obtain m where m: "walk_inv l b0 q0 ((kept @ k) @ m) (fst (walk_entries step es w'))"
        "subseq m (List.map (\<lambda>e. (name e, size_of e)) es)"
      using Cons.IH [OF _ k(1)] Cons.prems(1) by auto
    then show ?thesis using k(2) s Continue by (intro exI [of _ "k @ m"]) auto
  qed (use k s in \<open>auto intro!: exI [of _ k]\<close>)
qed

subsection \<open>The bundle\<close>

lemma archive_done_simps [simp]:
  "frame (archive_done l q r b) = frame b" "bn_segments (archive_done l q r b) = bn_segments b"
  "set (sc_flags (bn_security (archive_done l q r b))) = set (sc_flags (bn_security b)) \<union> set (qr_flags q)"
  by (simp_all add: archive_done_def frame_simps finish_def security_flags ctx_security_def no_args_def)

lemma close_walk_simps [simp]:
  "frame (close_walk l f p r) = frame (wk_bundle (fst r))"
  "bn_segments (close_walk l f p r) = bn_segments (wk_bundle (fst r))"
  "set (qr_flags (wk_quarantine (fst r))) \<subseteq> set (sc_flags (bn_security (close_walk l f p r)))"
  by (auto simp: close_walk_def Let_def frame_simps split: prod.splits flow.splits)

text \<open>An archive bundle is an error report without segments, or the end of a walk.\<close>

lemma archive_extract_cases:
  assumes "archive_extract repr zo ta bid data cx = Inr b"
  obtains (report) m c mime where "b = archive_done (cx_limits cx) (cx_quarantine cx) 0 (fail c m (start_bundle bid ''archive'' mime cx))"
  | (zip) es mime where "zo data = Inr es"
      "b = close_walk (cx_limits cx) ''zip'' True (walk_entries (zip_step repr (cx_limits cx) (cx_depth cx)) es
             (start_walk cx (start_bundle bid ''archive'' mime cx)))"
  | (tar) es mime where "ta_members ta data = Inr es"
      "b = close_walk (cx_limits cx) ''tar'' False (walk_entries (tar_step repr) es
             (start_walk cx (start_bundle bid ''archive'' mime cx)))"
proof -
  let ?mime = "if cx_mime cx = [] then ''application/zip'' else cx_mime cx"
  show ?thesis
  proof (cases "check_depth (cx_tracker cx) (cx_depth cx)")
    case (Some m)
    then show ?thesis using assms by (intro report [OF sym]) (simp add: archive_extract_def Let_def)
  next
    case None
    show ?thesis
    proof (cases "prefix ''PK'' data")
      case True
      show ?thesis
      proof (cases "zo data")
        case (Inl e)
        then have "is_bad_zip e" using assms None True by (simp add: archive_extract_def Let_def split: if_splits)
        then show ?thesis using assms None True Inl by (intro report [OF sym]) (simp add: archive_extract_def Let_def)
      next
        case (Inr es)
        then show ?thesis using assms None True by (intro zip [of es ?mime]) (simp_all add: archive_extract_def Let_def)
      qed
    next
      case False
      consider "\<not> ta_is_tar ta data" | m where "ta_is_tar ta data" "ta_open_error ta data = Some m"
        | "ta_is_tar ta data" "ta_open_error ta data = None" by (cases "ta_open_error ta data") auto
      then show ?thesis
      proof cases
        case 1
        then show ?thesis using assms None False by (intro report [OF sym]) (simp add: archive_extract_def Let_def)
      next
        case (2 m)
        then show ?thesis using assms None False by (intro report [OF sym]) (simp add: archive_extract_def Let_def)
      next
        case 3
        then obtain es where "ta_members ta data = Inr es"
          using assms None False by (auto simp: archive_extract_def Let_def bnd_Inr_iff)
        then show ?thesis using assms None False 3
          by (intro tar [of es ?mime]) (simp_all add: archive_extract_def Let_def)
      qed
    qed
  qed
qed

definition zip_sizes_ok :: "zip_open \<Rightarrow> bool" where
  "zip_sizes_ok zo \<longleftrightarrow> (\<forall>data es. zo data = Inr es \<longrightarrow> list_all (\<lambda>e. 0 \<le> ze_size e) es)"

definition tar_sizes_ok :: "tar_lib \<Rightarrow> bool" where
  "tar_sizes_ok ta \<longleftrightarrow> (\<forall>data es. ta_members ta data = Inr es \<longrightarrow> list_all (\<lambda>e. 0 \<le> te_size e) es)"

definition fresh_ctx :: "ctx \<Rightarrow> bool" where
  "fresh_ctx cx \<longleftrightarrow> cx_tracker cx = new_tracker (cx_limits cx)"

lemma start_walk_inv:
  assumes "fresh_ctx cx" "0 \<le> max_archive_entries (cx_limits cx)" "0 \<le> max_decompressed_bytes (cx_limits cx)"
  shows "walk_inv (cx_limits cx) b0 (cx_quarantine cx) [] (start_walk cx b0)
    \<longleftrightarrow> bn_segments b0 = []"
  using assms by (auto simp: walk_inv_def start_walk_def fresh_ctx_def new_tracker_def)


text \<open>A zip with a text, a program and a note.\<close>

definition demo_member :: "string \<Rightarrow> string \<Rightarrow> zip_entry" where
  "demo_member name body = \<lparr>ze_name = name, ze_dir = False, ze_csize = 10, ze_size = 20, ze_read = Inr body\<rparr>"

definition demo_zip :: zip_open where
  "demo_zip data = Inr [demo_member ''a.txt'' ''hello'', demo_member ''run.EXE'' ''MZ'', demo_member ''b/n.md'' ''note'']"

definition no_tar :: tar_lib where
  "no_tar = \<lparr>ta_is_tar = (\<lambda>_. False), ta_open_error = (\<lambda>_. None), ta_members = (\<lambda>_. Inr [])\<rparr>"

definition demo_ctx :: "string \<Rightarrow> string \<Rightarrow> ctx" where
  "demo_ctx name mime = \<lparr>cx_filename = Some name, cx_path = None, cx_mode = ''link'', cx_file_id = ''f'', cx_hash = ''h'',
     cx_mime = mime, cx_sniffed = mime, cx_size = 4, cx_limits = DEFAULT_LIMITS,
     cx_tracker = new_tracker DEFAULT_LIMITS, cx_quarantine = no_quarantine, cx_depth = 0\<rparr>"

definition demo_archive :: doc_bundle where
  "demo_archive = projr (archive_extract (\<lambda>_. []) demo_zip no_tar ''b'' ''PK'' (demo_ctx ''x.zip'' ''application/zip''))"


subsection \<open>Contracts\<close>

lemma walk_frame:
  assumes "\<And>e w w' fl. step e w = (w', fl) \<Longrightarrow> frame (wk_bundle w') = frame (wk_bundle w) \<and>
     set (qr_flags (wk_quarantine w)) \<subseteq> set (qr_flags (wk_quarantine w'))"
  shows "frame (wk_bundle (fst (walk_entries step es w))) = frame (wk_bundle w) \<and>
     set (qr_flags (wk_quarantine w)) \<subseteq> set (qr_flags (wk_quarantine (fst (walk_entries step es w))))"
proof (induction es arbitrary: w)
  case (Cons e es)
  obtain w' fl where s: "step e w = (w', fl)" by fastforce
  show ?case using assms [OF s] Cons [of w'] s by (cases fl) auto
qed simp

lemma guard_frames:
  "entry_guard name reason w = (w', fl) \<Longrightarrow> frame (wk_bundle w') = frame (wk_bundle w) \<and>
     set (qr_flags (wk_quarantine w)) \<subseteq> set (qr_flags (wk_quarantine w'))"
  "size_guard repr c n d w = (w', fl) \<Longrightarrow> frame (wk_bundle w') = frame (wk_bundle w) \<and>
     set (qr_flags (wk_quarantine w)) \<subseteq> set (qr_flags (wk_quarantine w'))"
  by (auto simp: entry_guard_def size_guard_def Let_def frame_simps split: prod.splits option.splits if_splits)

lemma store_frames:
  "zip_store l z w = (w', f) \<Longrightarrow> frame (wk_bundle w') = frame (wk_bundle w) \<and> wk_quarantine w' = wk_quarantine w"
  "tar_store t w = (w', f) \<Longrightarrow> frame (wk_bundle w') = frame (wk_bundle w) \<and> wk_quarantine w' = wk_quarantine w"
  by (auto simp: zip_store_def tar_store_def Let_def frame_simps split: sum.splits prod.splits if_splits)

lemma zip_step_frame:
  "zip_step repr l depth e w = (w', fl) \<Longrightarrow> frame (wk_bundle w') = frame (wk_bundle w) \<and>
     set (qr_flags (wk_quarantine w)) \<subseteq> set (qr_flags (wk_quarantine w'))"
  unfolding zip_step_def guarded_def Let_def
  by (force dest: guard_frames store_frames simp: frame_simps split: prod.splits option.splits if_splits)

lemma tar_step_frame:
  "tar_step repr e w = (w', fl) \<Longrightarrow> frame (wk_bundle w') = frame (wk_bundle w) \<and>
     set (qr_flags (wk_quarantine w)) \<subseteq> set (qr_flags (wk_quarantine w'))"
  unfolding tar_step_def guarded_def
  by (force dest: guard_frames store_frames simp: frame_simps split: prod.splits option.splits if_splits)

lemmas zip_walk_frame = walk_frame [where step = "zip_step repr l depth" for repr l depth, OF zip_step_frame]
lemmas tar_walk_frame = walk_frame [where step = "tar_step repr" for repr, OF tar_step_frame]

interpretation archive_ad: flagging_adapter bid "''archive''" "archive_extract repr zo ta bid" for bid repr zo ta
proof
  show "own_bundle bid ''archive'' cx b" if "archive_extract repr zo ta bid data cx = Inr b" for data cx b
    using that
  proof (cases rule: archive_extract_cases)
    case (report m c mime)
    then show ?thesis by (intro own_bundleI [where mime = mime]) (simp add: frame_simps)
  next
    case (zip es mime)
    then show ?thesis using zip_walk_frame
      by (intro own_bundleI [where mime = mime]) (simp add: start_walk_def)
  next
    case (tar es mime)
    then show ?thesis using tar_walk_frame
      by (intro own_bundleI [where mime = mime]) (simp add: start_walk_def)
  qed
  show "set (qr_flags (cx_quarantine cx)) \<subseteq> set (sc_flags (bn_security b))"
    if "archive_extract repr zo ta bid data cx = Inr b" for data cx b
    using that
  proof (cases rule: archive_extract_cases)
    case (zip es mime)
    then show ?thesis
      using zip_walk_frame [where w = "start_walk cx (start_bundle bid ''archive'' mime cx)"]
        close_walk_simps(3) by (fastforce simp: start_walk_def)
  next
    case (tar es mime)
    then show ?thesis
      using tar_walk_frame [where w = "start_walk cx (start_bundle bid ''archive'' mime cx)"]
        close_walk_simps(3) by (fastforce simp: start_walk_def)
  qed simp
qed

end
