(* ===== verification/IntakeCorrect.thy ===== *)
theory IntakeCorrect
  imports IntakePipeline ArchiveCorrect
begin

section \<open>The intake pipeline: correctness\<close>

text \<open>
  What every analysis guarantees, whatever the file contains and whatever the packages do: the bundle is
  untrusted and describes the bytes it was made from, refused files reach no adapter, the registry picks
  the first adapter that claims the file, the evidence block is fenced.
\<close>

subsection \<open>The catch-all adapter\<close>

interpretation unknown_ad: flagging_adapter bid "''unknown_binary''" "unknown_extract bid" for bid
proof
  show "own_bundle bid ''unknown_binary'' cx b" if "unknown_extract bid data cx = Inr b" for data cx b
    using that by (intro own_bundleI [where mime = "if cx_mime cx = [] then ''application/octet-stream'' else cx_mime cx"])
      (auto simp: unknown_extract_def Let_def frame_simps)
  show "set (qr_flags (cx_quarantine cx)) \<subseteq> set (sc_flags (bn_security b))"
    if "unknown_extract bid data cx = Inr b" for data cx b
    using that by (auto simp: unknown_extract_def Let_def security_flags no_args_def)
qed

text \<open>Only printable bytes get through.\<close>

lemma printable_runs_printable:
  "list_all is_printable buf \<Longrightarrow> r \<in> set (printable_runs buf s) \<Longrightarrow> list_all is_printable r"
  by (induction buf s rule: printable_runs.induct) (auto split: if_splits)

subsection \<open>Every adapter\<close>

lemma pure_adapter_simps [simp]:
  "ad_id (pure_adapter i s r) = i" "ad_extract (pure_adapter i s r) = r"
  "ad_supports (pure_adapter i s r) m f d = Inr (s m f d)"
  by (simp_all add: pure_adapter_def)

lemma adapters_own:
  assumes "a \<in> set (ADAPTERS tls bid)" "ad_extract a data cx = Inr b"
  shows "own_bundle bid (ad_id a) cx b"
  using assms unfolding ADAPTERS_def unknown_adapter_def list.set
  by (elim insertE; (simp only: pure_adapter_simps adapter.simps empty_iff)?)
    (blast intro: markdown.extract_own html_ad.extract_own notebook_ad.extract_own json_ad.extract_own yaml_ad.extract_own
      csv_ad.extract_own pdf_ad.extract_own docx_ad.extract_own pptx_ad.extract_own xlsx_ad.extract_own odf_ad.extract_own
      image_ad.extract_own media_ad.extract_own code.extract_own archive_ad.extract_own plain.extract_own
      unknown_ad.extract_own)+

lemma adapters_flags:
  assumes "a \<in> set (ADAPTERS tls bid)" "ad_id a \<noteq> ''pdf''" "ad_extract a data cx = Inr b"
  shows "set (qr_flags (cx_quarantine cx)) \<subseteq> set (sc_flags (bn_security b))"
  using assms unfolding ADAPTERS_def unknown_adapter_def list.set
  by (elim insertE; (simp only: pure_adapter_simps adapter.simps empty_iff)?)
    (blast dest: markdown.extract_flags html_ad.extract_flags notebook_ad.extract_flags json_ad.extract_flags
      yaml_ad.extract_flags csv_ad.extract_flags docx_ad.extract_flags pptx_ad.extract_flags xlsx_ad.extract_flags
      odf_ad.extract_flags image_ad.extract_flags media_ad.extract_flags code.extract_flags archive_ad.extract_flags
      plain.extract_flags unknown_ad.extract_flags)+

subsection \<open>Routing\<close>

lemma first_supporting_Some:
  "first_supporting mime f data as = Inr (Some a) \<Longrightarrow>
     \<exists>us vs. as = us @ a # vs \<and> ad_supports a mime f data = Inr True \<and>
       list_all (\<lambda>x. ad_id x = ''unknown_binary'' \<or> ad_supports x mime f data = Inr False) us"
proof (induction as)
  case (Cons x as)
  show ?case
  proof (cases "ad_id x \<noteq> ''unknown_binary'' \<and> ad_supports x mime f data = Inr True")
    case True
    then have "a = x" using Cons.prems by simp
    then show ?thesis using True by (intro exI [of _ "[]"] exI [of _ as]) simp
  next
    case False
    then have rest: "first_supporting mime f data as = Inr (Some a)"
      "ad_id x = ''unknown_binary'' \<or> ad_supports x mime f data = Inr False"
      using Cons.prems by (cases "ad_supports x mime f data"; auto split: if_splits)+
    then obtain us vs where "as = us @ a # vs" "ad_supports a mime f data = Inr True"
      "list_all (\<lambda>x. ad_id x = ''unknown_binary'' \<or> ad_supports x mime f data = Inr False) us"
      using Cons.IH by blast
    then show ?thesis using rest(2) by (intro exI [of _ "x # us"] exI [of _ vs]) simp
  qed
qed simp

lemma first_supporting_None:
  "first_supporting mime f data as = Inr None \<Longrightarrow>
     list_all (\<lambda>x. ad_id x = ''unknown_binary'' \<or> ad_supports x mime f data = Inr False) as"
proof (induction as)
  case (Cons x as)
  then show ?case by (cases "ad_supports x mime f data") (auto split: if_splits)
qed simp

lemma ADAPTERS_split: "\<exists>known. ADAPTERS tls bid = known @ [unknown_adapter bid] \<and> list_all (\<lambda>x. ad_id x \<noteq> ''unknown_binary'') known"
  unfolding ADAPTERS_def by (intro exI [of _ "butlast (ADAPTERS tls bid)"]) (simp add: ADAPTERS_def)

lemma resolve_split:
  assumes "resolve_adapter tls bid mime f data = Inr a"
  obtains us vs where "ADAPTERS tls bid = us @ a # vs" "ad_supports a mime f data = Inr True"
    "list_all (\<lambda>x. ad_supports x mime f data = Inr False) us"
proof -
  obtain known where k: "ADAPTERS tls bid = known @ [unknown_adapter bid]" "list_all (\<lambda>x. ad_id x \<noteq> ''unknown_binary'') known"
    using ADAPTERS_split by blast
  obtain r where r: "first_supporting mime f data (ADAPTERS tls bid) = Inr r"
    using assms by (auto simp: resolve_adapter_def bnd_Inr_iff)
  show ?thesis
  proof (cases r)
    case None
    then have "list_all (\<lambda>x. ad_supports x mime f data = Inr False) known"
      using first_supporting_None r k by (fastforce simp: list_all_iff)
    moreover have "a = unknown_adapter bid" using assms r None k(1) by (simp add: resolve_adapter_def)
    ultimately show ?thesis using that [of known "[]"] k(1) by (simp add: unknown_adapter_def unknown_supports_def)
  next
    case (Some x)
    then have "a = x" using assms r by (simp add: resolve_adapter_def)
    moreover obtain us vs where s: "ADAPTERS tls bid = us @ x # vs" "ad_supports x mime f data = Inr True"
      "list_all (\<lambda>x. ad_id x = ''unknown_binary'' \<or> ad_supports x mime f data = Inr False) us"
      using first_supporting_Some r Some by blast
    moreover have "set us \<subseteq> set known"
      using s(1) k(1) by (metis append_butlast_last_id butlast_append butlast_snoc list.simps(3) set_append sup_ge1 append_is_Nil_conv)
    ultimately show ?thesis using that k(2) by (fastforce simp: list_all_iff)
  qed
qed

text \<open>The registry's choice: the adapter returned claims the file, and every adapter before it in the
  registry declined it. The catch-all comes last, so there always is one, and it is taken only when all
  the others declined.\<close>

theorem first_claiming_adapter_is_chosen:
  assumes "resolve_adapter tls bid mime f data = Inr a"
  shows "\<exists>us vs. ADAPTERS tls bid = us @ a # vs \<and> ad_supports a mime f data = Inr True \<and>
    list_all (\<lambda>x. ad_supports x mime f data = Inr False) us"
  using assms by (rule resolve_split) blast

text \<open>A file on disk called \<open>notes.md\<close>, with every package missing.\<close>

definition no_zip :: zip_open where
  "no_zip data = Inl (BadZipFile ''File is not a zip file'')"

definition bare_tools :: tools where
  "bare_tools = \<lparr>tl_sha = (\<lambda>d. ''0a''), tl_guess = (\<lambda>_. None), tl_repr = (\<lambda>_. []),
     tl_json = \<lparr>jl_loads = (\<lambda>_. Inl (ValueError ''no'')), jl_pretty = (\<lambda>_. []), jl_decode_error = (\<lambda>_. ''bad''), jl_repr = (\<lambda>_. [])\<rparr>,
     tl_yaml = None, tl_html = (\<lambda>t. Inr [Text t]), tl_pdf = None, tl_zip = no_zip, tl_tar = no_tar, tl_docx = None,
     tl_pptx = None, tl_xlsx = None, tl_odf = None, tl_xml = (\<lambda>_. Inr (Inl ''no'')), tl_pil = None,
     tl_ocr = \<lparr>ot_hook = None, ot_missing = Some ''PIL'', ot_binary = False, ot_read = (\<lambda>_. Inr None)\<rparr>,
     tl_media = \<lparr>ml_probe = (\<lambda>_. None), ml_loads = (\<lambda>_. Inl (ValueError ''no'')), ml_repr = (\<lambda>_. [])\<rparr>,
     tl_transcribe = \<lparr>tr_hook = None, tr_fast = None, tr_whisper = None\<rparr>, tl_schema = (\<lambda>_. [])\<rparr>"

definition demo_request :: "string \<Rightarrow> request" where
  "demo_request name = \<lparr>rq_filename = Some name, rq_path = None, rq_mode = ''link'', rq_file_id = None, rq_limits = None,
     rq_evidence = True, rq_modified = None, rq_depth = 0, rq_fresh_id = ''f1'', rq_bundle_id = ''b1''\<rparr>"

theorem first_claiming_adapter_is_chosen_witness:
  "ad_id (projr (resolve_adapter bare_tools ''b'' ''application/json'' (Some ''x.ipynb'') ''{}'')) = ''notebook'' \<and>
   (\<exists>us vs. ADAPTERS bare_tools ''b'' = us @ projr (resolve_adapter bare_tools ''b'' ''application/json'' (Some ''x.ipynb'') ''{}'') # vs \<and>
      list_all (\<lambda>x. ad_supports x ''application/json'' (Some ''x.ipynb'') ''{}'' = Inr False) us)"
proof -
  let ?r = "resolve_adapter bare_tools ''b'' ''application/json'' (Some ''x.ipynb'') ''{}''"
  have r: "isl ?r = False" "ad_id (projr ?r) = ''notebook''" by code_simp+
  then have "?r = Inr (projr ?r)" by (cases ?r) simp_all
  from first_claiming_adapter_is_chosen [OF this] show ?thesis using r(2) by blast
qed

subsection \<open>The bundle describes the file\<close>

definition describes_file :: "tools \<Rightarrow> string \<Rightarrow> request \<Rightarrow> doc_bundle \<Rightarrow> bool" where
  "describes_file tls data rq b \<longleftrightarrow>
     bn_id b = rq_bundle_id rq \<and> bn_trust b = ''untrusted'' \<and> so_hash (bn_source b) = ''sha256:'' @ tl_sha tls data \<and>
     so_size (bn_source b) = int (length data) \<and> so_path (bn_source b) = present (rq_path rq) \<and>
     so_file_id (bn_source b) = request_file_id rq \<and>
     bn_derived b = [(request_file_id rq, ''sha256:'' @ tl_sha tls data, ''source'')]"

lemma describes_frame:
  "frame b = frame b' \<Longrightarrow> describes_file tls data rq b = describes_file tls data rq b'"
  by (simp add: describes_file_def frame_def)

lemma wrap_bundle_Inr:
  "wrap_bundle tls b e = Inr r \<Longrightarrow> ir_bundle r = b \<and> ir_validation r = validate_document_bundle tls b \<and>
     (if e then \<exists>s. ir_evidence r = Some s \<and> format_untrusted_evidence_block b 12000 = Inr s else ir_evidence r = None)"
  by (auto simp: wrap_bundle_def Let_def bnd_Inr_iff split: if_splits)

lemma refused_describes:
  "describes_file tls data rq (refused_bundle rq (identify (tl_sha tls) (tl_zip tls) (tl_guess tls) data f) aid)"
  by (simp add: describes_file_def refused_bundle_def empty_bundle_def identify_def file_hash_def)

lemma set_modified_simps [simp]:
  "bn_id (set_modified m b) = bn_id b" "bn_trust (set_modified m b) = bn_trust b"
  "so_hash (bn_source (set_modified m b)) = so_hash (bn_source b)" "so_size (bn_source (set_modified m b)) = so_size (bn_source b)"
  "so_path (bn_source (set_modified m b)) = so_path (bn_source b)" "so_file_id (bn_source (set_modified m b)) = so_file_id (bn_source b)"
  "bn_derived (set_modified m b) = bn_derived b" "bn_adapter (set_modified m b) = bn_adapter b"
  "bn_segments (set_modified m b) = bn_segments b" "bn_errors (set_modified m b) = bn_errors b"
  by (simp_all add: set_modified_def split: option.split)

text \<open>The three ways an analysis ends with a result.\<close>

lemma analyze_bytes_cases:
  assumes "analyze_bytes tls data rq = Inr r"
  obtains m where "max_file_bytes (request_limits rq) < int (length data)"
      "ir_bundle r = size_bundle rq (identify (tl_sha tls) (tl_zip tls) (tl_guess tls) data (rq_filename rq)) m"
  | "int (length data) \<le> max_file_bytes (request_limits rq)"
      "blocked_file (request_quarantine rq) (identify (tl_sha tls) (tl_zip tls) (tl_guess tls) data (rq_filename rq))"
      "ir_bundle r = blocked_bundle rq (identify (tl_sha tls) (tl_zip tls) (tl_guess tls) data (rq_filename rq)) (request_quarantine rq)"
  | a b where "int (length data) \<le> max_file_bytes (request_limits rq)"
      "\<not> blocked_file (request_quarantine rq) (identify (tl_sha tls) (tl_zip tls) (tl_guess tls) data (rq_filename rq))"
      "resolve_adapter tls (rq_bundle_id rq) (sniff_mime (tl_zip tls) (tl_guess tls) data (rq_filename rq)) (rq_filename rq) data = Inr a"
      "ad_extract a data (request_ctx rq (identify (tl_sha tls) (tl_zip tls) (tl_guess tls) data (rq_filename rq)) (request_quarantine rq)) = Inr b"
      "ir_bundle r = set_modified (rq_modified rq) b"
proof -
  let ?fi = "identify (tl_sha tls) (tl_zip tls) (tl_guess tls) data (rq_filename rq)"
  have lim: "tk_limits (new_tracker l) = l" for l by (simp add: new_tracker_def)
  show ?thesis
  proof (cases "check_file_size (new_tracker (request_limits rq)) (int (length data))")
    case (Some m)
    then have "max_file_bytes (request_limits rq) < int (length data)"
      using check_file_size_None [of "new_tracker (request_limits rq)" "int (length data)"] by (simp add: lim)
    moreover have "wrap_bundle tls (size_bundle rq ?fi m) (rq_evidence rq) = Inr r"
      using assms Some by (simp add: analyze_bytes_def Let_def)
    ultimately show ?thesis using that(1) wrap_bundle_Inr by blast
  next
    case None
    then have sz: "int (length data) \<le> max_file_bytes (request_limits rq)" by (simp add: check_file_size_None lim)
    show ?thesis
    proof (cases "blocked_file (request_quarantine rq) ?fi")
      case True
      then have "wrap_bundle tls (blocked_bundle rq ?fi (request_quarantine rq)) (rq_evidence rq) = Inr r"
        using assms None by (simp add: analyze_bytes_def Let_def)
      then show ?thesis using that(2) sz True wrap_bundle_Inr by blast
    next
      case False
      then obtain a b where "resolve_adapter tls (rq_bundle_id rq) (fi_mime ?fi) (rq_filename rq) data = Inr a"
        "ad_extract a data (request_ctx rq ?fi (request_quarantine rq)) = Inr b"
        "wrap_bundle tls (set_modified (rq_modified rq) b) (rq_evidence rq) = Inr r"
        using assms None by (auto simp: analyze_bytes_def Let_def bnd_Inr_iff)
      then show ?thesis using that(3) sz False wrap_bundle_Inr by (simp add: identify_def)
    qed
  qed
qed

lemma wrapped_evidence: "wrap_bundle tls b True = Inr r \<Longrightarrow>
  \<exists>s. ir_evidence r = Some s \<and> format_untrusted_evidence_block (ir_bundle r) 12000 = Inr s"
  using wrap_bundle_Inr [of tls b True r] by auto

lemma analysis_evidence:
  assumes "analyze_bytes tls data rq = Inr r" "rq_evidence rq"
  shows "\<exists>s. ir_evidence r = Some s \<and> format_untrusted_evidence_block (ir_bundle r) 12000 = Inr s"
  using assms by (auto simp: analyze_bytes_def Let_def bnd_Inr_iff dest: wrapped_evidence split: option.splits if_splits)

lemma resolve_in: "resolve_adapter tls bid mime f data = Inr a \<Longrightarrow> a \<in> set (ADAPTERS tls bid)"
  by (erule resolve_split) simp

lemma analysis_describes: "analyze_bytes tls data rq = Inr r \<Longrightarrow> describes_file tls data rq (ir_bundle r)"
proof (erule analyze_bytes_cases)
  fix a b
  let ?fi = "identify (tl_sha tls) (tl_zip tls) (tl_guess tls) data (rq_filename rq)"
  let ?cx = "request_ctx rq ?fi (request_quarantine rq)"
  assume "resolve_adapter tls (rq_bundle_id rq) (sniff_mime (tl_zip tls) (tl_guess tls) data (rq_filename rq)) (rq_filename rq) data = Inr a"
    "ad_extract a data ?cx = Inr b" and r: "ir_bundle r = set_modified (rq_modified rq) b"
  then have "own_bundle (rq_bundle_id rq) (ad_id a) ?cx b" using adapters_own resolve_in by blast
  then obtain mime where "frame b = frame (start_bundle (rq_bundle_id rq) (ad_id a) mime ?cx)" by (auto simp: own_bundle_def)
  then have "describes_file tls data rq b"
    by (simp add: describes_file_def frame_def start_bundle_def empty_bundle_def request_ctx_def identify_def file_hash_def)
  then show ?thesis by (simp add: r describes_file_def)
qed (auto simp: size_bundle_def blocked_bundle_def frame_simps intro: refused_describes
  [THEN describes_frame [THEN iffD1, rotated]])

text \<open>C30: Whatever the adapters and their packages do, the bundle an analysis returns is marked untrusted and
  carries the hash, size, path and id of exactly the bytes that were analysed.\<close>

theorem analysis_keeps_identity:
  assumes "analyze_bytes tls data rq = Inr r"
  shows "bn_trust (ir_bundle r) = ''untrusted'' \<and>
    so_hash (bn_source (ir_bundle r)) = ''sha256:'' @ tl_sha tls data \<and>
    so_size (bn_source (ir_bundle r)) = int (length data) \<and>
    so_path (bn_source (ir_bundle r)) = present (rq_path rq) \<and>
    bn_derived (ir_bundle r) = [(request_file_id rq, ''sha256:'' @ tl_sha tls data, ''source'')]"
  using analysis_describes [OF assms] by (simp add: describes_file_def)

definition demo_intake :: intake_result where
  "demo_intake = projr (analyze_bytes bare_tools ''# Hi'' (demo_request ''notes.md''))"

lemma demo_intake_result: "analyze_bytes bare_tools ''# Hi'' (demo_request ''notes.md'') = Inr demo_intake"
proof -
  have "isl (analyze_bytes bare_tools ''# Hi'' (demo_request ''notes.md'')) = False" by code_simp
  then show ?thesis unfolding demo_intake_def
    by (cases "analyze_bytes bare_tools ''# Hi'' (demo_request ''notes.md'')") simp_all
qed

theorem analysis_keeps_identity_witness:
  "bn_adapter (ir_bundle demo_intake) = ''markdown'' \<and> List.map sg_text (bn_segments (ir_bundle demo_intake)) = [''Hi'', ''# Hi''] \<and>
   so_hash (bn_source (ir_bundle demo_intake)) = ''sha256:0a'' \<and> so_size (bn_source (ir_bundle demo_intake)) = 4"
proof (intro conjI)
  show "bn_adapter (ir_bundle demo_intake) = ''markdown''" by code_simp
  show "List.map sg_text (bn_segments (ir_bundle demo_intake)) = [''Hi'', ''# Hi'']" by code_simp
  show "so_hash (bn_source (ir_bundle demo_intake)) = ''sha256:0a''" "so_size (bn_source (ir_bundle demo_intake)) = 4"
    using analysis_keeps_identity [OF demo_intake_result] by (simp_all add: bare_tools_def)
qed

subsection \<open>Refused files\<close>

lemma takeWhile_before: "d \<in> set s \<Longrightarrow> e \<notin> set (takeWhile (\<lambda>c. c \<noteq> d) s) \<Longrightarrow> e \<noteq> d \<Longrightarrow>
  \<exists>t. takeWhile (\<lambda>c. c \<noteq> e) s = takeWhile (\<lambda>c. c \<noteq> d) s @ d # t"
  by (induction s) auto

lemma after_last_within:
  assumes "d \<in> set s" "e \<notin> set (after_last d s)" "e \<noteq> d"
  shows "d \<in> set (after_last e s)" "after_last d (after_last e s) = after_last d s"
proof -
  obtain t where t: "takeWhile (\<lambda>c. c \<noteq> e) (rev s) = takeWhile (\<lambda>c. c \<noteq> d) (rev s) @ d # t"
    using takeWhile_before [of d "rev s" e] assms by (auto simp: after_last_def)
  then show "d \<in> set (after_last e s)" by (simp add: after_last_def)
  have "takeWhile (\<lambda>c. c \<noteq> d) (takeWhile (\<lambda>c. c \<noteq> d) (rev s) @ d # t) = takeWhile (\<lambda>c. c \<noteq> d) (rev s)"
    by (subst takeWhile_append2) (auto dest: set_takeWhileD)
  then show "after_last d (after_last e s) = after_last d s" using t by (simp add: after_last_def)
qed

lemma lower_char_code: "(of_char (lower_char c) :: nat) = (let n = of_char c in if 65 \<le> n \<and> n \<le> 90 then n + 32 else n)"
  by (simp add: lower_char_def Let_def)

lemma lower_char_other:
  assumes "d \<in> {CHR ''.'', CHR ''/'', CHR 0x5C}"
  shows "lower_char c = d \<longleftrightarrow> c = d"
proof -
  have "lower_char c = d \<longleftrightarrow> (of_char (lower_char c) :: nat) = of_char d" by (simp only: of_char_eq_iff)
  also have "\<dots> \<longleftrightarrow> (of_char c :: nat) = of_char d"
    using assms by (auto simp: lower_char_code Let_def)
  finally show ?thesis by simp
qed

definition unix_char :: "char \<Rightarrow> char" where
  "unix_char c = (if c = CHR 0x5C then CHR ''/'' else c)"

lemma unix_lower_map: "unix_lower n = List.map (unix_char \<circ> lower_char) n"
  by (simp add: unix_lower_def lower_def unix_char_def)

lemma unix_char_dot: "unix_char (lower_char c) = CHR ''.'' \<longleftrightarrow> c = CHR ''.''"
  using lower_char_other [of "CHR ''.''" c] by (auto simp: unix_char_def)

lemma after_last_map: "(\<And>c. f c = d \<longleftrightarrow> c = d) \<Longrightarrow> after_last d (List.map f s) = List.map f (after_last d s)"
  by (simp add: after_last_def rev_map takeWhile_map comp_def)

lemma ext_of_ext_guess:
  assumes "ext_guess (Some n) = Some e" "CHR ''/'' \<notin> set e" "CHR 0x5C \<notin> set e"
  shows "ext_of n = e"
proof -
  let ?n = "unix_lower n"
  have dot: "CHR ''.'' \<in> set n" and e: "e = ''.'' @ lower (after_last (CHR ''.'') n)"
    using assms(1) by (auto simp: ext_guess_def split: if_splits)
  have tail: "after_last (CHR ''.'') ?n = List.map unix_char (lower (after_last (CHR ''.'') n))"
    using after_last_map [of "unix_char \<circ> lower_char" "CHR ''.''" n] by (simp add: unix_lower_map unix_char_dot lower_def)
  also have "\<dots> = lower (after_last (CHR ''.'') n)"
    using assms(3) e by (auto simp: unix_char_def intro!: map_idI)
  finally have last: "after_last (CHR ''.'') ?n = lower (after_last (CHR ''.'') n)" .
  have "unix_char (lower_char (CHR ''.'')) = CHR ''.''" by (simp add: unix_char_dot)
  then have "CHR ''.'' \<in> set ?n" using dot unfolding unix_lower_map by force
  moreover have "CHR ''/'' \<notin> set (after_last (CHR ''.'') ?n)" using assms(2) e last by simp
  ultimately have "CHR ''.'' \<in> set (after_last (CHR ''/'') ?n)"
    "after_last (CHR ''.'') (after_last (CHR ''/'') ?n) = after_last (CHR ''.'') ?n"
    using after_last_within [of "CHR ''.''" ?n "CHR ''/''"] by simp_all
  then show ?thesis using last e by (simp add: ext_of_def Let_def)
qed

lemma blocked_ext_plain: "e \<in> set BLOCKED_EXTS \<Longrightarrow> CHR ''/'' \<notin> set e \<and> CHR 0x5C \<notin> set e \<and> e \<in> set HARD_EXECUTABLE_EXTENSIONS"
  by (auto simp: BLOCKED_EXTS_def HARD_EXECUTABLE_EXTENSIONS_def)

lemma blocked_by_name:
  assumes "ext_guess (rq_filename rq) = Some e" "e \<in> set BLOCKED_EXTS"
  shows "blocked_file (request_quarantine rq) (identify sha zo guess data (rq_filename rq))"
proof -
  obtain n where n: "rq_filename rq = Some n" "CHR ''.'' \<in> set n"
    using assms(1) by (auto simp: ext_guess_def split: option.splits if_splits)
  then have "present (rq_filename rq) = Some n" by (cases n) (auto simp: present_def)
  then have "request_quarantine rq = quarantine_path_name n" by (simp add: request_quarantine_def given_or_def)
  moreover have "ext_of n = e" using ext_of_ext_guess assms n blocked_ext_plain by metis
  ultimately show ?thesis
    using assms blocked_ext_plain by (simp add: blocked_file_def identify_def path_blocked_iff)
qed

lemma refused_simps [simp]:
  "bn_segments (refused_bundle rq fi a) = []" "bn_structure (refused_bundle rq fi a) = []"
  "bn_adapter (refused_bundle rq fi a) = a"
  by (simp_all add: refused_bundle_def empty_bundle_def)

lemma guard_bundle_simps [simp]:
  "bn_segments (size_bundle rq fi m) = []" "bn_structure (size_bundle rq fi m) = []" "bn_errors (size_bundle rq fi m) \<noteq> []"
  "bn_adapter (size_bundle rq fi m) = ''limits''"
  "bn_segments (blocked_bundle rq fi q) = []" "bn_structure (blocked_bundle rq fi q) = []"
  "bn_errors (blocked_bundle rq fi q) \<noteq> []" "bn_adapter (blocked_bundle rq fi q) = ''quarantine''"
  by (simp_all add: size_bundle_def blocked_bundle_def apply_security_def fail_def)

text \<open>C31: A file larger than the limit, or named like one of the seven executable kinds, reaches no adapter:
  the bundle has no content, says why, and the adapter named in it is the guard.\<close>

theorem refused_files_are_not_parsed:
  assumes "analyze_bytes tls data rq = Inr r"
    and "max_file_bytes (request_limits rq) < int (length data) \<or>
      (\<exists>e\<in>set BLOCKED_EXTS. ext_guess (rq_filename rq) = Some e)"
  shows "bn_segments (ir_bundle r) = [] \<and> bn_structure (ir_bundle r) = [] \<and> bn_errors (ir_bundle r) \<noteq> [] \<and>
    bn_adapter (ir_bundle r) \<in> {''limits'', ''quarantine''}"
  using assms(1)
proof (cases rule: analyze_bytes_cases)
  case (3 a b)
  then show ?thesis using assms(2) blocked_by_name by fastforce
qed simp_all

theorem refused_files_are_not_parsed_witness:
  "List.map is_message (bn_errors (ir_bundle (projr (analyze_bytes bare_tools ''MZ'' (demo_request ''a b/Setup.EXE''))))) =
     [''executable extension blocked: .exe''] \<and>
   bn_segments (ir_bundle (projr (analyze_bytes bare_tools ''MZ'' (demo_request ''a b/Setup.EXE'')))) = []"
proof
  let ?r = "analyze_bytes bare_tools ''MZ'' (demo_request ''a b/Setup.EXE'')"
  show "List.map is_message (bn_errors (ir_bundle (projr ?r))) = [''executable extension blocked: .exe'']" by code_simp
  have "isl ?r = False" by code_simp
  then have "?r = Inr (projr ?r)" by (cases ?r) simp_all
  moreover have "\<exists>e\<in>set BLOCKED_EXTS. ext_guess (rq_filename (demo_request ''a b/Setup.EXE'')) = Some e" by code_simp
  ultimately show "bn_segments (ir_bundle (projr ?r)) = []"
    using refused_files_are_not_parsed by blast
qed

text \<open>Other executables pass the guard: the extension list of the quarantine is longer than the one the
  pipeline refuses, so a script container like \<open>.jar\<close> or \<open>.vbs\<close> is analysed.\<close>

lemma blocked_names_that_pass:
  "list_all (\<lambda>e. qr_blocked (quarantine_path_name (''x'' @ e)))
     (List.filter (\<lambda>e. e \<notin> set BLOCKED_EXTS) HARD_EXECUTABLE_EXTENSIONS)"
  "bn_adapter (ir_bundle (projr (analyze_bytes bare_tools ''MsgBox 1'' (demo_request ''x.vbs'')))) = ''plain_text''"
  by code_simp+

subsection \<open>Files on disk\<close>

text \<open>C33: \<open>analyze_path\<close> returns a result only for a file whose hash is the same before and after, the one in
  the bundle; and for a file nobody touches it is exactly the analysis of its bytes: the two checks
  that raise never fire.\<close>

theorem path_analysis_is_of_stable_bytes:
  "(\<forall>r. analyze_path tls df rq = Inr r \<longrightarrow>
     (\<exists>data again. df_first df = Inr data \<and> df_second df = Inr again \<and> tl_sha tls again = tl_sha tls data \<and>
        so_hash (bn_source (ir_bundle r)) = file_hash (tl_sha tls) data)) \<and>
   (df_first df = Inr data \<and> df_second df = Inr data \<longrightarrow>
     analyze_path tls df rq = analyze_bytes tls data (path_request df rq))"
proof (intro conjI allI impI)
  fix r
  assume a: "analyze_path tls df rq = Inr r"
  then obtain data again where d: "df_first df = Inr data" "df_second df = Inr again"
    by (auto simp: analyze_path_def bnd_Inr_iff Let_def)
  have "tl_sha tls again = tl_sha tls data \<and> so_hash (bn_source (ir_bundle r)) = file_hash (tl_sha tls) data"
    using a d by (auto simp: analyze_path_def bnd_Inr_iff Let_def identify_def file_hash_def split: if_splits)
  then show "\<exists>data again. df_first df = Inr data \<and> df_second df = Inr again \<and> tl_sha tls again = tl_sha tls data \<and>
        so_hash (bn_source (ir_bundle r)) = file_hash (tl_sha tls) data"
    using d by blast
next
  assume d: "df_first df = Inr data \<and> df_second df = Inr data"
  show "analyze_path tls df rq = analyze_bytes tls data (path_request df rq)"
  proof (cases "analyze_bytes tls data (path_request df rq)")
    case (Inr r)
    then have "so_hash (bn_source (ir_bundle r)) = ''sha256:'' @ tl_sha tls data"
      using analysis_describes by (simp add: describes_file_def)
    then show ?thesis using d Inr by (simp add: analyze_path_def Let_def identify_def file_hash_def)
  qed (use d in \<open>simp add: analyze_path_def Let_def\<close>)
qed

definition demo_file :: disk_file where
  "demo_file = \<lparr>df_first = Inr ''# Hi'', df_second = Inr ''# Hi'', df_name = ''notes.md'', df_resolved = ''/home/notes.md'',
     df_mtime = None\<rparr>"

theorem path_analysis_is_of_stable_bytes_witness:
  "analyze_path bare_tools demo_file (demo_request ''-'') = analyze_bytes bare_tools ''# Hi'' (path_request demo_file (demo_request ''-'')) \<and>
   so_path (bn_source (ir_bundle (projr (analyze_path bare_tools demo_file (demo_request ''-''))))) = Some ''/home/notes.md''"
proof
  show "analyze_path bare_tools demo_file (demo_request ''-'') = analyze_bytes bare_tools ''# Hi'' (path_request demo_file (demo_request ''-''))"
    using path_analysis_is_of_stable_bytes by (simp add: demo_file_def)
  show "so_path (bn_source (ir_bundle (projr (analyze_path bare_tools demo_file (demo_request ''-''))))) = Some ''/home/notes.md''"
    by code_simp
qed

subsection \<open>Evidence\<close>

lemma evidence_fenced:
  assumes "analyze_bytes tls data rq = Inr r" "rq_evidence rq"
  shows "\<exists>s. ir_evidence r = Some s \<and> prefix (UNTRUSTED_OPEN ''document_bundle'') s \<and> assert_evidence_delimited s \<and>
    contains UNTRUSTED_CLOSE s \<and> \<not> contains UNTRUSTED_CLOSE (butlast s)"
proof -
  obtain s where s: "ir_evidence r = Some s" "format_untrusted_evidence_block (ir_bundle r) 12000 = Inr s"
    using analysis_evidence [OF assms] by blast
  then obtain t where t: "s = delimit_untrusted t ''document_bundle''"
    by (auto simp: format_untrusted_evidence_block_def split: if_splits)
  have o: "\<not> contains UNTRUSTED_CLOSE (UNTRUSTED_OPEN ''document_bundle'')" by code_simp
  have p: "prefix (UNTRUSTED_OPEN ''document_bundle'') s" by (simp add: t delimit_untrusted_def Let_def)
  moreover have "prefix ''<UNTRUSTED_EVIDENCE'' (UNTRUSTED_OPEN ''document_bundle'')" by code_simp
  ultimately have "prefix ''<UNTRUSTED_EVIDENCE'' s" by (rule prefix_order.trans [rotated])
  then have "from_first ''<UNTRUSTED_EVIDENCE'' s = Some s" using from_first_keeps [of _ s "[]"] by (cases s) auto
  then show ?thesis using s(1) p fence_end [OF o] by (simp add: assert_evidence_delimited_def t)
qed

text \<open>C32: The evidence block a planner gets opens with the untrusted tag and contains the closing tag only at
  its very end, whatever is in the file, its name and its metadata.\<close>

theorem evidence_block_is_fenced:
  assumes "analyze_bytes tls data rq = Inr r" "rq_evidence rq"
  shows "\<exists>s. ir_evidence r = Some s \<and> prefix (UNTRUSTED_OPEN ''document_bundle'') s \<and> assert_evidence_delimited s \<and>
    contains UNTRUSTED_CLOSE s \<and> \<not> contains UNTRUSTED_CLOSE (butlast s)"
  using assms by (rule evidence_fenced)

theorem evidence_block_is_fenced_witness:
  "\<not> contains UNTRUSTED_CLOSE (butlast (the (ir_evidence demo_intake))) \<and> contains UNTRUSTED_CLOSE (the (ir_evidence demo_intake))"
proof -
  have "rq_evidence (demo_request ''notes.md'')" by (simp add: demo_request_def)
  from evidence_block_is_fenced [OF demo_intake_result this] show ?thesis by auto
qed

end
