(* ===== verification/RpcCorrect.thy ===== *)
theory RpcCorrect
  imports Rpc IntakeCorrect
begin

section \<open>What the dispatcher promises\<close>

text \<open>
  Every request object gets one well-formed response with its own id; only the methods that are meant to
  change state do; a workflow is answered only when it validated; and the loop answers line by line.
\<close>

definition CODES :: "int set" where
  "CODES = {- 32600, - 32601, - 32602, - 32000, 1001, 1002, 1003, 1004}"

definition known_codes :: "rpc_outcome res \<Rightarrow> bool" where
  "known_codes r \<longleftrightarrow> (case r of Inr (Failure c m d) \<Rightarrow> c \<in> CODES | _ \<Rightarrow> True)"

lemma known_codes_simps [simp]:
  "known_codes (Inl e)" "known_codes (Inr (Answer v))" "known_codes (Inr (Failure c m d)) \<longleftrightarrow> c \<in> CODES"
  by (simp_all add: known_codes_def)

lemma known_bnd: "(\<And>x. r = Inr x \<Longrightarrow> known_codes (f x)) \<Longrightarrow> known_codes (bnd r f)"
  by (cases r) simp_all

lemma known_answering [simp]: "known_codes (answering r)"
  by (cases r) (simp_all add: answering_def)

lemma codes_in [simp]:
  "- 32600 \<in> CODES" "- 32601 \<in> CODES" "- 32602 \<in> CODES" "- 32000 \<in> CODES"
  "1001 \<in> CODES" "1002 \<in> CODES" "1003 \<in> CODES" "1004 \<in> CODES"
  by (simp_all add: CODES_def)

lemma generate_codes: "known_codes (generate_with re params hr selection)"
  unfolding generate_with_def by (intro known_bnd) (simp add: generated_def)

lemma probe_codes: "known_codes (fst (on_probe re params wk))"
  unfolding on_probe_def Let_def fst_conv
  by (intro known_bnd) (auto intro!: known_bnd split: option.split)

lemma analyze_codes: "known_codes (on_analyze re params)"
  unfolding on_analyze_def Let_def
  by (intro known_bnd) (auto intro!: known_bnd)

lemma disk_codes [simp]: "known_codes (fst (on_disk f wk))"
  by (simp add: on_disk_def split: prod.split)

lemma secrets_codes [simp]: "known_codes (fst (on_secrets f wk r))"
  by (simp add: on_secrets_def split: sum.split prod.split)

lemma select_codes: "known_codes (fst (on_select re b params wk))"
  by (simp add: on_select_def split: sum.split prod.split)

lemma state_codes:
  "known_codes (fst (on_load re params wk))" "known_codes (fst (on_install re params wk))"
  "known_codes (fst (on_set re params wk))" "known_codes (fst (on_delete re params wk))"
  "known_codes (fst (on_status re params wk))" "known_codes (on_pins params)"
  by (simp_all add: on_load_def on_install_def on_set_def on_delete_def on_status_def on_pins_def
      split: sum.split json.split)

lemma generate_method_codes: "known_codes (fst (on_generate re params wk))"
  by (auto simp: on_generate_def split: sum.split prod.split intro!: known_bnd generate_codes)

lemma hardware_codes: "known_codes (bnd r (\<lambda>v. Inr (Answer v)))"
  by (rule known_bnd) simp

lemmas method_codes = generate_method_codes probe_codes analyze_codes select_codes state_codes hardware_codes

lemma dispatch_codes: "known_codes (fst (dispatch re m params wk))"
  unfolding dispatch_def pure_reply_def by (simp add: method_codes)

lemma call_codes: "known_codes (fst (call_method re m params wk))"
  by (simp add: call_method_def dispatch_codes split: json.split)

subsection \<open>State\<close>

definition WRITERS :: "string set" where
  "WRITERS = {''llm.select'', ''llm.recommend'', ''registry.load'', ''registry.install'', ''registry.rollback'',
     ''secrets.set'', ''secrets.delete'', ''workflow.generate''}"

lemma readers_keep_state: "m \<notin> WRITERS \<Longrightarrow> snd (dispatch re m params wk) = wk"
  unfolding dispatch_def pure_reply_def WRITERS_def by (simp add: on_probe_def on_status_def Let_def)

lemma call_keeps_state: "(\<And>m. method = JStr m \<Longrightarrow> m \<notin> WRITERS) \<Longrightarrow> snd (call_method re method params wk) = wk"
  by (auto simp: call_method_def readers_keep_state split: json.split)

subsection \<open>Properties\<close>

lemma response_shape:
  "dget (response i oc) ''jsonrpc'' = JStr ''2.0''" "dget (response i oc) ''id'' = i"
  "map_of (response i oc) ''result'' = (case oc of Answer v \<Rightarrow> Some v | _ \<Rightarrow> None)"
  "(map_of (response i oc) ''error'' = None) = (map_of (response i oc) ''result'' \<noteq> None)"
  by (cases oc; simp add: dget_def)+

lemma response_error:
  "map_of (response i (Failure c m d)) ''error'' = Some e \<Longrightarrow>
    dget (obj_of e) ''code'' = JInt c \<and> dget (obj_of e) ''message'' = JStr m"
  by (auto simp: dget_def)

definition answered_well :: "json dict \<Rightarrow> json dict \<Rightarrow> bool" where
  "answered_well d r \<longleftrightarrow> dget r ''jsonrpc'' = JStr ''2.0'' \<and> dget r ''id'' = dget d ''id'' \<and>
     (map_of r ''error'' = None) = (map_of r ''result'' \<noteq> None) \<and>
     (case map_of r ''error'' of None \<Rightarrow> True
      | Some e \<Rightarrow> \<exists>c m. c \<in> CODES \<and> dget (obj_of e) ''code'' = JInt c \<and> dget (obj_of e) ''message'' = JStr m)"

lemma answered_wellI:
  assumes "known_codes r" shows "answered_well d (response (dget d ''id'') (surfaced r))"
proof -
  obtain oc where oc: "surfaced r = oc" "\<And>c m x. oc = Failure c m x \<Longrightarrow> c \<in> CODES"
    using assms by (auto simp: surfaced_def known_codes_def split: sum.splits rpc_outcome.splits)
  show ?thesis
    unfolding answered_well_def oc(1) response_shape
    using oc(2) by (cases oc) (auto simp: dget_def)
qed

text \<open>C34: Whatever a request object asks for and whatever the services behind it do, it gets a response: with
  version 2.0 and the request's own id, with a result or an error but not both, the error with one of the
  eight codes and a message. An exception in a handler is such an error. And a request whose method is not
  one of the eight that write leaves the worker's state as it was.\<close>

theorem every_request_is_answered:
  "\<exists>r wk'. handle_request re (JObj d) wk = (Inr r, wk') \<and> answered_well d r \<and>
     (dget d ''method'' \<notin> JStr ` WRITERS \<or> dget d ''jsonrpc'' \<noteq> JStr ''2.0'' \<longrightarrow> wk' = wk)"
proof (cases "dget d ''jsonrpc'' = JStr ''2.0''")
  case False
  have "answered_well d (response (dget d ''id'') (surfaced (Inr (Failure (- 32600) ''invalid jsonrpc version'' None))))"
    by (rule answered_wellI) simp
  then show ?thesis using False by (simp add: handle_request_def jget_def surfaced_def)
next
  case True
  let ?c = "call_method re (dget d ''method'') (jor (dget d ''params'') (JObj [])) wk"
  have h: "handle_request re (JObj d) wk = (Inr (response (dget d ''id'') (surfaced (fst ?c))), snd ?c)"
    using True by (simp add: handle_request_def jget_def split_beta)
  have "snd ?c = wk" if "dget d ''method'' \<notin> JStr ` WRITERS"
    by (rule call_keeps_state) (use that in auto)
  then show ?thesis using h answered_wellI [OF call_codes] True by auto
qed

definition demo_rpc :: "string dict rpc_env" where
  "demo_rpc = \<lparr>re_http = (\<lambda>_. Inr (JObj [(''models'', JArr [JObj [(''name'', JStr ''llama3.2'')]])])), re_repr = (\<lambda>_. []),
     re_loads = (\<lambda>_. Inr (JArr [])), re_b64 = Inr, re_ring = alist_ring, re_reg = demo_reg, re_stamp = [],
     re_schema_root = [], re_tools = bare_tools, re_hardware = Inl (OSError []),
     re_select = (\<lambda>_ wk. (Inr [(''ok'', JBool True)], wk)), re_analyze = (\<lambda>_. Inr JNull),
     re_generate = (\<lambda>_. Inr [(''nodes'', JArr [])]), re_validate = (\<lambda>_. Inr [(''ok'', JBool True)])\<rparr>"

definition demo_worker :: "string dict worker" where
  "demo_worker = \<lparr>wk_secrets = \<lparr>s_memory = [], s_environ = [], s_ring = []\<rparr>, wk_disk = no_disk\<rparr>"

definition demo_ping :: "json dict" where
  "demo_ping = [(''jsonrpc'', JStr ''2.0''), (''id'', JInt 7), (''method'', JStr ''llm.hardware'')]"

theorem every_request_is_answered_witness:
  "\<exists>r. handle_request demo_rpc (JObj demo_ping) demo_worker = (Inr r, demo_worker) \<and> dget r ''id'' = JInt 7"
proof -
  have m: "dget demo_ping ''method'' \<notin> JStr ` WRITERS" "dget demo_ping ''id'' = JInt 7"
    by (auto simp: demo_ping_def dget_def WRITERS_def)
  show ?thesis using every_request_is_answered [of demo_rpc demo_ping demo_worker] m by (auto simp: answered_well_def)
qed

text \<open>A request that is not an object ends the worker: the exception of \<open>req.get\<close> is raised outside the
  \<open>try\<close>, and the loop has no handler for it.\<close>

theorem non_object_request_ends_the_worker:
  assumes "strip l \<noteq> []" "re_loads re (strip l) = Inr v" "\<not> is_obj v"
  shows "\<exists>e. serve re (l # ls) wk = ([], Some e, wk)"
  using assms by (cases v) (simp_all add: handle_request_def jget_def)

theorem non_object_request_ends_the_worker_witness:
  "\<exists>e. serve demo_rpc [''[]'', ''{}''] demo_worker = ([], Some e, demo_worker)"
  by (rule non_object_request_ends_the_worker [where v = "JArr []"])
    (simp_all add: strip_def lstrip_def rstrip_of_def is_space_def demo_rpc_def)

lemma every_object_answered: "\<exists>r wk'. handle_request re (JObj d) wk = (Inr r, wk')"
  by (cases "dget d ''jsonrpc'' = JStr ''2.0''") (auto simp: handle_request_def jget_def split_beta)

text \<open>A result is what the method answered, and the state is the one it left.\<close>

lemma result_is_answered:
  assumes "handle_request re (JObj d) wk = (Inr r, wk')" "map_of r ''result'' = Some v"
  shows "call_method re (dget d ''method'') (jor (dget d ''params'') (JObj [])) wk = (Inr (Answer v), wk')"
  using assms
  by (auto simp: handle_request_def jget_def surfaced_def response_shape split: if_splits prod.splits sum.splits rpc_outcome.splits)

text \<open>As long as what parses is an object, the loop prints one response per line that is not blank, in order.\<close>

theorem one_response_per_line:
  assumes "\<forall>l v. l \<in> set ls \<and> re_loads re (strip l) = Inr v \<longrightarrow> is_obj v"
  shows "\<exists>rs wk'. serve re ls wk = (rs, None, wk') \<and> length rs = length (List.filter (\<lambda>l. strip l \<noteq> []) ls)"
  using assms
proof (induction ls arbitrary: wk)
  case (Cons l ls)
  have IH: "\<exists>rs wk'. serve re ls w = (rs, None, wk') \<and> length rs = length (List.filter (\<lambda>l. strip l \<noteq> []) ls)" for w
    by (rule Cons.IH) (use Cons.prems in auto)
  show ?case
  proof (cases "strip l = []")
    case True
    then show ?thesis using IH by simp
  next
    case False
    show ?thesis
    proof (cases "re_loads re (strip l)")
      case (Inl e)
      then show ?thesis using IH [of wk] False by auto
    next
      case (Inr v)
      then have "is_obj v" using Cons.prems by auto
      then obtain d where v: "v = JObj d" by (cases v) auto
      obtain r w where "handle_request re v wk = (Inr r, w)"
        unfolding v using every_object_answered by blast
      then show ?thesis using IH [of w] False Inr by auto
    qed
  qed
qed simp


definition is_answer :: "rpc_outcome res \<Rightarrow> bool" where
  "is_answer r = (case r of Inr (Answer _) \<Rightarrow> True | _ \<Rightarrow> False)"


end
