(* ===== verification/ExecTermination.thy ===== *)
theory ExecTermination
  imports ExecResume
begin

section \<open>Termination of a run\<close>

text \<open>
  The retry loop of \<open>execute\<close> once more as the code writes it, \<open>while attempt <= max_retry\<close>, with no
  bound on its iterations: a function that may fail to return. It always returns, with the result of
  \<open>run_attempts\<close>, whose fuel \<open>allowed_attempts\<close> is therefore enough. Calls are counted in the log of
  \<open>logged\<close>.
\<close>

definition max_retry :: "wf_node \<Rightarrow> int" where
  "max_retry n = (case n_retry_max n of None \<Rightarrow> 0 | Some k \<Rightarrow> k)"

partial_function (option) retry_loop ::
  "'env exec_cfg \<Rightarrow> limits \<Rightarrow> wf_node \<Rightarrow> string \<Rightarrow> string \<Rightarrow> int \<Rightarrow> string option \<Rightarrow> run_state \<Rightarrow>
     'env \<Rightarrow> (loop_end \<times> run_state \<times> 'env) option" where
  "retry_loop cfg lts n ck ih attempt err st env =
     (if attempt \<le> max_retry n then
        (if rs_cancel st then Some (LoopHalt, cancel st, env)
         else case do_attempt cfg lts n ck ih (attempt + 1) st env of
                (r, st', env') \<Rightarrow>
                  (case r of
                     Done \<Rightarrow> Some (LoopDone (attempt + 1) None, st', env')
                   | Stopped \<Rightarrow> Some (LoopHalt, st', env')
                   | Threw e \<Rightarrow>
                       retry_loop cfg lts n ck ih (attempt + 1) (Some (exn_str e))
                         (emit (NodeRetry (n_id n) (attempt + 1) (exn_str e)) st') env'))
      else Some (LoopDone attempt err, st, env))"

lemma retry_loop_fuel:
  "nat (max_retry n + 1 - attempt) = k \<Longrightarrow>
     retry_loop cfg lts n ck ih attempt err st env = Some (run_attempts k cfg lts n ck ih attempt err st env)"
proof (induction k arbitrary: attempt err st env)
  case 0
  then show ?case by (subst retry_loop.simps) simp
next
  case (Suc k)
  then have "attempt \<le> max_retry n" "nat (max_retry n + 1 - (attempt + 1)) = k" by linarith+
  then show ?case
    by (subst retry_loop.simps) (auto simp: Suc.IH split: prod.split attempt_end.split)
qed

lemma allowed_attempts_max: "allowed_attempts n = nat (max_retry n + 1)"
  by (simp add: allowed_attempts_def max_retry_def)

subsection \<open>Counting the calls\<close>

definition calls :: "'env logged \<Rightarrow> wf_node list" where
  "calls env = fst (snd env)"

definition called_at_most :: "nat \<Rightarrow> wf_node \<Rightarrow> 'env logged \<Rightarrow> 'env logged \<Rightarrow> bool" where
  "called_at_most k n env env' \<longleftrightarrow> (\<exists>j\<le>k. calls env' = replicate j n @ calls env)"

lemma called_at_most_refl [simp]: "called_at_most k n env env"
  by (auto simp: called_at_most_def)

lemma called_at_most_trans:
  "called_at_most j n a b \<Longrightarrow> called_at_most k n b c \<Longrightarrow> called_at_most (j + k) n a c"
  unfolding called_at_most_def by (metis add_mono append_assoc replicate_add add.commute)

lemma calls_invoke:
  "invoke (logged cfg) n ih rid env = (v, c, env') \<Longrightarrow> called_at_most 1 n env env'"
proof (cases "find_handler cfg (str_or (n_type n) ''summarize'')")
  case (Some h)
  assume "invoke (logged cfg) n ih rid env = (v, c, env')"
  then have "calls env' = replicate 1 n @ calls env"
    using Some by (cases env) (auto simp: invoke_def find_handler_logged log_handler_def calls_def split: prod.splits)
  then show ?thesis by (auto simp: called_at_most_def)
qed (auto simp: invoke_def find_handler_logged)

lemma calls_do_attempt:
  "do_attempt (logged cfg) lts n ck ih att st env = (r, st', env') \<Longrightarrow> called_at_most 1 n env env'"
  by (auto simp: do_attempt_def Let_def split: prod.splits sum.splits dest: calls_invoke)

lemma calls_run_attempts:
  "run_attempts k (logged cfg) lts n ck ih att err st env = (le, st', env') \<Longrightarrow> called_at_most k n env env'"
proof (induction k arbitrary: att err st env)
  case (Suc k)
  obtain r st1 env1 where d: "do_attempt (logged cfg) lts n ck ih (att + 1) st env = (r, st1, env1)"
    by (cases "do_attempt (logged cfg) lts n ck ih (att + 1) st env")
  note one = calls_do_attempt [OF d]
  show ?case
  proof (cases "rs_cancel st \<or> (\<forall>e. r \<noteq> Threw e)")
    case True
    then have "env' = env \<or> env' = env1" using Suc.prems d by (cases r) (auto split: if_splits)
    then show ?thesis using called_at_most_trans [OF one called_at_most_refl [of k]] by auto
  next
    case False
    then obtain e where "r = Threw e" by auto
    then have "called_at_most k n env1 env'" using Suc.prems d False Suc.IH by auto
    then show ?thesis using called_at_most_trans [OF one] by simp
  qed
qed simp

lemma calls_run_node:
  "run_node (logged cfg) lts pins ih n st env = (fl, st', env') \<Longrightarrow> called_at_most (allowed_attempts n) n env env'"
  by (auto simp: run_node_def Let_def split: if_splits prod.splits dest: calls_run_attempts)

lemma calls_ask:
  "ask_approval (logged cfg) n st env = (r, st', env') \<Longrightarrow> calls env' = calls env"
  by (cases env)
    (auto simp: ask_approval_def log_approval_def calls_def Let_def split: option.splits prod.splits sum.splits)

lemma calls_step:
  assumes "node_step (logged cfg) lts resume pins ih n st env = (fl, st', env')"
  shows "called_at_most (allowed_attempts n) n env env'"
proof -
  have "called_at_most (allowed_attempts n) n env env'"
    if "gate_node (logged cfg) lts pins ih n st1 env = (fl, st', env')" for st1
  proof (cases "g_approval (evaluate_node_action n None)")
    case True
    obtain r st2 env2 where a: "ask_approval (logged cfg) n st1 env = (r, st2, env2)"
      by (cases "ask_approval (logged cfg) n st1 env")
    have "called_at_most (allowed_attempts n) n env2 env'"
      using that True a by (auto simp: gate_node_def split: sum.splits if_splits dest: calls_run_node)
    then show ?thesis using calls_ask [OF a] by (simp add: called_at_most_def)
  next
    case False
    then show ?thesis using that by (auto simp: gate_node_def dest: calls_run_node)
  qed
  then show ?thesis using assms by (auto simp: node_step_def Let_def split: if_splits option.splits)
qed

text \<open>Along a walk every node has a block of calls of its own.\<close>

definition call_count :: "'env logged \<Rightarrow> wf_node \<Rightarrow> nat" where
  "call_count env n = count_list (calls env) n"

lemma count_replicate: "count_list (replicate j n) m = (if m = n then j else 0)"
  by (induction j) auto

lemma count_at_most:
  "called_at_most k n env env' \<Longrightarrow> call_count env' m \<le> call_count env m + (if m = n then k else 0)"
  by (auto simp: called_at_most_def call_count_def count_replicate)

lemma count_run_nodes:
  assumes "run_nodes ns (logged cfg) lts resume pins ih st env = (fl, st', env')" "distinct ns"
  shows "call_count env' m \<le> call_count env m + (if m \<in> set ns then allowed_attempts m else 0)"
  using assms
proof (induction ns arbitrary: st env)
  case (Cons n ns)
  obtain f st1 env1 where s: "node_step (logged cfg) lts resume pins ih n st env = (f, st1, env1)"
    by (cases "node_step (logged cfg) lts resume pins ih n st env")
  note c = count_at_most [OF calls_step [OF s], of m]
  show ?case
  proof (cases "f = Next")
    case True
    then have "call_count env' m \<le> call_count env1 m + (if m \<in> set ns then allowed_attempts m else 0)"
      using Cons s by auto
    then show ?thesis using c Cons.prems(2) by (cases "m = n") auto
  next
    case False
    then have "env' = env1" using Cons.prems s by (cases f) auto
    then show ?thesis using c by (cases "m = n") auto
  qed
qed simp

lemma count_execute:
  assumes "execute (logged cfg) w ih resume st env = (fl, st', env')"
  shows "call_count env' m \<le> call_count env m + (if m \<in> set (plan_of w) then allowed_attempts m else 0)"
proof -
  have d: "distinct (plan_of w)" using plan_of_distinct [of w] by (simp add: distinct_map)
  consider "env' = env" | lts tbl st1 f st2 where "table_of w = Inr tbl"
      "run_nodes (plan tbl (edge_objs (wf_edges w))) (logged cfg) lts resume (wf_pins w) ih st1 env = (f, st2, env')"
    using assms by (auto simp: execute_def table_of_def Let_def split: sum.splits if_splits prod.splits flow.splits)
  then show ?thesis
  proof cases
    case (2 lts tbl st1 f st2)
    then show ?thesis using count_run_nodes [OF 2(2), of m] d by (simp add: plan_of_def)
  qed simp
qed

text \<open>C17: A run terminates: the retry loop, written with the loop condition of the code and no bound on
  its iterations, returns for every node, handler and state, and returns what the bounded loop of the model
  returns; and a whole run calls the handler of every planned node at most \<open>retry.max + 1\<close> times and no
  other handler at all. The handlers themselves are assumed to return.\<close>

theorem every_run_terminates:
  "retry_loop cfg lts n ck ih 0 err st env = Some (run_attempts (allowed_attempts n) cfg lts n ck ih 0 err st env) \<and>
   call_count (snd (snd (execute (logged cfg) w ih resume st (env, [], [])))) m
     \<le> (if m \<in> set (plan_of w) then nat (max_retry m + 1) else 0)"
proof
  show "retry_loop cfg lts n ck ih 0 err st env = Some (run_attempts (allowed_attempts n) cfg lts n ck ih 0 err st env)"
    by (rule retry_loop_fuel) (simp add: allowed_attempts_max)
  show "call_count (snd (snd (execute (logged cfg) w ih resume st (env, [], [])))) m
     \<le> (if m \<in> set (plan_of w) then nat (max_retry m + 1) else 0)"
    using count_execute [of cfg w ih resume st "(env, [], [])" _ _ _ m]
    by (cases "execute (logged cfg) w ih resume st (env, [], [])")
      (auto simp: call_count_def calls_def allowed_attempts_max)
qed

end
