(* ===== verification/Scoring.thy ===== *)
theory Scoring
  imports PyData
begin

section \<open>Scoring model candidates (gateway/scoring.py, gateway/types.py)\<close>

text \<open>
  The capability gates, the memory fit and the weighted score of every model of the registry, and
  the ranking. Registry entries are typed as the registry schema types them; floats are exact, and
  the reasons are values of a datatype instead of formatted strings.
\<close>

datatype policy = AUTO | BALANCED | MAXIMUM_QUALITY | MAXIMUM_PRIVACY | LOW_LATENCY | PINNED

definition policy_value :: "policy \<Rightarrow> string" where
  "policy_value p = (case p of AUTO \<Rightarrow> ''auto'' | BALANCED \<Rightarrow> ''balanced'' | MAXIMUM_QUALITY \<Rightarrow> ''maximum_quality''
     | MAXIMUM_PRIVACY \<Rightarrow> ''maximum_privacy'' | LOW_LATENCY \<Rightarrow> ''low_latency'' | PINNED \<Rightarrow> ''pinned'')"

definition parse_policy :: "string \<Rightarrow> policy" where
  "parse_policy s =
     (case find (\<lambda>p. policy_value p = s) [AUTO, BALANCED, MAXIMUM_QUALITY, MAXIMUM_PRIVACY, LOW_LATENCY, PINNED] of
        Some p \<Rightarrow> p | None \<Rightarrow> AUTO)"

lemma parse_policy_value [simp]: "parse_policy (policy_value p) = p"
  by (cases p) (simp_all add: parse_policy_def policy_value_def)

record weights =
  w_q :: rat
  w_c :: rat
  w_r :: rat
  w_p :: rat
  w_f :: rat
  w_z :: rat
  w_d :: rat

definition pct :: "int \<Rightarrow> int \<Rightarrow> int \<Rightarrow> int \<Rightarrow> int \<Rightarrow> int \<Rightarrow> int \<Rightarrow> weights" where
  "pct q c r p f z d = \<lparr>w_q = of_int q / 100, w_c = of_int c / 100, w_r = of_int r / 100, w_p = of_int p / 100,
     w_f = of_int f / 100, w_z = of_int z / 100, w_d = of_int d / 100\<rparr>"

fun POLICY_WEIGHTS :: "policy \<Rightarrow> weights" where
  "POLICY_WEIGHTS AUTO = pct 40 15 15 10 15 3 2"
| "POLICY_WEIGHTS BALANCED = pct 30 15 15 20 15 3 2"
| "POLICY_WEIGHTS MAXIMUM_QUALITY = pct 55 15 15 5 8 1 1"
| "POLICY_WEIGHTS MAXIMUM_PRIVACY = pct 25 10 10 10 20 5 5"
| "POLICY_WEIGHTS LOW_LATENCY = pct 20 10 10 40 15 3 2"
| "POLICY_WEIGHTS PINNED = pct 100 0 0 0 0 0 0"

record requirements =
  rq_modalities :: "string list"
  rq_tools :: bool
  rq_json :: bool
  rq_embeddings :: bool
  rq_vision :: bool
  rq_context :: int

record model_entry =
  me_id :: string
  me_display :: "string option"
  me_runtime :: "string option"
  me_preferred :: "string option"
  me_source :: "string option"
  me_caps :: "(string \<times> bool) list"
  me_modalities :: "string list"
  me_contexts :: "int list"
  me_scores :: "rat option list"
  me_quality :: "rat option"
  me_weights_mb :: "rat option"
  me_kv :: "rat option"
  me_overhead :: "rat option"
  me_download :: "rat option"
  me_params :: "rat option"
  me_digests :: "string list"
  me_remote_code :: bool
  me_reliability :: "rat option"
  me_performance :: "rat option"
  me_quant_penalty :: "rat option"
  me_license :: "string option"
  me_quants :: "string list"

datatype reject =
    MissingVision | ToolsRequired | JsonRequired | EmbeddingsRequired
  | ContextShort int int | RemoteCode | CloudBlocked | FitFail rat rat | BarelyAllocates

datatype reason = LocalBonus | LowLatencyApplied | QualityIs rat | FitIs rat rat | FitUnknown | ContextIs int | PinnedByUser

record candidate =
  c_id :: string
  c_display :: string
  c_provider :: string
  c_name :: string
  c_digest :: string
  c_score :: rat
  c_quality :: rat
  c_fit :: rat
  c_context_fit :: rat
  c_capability :: rat
  c_rejected :: bool
  c_rejects :: "reject list"
  c_reasons :: "reason list"
  c_memory :: "rat option"
  c_context :: "int option"
  c_license :: "string option"
  c_download :: "rat option"
  c_quant :: "string option"
  c_modalities :: "string list"
  c_caps :: "(string \<times> bool) list"

subsection \<open>Hardware budget (gateway/hardware.py, \<open>fit_budget_mb\<close>)\<close>

record hardware =
  hw_available :: "int option"
  hw_total :: "int option"
  hw_vram :: "rat option list"

definition nonzero :: "int option \<Rightarrow> int option" where
  "nonzero v = (case v of None \<Rightarrow> None | Some i \<Rightarrow> if i = 0 then None else Some i)"

definition or_rat :: "rat option \<Rightarrow> rat \<Rightarrow> rat" where
  "or_rat v d = (case v of None \<Rightarrow> d | Some r \<Rightarrow> if r = 0 then d else r)"

definition vrams :: "hardware \<Rightarrow> rat list" where
  "vrams hw = concat (List.map (\<lambda>v. case v of None \<Rightarrow> [] | Some r \<Rightarrow> if r = 0 then [] else [r]) (hw_vram hw))"

definition fit_budget_mb :: "hardware \<Rightarrow> rat" where
  "fit_budget_mb hw =
     (case (case nonzero (hw_available hw) of Some a \<Rightarrow> Some a | None \<Rightarrow> nonzero (hw_total hw)) of
        None \<Rightarrow> 4096
      | Some available \<Rightarrow>
          (let usable = of_int available / 1048576 * (65 / 100) in
           case vrams hw of
             [] \<Rightarrow> usable
           | v # vs \<Rightarrow> max (usable * (25 / 100)) (fold max vs v * (75 / 100))))"

subsection \<open>One candidate\<close>

definition best_quality :: "model_entry \<Rightarrow> rat" where
  "best_quality m =
     (case concat (List.map (\<lambda>v. case v of None \<Rightarrow> [] | Some r \<Rightarrow> [r]) (me_scores m)) of
        v # vs \<Rightarrow> fold max vs v
      | [] \<Rightarrow> or_rat (me_quality m) (1 / 2))"

definition estimate_memory_mb :: "model_entry \<Rightarrow> int \<Rightarrow> rat option" where
  "estimate_memory_mb m target_ctx =
     (case (case me_weights_mb m of
              Some w \<Rightarrow> Some w
            | None \<Rightarrow>
                (case me_download m of
                   Some d \<Rightarrow> Some d
                 | None \<Rightarrow> (case me_params m of
                              Some p \<Rightarrow> if p = 0 then None else Some (p * (55 / 100) / 1048576)
                            | None \<Rightarrow> None))) of
        None \<Rightarrow> None
      | Some w \<Rightarrow> Some (w + or_rat (me_kv m) 8 * (of_int target_ctx / 1000) + or_rat (me_overhead m) 512))"

definition max_context :: "model_entry \<Rightarrow> int" where
  "max_context m = (case me_contexts m of [] \<Rightarrow> 4096 | c # cs \<Rightarrow> fold max cs c)"

definition str_first :: "string option list \<Rightarrow> string \<Rightarrow> string" where
  "str_first vs d = fold (\<lambda>v acc. case v of None \<Rightarrow> acc | Some s \<Rightarrow> if s = [] then acc else s) (rev vs) d"

definition provider_of :: "model_entry \<Rightarrow> string" where
  "provider_of m = str_first [me_preferred m, me_source m] ''ollama''"

definition name_of :: "model_entry \<Rightarrow> string" where
  "name_of m = str_first [me_runtime m, me_display m] (me_id m)"

definition digest_of :: "model_entry \<Rightarrow> string" where
  "digest_of m = (case me_digests m of [] \<Rightarrow> ''registry:'' @ me_id m | d # _ \<Rightarrow> d)"

definition has_cap :: "model_entry \<Rightarrow> string \<Rightarrow> bool \<Rightarrow> bool" where
  "has_cap m k d = (case map_of (me_caps m) k of None \<Rightarrow> d | Some b \<Rightarrow> b)"

definition only_if :: "bool \<Rightarrow> 'a \<Rightarrow> 'a list" where
  "only_if b x = (if b then [x] else [])"

definition gate_rejects :: "requirements \<Rightarrow> policy \<Rightarrow> string list \<Rightarrow> model_entry \<Rightarrow> reject list" where
  "gate_rejects req pol local m =
     only_if ((rq_vision req \<or> ''vision'' \<in> set (rq_modalities req)) \<and> ''vision'' \<notin> set (me_modalities m)) MissingVision @
     only_if (rq_tools req \<and> \<not> has_cap m ''tools'' False) ToolsRequired @
     only_if (rq_json req \<and> \<not> has_cap m ''json_schema'' True) JsonRequired @
     only_if (rq_embeddings req \<and> \<not> has_cap m ''embeddings'' False) EmbeddingsRequired @
     only_if (max_context m < rq_context req) (ContextShort (max_context m) (rq_context req)) @
     only_if (me_remote_code m) RemoteCode @
     only_if (pol = MAXIMUM_PRIVACY \<and> provider_of m \<notin> set local) CloudBlocked"

definition fit_of :: "rat option \<Rightarrow> rat \<Rightarrow> rat \<times> reject list" where
  "fit_of mem budget =
     (case mem of
        None \<Rightarrow> (1, [])
      | Some m \<Rightarrow>
          if m > budget then (0, [FitFail m budget])
          else if m > budget * (9 / 10) then (0, [BarelyAllocates])
          else (max 0 (min 1 (1 - m / budget * (1 / 2))), []))"

definition raw_score :: "policy \<Rightarrow> requirements \<Rightarrow> string list \<Rightarrow> rat \<Rightarrow> model_entry \<Rightarrow> rat" where
  "raw_score pol req local fit m =
     (let w = POLICY_WEIGHTS pol;
          context_fit = (if max_context m \<le> 0 then 0 else min 1 (of_int (max_context m) / of_int (max (rq_context req) 1)));
          reliability = (case me_reliability m of None \<Rightarrow> 7 / 10 | Some r \<Rightarrow> r);
          perf = (case me_performance m of None \<Rightarrow> 6 / 10 | Some r \<Rightarrow> r);
          disk = or_rat (me_download m) 0;
          pressure = (if disk = 0 then 0 else min 1 (disk / 20000));
          license_ok = (if me_license m \<in> {None, Some ''unknown-proprietary''} then 4 / 10 else 1)
      in w_q w * best_quality m + w_c w * context_fit + w_r w * reliability + w_p w * perf + w_f w * fit
         - w_z w * or_rat (me_quant_penalty m) 0 - w_d w * pressure + 5 / 100 * license_ok
         + (if pol = MAXIMUM_PRIVACY \<and> provider_of m \<in> set local then 15 / 100 else 0))"

definition candidate_of :: "hardware \<Rightarrow> requirements \<Rightarrow> policy \<Rightarrow> string list \<Rightarrow> model_entry \<Rightarrow> candidate" where
  "candidate_of hw req pol local m =
     (let mem = estimate_memory_mb m (rq_context req);
          (fit, fit_rej) = fit_of mem (fit_budget_mb hw);
          rej = gate_rejects req pol local m @ fit_rej;
          ctx = max_context m;
          quality = best_quality m;
          reasons = only_if (pol = MAXIMUM_PRIVACY \<and> provider_of m \<in> set local) LocalBonus @
            only_if (pol = LOW_LATENCY) LowLatencyApplied @
            (if rej = [] then [QualityIs quality,
               (case mem of None \<Rightarrow> FitUnknown | Some x \<Rightarrow> if x = 0 then FitUnknown else FitIs fit x), ContextIs ctx] else [])
      in \<lparr>c_id = me_id m, c_display = str_first [me_display m] (me_id m), c_provider = provider_of m,
          c_name = name_of m, c_digest = digest_of m,
          c_score = (if rej \<noteq> [] then 0 else raw_score pol req local fit m), c_quality = quality, c_fit = fit,
          c_context_fit = (if ctx \<le> 0 then 0 else min 1 (of_int ctx / of_int (max (rq_context req) 1))),
          c_capability = (if rej = [] then 1 else 0), c_rejected = (rej \<noteq> []), c_rejects = rej,
          c_reasons = reasons, c_memory = mem, c_context = nonzero (Some ctx), c_license = me_license m,
          c_download = me_download m, c_quant = (case me_quants m of [] \<Rightarrow> None | q # _ \<Rightarrow> Some q),
          c_modalities = me_modalities m, c_caps = me_caps m\<rparr>)"

subsection \<open>The ranking\<close>

text \<open>The sort key \<open>(not c.rejected, c.score)\<close>, compared lexicographically.\<close>

datatype rank = Rank bool rat

instantiation rank :: linorder
begin

definition less_eq_rank :: "rank \<Rightarrow> rank \<Rightarrow> bool" where
  "less_eq_rank a b = (case (a, b) of (Rank p x, Rank q y) \<Rightarrow> (\<not> p \<and> q) \<or> (p = q \<and> x \<le> y))"

definition less_rank :: "rank \<Rightarrow> rank \<Rightarrow> bool" where
  "less_rank a b = (case (a, b) of (Rank p x, Rank q y) \<Rightarrow> (\<not> p \<and> q) \<or> (p = q \<and> x < y))"

instance
  by standard (auto simp: less_eq_rank_def less_rank_def split: rank.splits)

end

definition rank_of_candidate :: "candidate \<Rightarrow> rank" where
  "rank_of_candidate c = Rank (\<not> c_rejected c) (c_score c)"

definition LOCAL_PROVIDERS :: "string list" where
  "LOCAL_PROVIDERS = [''ollama'', ''openai_compat'']"

definition score_candidates :: "hardware \<Rightarrow> requirements \<Rightarrow> policy \<Rightarrow> string list \<Rightarrow> model_entry list \<Rightarrow> candidate list" where
  "score_candidates hw req pol local ms =
     (let l = (if local = [] then LOCAL_PROVIDERS else local) in
      sort_desc rank_of_candidate (List.map (candidate_of hw req pol l) ms))"

definition eligible :: "candidate list \<Rightarrow> candidate list" where
  "eligible cs = List.filter (\<lambda>c. \<not> c_rejected c) cs"

subsection \<open>Lemmas\<close>

lemma only_if_simps [simp]: "only_if True x = [x]" "only_if False x = []" "only_if b x = [] \<longleftrightarrow> \<not> b"
  by (simp_all add: only_if_def)

lemma candidate_fields:
  "c_provider (candidate_of hw req pol l m) = provider_of m"
  "c_id (candidate_of hw req pol l m) = me_id m"
  "c_modalities (candidate_of hw req pol l m) = me_modalities m"
  "c_memory (candidate_of hw req pol l m) = estimate_memory_mb m (rq_context req)"
  "c_context (candidate_of hw req pol l m) = nonzero (Some (max_context m))"
  "c_rejected (candidate_of hw req pol l m) \<longleftrightarrow> gate_rejects req pol l m \<noteq> [] \<or>
     snd (fit_of (estimate_memory_mb m (rq_context req)) (fit_budget_mb hw)) \<noteq> []"
  "c_rejects (candidate_of hw req pol l m) = [] \<longleftrightarrow> \<not> c_rejected (candidate_of hw req pol l m)"
  "c_rejected (candidate_of hw req pol l m) \<Longrightarrow> c_score (candidate_of hw req pol l m) = 0"
  by (simp_all add: candidate_of_def Let_def split: prod.splits)

lemma eligible_iff:
  "\<not> c_rejected (candidate_of hw req pol l m) \<longleftrightarrow>
   ((rq_vision req \<or> ''vision'' \<in> set (rq_modalities req)) \<longrightarrow> ''vision'' \<in> set (me_modalities m)) \<and>
   (rq_tools req \<longrightarrow> has_cap m ''tools'' False) \<and> (rq_json req \<longrightarrow> has_cap m ''json_schema'' True) \<and>
   (rq_embeddings req \<longrightarrow> has_cap m ''embeddings'' False) \<and> rq_context req \<le> max_context m \<and>
   \<not> me_remote_code m \<and> (pol = MAXIMUM_PRIVACY \<longrightarrow> provider_of m \<in> set l) \<and>
   (\<forall>mem. estimate_memory_mb m (rq_context req) = Some mem \<longrightarrow>
      mem \<le> fit_budget_mb hw \<and> mem \<le> fit_budget_mb hw * (9 / 10))"
  by (auto simp: candidate_fields gate_rejects_def fit_of_def split: option.splits if_splits)

lemma score_candidates_set:
  "set (score_candidates hw req pol local ms) =
     candidate_of hw req pol (if local = [] then LOCAL_PROVIDERS else local) ` set ms"
  by (simp add: score_candidates_def Let_def)

lemma score_candidates_sorted:
  "sorted_wrt (\<lambda>a b. rank_of_candidate b \<le> rank_of_candidate a) (score_candidates hw req pol local ms)"
  by (simp add: score_candidates_def Let_def sorted_sort_desc)

lemma eligible_sorted:
  "sorted_wrt (\<lambda>a b. c_score b \<le> c_score a) (eligible (score_candidates hw req pol local ms))"
proof -
  have "sorted_wrt (\<lambda>a b. rank_of_candidate b \<le> rank_of_candidate a) (eligible (score_candidates hw req pol local ms))"
    unfolding eligible_def by (rule sorted_wrt_filter) (rule score_candidates_sorted)
  then show ?thesis
    by (rule sorted_wrt_mono_rel [rotated])
      (auto simp: eligible_def rank_of_candidate_def less_eq_rank_def)
qed

subsection \<open>Properties\<close>


text \<open>A candidate is eligible exactly when its model meets every required capability, has the
  context, runs no remote code, is local under the privacy policy, and leaves a tenth of the
  memory budget free.\<close>

theorem eligibility_is_the_gates:
  assumes "c = candidate_of hw req pol local m"
  shows "\<not> c_rejected c \<longleftrightarrow>
   ((rq_vision req \<or> ''vision'' \<in> set (rq_modalities req)) \<longrightarrow> ''vision'' \<in> set (c_modalities c)) \<and>
   (rq_tools req \<longrightarrow> has_cap m ''tools'' False) \<and> (rq_json req \<longrightarrow> has_cap m ''json_schema'' True) \<and>
   (rq_embeddings req \<longrightarrow> has_cap m ''embeddings'' False) \<and> rq_context req \<le> max_context m \<and>
   \<not> me_remote_code m \<and> (pol = MAXIMUM_PRIVACY \<longrightarrow> c_provider c \<in> set local) \<and>
   (\<forall>mem. c_memory c = Some mem \<longrightarrow> mem \<le> fit_budget_mb hw \<and> mem \<le> fit_budget_mb hw * (9 / 10))"
  unfolding assms candidate_fields(1,3,4) by (rule eligible_iff)

definition demo_model :: "string \<Rightarrow> string \<Rightarrow> rat \<Rightarrow> model_entry" where
  "demo_model i prov mb = \<lparr>me_id = i, me_display = None, me_runtime = Some i, me_preferred = Some prov, me_source = None,
     me_caps = [(''json_schema'', True)], me_modalities = [''text''], me_contexts = [8192], me_scores = [Some (8 / 10)],
     me_quality = None, me_weights_mb = Some mb, me_kv = None, me_overhead = None, me_download = None, me_params = None,
     me_digests = [''sha256:'' @ i], me_remote_code = False, me_reliability = None, me_performance = None,
     me_quant_penalty = None, me_license = Some ''mit'', me_quants = []\<rparr>"

definition demo_req :: requirements where
  "demo_req = \<lparr>rq_modalities = [''text''], rq_tools = False, rq_json = True, rq_embeddings = False,
     rq_vision = False, rq_context = 4096\<rparr>"

definition demo_hw :: hardware where
  "demo_hw = \<lparr>hw_available = None, hw_total = None, hw_vram = []\<rparr>"

theorem eligibility_is_the_gates_witness:
  "\<not> c_rejected (candidate_of demo_hw demo_req AUTO LOCAL_PROVIDERS (demo_model ''m'' ''ollama'' 2000)) \<and>
   c_rejected (candidate_of demo_hw demo_req MAXIMUM_PRIVACY LOCAL_PROVIDERS (demo_model ''m'' ''openai'' 2000))"
proof
  have e: "estimate_memory_mb (demo_model ''m'' p 2000) 4096 = Some (2000 + 8 * (4096 / 1000) + 512)" for p
    by (simp add: estimate_memory_mb_def demo_model_def or_rat_def)
  show "\<not> c_rejected (candidate_of demo_hw demo_req AUTO LOCAL_PROVIDERS (demo_model ''m'' ''ollama'' 2000))"
    unfolding eligibility_is_the_gates [OF refl] candidate_fields(1,3,4)
    by (simp add: demo_req_def e fit_budget_mb_def demo_hw_def nonzero_def has_cap_def max_context_def)
      (simp add: demo_model_def)
  show "c_rejected (candidate_of demo_hw demo_req MAXIMUM_PRIVACY LOCAL_PROVIDERS (demo_model ''m'' ''openai'' 2000))"
    using eligibility_is_the_gates [OF refl, of demo_hw demo_req MAXIMUM_PRIVACY LOCAL_PROVIDERS "demo_model ''m'' ''openai'' 2000"]
    by (simp add: candidate_fields(1,3,4) LOCAL_PROVIDERS_def provider_of_def str_first_def demo_model_def)
qed

end
