(* ===== verification/Select.thy ===== *)
theory Select
  imports Scoring Pins
begin

section \<open>Selecting models (gateway/select.py, gateway/recommend.py)\<close>

text \<open>
  From the scored candidates to the winners per role, the recommendation card, the pins of the run
  and the verdict. The hardware profile, the provider health and the registry are arguments.
  The card keeps exact values; \<open>WorkerSelect\<close> rounds them and writes the explanation.
\<close>

subsection \<open>The recommendation card\<close>

record alternative =
  al_id :: string
  al_display :: string
  al_digest :: string
  al_score :: rat
  al_provider :: string
  al_name :: string
  al_license :: "string option"

record card =
  cd_policy :: string
  cd_winners :: "candidate dict"
  cd_alternatives :: "alternative list"
  cd_rejected :: "(string \<times> string \<times> reject list) list"
  cd_portfolio :: bool
  cd_registry :: "string option"
  cd_pins :: pins

definition pin_of :: "candidate \<Rightarrow> json dict" where
  "pin_of c = [(''provider'', JStr (c_provider c)), (''name'', JStr (c_name c)), (''digest'', JStr (c_digest c))]"

definition alternatives :: "candidate list \<Rightarrow> candidate dict \<Rightarrow> candidate list" where
  "alternatives scored winners =
     take 5 (List.filter (\<lambda>c. \<not> c_rejected c \<and> c_id c \<notin> c_id ` set (List.map snd winners)) scored)"

definition build_recommendation ::
  "policy \<Rightarrow> candidate list \<Rightarrow> candidate dict \<Rightarrow> string option \<Rightarrow> bool \<Rightarrow> card" where
  "build_recommendation pol scored winners registry_digest portfolio =
     \<lparr>cd_policy = policy_value pol, cd_winners = winners,
      cd_alternatives = List.map (\<lambda>c. \<lparr>al_id = c_id c, al_display = c_display c, al_digest = c_digest c,
        al_score = c_score c, al_provider = c_provider c, al_name = c_name c, al_license = c_license c\<rparr>)
        (alternatives scored winners),
      cd_rejected = List.map (\<lambda>c. (c_id c, c_display c, c_rejects c)) (List.filter c_rejected scored),
      cd_portfolio = portfolio, cd_registry = registry_digest,
      cd_pins = List.map (\<lambda>(role, c). (role, pin_of c)) winners\<rparr>"

subsection \<open>Requirements and installed models\<close>

text \<open>Of the modalities only the strings are kept; the code only asks whether \<open>vision\<close> is among them.\<close>

definition read_requirements :: "json dict \<Rightarrow> requirements res" where
  "read_requirements raw =
     bnd (py_iter (jor (dget raw ''modalities'') (JArr [JStr ''text'']))) (\<lambda>xs.
     bnd (py_int (jor (dget raw ''min_context'') (JInt 4096))) (\<lambda>ctx.
       let mods = concat (List.map (\<lambda>v. case v of JStr s \<Rightarrow> [s] | _ \<Rightarrow> []) xs);
           vis = truthy (dget raw ''vision'')
       in Inr \<lparr>rq_modalities = (if vis \<and> ''vision'' \<notin> set mods then mods @ [''vision''] else mods),
               rq_tools = truthy (dget raw ''tools''),
               rq_json = (case map_of raw ''json_schema'' of None \<Rightarrow> True | Some v \<Rightarrow> truthy v),
               rq_embeddings = truthy (dget raw ''embeddings''), rq_vision = vis, rq_context = ctx\<rparr>))"

definition runtime_of :: "model_entry \<Rightarrow> string" where
  "runtime_of m = str_first [me_runtime m] (me_id m)"

definition mark_installed :: "string list \<Rightarrow> string dict \<Rightarrow> model_entry \<Rightarrow> model_entry" where
  "mark_installed installed digests m =
     (let rt = runtime_of m in
      if rt \<notin> set installed then m
      else
        (let m1 = m\<lparr>me_preferred := Some ''ollama''\<rparr> in
         case map_of digests rt of
           None \<Rightarrow> m1
         | Some d \<Rightarrow>
             if d = [] then m1
             else m1\<lparr>me_digests := (if d \<in> set (me_digests m) then me_digests m else d # me_digests m)\<rparr>))"

subsection \<open>Winners\<close>

text \<open>The fields of a pinned reference are strings or missing.\<close>

definition jstr :: "json \<Rightarrow> string" where
  "jstr v = py_str (\<lambda>_. []) v"

definition same_str :: "json \<Rightarrow> string \<Rightarrow> bool" where
  "same_str v s = (v = JStr s)"

definition pinned_candidate :: "json dict \<Rightarrow> candidate" where
  "pinned_candidate ref = \<lparr>c_id = jstr (dget ref ''name''), c_display = jstr (dget ref ''name''),
     c_provider = jstr (jor (dget ref ''provider'') (JStr ''ollama'')), c_name = jstr (dget ref ''name''),
     c_digest = jstr (jor (dget ref ''digest'') (JStr ''unknown'')), c_score = 1, c_quality = 1, c_fit = 1,
     c_context_fit = 1, c_capability = 1, c_rejected = False, c_rejects = [], c_reasons = [PinnedByUser],
     c_memory = None, c_context = None, c_license = None, c_download = None, c_quant = None,
     c_modalities = [], c_caps = []\<rparr>"

definition match_pin :: "candidate list \<Rightarrow> json dict \<Rightarrow> candidate" where
  "match_pin scored ref =
     (case find (\<lambda>c. same_str (dget ref ''name'') (c_name c) \<or> same_str (dget ref ''digest'') (c_digest c)) scored of
        Some c \<Rightarrow> c | None \<Rightarrow> pinned_candidate ref)"

definition embeds :: "candidate \<Rightarrow> bool" where
  "embeds c = (case map_of (c_caps c) ''embeddings'' of None \<Rightarrow> False | Some b \<Rightarrow> b)"

definition portfolio_winners :: "bool \<Rightarrow> candidate list \<Rightarrow> candidate dict" where
  "portfolio_winners single el =
     (case el of
        [] \<Rightarrow> []
      | planner # _ \<Rightarrow>
          if single then [(''planner'', planner)]
          else
            (''planner'', planner) #
            (case find (\<lambda>c. ''vision'' \<in> set (c_modalities c)) el of
               Some v \<Rightarrow> if c_id v \<noteq> c_id planner then [(''multimodal'', v)] else []
             | None \<Rightarrow> []) @
            (case find embeds el of
               Some e \<Rightarrow> if c_id e \<noteq> c_id planner then [(''embeddings'', e)] else []
             | None \<Rightarrow> []))"

definition choose_winners :: "policy \<Rightarrow> pins \<Rightarrow> bool \<Rightarrow> candidate list \<Rightarrow> candidate dict" where
  "choose_winners pol pinned single scored =
     (if pol = PINNED \<and> pinned \<noteq> [] then List.map (\<lambda>(role, ref). (role, match_pin scored ref)) pinned
      else portfolio_winners single (eligible scored))"

subsection \<open>The selection\<close>

record selection =
  se_ok :: bool
  se_policy :: policy
  se_card :: card
  se_resolution :: resolution
  se_eligible :: nat
  se_error :: "string option"

definition selection_error :: "bool \<Rightarrow> bool \<Rightarrow> candidate list \<Rightarrow> string option" where
  "selection_error ok vis el =
     (if ok then None
      else if vis then Some ''Vision workflow requires a vision-capable model (selection error, not silent text-only)''
      else if el = [] then Some ''No model satisfied capability + fit gates''
      else Some ''Selection failed'')"

definition select_with ::
  "hardware \<Rightarrow> policy \<Rightarrow> requirements \<Rightarrow> pins option \<Rightarrow> bool \<Rightarrow> bool \<Rightarrow> bool \<Rightarrow> model_entry list \<Rightarrow>
     string option \<Rightarrow> selection" where
  "select_with hw pol req pinned run_active allow single ms reg_digest =
     (let scored = score_candidates hw req (if pol = PINNED then AUTO else pol) [] ms;
          p = (case pinned of None \<Rightarrow> [] | Some x \<Rightarrow> x);
          winners = choose_winners pol p single scored;
          crd = build_recommendation pol scored winners reg_digest (\<not> single \<and> length winners > 1);
          rv = resolve_for_run (policy_value pol) pinned (cd_pins crd) allow run_active;
          planner_vision = (case map_of winners ''planner'' of
             None \<Rightarrow> False | Some c \<Rightarrow> ''vision'' \<in> set (c_modalities c));
          ok0 = (rv_pins rv \<noteq> [] \<and>
                 (rq_vision req \<longrightarrow> map_of (rv_pins rv) ''multimodal'' \<noteq> None \<or> planner_vision));
          ok = (ok0 \<or> pol = PINNED \<and> p \<noteq> [])
      in \<lparr>se_ok = ok, se_policy = pol, se_card = crd, se_resolution = rv,
          se_eligible = length (eligible scored),
          se_error = selection_error ok (rq_vision req) (eligible scored)\<rparr>)"

definition select_models ::
  "hardware \<Rightarrow> string list \<Rightarrow> string dict \<Rightarrow> model_entry list \<Rightarrow> string option \<Rightarrow> string \<Rightarrow> json dict \<Rightarrow>
     pins option \<Rightarrow> bool \<Rightarrow> bool \<Rightarrow> bool \<Rightarrow> selection res" where
  "select_models hw installed digests ms reg_digest pol_name req_raw pinned run_active allow single =
     bnd (read_requirements req_raw) (\<lambda>req.
       Inr (select_with hw (parse_policy pol_name) req pinned run_active allow single
              (List.map (mark_installed installed digests) ms) reg_digest))"

subsection \<open>Lemmas\<close>

lemma find_mem: "find P xs = Some x \<Longrightarrow> x \<in> set xs"
  by (auto simp: find_Some_iff)

lemma portfolio_eligible:
  assumes "(role, c) \<in> set (portfolio_winners single el)"
  shows "c \<in> set el"
proof (cases el)
  case Nil
  then show ?thesis using assms by (simp add: portfolio_winners_def)
next
  case (Cons planner rest)
  let ?v = "find (\<lambda>c. ''vision'' \<in> set (c_modalities c)) el" and ?e = "find embeds el"
  have "c = planner \<or> ?v = Some c \<or> ?e = Some c"
    using assms Cons by (cases ?v; cases ?e; cases single)
      (auto simp: portfolio_winners_def simp del: find.simps split: if_splits)
  then show ?thesis using Cons find_mem by fastforce
qed

lemma planner_first:
  "map_of (portfolio_winners single el) ''planner'' = (case el of [] \<Rightarrow> None | c # _ \<Rightarrow> Some c)"
  by (auto simp: portfolio_winners_def split: list.splits option.splits)

lemma choose_winners_auto: "pol \<noteq> PINNED \<Longrightarrow> choose_winners pol p single sc = portfolio_winners single (eligible sc)"
  by (simp add: choose_winners_def)

lemma select_with_card:
  "se_card (select_with hw pol req pinned act allow single ms d) =
     (let sc = score_candidates hw req (if pol = PINNED then AUTO else pol) [] ms;
          ws = choose_winners pol (case pinned of None \<Rightarrow> [] | Some x \<Rightarrow> x) single sc
      in build_recommendation pol sc ws d (\<not> single \<and> length ws > 1))"
  by (simp add: select_with_def Let_def)

subsection \<open>Properties\<close>

text \<open>Under the privacy policy no cloud model is recommended for any role: every winner runs on a
  local provider, and so every recommended pin names one.\<close>

theorem privacy_recommends_local_only:
  assumes "(role, c) \<in> set (cd_winners (se_card (select_with hw MAXIMUM_PRIVACY req pinned act allow single ms d)))"
  shows "c_provider c \<in> {''ollama'', ''openai_compat''}"
proof -
  let ?sc = "score_candidates hw req MAXIMUM_PRIVACY [] ms"
  have "(role, c) \<in> set (portfolio_winners single (eligible ?sc))"
    using assms by (simp add: select_with_card Let_def build_recommendation_def choose_winners_def)
  then have "c \<in> set ?sc" "\<not> c_rejected c"
    using portfolio_eligible by (fastforce simp: eligible_def)+
  then obtain m where "c = candidate_of hw req MAXIMUM_PRIVACY LOCAL_PROVIDERS m"
    by (auto simp: score_candidates_set)
  with \<open>\<not> c_rejected c\<close> show ?thesis
    by (simp add: eligible_iff candidate_fields(1)) (simp add: LOCAL_PROVIDERS_def)
qed

definition demo_selection :: "policy \<Rightarrow> selection" where
  "demo_selection pol = select_with demo_hw pol demo_req None False False False
     [demo_model ''cloud'' ''openai'' 100, demo_model ''local'' ''ollama'' 200] None"

lemma demo_eligible: "pol \<noteq> MAXIMUM_PRIVACY \<or> p = ''ollama'' \<Longrightarrow> mb \<in> {100, 200} \<Longrightarrow>
  \<not> c_rejected (candidate_of demo_hw demo_req pol LOCAL_PROVIDERS (demo_model i p mb))"
  unfolding eligible_iff
  by (auto simp: demo_req_def demo_hw_def fit_budget_mb_def nonzero_def has_cap_def max_context_def
      estimate_memory_mb_def or_rat_def demo_model_def provider_of_def str_first_def LOCAL_PROVIDERS_def)

lemma demo_rejected: "c_rejected (candidate_of demo_hw demo_req MAXIMUM_PRIVACY LOCAL_PROVIDERS (demo_model i ''openai'' mb))"
  using eligible_iff [of demo_hw demo_req MAXIMUM_PRIVACY LOCAL_PROVIDERS "demo_model i ''openai'' mb"]
  by (auto simp: provider_of_def str_first_def LOCAL_PROVIDERS_def demo_model_def)

lemma demo_private:
  "cd_winners (se_card (demo_selection MAXIMUM_PRIVACY)) =
     [(''planner'', candidate_of demo_hw demo_req MAXIMUM_PRIVACY LOCAL_PROVIDERS (demo_model ''local'' ''ollama'' 200))]"
proof -
  let ?c = "candidate_of demo_hw demo_req MAXIMUM_PRIVACY LOCAL_PROVIDERS (demo_model ''cloud'' ''openai'' 100)"
  let ?l = "candidate_of demo_hw demo_req MAXIMUM_PRIVACY LOCAL_PROVIDERS (demo_model ''local'' ''ollama'' 200)"
  let ?sc = "score_candidates demo_hw demo_req MAXIMUM_PRIVACY [] [demo_model ''cloud'' ''openai'' 100, demo_model ''local'' ''ollama'' 200]"
  have "mset ?sc = mset [?c, ?l]"
    by (simp add: score_candidates_def Let_def mset_sort_desc del: mset.simps)
  then have "mset (eligible ?sc) = mset [?l]"
    using demo_rejected [of "''cloud''" 100] demo_eligible [of MAXIMUM_PRIVACY "''ollama''" 200 "''local''"]
    by (simp add: eligible_def mset_filter)
  then have e: "eligible ?sc = [?l]" by simp
  have "\<not> embeds ?l" "''vision'' \<notin> set (c_modalities ?l)"
    by (simp_all add: embeds_def candidate_of_def demo_model_def Let_def split: prod.splits)
  then show ?thesis
    by (simp add: demo_selection_def select_with_card Let_def build_recommendation_def choose_winners_def e
        portfolio_winners_def)
qed

theorem privacy_recommends_local_only_witness:
  "cd_winners (se_card (demo_selection MAXIMUM_PRIVACY)) \<noteq> [] \<and>
   c_provider (snd (hd (cd_winners (se_card (demo_selection MAXIMUM_PRIVACY))))) \<in> {''ollama'', ''openai_compat''}"
proof
  show ne: "cd_winners (se_card (demo_selection MAXIMUM_PRIVACY)) \<noteq> []" by (simp add: demo_private)
  then have "hd (cd_winners (se_card (demo_selection MAXIMUM_PRIVACY))) \<in>
      set (cd_winners (se_card (demo_selection MAXIMUM_PRIVACY)))" by simp
  then show "c_provider (snd (hd (cd_winners (se_card (demo_selection MAXIMUM_PRIVACY))))) \<in> {''ollama'', ''openai_compat''}"
    using privacy_recommends_local_only [of _ _ demo_hw demo_req None False False False _ None]
    unfolding demo_selection_def by (metis prod.collapse)
qed

text \<open>The planner is a best candidate: no eligible model has a higher score, and the other roles are
  filled from the eligible models only.\<close>

theorem planner_is_best_eligible:
  assumes "pol \<noteq> PINNED" "sel = select_with hw pol req pinned act allow single ms d"
    and "map_of (cd_winners (se_card sel)) ''planner'' = Some c"
  shows "c \<in> set (eligible (score_candidates hw req pol [] ms)) \<and>
    (\<forall>c'\<in>set (eligible (score_candidates hw req pol [] ms)). c_score c' \<le> c_score c) \<and>
    snd ` set (cd_winners (se_card sel)) \<subseteq> set (eligible (score_candidates hw req pol [] ms))"
proof -
  let ?el = "eligible (score_candidates hw req pol [] ms)"
  have w: "cd_winners (se_card sel) = portfolio_winners single ?el"
    using assms(1,2) by (simp add: select_with_card Let_def build_recommendation_def choose_winners_auto)
  then obtain rest where "?el = c # rest"
    using assms(3) by (auto simp: planner_first split: list.splits)
  then show ?thesis
    using eligible_sorted [of hw req pol "[]" ms] portfolio_eligible w by force
qed

theorem planner_is_best_eligible_witness:
  "\<exists>c. map_of (cd_winners (se_card (demo_selection MAXIMUM_PRIVACY))) ''planner'' = Some c \<and> c_id c = ''local'' \<and>
     c \<in> set (eligible (score_candidates demo_hw demo_req MAXIMUM_PRIVACY []
       [demo_model ''cloud'' ''openai'' 100, demo_model ''local'' ''ollama'' 200]))"
proof -
  let ?l = "candidate_of demo_hw demo_req MAXIMUM_PRIVACY LOCAL_PROVIDERS (demo_model ''local'' ''ollama'' 200)"
  have m: "map_of (cd_winners (se_card (demo_selection MAXIMUM_PRIVACY))) ''planner'' = Some ?l"
    by (simp add: demo_private)
  have "c_id ?l = ''local''" by (simp add: candidate_fields(2) demo_model_def)
  then show ?thesis
    using planner_is_best_eligible [OF _ demo_selection_def m] m by auto
qed



text \<open>An active run keeps its pins whatever is recommended meanwhile.\<close>

theorem active_run_keeps_pins:
  assumes "pinned \<noteq> []"
  shows "rv_pins (se_resolution (select_with hw pol req (Some pinned) True allow single ms d)) = pinned \<and>
    \<not> rv_changed (se_resolution (select_with hw pol req (Some pinned) True allow single ms d))"
  using assms by (simp add: select_with_def Let_def resolve_for_run_def)

theorem active_run_keeps_pins_witness:
  "rv_pins (se_resolution (select_with demo_hw AUTO demo_req (Some [(''planner'', demo_pin ''d'')]) True True False [] None))
     = [(''planner'', demo_pin ''d'')]"
  using active_run_keeps_pins [of "[(''planner'', demo_pin ''d'')]" demo_hw AUTO demo_req True False "[]" None] by simp

end
