(* ===== verification/BundleTypes.thy ===== *)
theory BundleTypes
  imports HtmlAdapter OfficeCorrect MediaAdapters
begin

section \<open>The type of a bundle\<close>

text \<open>
  What \<open>packages/schemas/ingestion/document-bundle.schema.json\<close> demands of the parts an adapter fills:
  issue codes and segment kinds from the enumerations, segment ids that are not empty, orders from zero
  on, confidences between zero and one. Each adapter's bundle has that type, whatever the file and the
  library behind it; the text, structured, Office and image adapters here, the others in
  \<open>BundleTypesMore\<close>.
\<close>

definition ISSUE_CODES :: "string set" where
  "ISSUE_CODES = {''NeedsPassword'', ''NeedsAdapter'', ''Corrupt'', ''ResourceLimit'', ''DrmBlocked'', ''PartialSuccess'',
     ''Quarantined'', ''Truncated'', ''Unsupported''}"

definition SEGMENT_KINDS :: "string set" where
  "SEGMENT_KINDS = {''text'', ''heading'', ''table'', ''code'', ''image_ref'', ''media'', ''raw_meta'', ''cell''}"

definition unit_interval :: "rat \<Rightarrow> bool" where
  "unit_interval r \<longleftrightarrow> 0 \<le> r \<and> r \<le> 1"

definition typed_segment :: "segment \<Rightarrow> bool" where
  "typed_segment s \<longleftrightarrow> sg_id s \<noteq> [] \<and> sg_kind s \<in> SEGMENT_KINDS \<and> 0 \<le> sg_order s \<and> unit_interval (sg_confidence s)"

definition typed_contents :: "doc_bundle \<Rightarrow> bool" where
  "typed_contents b \<longleftrightarrow> (\<forall>i\<in>set (bn_warnings b) \<union> set (bn_errors b). is_code i \<in> ISSUE_CODES) \<and>
     (\<forall>s\<in>set (bn_segments b). typed_segment s)"

definition typed_bundle :: "doc_bundle \<Rightarrow> bool" where
  "typed_bundle b \<longleftrightarrow> typed_contents b \<and> unit_interval (bn_confidence b)"

locale typed_adapter = intake_adapter +
  assumes extract_typed: "run data cx = Inr b \<Longrightarrow> typed_bundle b"

subsection \<open>One step\<close>

lemma codes [simp]:
  "''NeedsPassword'' \<in> ISSUE_CODES" "''NeedsAdapter'' \<in> ISSUE_CODES" "''Corrupt'' \<in> ISSUE_CODES"
  "''ResourceLimit'' \<in> ISSUE_CODES" "''PartialSuccess'' \<in> ISSUE_CODES" "''Quarantined'' \<in> ISSUE_CODES"
  "''Truncated'' \<in> ISSUE_CODES"
  by (simp_all add: ISSUE_CODES_def)

lemma kinds [simp]:
  "''text'' \<in> SEGMENT_KINDS" "''heading'' \<in> SEGMENT_KINDS" "''table'' \<in> SEGMENT_KINDS" "''code'' \<in> SEGMENT_KINDS"
  "''raw_meta'' \<in> SEGMENT_KINDS" "''cell'' \<in> SEGMENT_KINDS"
  by (simp_all add: SEGMENT_KINDS_def)

lemma typed_seg [simp]:
  "typed_segment (seg i k t order l c) \<longleftrightarrow> i \<noteq> [] \<and> k \<in> SEGMENT_KINDS \<and> 0 \<le> order \<and> unit_interval c"
  by (simp add: typed_segment_def seg_def)

lemma unit_interval_numerals [simp]:
  "unit_interval 0" "unit_interval 1" "unit_interval (1 / numeral n)"
  "unit_interval (numeral m / numeral n) \<longleftrightarrow> (numeral m :: rat) \<le> numeral n"
  by (simp_all add: unit_interval_def)

lemma contents_steps [simp]:
  "typed_contents (warn c m b) \<longleftrightarrow> c \<in> ISSUE_CODES \<and> typed_contents b"
  "typed_contents (fail c m b) \<longleftrightarrow> c \<in> ISSUE_CODES \<and> typed_contents b"
  "typed_contents (add_segment s b) \<longleftrightarrow> typed_segment s \<and> typed_contents b"
  "typed_contents (add_structure k v b) = typed_contents b"
  "typed_contents (apply_security a b) = typed_contents b"
  "typed_contents (b\<lparr>bn_confidence := r\<rparr>) = typed_contents b"
  "typed_contents (b\<lparr>bn_title := t\<rparr>) = typed_contents b"
  "typed_contents (b\<lparr>bn_extra := e\<rparr>) = typed_contents b"
  "typed_contents (b\<lparr>bn_images := xs\<rparr>) = typed_contents b"
  "typed_contents (b\<lparr>bn_confidence := r, bn_extra := e\<rparr>) = typed_contents b"
  "typed_contents (b\<lparr>bn_source := so\<rparr>) = typed_contents b"
  "typed_contents (start_bundle bid aid mime cx)"
  by (auto simp: typed_contents_def warn_def fail_def issue_def add_segment_def add_structure_def apply_security_def
      start_bundle_def empty_bundle_def)

lemma contents_warn_if [simp]: "c \<in> ISSUE_CODES \<Longrightarrow> typed_contents (warn_if p c m b) = typed_contents b"
  by (simp add: warn_if_def)

lemma contents_finish [simp]: "typed_contents (finish a r b) = typed_contents b"
  by (simp add: finish_def)

lemma contents_fold: "(\<And>x b. x \<in> set xs \<Longrightarrow> typed_contents b \<Longrightarrow> typed_contents (f x b)) \<Longrightarrow> typed_contents b \<Longrightarrow> typed_contents (fold f xs b)"
  by (induction xs arbitrary: b) simp_all

lemma confidence_steps [simp]:
  "bn_confidence (warn c m b) = bn_confidence b" "bn_confidence (fail c m b) = bn_confidence b"
  "bn_confidence (warn_if p c m b) = bn_confidence b" "bn_confidence (add_segment s b) = bn_confidence b"
  "bn_confidence (add_structure k v b) = bn_confidence b" "bn_confidence (apply_security a b) = bn_confidence b"
  "bn_confidence (finish a r b) = r" "bn_confidence (start_bundle bid aid mime cx) = 0"
  by (simp_all add: warn_def fail_def warn_if_def add_segment_def add_structure_def apply_security_def finish_def
      start_bundle_def empty_bundle_def)

lemma typed_finish [simp]: "typed_bundle (finish a r b) \<longleftrightarrow> typed_contents b \<and> unit_interval r"
  by (simp add: typed_bundle_def)

lemma typed_steps [simp]:
  "typed_bundle (warn c m b) \<longleftrightarrow> c \<in> ISSUE_CODES \<and> typed_bundle b"
  "typed_bundle (fail c m b) \<longleftrightarrow> c \<in> ISSUE_CODES \<and> typed_bundle b"
  "typed_bundle (apply_security a b) = typed_bundle b" "typed_bundle (start_bundle bid aid mime cx)"
  by (simp_all add: typed_bundle_def)

lemma enum_from_ge: "(i, x) \<in> set (enum_from k xs) \<Longrightarrow> k \<le> i"
  by (induction xs arbitrary: k) fastforce+

subsection \<open>Text and HTML\<close>

lemma contents_encoding [simp]: "typed_contents (warn_encoding w b) = typed_contents b"
  by (simp add: warn_encoding_def split: option.split)

lemma text_confidence_unit [simp]: "unit_interval (text_confidence w)"
  by (simp add: text_confidence_def)

lemma heading_segment_typed [simp]: "typed_segment (heading_segment e)" "typed_segment (html_heading_segment e)"
  by (cases e; simp add: heading_segment_def html_heading_segment_def heading_id_def)+

lemma contents_headings [simp]:
  "typed_contents (fold (\<lambda>e. add_segment (heading_segment e)) es b) = typed_contents b"
  "typed_contents (fold (\<lambda>e. add_segment (html_heading_segment e)) es b) = typed_contents b"
  by (induction es arbitrary: b) simp_all

interpretation plain: typed_adapter bid "''plain_text''" "plain_extract bid" for bid
  by unfold_locales (auto simp: plain_extract_def Let_def split_beta)

interpretation markdown: typed_adapter bid "''markdown''" "markdown_extract bid" for bid
  by unfold_locales (auto simp: markdown_extract_def Let_def split_beta split: list.split)

interpretation code: typed_adapter bid "''code''" "code_extract bid" for bid
  by unfold_locales (auto simp: code_extract_def Let_def split_beta split: option.splits)

interpretation html_ad: typed_adapter bid "''html''" "html_extract tokens bid" for bid tokens
  by unfold_locales
    (auto simp: html_extract_def html_failed_def html_read_def Let_def split_beta typed_bundle_def split: sum.splits option.splits)

subsection \<open>JSON, YAML, CSV, notebooks\<close>

lemma typed_finalize [simp]: "typed_bundle (finalize cx r b) \<longleftrightarrow> typed_contents b \<and> unit_interval r"
  by (simp add: finalize_def)

interpretation json_ad: typed_adapter bid "''json''" "json_extract jl bid" for bid jl
proof
  show "typed_bundle b" if "json_extract jl bid data cx = Inr b" for data cx b
    using that unfolding json_extract_def Let_def bnd_Inr_iff
    by (elim exE conjE) (auto simp: split_beta split: sum.splits)
qed

interpretation yaml_ad: typed_adapter bid "''yaml''" "yaml_extract yl bid" for bid yl
  by unfold_locales (auto simp: yaml_extract_def Let_def split_beta split: option.splits sum.splits)

lemma csv_cell_typed: "0 \<le> ri \<Longrightarrow> 0 \<le> ci \<Longrightarrow> typed_segment (csv_cell ri ci cell)"
  by (simp add: csv_cell_def)

lemma add_cells_typed:
  "\<forall>(ri, ci, cell)\<in>set cells. 0 \<le> ri \<and> 0 \<le> ci \<Longrightarrow> typed_contents b \<Longrightarrow> typed_contents (fst (add_cells limit cells b))"
  by (induction limit cells b rule: add_cells.induct) (simp_all add: csv_cell_typed Let_def)

lemma table_cells_nonneg: "\<forall>(ri, ci, cell)\<in>set (table_cells rows). 0 \<le> ri \<and> 0 \<le> ci"
  by (auto simp: table_cells_def dest: enum_from_ge)

lemma table_typed [simp]: "typed_contents b \<Longrightarrow> typed_contents (fst (add_cells limit (table_cells (take k rows)) b))"
  by (rule add_cells_typed [OF table_cells_nonneg])

interpretation csv_ad: typed_adapter bid "''csv''" "csv_extract bid" for bid
proof
  show "typed_bundle b" if "csv_extract bid data cx = Inr b" for data cx b
    using that unfolding csv_extract_def Let_def bnd_Inr_iff
    by (elim exE conjE) (auto simp: split_beta)
qed

lemma add_outputs_typed:
  "add_outputs jl limit i outs order b = (b', order') \<Longrightarrow> 0 \<le> order \<Longrightarrow> typed_contents b \<Longrightarrow> typed_contents b' \<and> 0 \<le> order'"
proof (induction outs arbitrary: order b)
  case (Cons x outs)
  show ?case
  proof (cases "\<exists>d. snd x = JObj d \<and> output_text jl d \<noteq> []")
    case True
    then obtain d where d: "snd x = JObj d" "output_text jl d \<noteq> []" by blast
    show ?thesis
      using Cons.prems d unfolding add_outputs_Cons by (auto dest!: Cons.IH)
  next
    case False
    then show ?thesis using Cons by (cases "snd x") (auto simp: add_outputs_Cons simp del: add_outputs.simps)
  qed
qed simp

lemma cell_kind_typed [simp]: "cell_kind t body \<in> SEGMENT_KINDS"
  by (simp add: cell_kind_def)

lemma add_cell_typed:
  "add_cell jl limit i cell order b = (b', order') \<Longrightarrow> 0 \<le> order \<Longrightarrow> typed_contents b \<Longrightarrow> typed_contents b' \<and> 0 \<le> order'"
  by (auto simp: add_cell_def Let_def split_beta dest!: add_outputs_typed)

lemma add_notebook_cells_typed:
  "0 \<le> order \<Longrightarrow> typed_contents b \<Longrightarrow> typed_contents (add_notebook_cells jl lims cells order b)"
proof (induction jl lims cells order b rule: add_notebook_cells.induct)
  case (2 jl lims i cell cells order b)
  obtain b' order' where o: "add_cell jl (max_segment_chars lims) i cell order b = (b', order')" by fastforce
  show ?case using 2(1) 2(2) [OF _ o [symmetric]] add_cell_typed [OF o] 2(3,4) o by auto
qed simp

lemma flag_code_cells_typed [simp]: "typed_contents (flag_code_cells cells b) = typed_contents b"
  by (simp add: flag_code_cells_def)

lemma typed_notebook_done [simp]: "typed_bundle (notebook_done cx r b) \<longleftrightarrow> typed_contents b \<and> unit_interval r"
  by (simp add: notebook_done_def)

interpretation notebook_ad: typed_adapter bid "''notebook''" "notebook_extract jl bid" for bid jl
proof
  show "typed_bundle b" if "notebook_extract jl bid data cx = Inr b" for data cx b
    using that unfolding notebook_extract_def Let_def bnd_Inr_iff
    by (elim exE conjE) (auto simp: add_notebook_cells_typed split: sum.splits json.splits if_splits)
qed

subsection \<open>PDF and Office\<close>

lemma add_page_typed: "0 \<le> i \<Longrightarrow> typed_contents b \<Longrightarrow> typed_contents (add_page limit i p b)"
  by (simp add: add_page_def page_text_def page_id_def Let_def split_beta split: sum.split)

lemma add_pages_typed: "0 \<le> i \<Longrightarrow> typed_contents b \<Longrightarrow> typed_contents (fst (add_pages l i ps b))"
  by (induction l i ps b rule: add_pages.induct) (simp_all add: add_page_typed Let_def split_beta)

lemma pdf_open_error_typed [simp]: "typed_contents (pdf_open_error e b) = typed_contents b"
  by (simp add: pdf_open_error_def)

lemma pdf_read_typed: "typed_contents b \<Longrightarrow> typed_bundle (pdf_read cx d b)"
  by (simp add: pdf_read_def Let_def split_beta add_pages_typed split: option.split)

interpretation pdf_ad: typed_adapter bid "''pdf''" "pdf_extract lib bid" for bid lib
  by unfold_locales (auto simp: pdf_extract_def Let_def intro!: pdf_read_typed
      split: if_splits option.splits sum.splits)

lemma typed_office_done [simp]: "typed_bundle (office_done l q r b) \<longleftrightarrow> typed_contents b \<and> unit_interval r"
  by (simp add: office_done_def)

lemma with_library_typed:
  assumes "with_library use (office_missing l q b0) (office_broken l q b0 what) lib pkg data = Inr b"
    and "typed_contents b0" "\<And>d. use d = Inr b \<Longrightarrow> typed_bundle b"
  shows "typed_bundle b"
  using assms by (auto simp: with_library_def office_missing_def office_broken_def split: option.splits sum.splits)

lemma add_paragraphs_typed: "0 \<le> order \<Longrightarrow> typed_contents b \<Longrightarrow> typed_contents (add_paragraphs l ps order b)"
  by (induction l ps order b rule: add_paragraphs.induct) (simp_all add: Let_def split_beta)

lemma set_title_typed [simp]: "typed_contents (set_title t b) = typed_contents b"
  by (simp add: set_title_def split: option.split)

interpretation docx_ad: typed_adapter bid "''docx''" "docx_extract zo lib bid" for bid zo lib
proof
  show "typed_bundle b" if "docx_extract zo lib bid data cx = Inr b" for data cx b
    using that unfolding docx_extract_def Let_def bnd_Inr_iff
    by (elim exE conjE, elim with_library_typed) (auto intro!: add_paragraphs_typed)
qed

lemma add_slides_typed:
  "typed_contents b \<Longrightarrow> typed_contents (fold (add_slide l) (enum_from 0 slides) b)"
  by (rule contents_fold) (auto simp: add_slide_def slide_id_def Let_def split_beta dest: enum_from_ge)

lemma pptx_read_typed: "typed_contents b \<Longrightarrow> typed_bundle (pptx_read l q slides b)"
  by (simp add: pptx_read_def Let_def add_slides_typed)

interpretation pptx_ad: typed_adapter bid "''pptx''" "pptx_extract zo lib bid" for bid zo lib
proof
  show "typed_bundle b" if "pptx_extract zo lib bid data cx = Inr b" for data cx b
    using that unfolding pptx_extract_def Let_def bnd_Inr_iff
    by (elim exE conjE, elim with_library_typed) (auto intro!: pptx_read_typed)
qed

text \<open>The loops over the cells of a sheet, for XLSX and ODS.\<close>

definition typed_walk :: "sheet_walk \<Rightarrow> bool" where
  "typed_walk w \<longleftrightarrow> typed_contents (sw_bundle w) \<and> 0 \<le> sw_order w"

lemma add_sheet_cell_typed:
  "(\<And>s r c. mk_id s r c \<noteq> []) \<Longrightarrow> typed_walk w \<Longrightarrow> typed_walk (add_sheet_cell mk_id mk_loc sheet ri ci val w)"
  by (simp add: typed_walk_def add_sheet_cell_def)

lemma warn_walk_typed: "typed_walk w \<Longrightarrow> typed_walk (warn_walk m w)"
  by (simp add: typed_walk_def warn_walk_def)

lemma walk_cells_typed:
  assumes "\<And>c v w. typed_walk w \<Longrightarrow> typed_walk (add c v w)" "\<And>w. typed_walk w \<Longrightarrow> typed_walk (full w)"
  shows "typed_walk w \<Longrightarrow> typed_walk (walk_cells add full limit cells w)"
  using assms by (induction add full limit cells w rule: walk_cells.induct) (auto simp: Let_def)

lemma walk_rows_typed:
  assumes "\<And>r cs w. typed_walk w \<Longrightarrow> typed_walk (cells_of r cs w)"
  shows "walk_rows cells_of msg l rows w = Inr w' \<Longrightarrow> typed_walk w \<Longrightarrow> typed_walk w'"
proof (induction rows arbitrary: w)
  case (Cons x rows)
  obtain ri row where x: "x = (ri, row)" by (cases x)
  obtain cells where c: "row = Inr cells" using Cons.prems x by (auto simp: bnd_Inr_iff)
  let ?w = "cells_of ri (enum_from 0 cells) (w\<lparr>sw_rows := sw_rows w @ [cells]\<rparr>)"
  have "typed_walk ?w" by (rule assms) (use Cons.prems(2) in \<open>simp add: typed_walk_def\<close>)
  then show ?case using Cons x c by (auto simp: Let_def warn_walk_typed split: if_splits)
qed simp

lemma xlsx_cells_typed: "typed_walk w \<Longrightarrow> typed_walk (xlsx_cells l sheet ri cells w)"
  unfolding xlsx_cells_def by (rule walk_cells_typed) (auto intro: add_sheet_cell_typed warn_walk_typed)

lemma append_structure_typed [simp]: "typed_contents (append_structure k v b) = typed_contents b"
  by (simp add: append_structure_def)

lemma xlsx_sheets_typed:
  "xlsx_sheets l ss order b = Inr (b', es) \<Longrightarrow> 0 \<le> order \<Longrightarrow> typed_contents b \<Longrightarrow> typed_contents b'"
proof (induction ss arbitrary: order b es)
  case (Cons s ss)
  then obtain w where w: "walk_rows (xlsx_cells l (xs_name s)) (''sheet '' @ xs_name s @ '' row limit reached'') l
      (enum_from 0 (List.map row_texts (xs_rows s))) \<lparr>sw_bundle = b, sw_order = order, sw_ids = [], sw_rows = []\<rparr> = Inr w"
    by (auto simp: bnd_Inr_iff)
  have "typed_walk w" by (rule walk_rows_typed [OF xlsx_cells_typed w]) (simp_all add: typed_walk_def Cons.prems)
  then show ?case
    using Cons.prems(1) w by (auto simp: typed_walk_def bnd_Inr_iff Let_def dest!: Cons.IH split: if_splits)
qed simp

interpretation xlsx_ad: typed_adapter bid "''xlsx''" "xlsx_extract zo lib bid" for bid zo lib
proof
  show "typed_bundle b" if "xlsx_extract zo lib bid data cx = Inr b" for data cx b
    using that unfolding xlsx_extract_def Let_def bnd_Inr_iff
    by (elim exE conjE, elim with_library_typed)
      (auto simp: xlsx_read_def bnd_Inr_iff dest!: xlsx_sheets_typed split: if_splits)
qed

subsection \<open>Images\<close>

lemma image_probe_typed [simp]: "typed_contents (snd (image_probe pil data mime b)) = typed_contents b"
  by (simp add: image_probe_def Let_def split_beta split: option.split)

lemma report_ocr_typed [simp]: "typed_contents (report_ocr r b) = typed_contents b"
  by (simp add: report_ocr_def)

lemma image_segments_typed [simp]: "typed_contents (image_segments f r b) = typed_contents b"
  by (simp add: image_segments_def Let_def split: option.split)

interpretation image_ad: typed_adapter bid "''image''" "image_extract pil ot bid" for bid pil ot
  by unfold_locales (auto simp: image_extract_def Let_def split_beta typed_bundle_def)

end
