(* ===== verification/BundleTypesMore.thy ===== *)
theory BundleTypesMore
  imports BundleTypes IntakeCorrect
begin

section \<open>The type of a bundle: packages, archives, the pipeline\<close>

text \<open>
  OpenDocument, archives and the catch-all, then the whole pipeline: an analysis by any adapter but the
  media one returns a bundle of the type the schema demands. The media adapter is the exception because
  a transcription can carry a negative confidence (\<open>MediaFiles.fast_confidence_can_be_negative\<close>).
\<close>

subsection \<open>OpenDocument\<close>

lemma add_numbered_typed:
  "(\<And>i order body. 0 \<le> order \<Longrightarrow> typed_segment (mk i order body)) \<Longrightarrow> 0 \<le> order \<Longrightarrow> typed_contents b \<Longrightarrow>
     typed_contents (add_numbered mk msg full l ts order b)"
  by (induction mk msg full l ts order b rule: add_numbered.induct) (simp_all add: Let_def split_beta)

lemma ods_cells_typed: "typed_walk w \<Longrightarrow> typed_walk (ods_cells l sheet ri cells w)"
  unfolding ods_cells_def by (rule walk_cells_typed) (auto intro: add_sheet_cell_typed)

lemma ods_tables_typed:
  "ods_tables l ts order b = Inr (b', es) \<Longrightarrow> 0 \<le> order \<Longrightarrow> typed_contents b \<Longrightarrow> typed_contents b'"
proof (induction ts arbitrary: order b es)
  case (Cons t ts)
  obtain ti attr rows where t: "t = (ti, attr, rows)" by (cases t)
  let ?n = "table_name ti attr"
  obtain w where w: "walk_rows (ods_cells l ?n) (''sheet '' @ ?n @ '' row limit'') l
      (enum_from 0 (List.map cell_texts rows)) \<lparr>sw_bundle = b, sw_order = order, sw_ids = [], sw_rows = []\<rparr> = Inr w"
    using Cons.prems t by (auto simp: bnd_Inr_iff Let_def)
  have "typed_walk w" by (rule walk_rows_typed [OF ods_cells_typed w]) (simp_all add: typed_walk_def Cons.prems)
  then show ?case
    using Cons.prems(1) t w by (auto simp: typed_walk_def bnd_Inr_iff Let_def dest!: Cons.IH split: if_splits)
qed simp

lemma odp_slides_typed: "typed_contents b \<Longrightarrow> typed_contents (fold (odp_slide l) (enum_from 0 pages) b)"
  by (rule contents_fold) (auto simp: odp_slide_def slide_id_def Let_def split_beta dest: enum_from_ge)

lemma odf_extra_typed [simp]: "typed_contents (odf_extra k x b) = typed_contents b" "typed_bundle (odfpy_done x b) = typed_contents b"
  by (simp_all add: odf_extra_def odfpy_done_def typed_bundle_def)

lemma odfpy_read_typed: "odfpy_read kind l d b = Inr b' \<Longrightarrow> typed_bundle b \<Longrightarrow> typed_bundle b'"
  by (auto simp: odfpy_read_def odt_read_def odt_segment_def bnd_Inr_iff typed_bundle_def [of b]
      intro!: add_numbered_typed odp_slides_typed dest: ods_tables_typed split: if_splits)

lemma odf_segment_typed: "0 \<le> order \<Longrightarrow> typed_segment (odf_segment kind i order body)"
  by (simp add: odf_segment_def)

lemma fallback_read_typed: "typed_contents b \<Longrightarrow> typed_bundle (fallback_read kind l doc b)"
  by (simp add: fallback_read_def Let_def typed_bundle_def add_numbered_typed odf_segment_typed)

lemma odfpy_extract_typed: "odfpy_extract lib data kind l b = Inr (Some b') \<Longrightarrow> typed_bundle b \<Longrightarrow> typed_bundle b'"
  unfolding odfpy_extract_def by (cases lib) (auto simp: bnd_Inr_iff dest: odfpy_read_typed split: sum.splits)

lemma fallback_extract_typed:
  assumes "fallback_extract zo parse data kind l b = Inr b'" "typed_bundle b"
  shows "typed_bundle b'"
proof (cases "bnd (zo data) (\<lambda>es. zip_member es ''content.xml'')")
  case (Inl e)
  then show ?thesis using assms by (auto simp: fallback_extract_def split: if_splits)
next
  case (Inr raw)
  then obtain r where "parse raw = Inr r" using assms by (auto simp: fallback_extract_def bnd_Inr_iff)
  then show ?thesis
    using assms Inr by (cases r) (auto simp: fallback_extract_def typed_bundle_def intro!: fallback_read_typed [unfolded typed_bundle_def])
qed

lemma odf_contents_typed:
  assumes "odf_contents zo lib parse data kind l b = Inr b'" "typed_bundle b"
  shows "typed_bundle b'"
proof -
  obtain r where r: "odfpy_extract lib data kind l b = Inr r" using assms by (auto simp: odf_contents_def bnd_Inr_iff)
  show ?thesis
  proof (cases r)
    case (Some x)
    then show ?thesis using assms r odfpy_extract_typed by (simp add: odf_contents_def)
  next
    case None
    then show ?thesis using assms r
      by (auto simp: odf_contents_def bnd_Inr_iff dest: fallback_extract_typed split: if_splits)
  qed
qed

interpretation odf_ad: typed_adapter bid "''opendocument''" "odf_extract zo lib parse bid" for bid zo lib parse
proof
  show "typed_bundle b" if e: "odf_extract zo lib parse bid data cx = Inr b" for data cx b
  proof (cases "prefix PK_HEAD data")
    case False
    then show ?thesis using e
      by (auto simp: odf_extract_def odf_done_def split_beta)
  next
    case True
    obtain mt kind mime where mt: "read_mimetype zo data = Inr mt" "odf_kind (lower_name (cx_filename cx)) mt = (kind, mime)"
      using e True by (cases "odf_kind (lower_name (cx_filename cx)) (projr (read_mimetype zo data))") (auto simp: odf_extract_def bnd_Inr_iff)
    then obtain q b2 where c:
      "odf_contents zo lib parse data kind (cx_limits cx)
         (warn_if (qr_macros q) ''Quarantined'' ''ODF macro/basic payload detected; not executed''
           (start_bundle bid ''opendocument'' mime cx)) = Inr b2"
      and b: "b = odf_done q (bn_confidence b2) b2"
      using e True by (auto simp: odf_extract_def bnd_Inr_iff Let_def)
    have "typed_bundle b2" by (rule odf_contents_typed [OF c]) (simp add: typed_bundle_def)
    then show ?thesis unfolding b by (simp add: odf_done_def typed_bundle_def)
  qed
qed

subsection \<open>Archives\<close>

lemma issue_about_typed [simp]:
  "c \<in> ISSUE_CODES \<Longrightarrow> typed_contents (warn_about c m d b) = typed_contents b"
  "c \<in> ISSUE_CODES \<Longrightarrow> typed_contents (fail_about c m d b) = typed_contents b"
  "typed_contents (could_not_read n e b) = typed_contents b"
  by (auto simp: warn_about_def fail_about_def could_not_read_def typed_contents_def warn_def issue_def)

fun typed_flow :: "flow \<Rightarrow> bool" where
  "typed_flow (Return c) = unit_interval c"
| "typed_flow _ = True"

definition typed_round :: "walk \<times> flow \<Rightarrow> bool" where
  "typed_round r \<longleftrightarrow> typed_contents (wk_bundle (fst r)) \<and> 0 \<le> wk_order (fst r) \<and> typed_flow (snd r)"

lemma entry_guard_typed:
  assumes "entry_guard name reason w = (w', fl)" "typed_round (w, Continue)"
  shows "typed_round (w', case fl of None \<Rightarrow> Continue | Some f \<Rightarrow> f)"
  using assms by (auto simp: entry_guard_def typed_round_def Let_def split: prod.splits option.splits if_splits)

lemma size_guard_typed:
  assumes "size_guard repr c n d w = (w', fl)" "typed_round (w, Continue)"
  shows "typed_round (w', case fl of None \<Rightarrow> Continue | Some f \<Rightarrow> f)"
  using assms by (auto simp: size_guard_def typed_round_def split: prod.splits option.splits)

lemma guarded_typed:
  assumes "\<And>w' fl. g = (w', fl) \<Longrightarrow> typed_round (w', case fl of None \<Rightarrow> Continue | Some f \<Rightarrow> f)"
    and "\<And>w'. typed_round (w', Continue) \<Longrightarrow> typed_round (f w')"
  shows "typed_round (guarded g f)"
  using assms by (cases g; cases "snd g") (auto simp: guarded_def)

lemma entry_segment_typed [simp]: "typed_segment (entry_segment k name body) \<longleftrightarrow> 0 \<le> k"
  by (simp add: entry_segment_def)

lemma zip_store_typed: "typed_round (w, Continue) \<Longrightarrow> typed_round (zip_store l e w)"
  by (auto simp: zip_store_def typed_round_def Let_def split_beta split: sum.splits)

lemma tar_store_typed: "typed_round (w, Continue) \<Longrightarrow> typed_round (tar_store e w)"
  by (auto simp: tar_store_def typed_round_def Let_def split_beta split: sum.splits)

lemma zip_step_typed:
  assumes "typed_round (w, Continue)" shows "typed_round (zip_step repr l depth e w)"
proof (cases "ze_dir e")
  case False
  have inner: "typed_round (if p then (on_bundle (fail ''ResourceLimit'' m) w2, Return (1 / 5)) else zip_store l e w2)"
    if "typed_round (w2, Continue)" for p m w2
    using that zip_store_typed [OF that] by (simp add: typed_round_def)
  show ?thesis
    unfolding zip_step_def Let_def if_not_P [OF False]
    by (intro guarded_typed entry_guard_typed [OF _ assms] size_guard_typed inner)
qed (use assms in \<open>simp add: zip_step_def\<close>)

lemma tar_step_typed:
  assumes "typed_round (w, Continue)" shows "typed_round (tar_step repr e w)"
proof (cases "te_file e")
  case True
  then show ?thesis
    unfolding tar_step_def by simp (intro guarded_typed entry_guard_typed [OF _ assms] size_guard_typed tar_store_typed)
qed (use assms in \<open>simp add: tar_step_def\<close>)

lemma walk_entries_typed:
  assumes "\<And>e w. typed_round (w, Continue) \<Longrightarrow> typed_round (step e w)"
  shows "typed_round (w, Continue) \<Longrightarrow> typed_round (walk_entries step es w)"
proof (induction es arbitrary: w)
  case (Cons e es)
  obtain w' fl where s: "step e w = (w', fl)" by (cases "step e w")
  then show ?case using Cons.IH [of w'] assms [OF Cons.prems, of e] by (cases fl) simp_all
qed simp

lemma start_walk_typed: "typed_contents b \<Longrightarrow> typed_round (start_walk cx b, Continue)"
  by (simp add: start_walk_def typed_round_def)

lemma typed_archive_done [simp]: "typed_bundle (archive_done l q r b) \<longleftrightarrow> typed_contents b \<and> unit_interval r"
  by (simp add: archive_done_def)

lemma close_walk_typed: "typed_round r \<Longrightarrow> typed_bundle (close_walk l f p r)"
  by (cases r; cases "snd r") (simp_all add: close_walk_def typed_round_def Let_def)

interpretation archive_ad: typed_adapter bid "''archive''" "archive_extract repr zo ta bid" for bid repr zo ta
proof
  show "typed_bundle b" if "archive_extract repr zo ta bid data cx = Inr b" for data cx b
    using that unfolding archive_extract_def Let_def
    by (auto simp: bnd_Inr_iff
        intro!: close_walk_typed walk_entries_typed zip_step_typed tar_step_typed start_walk_typed
        split: option.splits sum.splits if_splits)
qed

subsection \<open>The catch-all and the refusals\<close>

interpretation unknown_ad: typed_adapter bid "''unknown_binary''" "unknown_extract bid" for bid
  by unfold_locales (auto simp: unknown_extract_def Let_def typed_bundle_def)

lemma refused_typed [simp]: "typed_bundle (refused_bundle rq fi aid)"
  by (simp add: refused_bundle_def empty_bundle_def typed_bundle_def typed_contents_def)

lemma refusals_typed: "typed_bundle (size_bundle rq fi m)" "typed_bundle (blocked_bundle rq fi q)"
  by (simp_all add: size_bundle_def blocked_bundle_def)

lemma set_modified_typed: "typed_bundle (set_modified m b) = typed_bundle b"
  by (simp add: set_modified_def typed_bundle_def split: option.split)

lemma adapters_typed:
  assumes "a \<in> set (ADAPTERS tls bid)" "ad_id a \<noteq> ''media''" "ad_extract a data cx = Inr b"
  shows "typed_bundle b"
  using assms unfolding ADAPTERS_def unknown_adapter_def list.set
  by (elim insertE; (simp only: pure_adapter_simps adapter.simps empty_iff)?)
    (blast intro: markdown.extract_typed html_ad.extract_typed notebook_ad.extract_typed json_ad.extract_typed yaml_ad.extract_typed
      csv_ad.extract_typed pdf_ad.extract_typed docx_ad.extract_typed pptx_ad.extract_typed xlsx_ad.extract_typed odf_ad.extract_typed
      image_ad.extract_typed code.extract_typed archive_ad.extract_typed plain.extract_typed unknown_ad.extract_typed)+

subsection \<open>The pipeline\<close>

lemma wrapped_bundle: "wrap_bundle tls b e = Inr r \<Longrightarrow> ir_bundle r = b"
  by (auto simp: wrap_bundle_def Let_def bnd_Inr_iff split: if_splits)

lemma analysis_typed:
  assumes "analyze_bytes tls data rq = Inr r" "bn_adapter (ir_bundle r) \<noteq> ''media''"
  shows "typed_bundle (ir_bundle r)"
proof -
  let ?fi = "identify (tl_sha tls) (tl_zip tls) (tl_guess tls) data (rq_filename rq)" and ?q = "request_quarantine rq"
  consider m where "wrap_bundle tls (size_bundle rq ?fi m) (rq_evidence rq) = Inr r"
    | "wrap_bundle tls (blocked_bundle rq ?fi ?q) (rq_evidence rq) = Inr r"
    | a b where "resolve_adapter tls (rq_bundle_id rq) (fi_mime ?fi) (rq_filename rq) data = Inr a"
        "ad_extract a data (request_ctx rq ?fi ?q) = Inr b" "wrap_bundle tls (set_modified (rq_modified rq) b) (rq_evidence rq) = Inr r"
    using assms(1) by (auto simp: analyze_bytes_def Let_def bnd_Inr_iff split: option.splits if_splits)
  then show ?thesis
  proof cases
    case (3 a b)
    have a: "a \<in> set (ADAPTERS tls (rq_bundle_id rq))" using 3(1) by (rule resolve_split) simp
    have "bn_adapter b = ad_id a" using adapters_own [OF a 3(2)] by (auto simp: own_bundle_def frame_def start_bundle_def empty_bundle_def)
    then have "ad_id a \<noteq> ''media''" using assms(2) wrapped_bundle [OF 3(3)]
      by (simp add: set_modified_def split: option.splits if_splits)
    then show ?thesis using adapters_typed [OF a _ 3(2)] wrapped_bundle [OF 3(3)] by (simp add: set_modified_typed)
  qed (auto simp: refusals_typed dest!: wrapped_bundle)
qed

text \<open>An analysis returns a bundle of the type of the schema: every issue code and segment kind is from the
  enumerations, every segment has an id, an order from zero on and a confidence between zero and one, and so
  has the bundle, whatever the bytes and whatever the libraries return, unless the media adapter made it.\<close>

theorem analysis_is_well_typed:
  assumes "analyze_bytes tls data rq = Inr r" "bn_adapter (ir_bundle r) \<noteq> ''media''"
  shows "typed_bundle (ir_bundle r)"
  using assms by (rule analysis_typed)

theorem analysis_is_well_typed_witness:
  "bn_adapter (ir_bundle demo_intake) = ''markdown'' \<and> bn_segments (ir_bundle demo_intake) \<noteq> [] \<and> typed_bundle (ir_bundle demo_intake)"
proof -
  have "bn_adapter (ir_bundle demo_intake) = ''markdown''" "bn_segments (ir_bundle demo_intake) \<noteq> []" by code_simp+
  then show ?thesis using analysis_is_well_typed [OF demo_intake_result] by simp
qed

end
