(* ===== verification/WorkerIntake.thy ===== *)
theory WorkerIntake
  imports RpcCorrect BundleTypesMore
begin

section \<open>An analysis over the wire\<close>

text \<open>
  The bundle and the result of an analysis as the dictionaries the code builds (\<open>intake/bundle.py\<close>,
  \<open>intake/pipeline.py\<close>), and \<open>intake.analyze\<close> with the modelled pipeline behind it. Parameters whose
  types the analysis record has no room for (a file id that is a number, a limit that is a string) are
  left to a function of the world, as are files, ids and the clock.
\<close>

subsection \<open>Rendering\<close>

definition opt_entry :: "string \<Rightarrow> string option \<Rightarrow> json dict" where
  "opt_entry k v = (case v of None \<Rightarrow> [] | Some s \<Rightarrow> [(k, JStr s)])"

definition strings_json :: "string list \<Rightarrow> json" where
  "strings_json xs = JArr (List.map JStr xs)"

definition issue_json :: "intake_issue \<Rightarrow> json" where
  "issue_json i = JObj ([(''code'', JStr (is_code i)), (''message'', JStr (is_message i))] @
     (if is_detail i = [] then [] else [(''detail'', JObj (is_detail i))]))"

definition source_json :: "source_info \<Rightarrow> json" where
  "source_json so = JObj ([(''file_id'', JStr (so_file_id so)), (''path_mode'', JStr (so_path_mode so)),
     (''content_hash'', JStr (so_hash so)), (''mime_type'', JStr (so_mime so)), (''size_bytes'', JInt (so_size so))] @
     opt_entry ''path'' (so_path so) @ opt_entry ''sniffed_mime'' (so_sniffed so) @
     opt_entry ''modified_at'' (so_modified so))"

definition segment_json :: "segment \<Rightarrow> json" where
  "segment_json s = JObj ([(''id'', JStr (sg_id s)), (''kind'', JStr (sg_kind s)), (''text'', JStr (sg_text s)),
     (''order'', JInt (sg_order s))] @ (if sg_locator s = [] then [] else [(''locator'', JObj (sg_locator s))]) @
     [(''confidence'', JFloat (sg_confidence s))])"

definition security_json :: "security \<Rightarrow> json" where
  "security_json sc = JObj [(''quarantine_actions'', strings_json (sc_actions sc)),
     (''macros_blocked'', JBool (sc_macros sc)), (''scripts_stripped'', JBool (sc_scripts sc)),
     (''active_content_flags'', strings_json (sc_flags sc)), (''limits_applied'', JObj (sc_limits sc))]"

definition derived_json :: "string \<times> string \<times> string \<Rightarrow> json" where
  "derived_json d = (case d of (f, h, r) \<Rightarrow>
     JObj [(''file_id'', JStr f), (''content_hash'', JStr h), (''role'', JStr r)])"

definition bundle_json :: "string \<Rightarrow> doc_bundle \<Rightarrow> json dict" where
  "bundle_json stamp b =
     [(''schema_version'', JInt 1), (''bundle_id'', JStr (bn_id b)), (''evidence_trust'', JStr (bn_trust b)),
      (''source'', source_json (bn_source b)),
      (''metadata'', JObj ([(''adapter_id'', JStr (bn_adapter b)), (''adapter_version'', JStr ''1.0.0'')] @
         opt_entry ''title'' (bn_title b) @ (case bn_extra b of None \<Rightarrow> [] | Some e \<Rightarrow> [(''extra'', JObj e)]))),
      (''segments'', JArr (List.map segment_json (bn_segments b))), (''structure'', JObj (bn_structure b)),
      (''images'', JArr (bn_images b)), (''transcripts'', JArr (bn_transcripts b)),
      (''confidence'', JFloat (bn_confidence b)), (''warnings'', JArr (List.map issue_json (bn_warnings b))),
      (''errors'', JArr (List.map issue_json (bn_errors b))), (''security'', security_json (bn_security b)),
      (''provenance'', JObj [(''derived_from'', JArr (List.map derived_json (bn_derived b))),
         (''analyzed_at'', JStr stamp), (''pipeline_version'', JStr ''1.0.0'')])]"

definition report_json :: "bundle_report \<Rightarrow> json" where
  "report_json r = JObj [(''ok'', JBool (br_ok r)), (''errors'', strings_json (br_errors r))]"

definition adapter_entry :: "string \<times> string \<Rightarrow> json" where
  "adapter_entry a = JObj [(''id'', JStr (fst a)), (''version'', JStr (snd a))]"

definition result_json :: "string \<Rightarrow> intake_result \<Rightarrow> json" where
  "result_json stamp r =
     JObj ([(''bundle'', JObj (bundle_json stamp (ir_bundle r))), (''validation'', report_json (ir_validation r)),
            (''adapters'', JArr (List.map adapter_entry (ir_adapters r)))] @
           opt_entry ''evidence_block'' (ir_evidence r))"

subsection \<open>Reading the parameters\<close>

definition text_param :: "json \<Rightarrow> string option option" where
  "text_param v = (case v of JNull \<Rightarrow> Some None | JStr s \<Rightarrow> Some (Some s) | _ \<Rightarrow> None)"

definition int_limit :: "json dict \<Rightarrow> string \<Rightarrow> int \<Rightarrow> int option" where
  "int_limit d k dflt = (case map_of d k of None \<Rightarrow> Some dflt | Some (JInt i) \<Rightarrow> Some i | _ \<Rightarrow> None)"

definition num_limit :: "json dict \<Rightarrow> string \<Rightarrow> rat \<Rightarrow> rat option" where
  "num_limit d k dflt =
     (case map_of d k of None \<Rightarrow> Some dflt | Some (JInt i) \<Rightarrow> Some (of_int i) | Some (JFloat r) \<Rightarrow> Some r | _ \<Rightarrow> None)"

definition bool_limit :: "json dict \<Rightarrow> string \<Rightarrow> bool \<Rightarrow> bool option" where
  "bool_limit d k dflt = (case map_of d k of None \<Rightarrow> Some dflt | Some (JBool b) \<Rightarrow> Some b | _ \<Rightarrow> None)"

text \<open>\<open>IntakeLimits(**raw)\<close>.\<close>

definition limits_from :: "json dict \<Rightarrow> intake_limits option" where
  "limits_from d =
     (case (int_limit d ''max_file_bytes'' (max_file_bytes DEFAULT_LIMITS),
            int_limit d ''max_archive_depth'' (max_archive_depth DEFAULT_LIMITS),
            int_limit d ''max_archive_entries'' (max_archive_entries DEFAULT_LIMITS),
            int_limit d ''max_decompressed_bytes'' (max_decompressed_bytes DEFAULT_LIMITS),
            num_limit d ''max_decompression_ratio'' (max_decompression_ratio DEFAULT_LIMITS),
            int_limit d ''max_pages'' (max_pages DEFAULT_LIMITS),
            int_limit d ''max_sheets'' (max_sheets DEFAULT_LIMITS)) of
        (Some fb, Some ad, Some ae, Some db, Some dr, Some pg, Some sh) \<Rightarrow>
          (case (int_limit d ''max_slides'' (max_slides DEFAULT_LIMITS),
                 num_limit d ''max_media_duration_seconds'' (max_media_duration_seconds DEFAULT_LIMITS),
                 int_limit d ''max_segments'' (max_segments DEFAULT_LIMITS),
                 int_limit d ''max_segment_chars'' (max_segment_chars DEFAULT_LIMITS),
                 int_limit d ''max_csv_rows'' (max_csv_rows DEFAULT_LIMITS),
                 int_limit d ''max_memory_hint_bytes'' (max_memory_hint_bytes DEFAULT_LIMITS),
                 bool_limit d ''allow_remote_fetch'' (allow_remote_fetch DEFAULT_LIMITS)) of
             (Some sl, Some du, Some sg, Some ch, Some cr, Some mh, Some rf) \<Rightarrow>
               Some \<lparr>max_file_bytes = fb, max_archive_depth = ad, max_archive_entries = ae,
                     max_decompressed_bytes = db, max_decompression_ratio = dr, max_pages = pg, max_sheets = sh,
                     max_slides = sl, max_media_duration_seconds = du, max_segments = sg, max_segment_chars = ch,
                     max_csv_rows = cr, max_memory_hint_bytes = mh, allow_remote_fetch = rf\<rparr>
           | _ \<Rightarrow> None)
      | _ \<Rightarrow> None)"

record intake_world =
  iw_tools :: tools
  iw_file :: "string \<Rightarrow> disk_file"
  iw_fresh :: string
  iw_bundle :: string
  iw_stamp :: string
  iw_odd :: "analyze_call \<Rightarrow> json res"

definition call_limits :: "analyze_call \<Rightarrow> intake_limits option option" where
  "call_limits c = (case an_limits c of None \<Rightarrow> Some None | Some d \<Rightarrow> map_option Some (limits_from d))"

definition call_request :: "intake_world \<Rightarrow> analyze_call \<Rightarrow> json \<Rightarrow> json \<Rightarrow> request option" where
  "call_request w c name path =
     (case (call_limits c, text_param (an_file_id c), text_param name, text_param path) of
        (Some ls, Some fid, Some n, Some p) \<Rightarrow>
          Some \<lparr>rq_filename = n, rq_path = p, rq_mode = an_mode c, rq_file_id = fid, rq_limits = ls,
                rq_evidence = True, rq_modified = None, rq_depth = 0, rq_fresh_id = iw_fresh w,
                rq_bundle_id = iw_bundle w\<rparr>
      | _ \<Rightarrow> None)"

definition analysed :: "intake_world \<Rightarrow> intake_result res \<Rightarrow> json res" where
  "analysed w r = bnd r (\<lambda>x. Inr (result_json (iw_stamp w) x))"

definition analyze_json :: "intake_world \<Rightarrow> analyze_call \<Rightarrow> json res" where
  "analyze_json w c =
     (case an_source c of
        FromPath p \<Rightarrow>
          (case call_request w c JNull JNull of
             None \<Rightarrow> iw_odd w c
           | Some rq \<Rightarrow> analysed w (analyze_path (iw_tools w) (iw_file w p) rq))
      | FromBytes data name path \<Rightarrow>
          (case call_request w c name path of
             None \<Rightarrow> iw_odd w c
           | Some rq \<Rightarrow> analysed w (analyze_bytes (iw_tools w) data rq)))"

subsection \<open>What the client of \<open>intake.analyze\<close> gets\<close>

definition number_in :: "rat \<Rightarrow> rat \<Rightarrow> json \<Rightarrow> bool" where
  "number_in lo hi v = (case v of JFloat r \<Rightarrow> lo \<le> r \<and> r \<le> hi | JInt i \<Rightarrow> lo \<le> of_int i \<and> of_int i \<le> hi | _ \<Rightarrow> False)"

definition string_in :: "string set \<Rightarrow> json \<Rightarrow> bool" where
  "string_in A v = (case v of JStr s \<Rightarrow> s \<in> A | _ \<Rightarrow> False)"

definition wire_segment :: "json \<Rightarrow> bool" where
  "wire_segment v \<longleftrightarrow> (let d = obj_of v in
     string_in (UNIV - {[]}) (dget d ''id'') \<and> string_in SEGMENT_KINDS (dget d ''kind'') \<and>
     string_in UNIV (dget d ''text'') \<and> (case dget d ''order'' of JInt n \<Rightarrow> 0 \<le> n | _ \<Rightarrow> False) \<and>
     number_in 0 1 (dget d ''confidence''))"

definition wire_issue :: "json \<Rightarrow> bool" where
  "wire_issue v \<longleftrightarrow> string_in ISSUE_CODES (dget (obj_of v) ''code'') \<and> string_in UNIV (dget (obj_of v) ''message'')"

definition wire_bundle :: "json dict \<Rightarrow> bool" where
  "wire_bundle b \<longleftrightarrow> dget b ''schema_version'' = JInt 1 \<and> number_in 0 1 (dget b ''confidence'') \<and>
     list_all wire_segment (arr_of (dget b ''segments'')) \<and> list_all wire_issue (arr_of (dget b ''warnings'')) \<and>
     list_all wire_issue (arr_of (dget b ''errors''))"

lemma segment_json_typed: "typed_segment s \<Longrightarrow> wire_segment (segment_json s)"
  by (auto simp: typed_segment_def wire_segment_def segment_json_def string_in_def number_in_def unit_interval_def dget_def)

lemma issue_json_typed: "is_code i \<in> ISSUE_CODES \<Longrightarrow> wire_issue (issue_json i)"
  by (simp add: wire_issue_def issue_json_def string_in_def dget_def)

lemma bundle_json_fields:
  "dget (bundle_json stamp b) ''schema_version'' = JInt 1"
  "dget (bundle_json stamp b) ''evidence_trust'' = JStr (bn_trust b)"
  "dget (bundle_json stamp b) ''segments'' = JArr (List.map segment_json (bn_segments b))"
  "dget (bundle_json stamp b) ''confidence'' = JFloat (bn_confidence b)"
  "dget (bundle_json stamp b) ''warnings'' = JArr (List.map issue_json (bn_warnings b))"
  "dget (bundle_json stamp b) ''errors'' = JArr (List.map issue_json (bn_errors b))"
  "dget (obj_of (dget (bundle_json stamp b) ''metadata'')) ''adapter_id'' = JStr (bn_adapter b)"
  by (simp_all add: bundle_json_def dget_def)

lemma bundle_json_typed: "typed_bundle b \<Longrightarrow> wire_bundle (bundle_json stamp b)"
  by (auto simp: typed_bundle_def typed_contents_def wire_bundle_def bundle_json_fields number_in_def
      unit_interval_def list_all_iff intro: segment_json_typed issue_json_typed)

lemma result_json_fields:
  "dget (obj_of (result_json stamp r)) ''bundle'' = JObj (bundle_json stamp (ir_bundle r))"
  "ir_evidence r = Some s \<Longrightarrow> dget (obj_of (result_json stamp r)) ''evidence_block'' = JStr s"
  by (simp_all add: result_json_def opt_entry_def dget_def)

definition safe_answer :: "json \<Rightarrow> bool" where
  "safe_answer v \<longleftrightarrow>
     (let b = obj_of (dget (obj_of v) ''bundle'') in
      dget b ''evidence_trust'' = JStr ''untrusted'' \<and>
      (dget (obj_of (dget b ''metadata'')) ''adapter_id'' \<noteq> JStr ''media'' \<longrightarrow> wire_bundle b) \<and>
      (case dget (obj_of v) ''evidence_block'' of
         JStr s \<Rightarrow> prefix (UNTRUSTED_OPEN ''document_bundle'') s \<and> contains UNTRUSTED_CLOSE s \<and>
                   \<not> contains UNTRUSTED_CLOSE (butlast s)
       | _ \<Rightarrow> False))"

lemma result_is_safe:
  assumes "analyze_bytes tls data rq = Inr r" "rq_evidence rq"
  shows "safe_answer (result_json stamp r)"
proof -
  obtain s where s: "ir_evidence r = Some s" "prefix (UNTRUSTED_OPEN ''document_bundle'') s"
    "contains UNTRUSTED_CLOSE s" "\<not> contains UNTRUSTED_CLOSE (butlast s)"
    using evidence_fenced [OF assms] by blast
  have "bn_trust (ir_bundle r) = ''untrusted''" using analysis_describes [OF assms(1)] by (simp add: describes_file_def)
  then show ?thesis
    using s bundle_json_typed [OF analysis_typed [OF assms(1)]]
    by (simp add: safe_answer_def Let_def result_json_fields bundle_json_fields)
qed

lemma call_request_evidence: "call_request w c name path = Some rq \<Longrightarrow> rq_evidence rq"
  by (auto simp: call_request_def split: option.splits)

lemma analyze_json_safe:
  assumes "analyze_json w c = Inr v"
  shows "safe_answer v \<or> iw_odd w c = Inr v"
proof (cases "an_source c")
  case (FromPath p)
  show ?thesis
  proof (cases "call_request w c JNull JNull")
    case (Some rq)
    then obtain r where r: "analyze_path (iw_tools w) (iw_file w p) rq = Inr r" "v = result_json (iw_stamp w) r"
      using assms FromPath by (auto simp: analyze_json_def analysed_def bnd_Inr_iff)
    obtain data where "analyze_bytes (iw_tools w) data (path_request (iw_file w p) rq) = Inr r"
      using r(1) by (auto simp: analyze_path_def bnd_Inr_iff Let_def split: if_splits)
    then show ?thesis
      using result_is_safe r(2) call_request_evidence [OF Some] by (simp add: path_request_def)
  qed (use assms FromPath in \<open>simp add: analyze_json_def\<close>)
next
  case (FromBytes data name path)
  then show ?thesis
    using assms result_is_safe call_request_evidence
    by (fastforce simp: analyze_json_def analysed_def bnd_Inr_iff split: option.splits)
qed


definition demo_world :: intake_world where
  "demo_world = \<lparr>iw_tools = bare_tools, iw_file = (\<lambda>_. demo_file), iw_fresh = ''f1'', iw_bundle = ''b1'', iw_stamp = [],
     iw_odd = (\<lambda>_. Inl (TypeError []))\<rparr>"

definition analyze_request :: "json dict" where
  "analyze_request = [(''jsonrpc'', JStr ''2.0''), (''id'', JInt 1), (''method'', JStr ''intake.analyze''),
     (''params'', JObj [(''path'', JStr ''/home/notes.md'')])]"

definition analyze_reply :: "json dict" where
  "analyze_reply = projr (fst (handle_request (demo_rpc\<lparr>re_analyze := analyze_json demo_world\<rparr>) (JObj analyze_request) demo_worker))"


end
