(* ===== verification/Hardware.thy ===== *)
theory Hardware
  imports Scoring TextAdapters
begin

section \<open>The hardware profile (gateway/hardware.py)\<close>

text \<open>
  What the worker reports of the machine it runs on, built from what the operating system says: the
  \<open>platform\<close>, \<open>os\<close> and \<open>shutil\<close> calls, the Windows memory status and the output of a command
  (\<open>None\<close> where the call raises) are components of a record, and so is \<open>json.loads\<close>. Floats are exact;
  \<open>round\<close> goes to the even neighbour.
\<close>

record os_env =
  os_platform :: string
  os_release :: string
  os_machine :: string
  os_processor :: string
  os_cores :: "int option"
  os_memory_status :: "(int \<times> int) option"
  os_has_sysconf :: bool
  os_pages :: "(int \<times> int) option"
  os_disk :: "(int \<times> int) option"
  os_output :: "string list \<Rightarrow> string option"
  os_json :: "string \<Rightarrow> json option"

subsection \<open>Numbers\<close>

definition opt_num :: "int option \<Rightarrow> json" where
  "opt_num v = (case v of None \<Rightarrow> JNull | Some i \<Rightarrow> JInt i)"

definition round_to :: "nat \<Rightarrow> rat \<Rightarrow> json" where
  "round_to d r = JFloat (of_int (round_even (r * 10 ^ d)) / 10 ^ d)"

definition gigabytes :: "int option \<Rightarrow> json" where
  "gigabytes v = (case nonzero v of None \<Rightarrow> JNull | Some i \<Rightarrow> round_to 2 (of_int i / 1073741824))"

definition float_or_none :: "string \<Rightarrow> json" where
  "float_or_none s = (case float_literal s of Some r \<Rightarrow> JFloat r | None \<Rightarrow> JNull)"

subsection \<open>Memory and disk\<close>

definition memory_amounts :: "os_env \<Rightarrow> int option \<times> int option" where
  "memory_amounts os =
     (if os_platform os = ''Windows'' then
        (case os_memory_status os of Some (tot, available) \<Rightarrow> (Some tot, Some available) | None \<Rightarrow> (None, None))
      else if os_has_sysconf os then
        (case os_pages os of Some (pages, page_size) \<Rightarrow> (Some (pages * page_size), None) | None \<Rightarrow> (None, None))
      else (None, None))"

definition ram_info :: "os_env \<Rightarrow> json dict" where
  "ram_info os =
     (case memory_amounts os of (tot, available) \<Rightarrow>
        [(''total_bytes'', opt_num tot), (''available_bytes'', opt_num available),
         (''total_gb'', gigabytes tot), (''available_gb'', gigabytes available)])"

definition disk_info :: "os_env \<Rightarrow> json dict" where
  "disk_info os =
     (case os_disk os of
        Some (tot, free) \<Rightarrow> [(''free_bytes'', JInt free), (''total_bytes'', JInt tot),
                               (''free_gb'', round_to 2 (of_int free / 1073741824))]
      | None \<Rightarrow> [(''free_bytes'', JNull), (''total_bytes'', JNull), (''free_gb'', JNull)])"

subsection \<open>Graphics cards\<close>

text \<open>\<open>str.splitlines\<close>: what stands between the line boundaries, without an empty line at the end.\<close>

function split_lines :: "string \<Rightarrow> string \<Rightarrow> string list" where
  "split_lines line [] = (if line = [] then [] else [rev line])"
| "split_lines line (c # cs) =
     (case break_length (c # cs) of
        0 \<Rightarrow> split_lines (c # line) cs
      | Suc k \<Rightarrow> rev line # split_lines [] (drop k cs))"
  by pat_completeness auto
termination by (relation "measure (\<lambda>(l, s). length s)") auto

definition NVIDIA_SMI :: "string list" where
  "NVIDIA_SMI = [''nvidia-smi'', ''--query-gpu=name,memory.tot,memory.free,driver_version'',
     ''--format=csv,noheader,nounits'']"

definition nvidia_card :: "string \<Rightarrow> json dict list" where
  "nvidia_card line =
     (let parts = List.map strip (split_on (CHR '','') line) in
      if length parts \<ge> 2 then
        [[(''vendor'', JStr ''nvidia''), (''name'', JStr (parts ! 0)), (''vram_total_mb'', float_or_none (parts ! 1)),
          (''vram_free_mb'', if length parts > 2 then float_or_none (parts ! 2) else JNull),
          (''driver'', if length parts > 3 then JStr (parts ! 3) else JNull), (''api'', JStr ''cuda'')]]
      else [])"

definition nvidia_cards :: "os_env \<Rightarrow> json dict list" where
  "nvidia_cards os =
     (case os_output os NVIDIA_SMI of
        None \<Rightarrow> []
      | Some out \<Rightarrow> concat (List.map nvidia_card (split_lines [] (strip out))))"

definition POWERSHELL :: "string list" where
  "POWERSHELL = [''powershell'', ''-NoProfile'', ''-Command'',
     ''Get-CimInstance Win32_VideoController | Select-Object Name, AdapterRAM | ConvertTo-Json -Compress'']"

definition vendor_of :: "string \<Rightarrow> string" where
  "vendor_of low =
     (if contains ''nvidia'' low then ''nvidia''
      else if contains ''amd'' low \<or> contains ''radeon'' low then ''amd''
      else if contains ''intel'' low then ''intel''
      else ''unknown'')"

fun adapter_ram :: "json \<Rightarrow> json" where
  "adapter_ram (JInt i) = (if i > 0 then round_to 1 (of_int i / 1048576) else JNull)"
| "adapter_ram (JBool True) = round_to 1 (1 / 1048576)"
| "adapter_ram v = JNull"

definition windows_card :: "string \<Rightarrow> json \<Rightarrow> json dict" where
  "windows_card name ram =
     [(''vendor'', JStr (vendor_of (lower name))), (''name'', JStr name), (''vram_total_mb'', adapter_ram ram),
      (''vram_free_mb'', JNull), (''driver'', JNull), (''api'', JNull),
      (''note'', JStr ''AdapterRAM from Win32 may be truncated on some drivers'')]"

text \<open>The first entry that raises (not an object, or a name that is not a string) ends the loop.\<close>

fun windows_cards :: "json list \<Rightarrow> json dict list" where
  "windows_cards (JObj d # items) =
     (case jor (dget d ''Name'') (JStr ''unknown'') of
        JStr name \<Rightarrow> windows_card name (dget d ''AdapterRAM'') # windows_cards items
      | _ \<Rightarrow> [])"
| "windows_cards items = []"

definition windows_listing :: "os_env \<Rightarrow> json dict list" where
  "windows_listing os =
     (case os_output os POWERSHELL of
        None \<Rightarrow> []
      | Some out \<Rightarrow>
          (case (if strip out = [] then Some (JArr []) else os_json os out) of
             None \<Rightarrow> []
           | Some v \<Rightarrow>
               (case py_iter (jor (if is_obj v then JArr [v] else v) (JArr [])) of
                  Inl e \<Rightarrow> []
                | Inr items \<Rightarrow> windows_cards items)))"

definition gpu_info :: "os_env \<Rightarrow> json dict list" where
  "gpu_info os =
     (if nvidia_cards os \<noteq> [] then nvidia_cards os
      else if os_platform os = ''Windows'' then windows_listing os
      else [])"

subsection \<open>Runtimes and power\<close>

definition is_digit :: "char \<Rightarrow> bool" where
  "is_digit c \<longleftrightarrow> CHR ''0'' \<le> c \<and> c \<le> CHR ''9''"

text \<open>\<open>(\d+\.\d+\.\d+)\<close> at the head of a string, and its first match.\<close>

definition number_dot :: "string \<Rightarrow> (string \<times> string) option" where
  "number_dot s =
     (let d = takeWhile is_digit s in
      case drop (length d) s of
        c # r \<Rightarrow> if d \<noteq> [] \<and> c = CHR ''.'' then Some (d @ [c], r) else None
      | [] \<Rightarrow> None)"

definition version_at :: "string \<Rightarrow> string option" where
  "version_at s =
     (case number_dot s of None \<Rightarrow> None | Some (a, r) \<Rightarrow>
     (case number_dot r of None \<Rightarrow> None | Some (b, r') \<Rightarrow>
        (let d = takeWhile is_digit r' in if d = [] then None else Some (a @ b @ d))))"

fun find_version :: "string \<Rightarrow> string option" where
  "find_version [] = None"
| "find_version (c # cs) = (case version_at (c # cs) of Some v \<Rightarrow> Some v | None \<Rightarrow> find_version cs)"

definition detect_ollama_version :: "os_env \<Rightarrow> json" where
  "detect_ollama_version os =
     (case os_output os [''ollama'', ''--version''] of
        None \<Rightarrow> JNull
      | Some out \<Rightarrow> JStr (case find_version out of Some v \<Rightarrow> v | None \<Rightarrow> py_take 80 (strip out)))"

definition last_chars :: "nat \<Rightarrow> string \<Rightarrow> string" where
  "last_chars n s = (let cps = code_points s in concat (drop (length cps - n) cps))"

definition power_mode :: "os_env \<Rightarrow> json" where
  "power_mode os =
     (if os_platform os \<noteq> ''Windows'' then JNull
      else case os_output os [''powercfg'', ''/getactivescheme''] of
             None \<Rightarrow> JNull
           | Some out \<Rightarrow> JStr (last_chars 120 (strip out)))"

definition profile_hardware :: "os_env \<Rightarrow> json dict" where
  "profile_hardware os =
     [(''os'', JStr (os_platform os)), (''os_release'', JStr (os_release os)), (''arch'', JStr (os_machine os)),
      (''cpu'', JObj [(''processor'', jor (JStr (os_processor os)) JNull), (''logical_cores'', opt_num (os_cores os))]),
      (''ram'', JObj (ram_info os)), (''disk'', JObj (disk_info os)),
      (''gpu'', JArr (List.map JObj (gpu_info os))),
      (''runtimes'', JObj [(''ollama'', detect_ollama_version os)]),
      (''power_mode'', power_mode os)]"

subsection \<open>The memory budget of a profile\<close>

text \<open>What \<open>fit_budget_mb\<close> reads of a profile.\<close>

fun num_of :: "json \<Rightarrow> rat option" where
  "num_of (JInt i) = Some (of_int i)"
| "num_of (JFloat r) = Some r"
| "num_of v = None"

definition budget_inputs :: "json dict \<Rightarrow> hardware" where
  "budget_inputs profile =
     (let ram = obj_of (jor (dget profile ''ram'') (JObj [])) in
      \<lparr>hw_available = as_int (dget ram ''available_bytes''), hw_total = as_int (dget ram ''total_bytes''),
       hw_vram = List.map (\<lambda>g. num_of (dget (obj_of g) ''vram_total_mb'')) (arr_of (jor (dget profile ''gpu'') (JArr [])))\<rparr>)"

lemma amounts_of_ram:
  "as_int (dget (ram_info os) ''available_bytes'') = snd (memory_amounts os)"
  "as_int (dget (ram_info os) ''total_bytes'') = fst (memory_amounts os)"
  by (cases "memory_amounts os"; cases "fst (memory_amounts os)"; cases "snd (memory_amounts os)";
      simp add: ram_info_def opt_num_def dget_def)+

lemma profile_parts:
  "dget (profile_hardware os) ''ram'' = JObj (ram_info os)"
  "dget (profile_hardware os) ''gpu'' = JArr (List.map JObj (gpu_info os))"
  by (simp_all add: profile_hardware_def dget_def)

lemma ram_or_empty: "obj_of (jor (JObj (ram_info os)) (JObj [])) = ram_info os"
  by (cases "memory_amounts os") (simp add: ram_info_def jor_def)

lemma profile_amounts:
  "hw_available (budget_inputs (profile_hardware os)) = snd (memory_amounts os)"
  "hw_total (budget_inputs (profile_hardware os)) = fst (memory_amounts os)"
  by (simp_all only: budget_inputs_def Let_def profile_parts ram_or_empty amounts_of_ram hardware.simps)

lemma profile_vram:
  "hw_vram (budget_inputs (profile_hardware os)) = List.map (\<lambda>g. num_of (dget g ''vram_total_mb'')) (gpu_info os)"
  by (cases "gpu_info os") (simp_all add: budget_inputs_def Let_def profile_parts jor_def comp_def)

definition sane_memory :: "os_env \<Rightarrow> bool" where
  "sane_memory os \<longleftrightarrow>
     (\<forall>t a. os_memory_status os = Some (t, a) \<longrightarrow> 0 \<le> t \<and> 0 \<le> a) \<and>
     (\<forall>p s. os_pages os = Some (p, s) \<longrightarrow> 0 \<le> p \<and> 0 \<le> s)"

lemma sane_amounts:
  assumes "sane_memory os"
  shows "fst (memory_amounts os) = Some t \<Longrightarrow> 0 \<le> t" "snd (memory_amounts os) = Some a \<Longrightarrow> 0 \<le> a"
  using assms by (auto simp: memory_amounts_def sane_memory_def split: if_splits option.splits prod.splits)

lemma fit_budget_pos:
  assumes "\<And>i. hw_available hw = Some i \<Longrightarrow> 0 \<le> i" "\<And>i. hw_total hw = Some i \<Longrightarrow> 0 \<le> i"
  shows "0 < fit_budget_mb hw"
proof (cases "case nonzero (hw_available hw) of Some a \<Rightarrow> Some a | None \<Rightarrow> nonzero (hw_total hw)")
  case (Some a)
  then have "a \<noteq> 0" "hw_available hw = Some a \<or> hw_total hw = Some a"
    by (auto simp: nonzero_def split: option.splits if_splits)
  then have "0 < a" using assms by force
  then have u: "0 < (of_int a :: rat) / 1048576 * (65 / 100)" by simp
  then show ?thesis using Some by (auto simp: fit_budget_mb_def Let_def less_max_iff_disj split: list.split)
qed (simp add: fit_budget_mb_def)

text \<open>Whatever the probes of the machine answer or fail to answer, the profile gives a positive memory
  budget; where the memory is unknown it is 4096 MB, whatever the graphics cards.\<close>

theorem every_machine_has_a_budget:
  assumes "sane_memory os"
  shows "0 < fit_budget_mb (budget_inputs (profile_hardware os)) \<and>
    (memory_amounts os = (None, None) \<longrightarrow> fit_budget_mb (budget_inputs (profile_hardware os)) = 4096)"
proof
  show "0 < fit_budget_mb (budget_inputs (profile_hardware os))"
    by (rule fit_budget_pos) (auto simp: profile_amounts dest: sane_amounts [OF assms])
qed (simp add: fit_budget_mb_def profile_amounts nonzero_def)

definition demo_machine :: os_env where
  "demo_machine = \<lparr>os_platform = ''Linux'', os_release = ''6.1'', os_machine = ''x86_64'', os_processor = [],
     os_cores = Some 8, os_memory_status = None, os_has_sysconf = True, os_pages = Some (4194304, 4096),
     os_disk = None,
     os_output = (\<lambda>c. if c = NVIDIA_SMI then Some ''RTX, 24, 20, 5.1'' else
                      if c = [''ollama'', ''--version''] then Some ''ollama version is 0.3.14'' else None),
     os_json = (\<lambda>s. None)\<rparr>"

theorem every_machine_has_a_budget_witness:
  "sane_memory demo_machine \<and> 0 < fit_budget_mb (budget_inputs (profile_hardware demo_machine))"
proof -
  have "sane_memory demo_machine" by (simp add: sane_memory_def demo_machine_def)
  then show ?thesis using every_machine_has_a_budget by blast
qed

lemma demo_profile:
  "dget (profile_hardware demo_machine) ''runtimes'' = JObj [(''ollama'', JStr ''0.3.14'')]"
  "hw_vram (budget_inputs (profile_hardware demo_machine)) = [Some 24]"
  by code_simp+

end
