(* ===== verification/WorkerGenerate.thy ===== *)
theory WorkerGenerate
  imports WorkerIntake CompilerChat Hardware
begin

section \<open>A compilation over the wire\<close>

text \<open>
  The document \<open>generate_workflow_ir\<close> returns as the dictionary the code builds, and
  \<open>workflow.generate\<close> with the modelled compiler and its call to the model behind it. As in
  \<open>WorkerIntake\<close>, parameters of types the model has no room for are left to a function.
\<close>

subsection \<open>Rendering\<close>

definition node_json :: "gen_node \<Rightarrow> json" where
  "node_json n = JObj [(''id'', JStr (gn_id n)), (''type'', JStr (gn_type n)), (''title'', JStr (gn_title n)),
     (''permission_class'', JStr (gn_perm n)), (''idempotency_key'', JStr (gn_idem n)),
     (''cache_key'', JStr (gn_cache n)), (''timeout_ms'', JInt (gn_timeout n)), (''retry'', gn_retry n)]"

definition edge_json :: "wf_edge \<Rightarrow> json" where
  "edge_json e = JObj [(''id'', JStr (e_id e)), (''from'', JStr (e_from e)), (''to'', JStr (e_to e)),
     (''kind'', JStr (e_kind e))]"

definition doc_json :: "string \<Rightarrow> gen_doc \<Rightarrow> json dict" where
  "doc_json stamp d =
     [(''schema_version'', JInt 1), (''workflow_id'', JStr (gd_id d)), (''title'', JStr (gd_title d)),
      (''domain_pack_id'', gd_pack d),
      (''goal'', JObj [(''statement'', JStr (gd_statement d)),
         (''constraints'', strings_json [''Do not modify immutable sources'', ''Safe overlay only under .brainflow/'']),
         (''success_metrics'', strings_json [''Schema-valid workflow'', ''Markdown artifact produced''])]),
      (''pins'', JObj [(''models'', JObj [(''planner'', JObj [(''provider'', JStr ''ollama''),
         (''name'', JStr (gd_model d)), (''digest'', JStr (gd_digest d))])]), (''prompt_pack_version'', JStr ''1.0.0'')]),
      (''nodes'', JArr (List.map node_json (gd_nodes d))), (''edges'', JArr (List.map edge_json (gd_edges d))),
      (''budgets'', gen_budgets),
      (''completion'', JObj [(''criteria'', strings_json [''artifact_written'']),
         (''terminal_statuses'', strings_json [''succeeded'', ''failed'', ''cancelled'', ''needs_review''])]),
      (''metadata'', JObj [(''created_at'', JStr stamp), (''created_by'', JStr ''system''),
         (''notes'', JStr ''workflow-kernel compilation'')])]"

subsection \<open>Reading the parameters\<close>

definition all_strings :: "json list \<Rightarrow> string list option" where
  "all_strings xs = (if list_all is_str xs then Some (List.map (\<lambda>v. case v of JStr s \<Rightarrow> s | _ \<Rightarrow> []) xs) else None)"

text \<open>The parts of a pack the compiler reads.\<close>

definition pack_of :: "json dict \<Rightarrow> pack option" where
  "pack_of d =
     (case (dget d ''id'', map_of d ''version'', dget d ''allowed_node_types'', text_param (dget d ''default_permission_class'')) of
        (JStr i, v, JArr ts, Some c) \<Rightarrow>
          (case (v, all_strings ts) of
             (None, Some types) \<Rightarrow>
               Some \<lparr>pk_id = i, pk_version = None, pk_allowed = types, pk_perm = (case c of None \<Rightarrow> [] | Some x \<Rightarrow> x),
                     pk_hints = [], pk_rubric = [], pk_templates = []\<rparr>
           | (Some (JStr s), Some types) \<Rightarrow>
               Some \<lparr>pk_id = i, pk_version = Some s, pk_allowed = types, pk_perm = (case c of None \<Rightarrow> [] | Some x \<Rightarrow> x),
                     pk_hints = [], pk_rubric = [], pk_templates = []\<rparr>
           | _ \<Rightarrow> None)
      | _ \<Rightarrow> None)"

definition call_pack :: "json dict option \<Rightarrow> pack option option" where
  "call_pack p = (case p of None \<Rightarrow> Some None | Some [] \<Rightarrow> Some None | Some d \<Rightarrow> map_option Some (pack_of d))"

definition known_digests :: "json dict \<Rightarrow> string \<Rightarrow> string dict option" where
  "known_digests hr model =
     (case jor (dget hr ''digests'') (JObj []) of
        JObj d \<Rightarrow> (case text_param (dget d model) of Some (Some s) \<Rightarrow> Some [(model, s)] | Some None \<Rightarrow> Some [] | None \<Rightarrow> None)
      | _ \<Rightarrow> None)"

record gen_world =
  gw_cfg :: gen_cfg
  gw_dumps :: "json \<Rightarrow> string"
  gw_net :: net_env
  gw_stamp :: string
  gw_odd :: "generate_call \<Rightarrow> json dict res"

definition generate_json :: "gen_world \<Rightarrow> generate_call \<Rightarrow> json dict res" where
  "generate_json w c =
     (case (call_pack (gn_pack c), text_param (gn_digest c), known_digests (gn_health c) (gn_model c)) of
        (Some p, Some md, Some digests) \<Rightarrow>
          bnd (generate_workflow_ir (gw_cfg w) (ollama_chat (gw_dumps w) (gw_net w)) (gn_prompt c) (gn_source c)
                 (gn_model c) digests p md) (\<lambda>d. Inr (doc_json (gw_stamp w) d))
      | _ \<Rightarrow> gw_odd w c)"

subsection \<open>What the client of \<open>workflow.generate\<close> gets\<close>

definition harmless_workflow :: "json dict \<Rightarrow> bool" where
  "harmless_workflow w \<longleftrightarrow>
     arr_of (dget w ''nodes'') \<noteq> [] \<and>
     list_all (\<lambda>n. string_in {''read'', ''safe_overlay''} (dget (obj_of n) ''permission_class'')) (arr_of (dget w ''nodes'')) \<and>
     dget w ''budgets'' = gen_budgets"

lemma default_pack_given:
  "generate_workflow_ir g f prompt src model digests None md = generate_workflow_ir g f prompt src model digests (Some default_pack) md"
  by (simp add: generate_workflow_ir_def)

lemma doc_json_fields:
  "dget (doc_json stamp d) ''nodes'' = JArr (List.map node_json (gd_nodes d))"
  "dget (doc_json stamp d) ''budgets'' = gen_budgets"
  "dget (obj_of (node_json n)) ''permission_class'' = JStr (gn_perm n)"
  by (simp_all add: doc_json_def node_json_def dget_def)

lemma generated_document:
  assumes "generate_json w c = Inr d" "gw_odd w c \<noteq> Inr d" "picks (gw_cfg w)"
  obtains gd where "d = doc_json (gw_stamp w) gd" "gd_nodes gd \<noteq> []"
    "\<forall>n\<in>set (gd_nodes gd). gn_perm n \<in> {''read'', ''safe_overlay''}"
proof -
  obtain p md digests gd where
    g: "generate_workflow_ir (gw_cfg w) (ollama_chat (gw_dumps w) (gw_net w)) (gn_prompt c) (gn_source c)
          (gn_model c) digests p md = Inr gd" "d = doc_json (gw_stamp w) gd"
    using assms(1,2) by (auto simp: generate_json_def bnd_Inr_iff split: option.splits)
  obtain q where "generate_workflow_ir (gw_cfg w) (ollama_chat (gw_dumps w) (gw_net w)) (gn_prompt c) (gn_source c)
          (gn_model c) digests (Some q) md = Inr gd"
    using g(1) default_pack_given by (cases p) auto
  then obtain doc where "compile_doc (gw_cfg w) q (gn_prompt c) (gn_model c) (choose_digest md digests (gn_model c)) doc = Inr gd"
    by (rule generate_compiles)
  from compile_doc_props [OF this assms(3)] show thesis using that g(2) by (auto simp: node_safe_def)
qed

lemma generated_harmless:
  assumes "generate_json w c = Inr d" "picks (gw_cfg w)"
  shows "harmless_workflow d \<or> gw_odd w c = Inr d"
proof (cases "gw_odd w c = Inr d")
  case False
  then obtain gd where "d = doc_json (gw_stamp w) gd" "gd_nodes gd \<noteq> []"
      "\<forall>n\<in>set (gd_nodes gd). gn_perm n \<in> {''read'', ''safe_overlay''}"
    using generated_document [OF assms(1) _ assms(2)] by blast
  then show ?thesis by (simp add: harmless_workflow_def doc_json_fields list_all_iff string_in_def)
qed simp

lemma pins_keep_field:
  assumes "with_pins pins w0 = Inr w" "k \<noteq> ''pins''" shows "dget w k = dget w0 k"
  using assms by (auto simp: with_pins_def apply_pins_to_workflow_def bnd_Inr_iff Let_def dget_put split: if_splits)

lemma pins_keep_nodes: "with_pins pins w0 = Inr w \<Longrightarrow> harmless_workflow w = harmless_workflow w0"
  by (simp add: harmless_workflow_def pins_keep_field)

lemma generate_answer:
  assumes "fst (on_generate re params wk) = Inr (Answer v)"
  obtains c w0 pins w val where "re_generate re c = Inr w0" "with_pins pins w0 = Inr w"
    "dget (obj_of v) ''workflow'' = JObj w" "re_validate re w = Inr val" "truthy (dget val ''ok'')"
proof -
  obtain hr r where "generate_with re (obj_of params) hr r = Inr (Answer v)"
    using assms by (auto simp: on_generate_def bnd_Inr_iff split: sum.splits if_splits prod.splits)
  then obtain c w0 pins w val pin_res where "re_generate re c = Inr w0" "with_pins pins w0 = Inr w"
      "re_validate re w = Inr val" "generated w val r pin_res = Answer v"
    unfolding generate_with_def bnd_Inr_iff sum.inject by (elim exE conjE) metis
  then show thesis using that by (auto simp: generated_def dget_def split: if_splits)
qed

text \<open>The worker with the modelled hardware profile, analysis and compiler behind it.\<close>

definition wired :: "'k rpc_env \<Rightarrow> os_env \<Rightarrow> intake_world \<Rightarrow> gen_world \<Rightarrow> 'k rpc_env" where
  "wired re os iw gw = re\<lparr>re_hardware := Inr (JObj (profile_hardware os)), re_analyze := analyze_json iw,
     re_generate := generate_json gw\<rparr>"

text \<open>Whatever the model, the prompt, the document and the pack say, a workflow that \<open>workflow.generate\<close>
  answers has only nodes of the classes \<open>read\<close> and \<open>safe_overlay\<close>, at least one, and the fixed
  budgets; pinning models to it does not change that. (Parameters of the wrong type go to \<open>gw_odd\<close>.)\<close>

theorem generate_answers_are_harmless:
  assumes "re_generate re = generate_json w" "picks (gw_cfg w)"
    and "dget d ''method'' = JStr ''workflow.generate''"
    and "handle_request re (JObj d) wk = (Inr r, wk')" "map_of r ''result'' = Some v"
  shows "\<exists>wf. dget (obj_of v) ''workflow'' = JObj wf \<and>
    (harmless_workflow wf \<or> (\<exists>c w0 pins. gw_odd w c = Inr w0 \<and> with_pins pins w0 = Inr wf))"
proof -
  let ?p = "jor (dget d ''params'') (JObj [])"
  have "call_method re (dget d ''method'') ?p wk = on_generate re ?p wk"
    by (simp add: assms(3) call_method_def dispatch_def)
  then have "fst (on_generate re ?p wk) = Inr (Answer v)"
    using result_is_answered [OF assms(4,5)] by (metis fst_conv)
  then obtain c w0 pins wf where g: "re_generate re c = Inr w0" "with_pins pins w0 = Inr wf"
      "dget (obj_of v) ''workflow'' = JObj wf"
    by (rule generate_answer)
  then show ?thesis
    using generated_harmless [of w c w0] assms(1,2) pins_keep_nodes [OF g(2)] by auto
qed

definition demo_gen_world :: gen_world where
  "demo_gen_world = \<lparr>gw_cfg = demo_gen, gw_dumps = (\<lambda>_. []),
     gw_net = demo_net\<lparr>ne_http := (\<lambda>_. Inr (JObj [(''message'', JObj [(''content'', JStr ''J'')])]))\<rparr>, gw_stamp = [],
     gw_odd = (\<lambda>_. Inl (TypeError []))\<rparr>"

definition wired_demo :: "string dict rpc_env" where
  "wired_demo = wired demo_rpc demo_machine demo_world demo_gen_world"

text \<open>And \<open>llm.hardware\<close> answers the profile.\<close>

lemma hardware_answer:
  assumes "dget d ''jsonrpc'' = JStr ''2.0''" "dget d ''method'' = JStr ''llm.hardware''"
  shows "handle_request (wired re os iw gw) (JObj d) wk =
    (Inr (response (dget d ''id'') (Answer (JObj (profile_hardware os)))), wk)"
  using assms by (simp add: handle_request_def jget_def call_method_def dispatch_def pure_reply_def wired_def surfaced_def)

end
