(* ===== verification/WorkerSelect.thy ===== *)
theory WorkerSelect
  imports Select WorkerGenerate
begin

section \<open>A selection over the wire\<close>

text \<open>
  \<open>select_models\<close> behind \<open>llm.select\<close> and \<open>llm.recommend\<close>: the registry, the hardware profile and the health
  of the providers are read as JSON values by the modelled functions, the models of the manifest become the
  records of \<open>Scoring\<close>, and the selection is rendered as the dictionary the code answers, its explanation
  included. A manifest, a health report or pins with fields of other types than the registry schema has are
  left to a function.
\<close>

subsection \<open>Reading the manifest\<close>

definition str_val :: "json \<Rightarrow> string option" where
  "str_val v = (case v of JStr s \<Rightarrow> Some s | _ \<Rightarrow> None)"

definition strings_of :: "json \<Rightarrow> string list" where
  "strings_of v = concat (List.map (\<lambda>x. case x of JStr s \<Rightarrow> [s] | _ \<Rightarrow> []) (arr_of v))"

definition int_of :: "json \<Rightarrow> int option" where
  "int_of v = (case v of JInt i \<Rightarrow> Some i | _ \<Rightarrow> None)"

definition nullable :: "(json \<Rightarrow> bool) \<Rightarrow> json \<Rightarrow> bool" where
  "nullable P v \<longleftrightarrow> v = JNull \<or> P v"

definition is_num :: "json \<Rightarrow> bool" where
  "is_num v \<longleftrightarrow> num_of v \<noteq> None"

definition list_like :: "(json \<Rightarrow> bool) \<Rightarrow> json \<Rightarrow> bool" where
  "list_like P v \<longleftrightarrow> nullable is_arr v \<and> list_all P (arr_of v)"

definition memory_params :: "json dict \<Rightarrow> json dict" where
  "memory_params m = obj_of (dget (obj_of (dget m ''memory_formula'')) ''params'')"

definition score_value :: "json \<Rightarrow> rat option" where
  "score_value s = num_of (dget (obj_of s) ''value'')"

text \<open>An entry whose fields have the types of the registry schema.\<close>

definition entry_typed :: "json dict \<Rightarrow> bool" where
  "entry_typed m \<longleftrightarrow>
     is_str (dget m ''id'') \<and>
     list_all (\<lambda>k. nullable is_str (dget m k))
       [''display_name'', ''runtime_name'', ''preferred_provider'', ''source'', ''license''] \<and>
     nullable is_obj (dget m ''capabilities'') \<and> nullable is_obj (dget m ''memory_formula'') \<and>
     nullable is_obj (dget (obj_of (dget m ''memory_formula'')) ''params'') \<and>
     list_all (\<lambda>k. list_like is_str (dget m k)) [''modalities'', ''digests'', ''quantizations''] \<and>
     list_like (\<lambda>c. int_of c \<noteq> None) (dget m ''context_lengths'') \<and>
     list_like (\<lambda>s. is_obj s \<longrightarrow> nullable is_num (dget (obj_of s) ''value'')) (dget m ''quality_scores'') \<and>
     list_all (\<lambda>k. nullable is_num (dget m k))
       [''quality'', ''parameter_count'', ''eval_reliability'', ''performance_floor'', ''quant_penalty''] \<and>
     list_all (\<lambda>k. nullable is_num (dget (memory_params m) k))
       [''weights_mb'', ''kv_mb_per_1k_ctx'', ''runtime_overhead_mb''] \<and>
     nullable (\<lambda>v. int_of v \<noteq> None) (dget m ''download_size_mb'')"

definition entry_of :: "json dict \<Rightarrow> model_entry" where
  "entry_of m =
     \<lparr>me_id = str_first [str_val (dget m ''id'')] [], me_display = str_val (dget m ''display_name''),
      me_runtime = str_val (dget m ''runtime_name''), me_preferred = str_val (dget m ''preferred_provider''),
      me_source = str_val (dget m ''source''),
      me_caps = List.map (\<lambda>(k, v). (k, truthy v)) (obj_of (dget m ''capabilities'')),
      me_modalities = strings_of (dget m ''modalities''),
      me_contexts = concat (List.map (\<lambda>c. case c of JInt i \<Rightarrow> [i] | _ \<Rightarrow> []) (arr_of (dget m ''context_lengths''))),
      me_scores = List.map score_value (arr_of (dget m ''quality_scores'')),
      me_quality = num_of (dget m ''quality''), me_weights_mb = num_of (dget (memory_params m) ''weights_mb''),
      me_kv = num_of (dget (memory_params m) ''kv_mb_per_1k_ctx''),
      me_overhead = num_of (dget (memory_params m) ''runtime_overhead_mb''),
      me_download = num_of (dget m ''download_size_mb''), me_params = num_of (dget m ''parameter_count''),
      me_digests = strings_of (dget m ''digests''), me_remote_code = truthy (dget m ''remote_code_required''),
      me_reliability = num_of (dget m ''eval_reliability''), me_performance = num_of (dget m ''performance_floor''),
      me_quant_penalty = num_of (dget m ''quant_penalty''), me_license = str_val (dget m ''license''),
      me_quants = strings_of (dget m ''quantizations'')\<rparr>"

text \<open>\<open>[dict(m) for m in (manifest.get("models") or [])]\<close>.\<close>

definition manifest_models :: "json dict \<Rightarrow> model_entry list option" where
  "manifest_models manifest =
     (let v = dget manifest ''models'' in
      if list_like (\<lambda>m. is_obj m \<and> entry_typed (obj_of m)) v
      then Some (List.map (\<lambda>m. entry_of (obj_of m)) (arr_of v)) else None)"

subsection \<open>The reasons as text\<close>

text \<open>The formats \<open>.0f\<close>, \<open>.2f\<close> and \<open>.3f\<close>.\<close>

definition show_fixed :: "nat \<Rightarrow> rat \<Rightarrow> string" where
  "show_fixed d r =
     (let n = round_even (\<bar>r\<bar> * 10 ^ d); frac = show_int (n mod 10 ^ d) in
      (if r < 0 then ''-'' else []) @ show_int (n div 10 ^ d) @
      (if d = 0 then [] else CHR ''.'' # replicate (d - length frac) CHR ''0'' @ frac))"

fun reject_text :: "reject \<Rightarrow> string" where
  "reject_text MissingVision = ''missing vision modality''"
| "reject_text ToolsRequired = ''tools required''"
| "reject_text JsonRequired = ''json_schema required''"
| "reject_text EmbeddingsRequired = ''embeddings required''"
| "reject_text (ContextShort have_ctx need) = ''context '' @ show_int have_ctx @ '' < required '' @ show_int need"
| "reject_text RemoteCode = ''remote_code_required not eligible by default''"
| "reject_text CloudBlocked = ''cloud provider blocked by Maximum Privacy policy''"
| "reject_text (FitFail mem budget) = ''fit fail: needs ~'' @ show_fixed 0 mem @ ''MB > budget '' @ show_fixed 0 budget @ ''MB''"
| "reject_text BarelyAllocates = ''barely allocates (safety margin)''"

fun reason_text :: "reason \<Rightarrow> string" where
  "reason_text LocalBonus = ''local provider privacy bonus''"
| "reason_text LowLatencyApplied = ''low-latency weights applied''"
| "reason_text (QualityIs q) = ''quality='' @ show_fixed 2 q"
| "reason_text (FitIs f mem) = ''fit='' @ show_fixed 2 f @ '' (~'' @ show_fixed 0 mem @ ''MB)''"
| "reason_text FitUnknown = ''fit=unknown''"
| "reason_text (ContextIs c) = ''context='' @ show_int c"
| "reason_text PinnedByUser = ''pinned by user/workflow''"

subsection \<open>The recommendation card\<close>

definition opt_rat_int :: "rat option \<Rightarrow> json" where
  "opt_rat_int v = (case v of None \<Rightarrow> JNull | Some r \<Rightarrow> JInt \<lfloor>r\<rfloor>)"

definition opt_float :: "rat option \<Rightarrow> json" where
  "opt_float v = (case v of None \<Rightarrow> JNull | Some r \<Rightarrow> JFloat r)"

definition winner_json :: "candidate \<Rightarrow> json" where
  "winner_json c = JObj
     [(''model_id'', JStr (c_id c)), (''display_name'', JStr (c_display c)), (''provider'', JStr (c_provider c)),
      (''name'', JStr (c_name c)), (''digest'', JStr (c_digest c)), (''score'', round_to 4 (c_score c)),
      (''quality'', round_to 4 (c_quality c)), (''fit'', round_to 4 (c_fit c)),
      (''context_length'', opt_num (c_context c)), (''expected_memory_mb'', opt_float (c_memory c)),
      (''license'', opt_str (c_license c)), (''download_size_mb'', opt_rat_int (c_download c)),
      (''quant'', opt_str (c_quant c)), (''why'', strings_json (List.map reason_text (c_reasons c))),
      (''modalities'', strings_json (c_modalities c)),
      (''capabilities'', JObj (List.map (\<lambda>(k, b). (k, JBool b)) (c_caps c)))]"

definition alternative_json :: "alternative \<Rightarrow> json" where
  "alternative_json a = JObj
     [(''model_id'', JStr (al_id a)), (''display_name'', JStr (al_display a)), (''digest'', JStr (al_digest a)),
      (''score'', round_to 4 (al_score a)), (''provider'', JStr (al_provider a)), (''name'', JStr (al_name a)),
      (''license'', opt_str (al_license a))]"

definition rejected_json :: "string \<times> string \<times> reject list \<Rightarrow> json" where
  "rejected_json r = (case r of (i, nm, why) \<Rightarrow> JObj
     [(''model_id'', JStr i), (''display_name'', JStr nm), (''reasons'', strings_json (List.map reject_text why))])"

definition ELLIPSIS :: string where
  "ELLIPSIS = [CHR 0xE2, CHR 0x80, CHR 0xA6]"

definition shown_digest :: "string \<Rightarrow> string" where
  "shown_digest d = (if py_len d > 24 then py_take 24 d @ ELLIPSIS else d)"

definition winner_text :: "string \<times> candidate \<Rightarrow> string" where
  "winner_text w = (case w of (role, c) \<Rightarrow>
     role @ '': '' @ c_display c @ '' (digest '' @ shown_digest (c_digest c) @ '', score '' @ show_fixed 3 (c_score c) @ '')'')"

definition explanation :: "card \<Rightarrow> string" where
  "explanation crd = join '' ''
     ([''Policy='' @ cd_policy crd @ ''.''] @ List.map winner_text (cd_winners crd) @
      (if cd_winners crd = [] then [''No eligible model '' @ EM_DASH @ '' fail-closed.''] else []))"

definition hardware_summary :: "json dict \<Rightarrow> json" where
  "hardware_summary hw = JObj
     [(''arch'', dget hw ''arch''), (''ram_gb'', dget (obj_of (dget hw ''ram'')) ''total_gb''),
      (''gpu'', JArr (List.map (\<lambda>g. JObj [(''name'', dget (obj_of g) ''name''), (''vram_mb'', dget (obj_of g) ''vram_total_mb''),
         (''vendor'', dget (obj_of g) ''vendor'')]) (arr_of (dget hw ''gpu'')))),
      (''disk_free_gb'', dget (obj_of (dget hw ''disk'')) ''free_gb'')]"

definition pins_json :: "pins \<Rightarrow> json" where
  "pins_json ps = JObj (List.map (\<lambda>(role, ref). (role, JObj ref)) ps)"

definition card_json :: "json dict \<Rightarrow> card \<Rightarrow> json" where
  "card_json hw crd = JObj
     [(''policy'', JStr (cd_policy crd)), (''hardware_summary'', hardware_summary hw),
      (''winners'', JObj (List.map (\<lambda>(role, c). (role, winner_json c)) (cd_winners crd))),
      (''alternatives'', JArr (List.map alternative_json (cd_alternatives crd))),
      (''rejected'', JArr (List.map rejected_json (cd_rejected crd))),
      (''portfolio'', JBool (cd_portfolio crd)), (''explanation'', JStr (explanation crd)),
      (''registry_digest'', opt_str (cd_registry crd)), (''pins'', pins_json (cd_pins crd))]"

definition resolution_json :: "resolution \<Rightarrow> json" where
  "resolution_json rv = JObj
     ([(''pins'', pins_json (rv_pins rv)), (''changed'', JBool (rv_changed rv)), (''reason'', JStr (rv_reason rv))] @
      opt_entry ''notification'' (rv_notification rv))"

definition selection_json :: "json dict \<Rightarrow> json dict \<Rightarrow> json dict \<Rightarrow> selection \<Rightarrow> json dict" where
  "selection_json hr hw reg sel =
     [(''ok'', JBool (se_ok sel)), (''policy'', JStr (policy_value (se_policy sel))), (''health'', JObj hr),
      (''hardware'', JObj hw),
      (''registry'', JObj (List.map (\<lambda>k. (k, dget reg k)) [''ok'', ''digest'', ''path'', ''verify''])),
      (''recommendation'', card_json hw (se_card sel)), (''pin_resolution'', resolution_json (se_resolution sel)),
      (''eligible_count'', JInt (int (se_eligible sel))), (''error'', opt_str (se_error sel))]"

subsection \<open>The call\<close>

text \<open>The pins a caller sends: references with strings or nothing in the fields the code reads.\<close>

definition ref_typed :: "json \<Rightarrow> bool" where
  "ref_typed v \<longleftrightarrow> is_obj v \<and> list_all (\<lambda>k. nullable is_str (dget (obj_of v) k)) [''provider'', ''name'', ''digest'']"

definition read_pins :: "json \<Rightarrow> pins option option" where
  "read_pins v =
     (if \<not> truthy v then Some None
      else if is_obj v \<and> list_all ref_typed (List.map snd (obj_of v))
      then Some (Some (List.map (\<lambda>(role, ref). (role, obj_of ref)) (obj_of v))) else None)"

definition read_digests :: "json \<Rightarrow> string dict option" where
  "read_digests v =
     (if list_all is_str (List.map snd (obj_of v))
      then Some (List.map (\<lambda>(k, d). (k, str_first [str_val d] [])) (obj_of v)) else None)"

record select_world =
  sw_os :: os_env
  sw_odd :: "select_call \<Rightarrow> json dict res"

text \<open>Everything after the three reports are in.\<close>

definition select_report :: "select_world \<Rightarrow> select_call \<Rightarrow> requirements \<Rightarrow> json dict \<Rightarrow> json dict \<Rightarrow> json dict res" where
  "select_report w c req hr reg =
     (let hw = profile_hardware (sw_os w) in
      case (manifest_models (obj_of (dget reg ''manifest'')), all_strings (arr_of (dget hr ''models'')),
            read_digests (dget hr ''digests''), read_pins (sl_pinned c), text_param (dget reg ''digest'')) of
        (Some ms, Some installed, Some digests, Some pinned, Some reg_digest) \<Rightarrow>
          Inr (selection_json hr hw reg
            (select_with (budget_inputs hw) (parse_policy (sl_policy c)) req pinned (sl_run_active c) (sl_allow c)
               (sl_single c) (List.map (mark_installed installed digests) ms) reg_digest))
      | _ \<Rightarrow> sw_odd w c)"

definition select_json :: "select_world \<Rightarrow> 'k rpc_env \<Rightarrow> select_call \<Rightarrow> 'k worker \<Rightarrow> json dict res \<times> 'k worker" where
  "select_json w re c wk =
     (case bnd (case jor (sl_requirements c) (JObj []) of JObj d \<Rightarrow> Inr d
                | v \<Rightarrow> bnd (jget v ''modalities'') (\<lambda>_. Inr [])) read_requirements of
        Inl e \<Rightarrow> (Inl e, wk)
      | Inr req \<Rightarrow>
          (case aggregate_health (net_of re wk) of
             Inl e \<Rightarrow> (Inl e, wk)
           | Inr hr \<Rightarrow>
               (case load_registry (re_reg re) (re_stamp re) None (sl_refresh c) (wk_disk wk) of
                  (r, d) \<Rightarrow> (bnd r (select_report w c req hr), wk\<lparr>wk_disk := d\<rparr>))))"

subsection \<open>Privacy over the wire\<close>

definition local_ref :: "json \<Rightarrow> bool" where
  "local_ref v = string_in {''ollama'', ''openai_compat''} (dget (obj_of v) ''provider'')"

definition all_local :: "json \<Rightarrow> bool" where
  "all_local v = list_all local_ref (List.map snd (obj_of v))"

text \<open>Local models only in the card and, when the caller sent no pins, in the pins of the run.\<close>

definition private_answer :: "bool \<Rightarrow> json dict \<Rightarrow> bool" where
  "private_answer no_pins d \<longleftrightarrow>
     (let crd = obj_of (dget d ''recommendation'') in
      all_local (dget crd ''winners'') \<and> all_local (dget crd ''pins'') \<and>
      (no_pins \<longrightarrow> all_local (dget (obj_of (dget d ''pin_resolution'')) ''pins'')))"

lemma answer_fields:
  "dget (selection_json hr hw reg sel) ''recommendation'' = card_json hw (se_card sel)"
  "dget (selection_json hr hw reg sel) ''pin_resolution'' = resolution_json (se_resolution sel)"
  "dget (obj_of (card_json hw crd)) ''winners'' = JObj (List.map (\<lambda>(role, c). (role, winner_json c)) (cd_winners crd))"
  "dget (obj_of (card_json hw crd)) ''pins'' = pins_json (cd_pins crd)"
  "dget (obj_of (resolution_json rv)) ''pins'' = pins_json (rv_pins rv)"
  by (simp_all add: selection_json_def card_json_def resolution_json_def dget_def)

lemma local_candidates:
  "c_provider c \<in> {''ollama'', ''openai_compat''} \<Longrightarrow> local_ref (winner_json c)"
  "c_provider c \<in> {''ollama'', ''openai_compat''} \<Longrightarrow> local_ref (JObj (pin_of c))"
  by (auto simp: local_ref_def winner_json_def pin_of_def dget_def string_in_def)

lemma card_pins: "cd_pins (se_card (select_with hw pol req pinned act allow single ms d)) =
    List.map (\<lambda>(role, c). (role, pin_of c)) (cd_winners (se_card (select_with hw pol req pinned act allow single ms d)))"
  by (simp add: select_with_card Let_def build_recommendation_def)

lemma unpinned_resolution:
  "rv_pins (se_resolution (select_with hw pol req None act allow single ms d)) =
     cd_pins (se_card (select_with hw pol req None act allow single ms d))"
  by (simp add: select_with_def Let_def resolve_for_run_def)

lemma winner_is_local:
  assumes "(role, c) \<in> set (cd_winners (se_card (select_with hw MAXIMUM_PRIVACY req pinned act allow single ms d)))"
  shows "local_ref (winner_json c)" "local_ref (JObj (pin_of c))"
  using local_candidates privacy_recommends_local_only [OF assms] by blast+

lemma selection_private:
  assumes "sel = select_with hw MAXIMUM_PRIVACY req pinned act allow single ms d"
  shows "private_answer (pinned = None) (selection_json hr prof reg sel)"
proof -
  have p: "all_local (pins_json (cd_pins (se_card sel)))"
    unfolding assms card_pins using winner_is_local(2) by (auto simp: all_local_def pins_json_def list_all_iff)
  moreover have "all_local (JObj (List.map (\<lambda>(role, c). (role, winner_json c)) (cd_winners (se_card sel))))"
    unfolding assms using winner_is_local(1) by (auto simp: all_local_def list_all_iff)
  ultimately show ?thesis
    using unpinned_resolution [of hw MAXIMUM_PRIVACY req act allow single ms d]
    by (auto simp: private_answer_def answer_fields Let_def assms)
qed

lemma select_json_cases:
  assumes "fst (select_json w re0 c wk) = Inr x" "sl_policy c = ''maximum_privacy''"
  shows "private_answer (\<not> truthy (sl_pinned c)) x \<or> sw_odd w c = Inr x"
proof -
  obtain req hr reg where "select_report w c req hr reg = Inr x"
    using assms(1) by (auto simp: select_json_def bnd_Inr_iff split: sum.splits prod.splits)
  then consider "sw_odd w c = Inr x"
    | ms pinned d where "read_pins (sl_pinned c) = Some pinned"
        "x = selection_json hr (profile_hardware (sw_os w)) reg
           (select_with (budget_inputs (profile_hardware (sw_os w))) (parse_policy (sl_policy c)) req pinned
              (sl_run_active c) (sl_allow c) (sl_single c) ms d)"
    by (auto simp: select_report_def Let_def split: option.splits)
  then show ?thesis
  proof cases
    case 2
    have pol: "parse_policy (sl_policy c) = MAXIMUM_PRIVACY"
      using parse_policy_value [of MAXIMUM_PRIVACY] by (simp add: assms(2) policy_value_def)
    have "private_answer (pinned = None) x" unfolding 2(2) pol by (rule selection_private) (rule refl)
    moreover have "\<not> truthy (sl_pinned c) \<Longrightarrow> pinned = None" using 2(1) by (simp add: read_pins_def)
    ultimately show ?thesis by (auto simp: private_answer_def Let_def)
  qed simp
qed

lemma recommendation_keeps: "private_answer b (recommendation x) = private_answer b x"
  by (simp add: private_answer_def recommendation_def dget_def)

lemma on_select_private:
  assumes "re_select re = select_json w re0" "fst (on_select re brief params wk) = Inr (Answer v)"
    and "dget (obj_of params) ''policy'' = JStr ''maximum_privacy''"
  shows "private_answer (\<not> truthy (dget (obj_of params) ''pinned'')) (obj_of v) \<or>
    (\<exists>c x. sw_odd w c = Inr x \<and> obj_of v \<in> {x, recommendation x})"
proof -
  obtain c x where c: "read_select re params True = Inr c" "fst (select_json w re0 c wk) = Inr x"
      "v = JObj (if brief then recommendation x else x)"
    using assms(1,2) by (auto simp: on_select_def answering_def bnd_Inr_iff split: sum.splits prod.splits)
  obtain p where "params = JObj p" using c(1) by (cases params) (auto simp: read_select_def str_param_def jget_def)
  then have "sl_policy c = ''maximum_privacy''" "sl_pinned c = dget (obj_of params) ''pinned''"
    using c(1) assms(3) by (auto simp: read_select_def str_param_def jget_def jor_def)
  then show ?thesis using select_json_cases [OF c(2)] c(3) by (auto simp: recommendation_keeps)
qed


definition demo_entry :: "string \<Rightarrow> string \<Rightarrow> json" where
  "demo_entry i prov = JObj [(''id'', JStr i), (''preferred_provider'', JStr prov), (''context_lengths'', JArr [JInt 8192]),
     (''memory_formula'', JObj [(''params'', JObj [(''weights_mb'', JInt 100)])])]"

definition demo_registry :: reg_lib where
  "demo_registry = demo_reg\<lparr>rl_loads := (\<lambda>_. Inr (JObj [(''signature'', JObj [(''alg'', JStr ''dev-unsigned'')]),
     (''models'', JArr [demo_entry ''gpt'' ''openai'', demo_entry ''llama'' ''ollama''])]))\<rparr>"

definition demo_select_world :: select_world where
  "demo_select_world = \<lparr>sw_os = demo_machine, sw_odd = (\<lambda>_. Inl (TypeError []))\<rparr>"

definition select_rpc :: "string dict rpc_env" where
  "select_rpc = (let re = demo_rpc\<lparr>re_reg := demo_registry\<rparr> in re\<lparr>re_select := select_json demo_select_world re\<rparr>)"

definition select_worker :: "string dict worker" where
  "select_worker = demo_worker\<lparr>wk_disk := no_disk\<lparr>rd_current := Some [], rd_schema_keys := None\<rparr>\<rparr>"

definition select_request :: "json dict" where
  "select_request = [(''jsonrpc'', JStr ''2.0''), (''id'', JInt 1), (''method'', JStr ''llm.recommend''),
     (''params'', JObj [(''policy'', JStr ''maximum_privacy'')])]"

definition select_reply :: "json dict" where
  "select_reply = projr (fst (handle_request select_rpc (JObj select_request) select_worker))"

text \<open>The parts of the reply, evaluated one by one.\<close>

definition demo_health :: "json dict" where
  "demo_health = projr (aggregate_health (net_of select_rpc select_worker))"

definition demo_loaded :: "json dict" where
  "demo_loaded = projr (fst (load_registry demo_registry [] None False (wk_disk select_worker)))"

definition wire_models :: "model_entry list" where
  "wire_models = List.map (\<lambda>m. entry_of (obj_of m)) [demo_entry ''gpt'' ''openai'', demo_entry ''llama'' ''ollama'']"

definition wire_selection :: selection where
  "wire_selection = select_with (budget_inputs (profile_hardware demo_machine)) (parse_policy ''maximum_privacy'')
     (projr (read_requirements [])) None False False False (List.map (mark_installed [''llama3.2''] []) wire_models)
     (Some (''sha256:'' @ to_hex ''models''))"

lemma wire_requirements: "read_requirements [] = Inr (projr (read_requirements []))"
  by (simp add: read_requirements_def py_iter_def jor_def dget_def)

lemma wire_health: "aggregate_health (net_of select_rpc select_worker) = Inr demo_health"
proof -
  have "\<not> isl (aggregate_health (net_of select_rpc select_worker))" by code_simp
  then show ?thesis by (simp add: demo_health_def)
qed

lemma wire_registry: "fst (load_registry demo_registry [] None False (wk_disk select_worker)) = Inr demo_loaded"
proof -
  have "\<not> isl (fst (load_registry demo_registry [] None False (wk_disk select_worker)))" by code_simp
  then show ?thesis by (simp add: demo_loaded_def)
qed

lemma wire_inputs:
  "manifest_models (obj_of (dget demo_loaded ''manifest'')) = Some wire_models"
  "all_strings (arr_of (dget demo_health ''models'')) = Some [''llama3.2'']"
  "read_digests (dget demo_health ''digests'') = Some []"
  "text_param (dget demo_loaded ''digest'') = Some (Some (''sha256:'' @ to_hex ''models''))"
  by code_simp+

lemma wire_winner: "List.map (\<lambda>(role, c). (role, c_name c)) (cd_winners (se_card wire_selection)) = [(''planner'', ''llama'')]"
  by code_simp

lemma select_reply_is:
  "map_of select_reply ''result'' =
     Some (JObj (recommendation (selection_json demo_health (profile_hardware demo_machine) demo_loaded wire_selection)))"
proof -
  let ?c = "\<lparr>sl_policy = ''maximum_privacy'', sl_requirements = JNull, sl_pinned = JNull, sl_run_active = False,
    sl_allow = False, sl_single = False, sl_refresh = False\<rparr>"
  let ?re = "demo_rpc\<lparr>re_reg := demo_registry\<rparr>"
  have rs: "read_select select_rpc (JObj [(''policy'', JStr ''maximum_privacy'')]) True = Inr ?c"
    by (simp add: read_select_def str_param_def jget_def jor_def dget_def)
  have net: "net_of ?re = net_of select_rpc" by (simp add: net_of_def select_rpc_def fun_eq_iff Let_def)
  have sel: "re_select select_rpc = select_json demo_select_world ?re" by (simp add: select_rpc_def Let_def)
  have st: "re_stamp ?re = []" "re_reg ?re = demo_registry" by (simp_all add: demo_rpc_def)
  obtain req where q: "read_requirements [] = Inr req" using wire_requirements by blast
  have "select_report demo_select_world ?c req demo_health demo_loaded =
      Inr (selection_json demo_health (profile_hardware demo_machine) demo_loaded wire_selection)"
    by (simp add: select_report_def Let_def wire_inputs read_pins_def demo_select_world_def wire_selection_def q)
  then have "fst (select_json demo_select_world ?re ?c select_worker) =
      Inr (selection_json demo_health (profile_hardware demo_machine) demo_loaded wire_selection)"
    using wire_registry by (auto simp: select_json_def jor_def net st q wire_health split: prod.split)
  then have "fst (on_select select_rpc True (JObj [(''policy'', JStr ''maximum_privacy'')]) select_worker) =
      Inr (Answer (JObj (recommendation (selection_json demo_health (profile_hardware demo_machine) demo_loaded wire_selection))))"
    by (auto simp: on_select_def rs sel answering_def split: prod.split)
  then show ?thesis
    by (auto simp: select_reply_def select_request_def handle_request_def jget_def dget_def call_method_def dispatch_def
        jor_def surfaced_def split: prod.split)
qed


end
