(* ===== verification/WorkerValidate.thy ===== *)
theory WorkerValidate
  imports WorkerSelect Stages
begin

section \<open>A validation over the wire\<close>

text \<open>
  \<open>validate_workflow_ir\<close> on the document as a dictionary: what the policy gate reads of it, the gate, and the
  report as the dictionary the code returns. The errors of the JSON schema, the iteration order of a set and
  \<open>repr\<close> are arguments. A document outside the schema that reports no schema error is left to a function.
\<close>

subsection \<open>Reading a document\<close>

definition read_node :: "json dict \<Rightarrow> wf_node" where
  "read_node n =
     \<lparr>n_id = str_first [str_val (dget n ''id'')] [], n_type = str_val (dget n ''type''), n_title = str_val (dget n ''title''),
      n_perm = str_val (dget n ''permission_class''), n_idem = str_val (dget n ''idempotency_key''),
      n_cache = str_val (dget n ''cache_key''), n_timeout = int_of (dget n ''timeout_ms''),
      n_retry_max = int_of (dget (obj_of (dget n ''retry'')) ''max''), n_review_loop = dget n ''review_loop''\<rparr>"

definition read_edge :: "json dict \<Rightarrow> wf_edge" where
  "read_edge e =
     \<lparr>e_id = str_first [str_val (dget e ''id'')] [], e_from = str_first [str_val (dget e ''from'')] [],
      e_to = str_first [str_val (dget e ''to'')] [], e_kind = str_first [str_val (dget e ''kind'')] []\<rparr>"

definition raw_node_of :: "json \<Rightarrow> raw_node" where
  "raw_node_of v = (case v of JObj n \<Rightarrow> NodeObj (read_node n) | _ \<Rightarrow> NonObject)"

definition raw_edge_of :: "json \<Rightarrow> raw_edge" where
  "raw_edge_of v = (case v of JObj e \<Rightarrow> EdgeObj (read_edge e) | _ \<Rightarrow> EdgeNonObject)"

definition doc_of :: "json dict \<Rightarrow> workflow" where
  "doc_of d =
     \<lparr>wf_id = str_first [str_val (dget d ''workflow_id'')] [], wf_title = str_first [str_val (dget d ''title'')] [],
      wf_pack = str_first [str_val (dget d ''domain_pack_id'')] [],
      wf_statement = str_first [str_val (dget (obj_of (dget d ''goal'')) ''statement'')] [],
      wf_pins = obj_of (dget d ''pins''),
      wf_nodes = (case dget d ''nodes'' of JArr ns \<Rightarrow> Some (List.map raw_node_of ns) | _ \<Rightarrow> None),
      wf_edges = List.map raw_edge_of (arr_of (dget d ''edges'')), wf_budgets = dget d ''budgets'',
      wf_criteria = strings_of (dget (obj_of (dget d ''completion'')) ''criteria''),
      wf_notes = str_val (dget (obj_of (dget d ''metadata'')) ''notes'')\<rparr>"

text \<open>The fields the gate reads have the types of the workflow schema.\<close>

definition gate_typed :: "json dict \<Rightarrow> bool" where
  "gate_typed d \<longleftrightarrow>
     list_all (\<lambda>n. is_obj n \<longrightarrow> is_str (dget (obj_of n) ''id'') \<and> nullable is_str (dget (obj_of n) ''permission_class''))
       (arr_of (dget d ''nodes'')) \<and>
     list_like (\<lambda>e. is_obj e \<longrightarrow> nullable is_str (dget (obj_of e) ''from'') \<and> nullable is_str (dget (obj_of e) ''to''))
       (dget d ''edges'')"

subsection \<open>The report\<close>

definition policy_text :: "(json \<Rightarrow> string) \<Rightarrow> policy_error \<Rightarrow> string" where
  "policy_text py_repr e =
     (case e of
        NodesRequired \<Rightarrow> ''nodes required''
      | NonObjectNode \<Rightarrow> ''non-object node''
      | UnknownClass i c \<Rightarrow> ''node '' @ i @ '': unknown permission_class '' @ c
      | BadReviewLoop i \<Rightarrow> ''node '' @ i @ '': review_loop.max_iterations must be 1..10''
      | UnboundedCycle c \<Rightarrow> ''unbounded cycle involving '' @ py_repr (strings_json c)
      | MaxStepsCap \<Rightarrow> ''budgets.max_steps exceeds hard cap 500''
      | MaxParallelCap \<Rightarrow> ''budgets.max_parallel_jobs exceeds hard cap 32'')"

definition approvals_json :: "(string \<times> string) list \<Rightarrow> json" where
  "approvals_json as = JArr (List.map (\<lambda>(i, c). JObj [(''node_id'', JStr i), (''permission_class'', JStr c)]) as)"

definition validation_json :: "(json \<Rightarrow> string) \<Rightarrow> validation \<Rightarrow> json dict" where
  "validation_json py_repr v =
     (case v of
        SchemaInvalid es \<Rightarrow> [(''ok'', JBool False), (''errors'', strings_json es)]
      | PolicyInvalid es as \<Rightarrow> [(''ok'', JBool False), (''errors'', strings_json (List.map (policy_text py_repr) es)),
          (''approvals_needed'', approvals_json as), (''policy'', JBool True)]
      | Valid as \<Rightarrow> [(''ok'', JBool True), (''errors'', JArr []), (''approvals_needed'', approvals_json as)])"

record validate_world =
  vw_schema :: "json dict \<Rightarrow> (string list \<times> string) list"
  vw_order :: "string list \<Rightarrow> string list"
  vw_repr :: "json \<Rightarrow> string"
  vw_odd :: "json dict \<Rightarrow> json dict res"

definition validate_json :: "validate_world \<Rightarrow> json dict \<Rightarrow> json dict res" where
  "validate_json w d =
     (if vw_schema w d = [] \<and> \<not> gate_typed d then vw_odd w d
      else bnd (validate_workflow_ir (\<lambda>_. vw_schema w d) (vw_order w (node_ids (doc_nodes (doc_of d)))) (doc_of d)) (\<lambda>v.
        Inr (validation_json (vw_repr w) v)))"

subsection \<open>What a valid compiled document is\<close>

lemma valid_doc:
  assumes "validate_json w d = Inr v" "truthy (dget v ''ok'')" "gate_typed d" "\<And>xs. set (vw_order w xs) = set xs"
  obtains ns where "wf_nodes (doc_of d) = Some ns" "ns \<noteq> []"
    "acyclic (gate_edges ns (wf_edges (doc_of d)) - set (loop_nodes ns) \<times> set (loop_nodes ns))"
proof -
  let ?o = "vw_order w (node_ids (doc_nodes (doc_of d)))"
  obtain x where x: "validate_workflow_ir (\<lambda>_. vw_schema w d) ?o (doc_of d) = Inr x" "v = validation_json (vw_repr w) x"
    using assms(1,3) by (auto simp: validate_json_def bnd_Inr_iff)
  then obtain p where "validate_workflow_policy ?o (doc_of d) = Inr p" "pr_ok p"
    using assms(2) by (auto simp: validate_workflow_ir_def validation_json_def dget_def bnd_Inr_iff split: if_splits)
  then obtain ns where n: "wf_nodes (doc_of d) = Some ns" "ns \<noteq> []" "cycle_errors ?o ns (wf_edges (doc_of d)) = []"
    by (rule validate_ok_parts)
  then show thesis
    using that cycle_errors_complete [OF n(3)] assms(4) by (simp add: doc_nodes_def)
qed

text \<open>The document read back: its nodes are the compiled ones, without review loops.\<close>

definition compiled_node :: "gen_node \<Rightarrow> raw_node" where
  "compiled_node n = raw_node_of (node_json n)"

lemma compiled_node_fields:
  "compiled_node n = NodeObj (read_node (obj_of (node_json n)))"
  "n_id (read_node (obj_of (node_json n))) = gn_id n"
  "n_perm (read_node (obj_of (node_json n))) = Some (gn_perm n)"
  "n_review_loop (read_node (obj_of (node_json n))) = JNull"
  by (simp_all add: compiled_node_def raw_node_of_def node_json_def read_node_def dget_def str_val_def str_first_def)

lemma wire_fields:
  "dget (obj_of (node_json n)) ''id'' = JStr (gn_id n)" "dget (obj_of (node_json n)) ''permission_class'' = JStr (gn_perm n)"
  "dget (obj_of (edge_json e)) ''from'' = JStr (e_from e)" "dget (obj_of (edge_json e)) ''to'' = JStr (e_to e)"
  by (simp_all add: node_json_def edge_json_def dget_def)

lemma doc_json_read:
  assumes "with_pins pins (doc_json stamp g) = Inr w"
  shows "wf_nodes (doc_of w) = Some (List.map compiled_node (gd_nodes g))" "gate_typed w"
proof -
  have f: "dget w ''nodes'' = JArr (List.map node_json (gd_nodes g))" "dget w ''edges'' = JArr (List.map edge_json (gd_edges g))"
    using pins_keep_field [OF assms] by (simp_all add: doc_json_def dget_def)
  show "wf_nodes (doc_of w) = Some (List.map compiled_node (gd_nodes g))"
    by (simp add: doc_of_def f compiled_node_def comp_def)
  show "gate_typed w"
    by (simp add: gate_typed_def f list_like_def nullable_def list_all_iff wire_fields)
qed

text \<open>Compiled, validated and pinned: no node of it needs an approval, its edges have no cycle and its budgets
  are the fixed ones.\<close>

definition ready_to_run :: "workflow \<Rightarrow> bool" where
  "ready_to_run w \<longleftrightarrow> (\<exists>ns. wf_nodes w = Some (List.map NodeObj ns) \<and> ns \<noteq> [] \<and>
     (\<forall>n\<in>set ns. \<not> g_approval (evaluate_node_action n None)) \<and>
     acyclic (gate_edges (List.map NodeObj ns) (wf_edges w)) \<and> wf_budgets w = gen_budgets)"

lemma compiled_ready:
  assumes "generate_json gw c = Inr w0" "gw_odd gw c \<noteq> Inr w0" "picks (gw_cfg gw)" "with_pins pins w0 = Inr w"
    and "validate_json vw w = Inr v" "truthy (dget v ''ok'')" "\<And>xs. set (vw_order vw xs) = set xs"
  shows "ready_to_run (doc_of w)"
proof -
  obtain g where g: "w0 = doc_json (gw_stamp gw) g" "\<forall>n\<in>set (gd_nodes g). gn_perm n \<in> {''read'', ''safe_overlay''}"
    using generated_document [OF assms(1-3)] by blast
  note r = doc_json_read [OF assms(4) [unfolded g(1)]]
  let ?ns = "List.map (\<lambda>n. read_node (obj_of (node_json n))) (gd_nodes g)"
  have ns: "wf_nodes (doc_of w) = Some (List.map NodeObj ?ns)" by (simp add: r(1) compiled_node_fields(1) comp_def)
  have "loop_nodes (List.map NodeObj ?ns) = []"
    unfolding loop_nodes_def node_objs_map by (simp add: compiled_node_fields filter_empty_conv)
  then have "?ns \<noteq> []" "acyclic (gate_edges (List.map NodeObj ?ns) (wf_edges (doc_of w)))"
    using valid_doc [OF assms(5,6) r(2) assms(7)] ns by (metis Diff_empty Sigma_empty1 empty_set list.map_disc_iff option.inject)+
  moreover have "\<not> g_approval (evaluate_node_action n None)" if "n \<in> set ?ns" for n
    using that g(2) by (auto simp: gate_approval_iff node_class_def compiled_node_fields may_auto_apply_iff AUTO_APPLY_def normalize_permission_class_def)
  moreover have "wf_budgets (doc_of w) = gen_budgets"
    using pins_keep_field [OF assms(4)] by (simp add: doc_of_def g(1) doc_json_fields)
  ultimately show ?thesis using ns unfolding ready_to_run_def by blast
qed


definition demo_validate_world :: validate_world where
  "demo_validate_world = \<lparr>vw_schema = (\<lambda>_. []), vw_order = (\<lambda>xs. xs), vw_repr = (\<lambda>_. []), vw_odd = (\<lambda>_. Inl (TypeError []))\<rparr>"

definition validated_demo :: "string dict rpc_env" where
  "validated_demo = wired_demo\<lparr>re_validate := validate_json demo_validate_world\<rparr>"

definition generate_request :: "json dict" where
  "generate_request = [(''jsonrpc'', JStr ''2.0''), (''id'', JInt 1), (''method'', JStr ''workflow.generate'')]"

definition generate_reply :: "json dict" where
  "generate_reply = projr (fst (handle_request validated_demo (JObj generate_request) demo_worker))"

lemma generate_result: "map_of generate_reply ''result'' \<noteq> None"
  by code_simp

theorem generate_answers_are_harmless_witness:
  "\<exists>v wf. map_of generate_reply ''result'' = Some v \<and> dget (obj_of v) ''workflow'' = JObj wf \<and> harmless_workflow wf"
proof -
  have m: "dget generate_request ''method'' = JStr ''workflow.generate''" by (simp add: generate_request_def dget_def)
  obtain r wk' where h: "handle_request validated_demo (JObj generate_request) demo_worker = (Inr r, wk')"
    using every_object_answered by blast
  then have r: "generate_reply = r" by (simp add: generate_reply_def)
  have "map_of generate_reply ''result'' \<noteq> None" by (rule generate_result)
  then obtain v where v: "map_of r ''result'' = Some v" by (auto simp: r)
  have g: "re_generate validated_demo = generate_json demo_gen_world" by (simp add: validated_demo_def wired_demo_def wired_def)
  have p: "picks (gw_cfg demo_gen_world)" using demo_picks by (simp add: demo_gen_world_def picks_def)
  obtain wf where "dget (obj_of v) ''workflow'' = JObj wf" "harmless_workflow wf"
    using generate_answers_are_harmless [OF g p m h v] by (auto simp: demo_gen_world_def)
  then show ?thesis using v by (auto simp: r)
qed


subsection \<open>The whole worker\<close>

text \<open>With everything behind the dispatcher: what is left of the record are the codec, the keyring, the network
  and the other arguments of the parts.\<close>

definition wired_worker ::
  "'k rpc_env \<Rightarrow> os_env \<Rightarrow> intake_world \<Rightarrow> gen_world \<Rightarrow> select_world \<Rightarrow> validate_world \<Rightarrow> 'k rpc_env" where
  "wired_worker re os iw gw sw vw =
     (let w = wired re os iw gw in w\<lparr>re_select := select_json sw w, re_validate := validate_json vw\<rparr>)"

lemma wired_worker_parts:
  "re_select (wired_worker re os iw gw sw vw) = select_json sw (wired re os iw gw)"
  "re_analyze (wired_worker re os iw gw sw vw) = analyze_json iw"
  "re_generate (wired_worker re os iw gw sw vw) = generate_json gw"
  "re_validate (wired_worker re os iw gw sw vw) = validate_json vw"
  "re_hardware (wired_worker re os iw gw sw vw) = Inr (JObj (profile_hardware os))"
  by (simp_all add: wired_worker_def wired_def Let_def)

end
