(* ===== verification/Soak.thy ===== *)
theory Soak
  imports Corpus ModelRegistry
begin

section \<open>The soak bench script\<close>

text \<open>
  \<open>scripts/soak_10k_notes.py\<close>: the command it runs and its environment, the result it looks for in the
  output, and the two documents it writes. The run of the command, the JSON codec and the rendering of
  other values are arguments; the arguments of the command line are taken as parsed. The state is the two
  documents on disk; \<open>SystemExit\<close> is an \<open>OtherError\<close>.
\<close>

record soak_args =
  sa_n :: int
  sa_keep :: bool
  sa_vault :: "string option"
  sa_skip :: bool

record soak_disk =
  sd_json :: "string option"
  sd_md :: "string option"

record soak_lib =
  so_environ :: "string dict"
  so_run :: "string list \<Rightarrow> string dict \<Rightarrow> int \<times> string option \<times> string option"
  so_loads :: "string \<Rightarrow> json res"
  so_dumps :: "json \<Rightarrow> string"
  so_repr :: "json \<Rightarrow> string"
  so_stamp :: string

subsection \<open>Running the bench\<close>

definition soak_environ :: "soak_lib \<Rightarrow> soak_args \<Rightarrow> string dict" where
  "soak_environ l a =
     (let e1 = AList.update ''BRAINFLOW_SOAK_N'' (show_int (sa_n a)) (so_environ l);
          e2 = (if sa_keep a then AList.update ''BRAINFLOW_SOAK_KEEP'' ''1'' e1 else e1) in
      case sa_vault a of None \<Rightarrow> e2 | Some v \<Rightarrow> AList.update ''BRAINFLOW_SOAK_VAULT'' v e2)"

definition soak_command :: "soak_args \<Rightarrow> string list" where
  "soak_command a = [''cargo'', ''run'', ''-p'', ''brainflow-storage'', ''--example'', ''soak_bench'', ''--release'', ''--'',
     show_int (sa_n a)]"

text \<open>\<open>RESULT_JSON\s+(\{.*\})\<close>: white space, then from a brace to the last one on that line.\<close>

definition upto_last :: "char \<Rightarrow> string \<Rightarrow> string" where
  "upto_last d s = rev (dropWhile (\<lambda>c. c \<noteq> d) (rev s))"

definition result_at :: "string \<Rightarrow> string option" where
  "result_at s =
     (if \<not> prefix ''RESULT_JSON'' s then None
      else
        (let r = drop 11 s; v = takeWhile (\<lambda>c. c \<noteq> CHR 0x0A) (dropWhile is_space r) in
         if takeWhile is_space r = [] \<or> \<not> prefix [CHR 0x7B] v \<or> CHR 0x7D \<notin> set v then None
         else Some (upto_last (CHR 0x7D) v)))"

fun find_result :: "string \<Rightarrow> string option" where
  "find_result [] = result_at []"
| "find_result (c # cs) = (case result_at (c # cs) of Some v \<Rightarrow> Some v | None \<Rightarrow> find_result cs)"

definition text_or_empty :: "string option \<Rightarrow> string" where
  "text_or_empty v = (case v of None \<Rightarrow> [] | Some s \<Rightarrow> s)"

definition bench_payload :: "soak_lib \<Rightarrow> soak_args \<Rightarrow> json dict \<Rightarrow> json dict" where
  "bench_payload l a p =
     AList.update ''release'' (JBool True)
       (AList.update ''command'' (JStr (join '' '' (soak_command a)))
         (AList.update ''recorded_at'' (JStr (so_stamp l)) p))"

definition run_bench :: "soak_lib \<Rightarrow> soak_args \<Rightarrow> json res" where
  "run_bench l a =
     (case so_run l (soak_command a) (soak_environ l a) of
        (rc, out, err) \<Rightarrow>
          if rc \<noteq> 0 then Inl (OtherError (''soak_bench failed with exit '' @ show_int rc))
          else (case find_result (text_or_empty out @ NL @ text_or_empty err) of
             None \<Rightarrow> Inl (OtherError ''soak_bench did not emit RESULT_JSON line'')
           | Some t \<Rightarrow> bnd (so_loads l t) (\<lambda>v. case v of
               JObj p \<Rightarrow> Inr (JObj (bench_payload l a p))
             | _ \<Rightarrow> Inl (TypeError (CHR 0x27 # py_type v @ CHR 0x27 # '' object does not support item assignment'')))))"

subsection \<open>The two documents\<close>

definition MIDDLE_DOT :: string where
  "MIDDLE_DOT = [CHR 0xC2, CHR 0xB7]"

definition plain :: "(json \<Rightarrow> string) \<Rightarrow> json dict \<Rightarrow> string \<Rightarrow> string" where
  "plain r p k = py_str r (dget p k)"

definition dashed :: "(json \<Rightarrow> string) \<Rightarrow> json dict \<Rightarrow> string \<Rightarrow> string" where
  "dashed r p k = (case map_of p k of None \<Rightarrow> EM_DASH | Some v \<Rightarrow> py_str r v)"

definition verdict :: "json dict \<Rightarrow> string \<Rightarrow> string \<Rightarrow> string" where
  "verdict p k failing = (if truthy (dget p k) then ''pass'' else failing)"

definition soak_report :: "(json \<Rightarrow> string) \<Rightarrow> json dict \<Rightarrow> json \<Rightarrow> string" where
  "soak_report r p n = lines
     [''# 10k-note vault soak (FTS / search / open / edit-cycle)'',
      [],
      ''Automated index + latency probe for Phase 3 exit readiness. **Does not** claim daily-team soak or WebView/CodeMirror keystroke sign-off.'',
      [],
      ''## How to run'',
      [],
      ''```bash'',
      ''python scripts/soak_10k_notes.py              # aim N=10000'',
      ''python scripts/soak_10k_notes.py --n 2000     # resource-bound smaller N'',
      ''cargo run -p brainflow-storage --example soak_bench --release -- 10000'',
      ''```'',
      [],
      ''Env: `BRAINFLOW_SOAK_N`, `BRAINFLOW_SOAK_VAULT`, `BRAINFLOW_SOAK_CATALOG`, `BRAINFLOW_SOAK_KEEP=1`.'',
      [],
      ''## Latest run'',
      [],
      ''| Metric | Value |'',
      ''|--------|-------|'',
      ''| Recorded | '' @ dashed r p ''recorded_at'' @ '' |'',
      ''| N notes indexed | **'' @ py_str r n @ ''** |'',
      ''| Index build | '' @ dashed r p ''index_build_ms'' @ '' ms |'',
      ''| FTS warm MATCH p50 / p95 | '' @ plain r p ''fts_p50_ms'' @ '' / **'' @ plain r p ''fts_p95_ms'' @ ''** ms |'',
      ''| Tag search p50 / p95 | '' @ plain r p ''tag_p50_ms'' @ '' / '' @ plain r p ''tag_p95_ms'' @ '' ms |'',
      ''| Quick-switcher proxy FTS p50 / p95 | '' @ plain r p ''qs_p50_ms'' @ '' / **'' @ plain r p ''qs_p95_ms'' @ ''** ms |'',
      ''| Note open (read body) p50 / p95 | '' @ plain r p ''open_p50_ms'' @ '' / '' @ plain r p ''open_p95_ms'' @ '' ms |'',
      ''| Note save upsert p50 / p95 | '' @ dashed r p ''save_p50_ms'' @ '' / **'' @ dashed r p ''save_p95_ms'' @ ''** ms |'',
      ''| Open+save+search cycle p50 / p95 | '' @ dashed r p ''cycle_p50_ms'' @ '' / **'' @ dashed r p ''cycle_p95_ms'' @ ''** ms |'',
      ''| Data loss during generate/index/edit | '' @ plain r p ''data_loss'' @ '' |'',
      ''| Budget search/QS p95 &lt; '' @ ''100.0'' @ '' ms | FTS='' @ verdict p ''fts_budget_ok'' ''FAIL'' @ '' '' @ MIDDLE_DOT @ '' QS='' @ verdict p ''qs_budget_ok'' ''FAIL'' @ '' |'',
      ''| Budget edit-cycle p95 &lt; '' @ ''50.0'' @ '' ms | save='' @ verdict p ''save_budget_ok'' ''FAIL/n/a'' @ '' '' @ MIDDLE_DOT @ '' cycle='' @ verdict p ''cycle_budget_ok'' ''FAIL/n/a'' @ '' |'',
      [],
      ''Raw: [soak-10k-results.json](./soak-10k-results.json).'',
      [],
      ''## Honest status'',
      [],
      ''- Catalog FTS + **open+save+search edit-cycle proxy** are measured here (storage path that backs autosave/search).'',
      ''- **Desktop UI keystroke / WebView** path is **not** measured '' @ EM_DASH @ '' do not equate cycle_p95 with perceived typing latency.'',
      ''- Phase 3 exit remains **unchecked** until daily-team use on a 10k vault is recorded by humans.'',
      ''- Measurable catalog budgets (search/QS &lt; 100 ms; edit-cycle &lt; 50 ms) may be recorded as met when this harness passes at N=10k.'',
      ''- If host is resource-bound, run smaller `N` and record the honest max in this file / JSON.'',
      []]"

definition py_item :: "json \<Rightarrow> string \<Rightarrow> json res" where
  "py_item v k = (case v of
     JObj d \<Rightarrow> (case map_of d k of None \<Rightarrow> Inl (KeyError k) | Some x \<Rightarrow> Inr x)
   | _ \<Rightarrow> Inl (TypeError (CHR 0x27 # py_type v @ CHR 0x27 # '' object is not subscriptable'')))"

text \<open>The JSON file is written first.\<close>

definition write_docs :: "soak_lib \<Rightarrow> json \<Rightarrow> soak_disk \<Rightarrow> unit res \<times> soak_disk" where
  "write_docs l payload d =
     (let d1 = d\<lparr>sd_json := Some (so_dumps l payload @ NL)\<rparr> in
      case py_item payload ''n'' of
        Inl e \<Rightarrow> (Inl e, d1)
      | Inr n \<Rightarrow> (Inr (), d1\<lparr>sd_md := Some (soak_report (so_repr l) (obj_of payload) n)\<rparr>))"

definition soak_main :: "soak_lib \<Rightarrow> soak_args \<Rightarrow> soak_disk \<Rightarrow> unit res \<times> soak_disk" where
  "soak_main l a d =
     (case (if sa_skip a then sd_json d else None) of
        Some t \<Rightarrow> (case so_loads l t of Inl e \<Rightarrow> (Inl e, d) | Inr v \<Rightarrow> write_docs l v d)
      | None \<Rightarrow> (case run_bench l a of Inl e \<Rightarrow> (Inl e, d) | Inr v \<Rightarrow> write_docs l v d))"

subsection \<open>What the script keeps\<close>

text \<open>A bench that fails or reports no result leaves both documents as they were.\<close>

lemma failed_bench_writes_nothing:
  assumes "sa_skip a = False \<or> sd_json d = None"
    and "so_run l (soak_command a) (soak_environ l a) = (rc, out, err)"
    and "rc \<noteq> 0 \<or> find_result (text_or_empty out @ NL @ text_or_empty err) = None"
  shows "\<exists>e. soak_main l a d = (Inl e, d)"
  using assms by (auto simp: soak_main_def run_bench_def)

text \<open>With \<open>--skip-run\<close> and a result on disk no bench is run.\<close>

lemma skipped_run_runs_nothing:
  "sa_skip a \<Longrightarrow> sd_json d = Some t \<Longrightarrow> soak_main (l\<lparr>so_run := f\<rparr>) a d = soak_main l a d"
  by (simp add: soak_main_def write_docs_def Let_def split: sum.split)

text \<open>What a result is: an object on one line, found after other output.\<close>

lemma found_results_are_objects:
  "find_result s = Some t \<Longrightarrow> prefix [CHR 0x7B] t \<and> CHR 0x0A \<notin> set t"
proof (induction s)
  case (Cons c s)
  show ?case
  proof (cases "result_at (c # s)")
    case (Some v)
    let ?v = "takeWhile (\<lambda>c. c \<noteq> CHR 0x0A) (dropWhile is_space (drop 11 (c # s)))"
    have v: "t = upto_last (CHR 0x7D) ?v" "prefix [CHR 0x7B] ?v" "CHR 0x7D \<in> set ?v"
      using Some Cons.prems by (auto simp: result_at_def Let_def split: if_splits)
    obtain u where u: "?v = CHR 0x7B # u" using v(2) by (auto simp: prefix_def)
    have "CHR 0x7D \<in> set u" using v(3) unfolding u by simp
    then have "t = CHR 0x7B # upto_last (CHR 0x7D) u"
      unfolding v(1) u by (simp add: upto_last_def dropWhile_append)
    moreover have "set t \<subseteq> set ?v" unfolding v(1) upto_last_def using set_dropWhileD by fastforce
    then have "CHR 0x0A \<notin> set t" by (auto dest: set_takeWhileD)
    ultimately show ?thesis by simp
  next
    case None
    then show ?thesis using Cons by simp
  qed
qed (simp add: result_at_def)

lemma result_is_found:
  "find_result (''warming'' @ NL @ ''RESULT_JSON '' @ [CHR 0x7B, CHR 0x7D] @ '' done'') = Some [CHR 0x7B, CHR 0x7D]"
  by code_simp

end
