(* ===== verification/Loopback.thy ===== *)
theory Loopback
  imports RpcCorrect Utf8
begin

section \<open>The loopback server (http_loopback.py)\<close>

text \<open>
  The development server: one POST, one request of the worker, behind a bearer token that is drawn when
  the server starts. Requests are taken one after the other; \<open>json.dumps\<close> is an argument, and the body is
  the bytes the client sends.
\<close>

record post =
  po_auth :: "string option"
  po_length :: "string option"
  po_body :: string

record reply =
  rp_status :: int
  rp_headers :: "(string \<times> string) list"
  rp_body :: string

definition authorised :: "string \<Rightarrow> post \<Rightarrow> bool" where
  "authorised token p \<longleftrightarrow> (case po_auth p of Some a \<Rightarrow> a | None \<Rightarrow> []) = ''Bearer '' @ token"

definition unauthorised_reply :: reply where
  "unauthorised_reply =
     \<lparr>rp_status = 401, rp_headers = [],
      rp_body = ''{'' @ CHR 0x22 # ''error'' @ CHR 0x22 # '':'' @ CHR 0x22 # ''unauthorized'' @ CHR 0x22 # ''}''\<rparr>"

definition json_reply :: "string \<Rightarrow> reply" where
  "json_reply raw =
     \<lparr>rp_status = 200,
      rp_headers = [(''Content-Type'', ''application/json''), (''Content-Length'', show_nat (length raw))],
      rp_body = raw\<rparr>"

text \<open>A body that is not UTF-8 and a length that is no number raise; text that is not JSON is an empty request.\<close>

definition posted :: "'k rpc_env \<Rightarrow> post \<Rightarrow> json res" where
  "posted re p =
     bnd (py_int (JStr (case po_length p of Some l \<Rightarrow> l | None \<Rightarrow> ''0''))) (\<lambda>n.
       case utf8_decode (if n < 0 then po_body p else take (nat n) (po_body p)) of
         None \<Rightarrow> Inl (ValueError ''invalid utf-8'')
       | Some s \<Rightarrow> Inr (case re_loads re s of Inl e \<Rightarrow> JObj [] | Inr v \<Rightarrow> v))"

definition do_POST :: "(json dict \<Rightarrow> string) \<Rightarrow> 'k rpc_env \<Rightarrow> string \<Rightarrow> post \<Rightarrow> 'k worker \<Rightarrow> reply res \<times> 'k worker" where
  "do_POST dumps re token p wk =
     (if \<not> authorised token p then (Inr unauthorised_reply, wk)
      else case posted re p of
        Inl e \<Rightarrow> (Inl e, wk)
      | Inr req \<Rightarrow>
          (case handle_request re req wk of
             (Inl e, wk') \<Rightarrow> (Inl e, wk')
           | (Inr r, wk') \<Rightarrow> (Inr (json_reply (dumps r)), wk')))"

fun serve_posts ::
  "(json dict \<Rightarrow> string) \<Rightarrow> 'k rpc_env \<Rightarrow> string \<Rightarrow> post list \<Rightarrow> 'k worker \<Rightarrow> reply res list \<times> 'k worker" where
  "serve_posts dumps re token [] wk = ([], wk)"
| "serve_posts dumps re token (p # ps) wk =
     (case do_POST dumps re token p wk of
        (r, wk1) \<Rightarrow> (case serve_posts dumps re token ps wk1 of (rs, wk2) \<Rightarrow> (r # rs, wk2)))"

lemma refused_post: "\<not> authorised token p \<Longrightarrow> do_POST dumps re token p wk = (Inr unauthorised_reply, wk)"
  by (simp add: do_POST_def)

definition authorised_replies :: "string \<Rightarrow> post list \<Rightarrow> 'r list \<Rightarrow> 'r list" where
  "authorised_replies token ps rs = List.map snd (List.filter (\<lambda>(p, r). authorised token p) (zip ps rs))"

text \<open>C38: A client without the token is invisible and blind: whatever it posts in between, the clients with the
  token get the replies they would have got without it, the worker ends in the same state, and what it gets
  itself is the same refusal each time, whatever the worker knows.\<close>

theorem clients_without_token_are_invisible:
  "serve_posts dumps re token (List.filter (authorised token) ps) wk =
     (authorised_replies token ps (fst (serve_posts dumps re token ps wk)), snd (serve_posts dumps re token ps wk)) \<and>
   (\<forall>i. i < length ps \<longrightarrow> \<not> authorised token (ps ! i) \<longrightarrow>
     fst (serve_posts dumps re token ps wk) ! i = Inr unauthorised_reply)"
proof (induction ps arbitrary: wk)
  case (Cons p ps)
  let ?r = "do_POST dumps re token p wk"
  note IH = Cons.IH [of "snd ?r"]
  show ?case
  proof
    show "serve_posts dumps re token (List.filter (authorised token) (p # ps)) wk =
       (authorised_replies token (p # ps) (fst (serve_posts dumps re token (p # ps) wk)),
        snd (serve_posts dumps re token (p # ps) wk))"
      using IH by (cases "authorised token p") (simp_all add: split_beta authorised_replies_def refused_post)
    show "\<forall>i. i < length (p # ps) \<longrightarrow> \<not> authorised token ((p # ps) ! i) \<longrightarrow>
       fst (serve_posts dumps re token (p # ps) wk) ! i = Inr unauthorised_reply"
      using IH by (auto simp: split_beta nth_Cons refused_post split: nat.split)
  qed
qed (simp add: authorised_replies_def)

definition demo_post :: "string option \<Rightarrow> post" where
  "demo_post a = \<lparr>po_auth = a, po_length = Some ''2'', po_body = ''{}''\<rparr>"

theorem clients_without_token_are_invisible_witness:
  "\<not> authorised ''t'' (demo_post (Some ''Bearer x'')) \<and>
   fst (serve_posts (\<lambda>_. []) demo_rpc ''t'' [demo_post (Some ''Bearer x'')] demo_worker) ! 0 = Inr unauthorised_reply"
proof -
  have "\<not> authorised ''t'' (demo_post (Some ''Bearer x''))" by (simp add: authorised_def demo_post_def)
  then show ?thesis
    using clients_without_token_are_invisible [of "\<lambda>_. []" demo_rpc "''t''" "[demo_post (Some ''Bearer x'')]" demo_worker]
    by simp
qed

text \<open>With the token, the server answers what the loop on standard input prints for the same text.\<close>

theorem loopback_answers_like_stdio:
  assumes "authorised token p" "posted re p = Inr (JObj d)" "re_loads re (strip l) = Inr (JObj d)" "strip l \<noteq> []"
  shows "\<exists>r wk'. serve re [l] wk = ([r], None, wk') \<and> do_POST dumps re token p wk = (Inr (json_reply (dumps r)), wk')"
proof -
  obtain r wk' where "handle_request re (JObj d) wk = (Inr r, wk')"
    using every_object_answered [of re d wk] by blast
  then show ?thesis using assms by (simp add: do_POST_def)
qed

text \<open>A request that is not an object, and a body that is not UTF-8, get no reply at all.\<close>

lemma bad_bodies_get_no_reply:
  "authorised token p \<Longrightarrow> posted re p = Inl e \<Longrightarrow> do_POST dumps re token p wk = (Inl e, wk)"
  "authorised token p \<Longrightarrow> posted re p = Inr v \<Longrightarrow> \<not> is_obj v \<Longrightarrow> isl (fst (do_POST dumps re token p wk))"
  by (simp_all add: do_POST_def) (cases v; simp add: handle_request_def jget_def)

lemma invalid_utf8_is_not_answered:
  "posted re \<lparr>po_auth = a, po_length = Some ''1'', po_body = [CHR 0xFF]\<rparr> = Inl (ValueError ''invalid utf-8'')"
proof -
  have "py_int (JStr ''1'') = Inr 1" "utf8_decode [CHR 0xFF] = None" by code_simp+
  then show ?thesis by (simp add: posted_def)
qed

end
