(* ===== verification/EndToEnd.thy ===== *)
theory EndToEnd
  imports StagesCorrect ExecutorCorrect CompilerChat
begin

section \<open>From the reply of a model to a run\<close>

text \<open>
  The compiler, the kernel pipeline and the executor composed as the worker composes them: the compiler
  asks the model through \<open>ollama_chat\<close>, the pipeline checks and patches what it makes, the executor runs
  what the pipeline accepts. What the model can reach that way is bounded whatever it replies.
\<close>

definition compile_with ::
  "gen_cfg \<Rightarrow> (chat_request \<Rightarrow> string res) \<Rightarrow> string \<Rightarrow> string \<Rightarrow> string \<Rightarrow> string dict \<Rightarrow> pack \<Rightarrow> workflow res" where
  "compile_with g ask prompt src model digests p =
     bnd (generate_workflow_ir g ask prompt src model digests (Some p) None) (\<lambda>d. Inr (ir_doc g d))"

subsection \<open>A plan without gated nodes consults no callback\<close>

abbreviation silent :: "'env exec_cfg \<Rightarrow> 'env exec_cfg" where
  "silent cfg \<equiv> cfg\<lparr>approval_cb := None\<rparr>"

lemma silent_fields [simp]:
  "find_handler (silent cfg) = find_handler cfg" "noop_result (silent cfg) = noop_result cfg"
  "cache_key_for_node (silent cfg) = cache_key_for_node cfg"
  by (simp_all add: find_handler_def noop_result_def cache_key_for_node_def fun_eq_iff split: option.split)

lemma silent_invoke [simp]: "invoke (silent cfg) = invoke cfg"
  by (simp add: invoke_def fun_eq_iff split: option.split)

lemma silent_accept [simp]: "accept_result (silent cfg) = accept_result cfg"
proof -
  have "accept_artifact (silent cfg) n ck att v a st = accept_artifact cfg n ck att v a st" for n ck att v a st
    by (cases a) (simp_all add: accept_artifact_def)
  then show ?thesis by (simp add: accept_result_def Let_def fun_eq_iff split: sum.split)
qed

lemma silent_attempt [simp]: "do_attempt (silent cfg) = do_attempt cfg"
  by (simp add: do_attempt_def Let_def fun_eq_iff split: prod.split sum.split)

lemma silent_attempts [simp]:
  "run_attempts k (silent cfg) lts n ck ih att err st env = run_attempts k cfg lts n ck ih att err st env"
  by (induction k arbitrary: att err st env) (simp_all split: prod.split attempt_end.split)

lemma silent_node [simp]: "run_node (silent cfg) lts pins ih n st env = run_node cfg lts pins ih n st env"
  by (simp add: run_node_def Let_def)

lemma silent_step: "\<not> gated n \<Longrightarrow> node_step (silent cfg) lts resume pins ih n st env = node_step cfg lts resume pins ih n st env"
  by (simp add: node_step_def gate_node_def gate_approval_iff gated_def Let_def split: option.split)

lemma silent_run_nodes:
  "\<forall>n\<in>set ns. \<not> gated n \<Longrightarrow>
     run_nodes ns (silent cfg) lts resume pins ih st env = run_nodes ns cfg lts resume pins ih st env"
  by (induction ns arbitrary: st env) (simp_all add: silent_step split: prod.split flow.split)

lemma silent_execute:
  assumes "\<forall>n\<in>set (plan_of w). \<not> gated n"
  shows "execute (silent cfg) w ih resume st env = execute cfg w ih resume st env"
proof (cases "table_of w")
  case (Inr tbl)
  then have "plan_of w = plan tbl (edge_objs (wf_edges w))" by (simp add: plan_of_def)
  then have "run_nodes (plan tbl (edge_objs (wf_edges w))) (silent cfg) lts resume pins ih st1 env =
      run_nodes (plan tbl (edge_objs (wf_edges w))) cfg lts resume pins ih st1 env" for lts pins st1
    using assms silent_run_nodes by metis
  then show ?thesis using Inr by (simp add: execute_def table_of_def Let_def split: sum.split)
qed (simp add: execute_def table_of_def split: sum.split)

subsection \<open>What is planned is in the document\<close>

lemma plan_in_document: "set (plan_of w) \<subseteq> set (node_objs (doc_nodes w))"
proof
  fix n assume n: "n \<in> set (plan_of w)"
  then obtain tbl where t: "table_of w = Inr tbl" "n \<in> set (plan tbl (edge_objs (wf_edges w)))"
    by (cases "table_of w") (auto simp: plan_of_def)
  then obtain i where "map_of tbl i = Some n" by (auto simp: plan_def split: option.splits)
  moreover have "tbl = dict_update [] (List.map (\<lambda>n. (n_id n, n)) (node_objs (doc_nodes w)))"
    using t(1) by (auto simp: table_of_def node_table_def doc_nodes_def split: if_splits)
  ultimately have "map_of (rev (List.map (\<lambda>n. (n_id n, n)) (node_objs (doc_nodes w)))) i = Some n"
    by (simp add: map_of_dict_update split: option.splits)
  then show "n \<in> set (node_objs (doc_nodes w))" by (auto dest!: map_of_SomeD)
qed

lemma compiled_ungated:
  assumes "compile_with g ask prompt src model digests p = Inr w" "\<And>xs. xs \<noteq> [] \<Longrightarrow> pick g xs \<in> set xs"
  shows "\<forall>n\<in>set (node_objs (doc_nodes w)). \<not> gated n" "wf_budgets w = gen_budgets"
proof -
  obtain d where d: "generate_workflow_ir g ask prompt src model digests (Some p) None = Inr d" "w = ir_doc g d"
    using assms(1) by (auto simp: compile_with_def bnd_Inr_iff)
  obtain doc where "compile_doc g p prompt model (choose_digest None digests model) doc = Inr d"
    using d(1) by (rule generate_compiles)
  from compile_doc_props [OF this] have c: "gn_perm n = ''read'' \<or> gn_perm n = ''safe_overlay''" if "n \<in> set (gd_nodes d)" for n
    using assms(2) that by (auto simp: picks_def node_safe_def)
  show "\<forall>n\<in>set (node_objs (doc_nodes w)). \<not> gated n"
    by (auto simp: d(2) ir_doc_def doc_nodes_def ir_node_def set_node_objs gated_def node_class_def may_auto_apply_iff dest!: c)
  show "wf_budgets w = gen_budgets" by (simp add: d(2) ir_doc_def)
qed

lemma extended_ungated:
  assumes "extends_by_verify w w'" "\<forall>n\<in>set (node_objs (doc_nodes w)). \<not> gated n"
  shows "\<forall>n\<in>set (node_objs (doc_nodes w')). \<not> gated n" "wf_budgets w' = wf_budgets w"
proof -
  have r: "\<not> gated n" if "n_perm n = Some ''read''" for n
    using that by (simp add: gated_def node_class_def may_auto_apply_iff normalize_permission_class_def)
  show "\<forall>n\<in>set (node_objs (doc_nodes w')). \<not> gated n"
  proof
    fix n assume n: "n \<in> set (node_objs (doc_nodes w'))"
    obtain extra where e: "doc_nodes w' = doc_nodes w @ extra"
      "\<forall>x\<in>set extra. \<exists>m. x = NodeObj m \<and> is_verify m \<and> n_perm m = Some ''read''"
      using assms(1) unfolding extends_by_verify_def by blast
    consider "NodeObj n \<in> set (doc_nodes w)" | "NodeObj n \<in> set extra"
      using n by (auto simp: set_node_objs e(1))
    then show "\<not> gated n"
      using assms(2) e(2) r by cases (auto simp: set_node_objs)
  qed
  show "wf_budgets w' = wf_budgets w" using assms(1) by (simp add: extends_by_verify_def)
qed

definition gen_limits :: limits where
  "gen_limits = \<lparr>lim_steps = 12, lim_tokens = Some 16000, lim_files = Some 8\<rparr>"

lemma gen_limits: "read_limits gen_budgets = Inr gen_limits"
  by (simp add: read_limits_def gen_budgets_def gen_limits_def jor_def jget_def dget_def opt_int_def)

subsection \<open>The bound\<close>

lemma accepted_ungated:
  assumes "run_kernel_pipeline kc (compile_with g ask prompt src model digests) prompt src pid = Inr (Accepted a)"
    and "\<And>xs. xs \<noteq> [] \<Longrightarrow> pick g xs \<in> set xs"
  shows "\<forall>n\<in>set (plan_of (ac_workflow a)). \<not> gated n" "read_limits (wf_budgets (ac_workflow a)) = Inr gen_limits"
proof -
  obtain p w where w: "compile_with g ask prompt src model digests p = Inr w" "extends_by_verify w (ac_workflow a)"
    using assms(1) by (rule accepted_extends)
  note c = compiled_ungated [OF w(1) assms(2)]
  show "\<forall>n\<in>set (plan_of (ac_workflow a)). \<not> gated n"
    using extended_ungated(1) [OF w(2) c(1)] plan_in_document by blast
  show "read_limits (wf_budgets (ac_workflow a)) = Inr gen_limits"
    using extended_ungated(2) [OF w(2) c(1)] c(2) gen_limits by simp
qed

text \<open>C2: What a model can reach by what it replies. Whatever the reply to the compiler's prompt, if the kernel
  pipeline accepts the compiled workflow, every node of its plan is one the executor may apply by itself; the
  run never consults the approval callback (it is the run without one); the paths it records are safe
  overlay paths, and it generates no more than eight files. The handlers are arbitrary.\<close>

theorem model_reply_stays_in_the_overlay:
  assumes "run_kernel_pipeline kc (compile_with g ask prompt src model digests) prompt src pid = Inr (Accepted a)"
    and "\<And>xs. xs \<noteq> [] \<Longrightarrow> pick g xs \<in> set xs"
    and "execute cfg (ac_workflow a) ih resume st env = (fl, st', env')"
  shows "(\<forall>n\<in>set (plan_of (ac_workflow a)). may_auto_apply (node_class n)) \<and>
    execute (cfg\<lparr>approval_cb := None\<rparr>) (ac_workflow a) ih resume st env = (fl, st', env') \<and>
    (\<exists>new. rs_artifacts st' = rs_artifacts st @ new \<and> (\<forall>p\<in>set new. safe_path p \<or> p = [])) \<and>
    rs_files st' \<le> max 8 (rs_files st)"
proof -
  note u = accepted_ungated [OF assms(1,2)]
  have x: "execute (silent cfg) (ac_workflow a) ih resume st env = (fl, st', env')"
    using silent_execute [OF u(1), of cfg ih resume st env] assms(3) by (rule trans)
  have "if fl = Next then produced_safely False (rs_artifacts st) (usage_of st')
    else produced_safely False (rs_artifacts st) (usage_of st')"
    using artifacts.execute_inv [OF _ u(2) _ x, where start = "rs_artifacts st"] by (simp add: produced_safely_def)
  then have "\<exists>new. rs_artifacts st' = rs_artifacts st @ new \<and> (\<forall>p\<in>set new. safe_path p \<or> p = [])"
    by (auto simp: produced_safely_def)
  moreover have "if fl = Next then cap (lim_files gen_limits) (rs_files st) (u_files (usage_of st'))
    else cap (lim_files gen_limits) (rs_files st) (u_files (usage_of st'))"
    by (rule files.execute_inv [OF _ u(2) _ x]) (simp_all add: cap_def)
  then have "rs_files st' \<le> max 8 (rs_files st)" by (simp add: cap_def gen_limits_def)
  ultimately show ?thesis using u(1) x by (simp add: gated_def)
qed

definition e2e_run :: "outcome res" where
  "e2e_run = run_kernel_pipeline kernel_demo (compile_with demo_gen (\<lambda>_. Inr ''J'') ''goal'' ''text'' ''m'' [])
     ''goal'' ''text'' (Some ''study_prep'')"

definition e2e_accepted :: accepted where
  "e2e_accepted = (case e2e_run of Inr (Accepted a) \<Rightarrow> a | _ \<Rightarrow> undefined)"

lemma e2e_accepts: "e2e_run = Inr (Accepted e2e_accepted)"
proof -
  have "case e2e_run of Inr (Accepted a) \<Rightarrow> True | _ \<Rightarrow> False" by code_simp
  then obtain a where a: "e2e_run = Inr (Accepted a)" by (auto split: sum.splits outcome.splits)
  show ?thesis unfolding e2e_accepted_def a by simp
qed

theorem model_reply_stays_in_the_overlay_witness:
  "\<exists>fl st'. execute demo_cfg (ac_workflow e2e_accepted) ''h'' True demo_run () = (fl, st', ()) \<and>
     execute demo_reviewer (ac_workflow e2e_accepted) ''h'' True demo_run () = (fl, st', ()) \<and> rs_files st' \<le> 8"
proof -
  let ?r = "execute demo_reviewer (ac_workflow e2e_accepted) ''h'' True demo_run ()"
  have s: "demo_reviewer\<lparr>approval_cb := None\<rparr> = demo_cfg" by (simp add: demo_reviewer_def demo_cfg_def)
  have "rs_files demo_run = 0" by (simp add: demo_run_def new_run_def)
  then show ?thesis
    using model_reply_stays_in_the_overlay [OF e2e_accepts [unfolded e2e_run_def] demo_picks result_eqI [of ?r]] s
    by (intro exI [of _ "fst ?r"] exI [of _ "end_of ?r"]) (simp add: end_of_def prod_eq_iff)
qed

end
