(* ===== verification/Spec2Isabelle.thy ===== *)
theory Spec2Isabelle
  imports PolicyCorrect ExecutorCorrect StagesCorrect ProvidersCorrect RpcCorrect
    ExecTermination WorkerValidate Soak Loopback EndToEnd
begin

text \<open>
  BrainFlow turns a prompt and a local document into a workflow, checks it and runs it. This is a
  verification library for its AI worker, \<open>services/ai-worker/brainflow_worker\<close> (Python) and
  \<open>services/ai-worker/domain_packs/registry.py\<close>. File names below are relative to the worker unless they
  start elsewhere. Every definition is a shallow embedding of the function it is named after.

  \<^bold>\<open>The parts and how they interact.\<close> A line on standard input is a request (\<open>rpc.py\<close>, \<open>__main__.py\<close>; in
  development also a POST, \<open>http_loopback.py\<close>). \<open>workflow.generate\<close> runs the kernel pipeline
  (\<open>kernel/stages.py\<close>): a domain pack is routed, the compiler (\<open>workflow_gen.py\<close>) asks a model and normalises
  its reply, the document is validated (\<open>validate.py\<close>, \<open>kernel/policy_gate.py\<close>), a critic may add a verify
  node, and what passes is run by \<open>kernel/executor.py\<close>. The gateway chooses the models (\<open>select.py\<close>,
  \<open>scoring.py\<close>, \<open>hardware.py\<close>, \<open>registry.py\<close>), keeps pins, secrets and budgets, and talks to the providers.
  The intake (\<open>intake/pipeline.py\<close>) turns an untrusted file into a bundle of segments through one of its
  adapters and fences the text (\<open>kernel/delimit.py\<close>) before a model sees it.

  \<^bold>\<open>The theories.\<close>
  \<^item> \<open>Prelude\<close>, \<open>PyData\<close>, \<open>Utf8\<close>: byte strings and the string methods, dictionaries (locale \<open>dict_ops\<close>),
    exceptions as a sum type, JSON values, \<open>int()\<close>, \<open>float()\<close>, decoders.
  \<^item> Kernel: \<open>WorkflowIR\<close> (the document), \<open>PolicyGate\<close>, \<open>CycleSearch\<close>, \<open>TopoOrder\<close>, \<open>PolicyCorrect\<close>
    (\<open>kernel/policy_gate.py\<close> and \<open>_topo_layers\<close>); \<open>Executor\<close> with \<open>ExecInvariant\<close> (locale \<open>run_inv\<close>: one proof of
    preservation for every invariant of a run), \<open>ExecSafety\<close>, \<open>ExecOutcome\<close>, \<open>ExecResume\<close>, \<open>ExecutorCorrect\<close>,
    \<open>ExecTermination\<close> (\<open>kernel/executor.py\<close>); \<open>Delimit\<close>; \<open>DomainPacks\<close>; \<open>WorkflowGen\<close>, \<open>WorkflowGenCorrect\<close>,
    \<open>CompilerChat\<close> (\<open>workflow_gen.py\<close>, \<open>ollama_probe.py\<close>, \<open>providers/stubs.py\<close>); \<open>Stages\<close>, \<open>StagesCorrect\<close>
    (\<open>kernel/stages.py\<close>, \<open>validate.py\<close>, \<open>kernel/provenance.py\<close>); \<open>EndToEnd\<close> (compiler, pipeline and executor composed).
  \<^item> Gateway: \<open>Budget\<close>, \<open>Pins\<close>, \<open>Secrets\<close>, \<open>Scoring\<close>, \<open>Select\<close>, \<open>Hardware\<close>,
    \<open>ModelRegistry\<close>, \<open>Providers\<close>, \<open>ProvidersCorrect\<close> (locale \<open>metered\<close>: a request charged to a budget),
    \<open>Probes\<close>.
  \<^item> Intake: \<open>IntakeLimits\<close>, \<open>Quarantine\<close>, \<open>Bundle\<close>, \<open>Adapter\<close> (the contracts of an adapter as locales,
    interpreted by each of them), \<open>CsvReader\<close>, \<open>ZipFiles\<close>, the adapters in \<open>TextAdapters\<close>,
    \<open>StructuredAdapters\<close>, \<open>HtmlAdapter\<close>, \<open>OfficeAdapters\<close>, \<open>OdfAdapter\<close>, \<open>MediaAdapters\<close>, \<open>MediaFiles\<close>,
    \<open>ArchiveAdapter\<close>, with \<open>StructuredCorrect\<close>, \<open>OfficeCorrect\<close>, \<open>ArchiveCorrect\<close>; \<open>Identity\<close>,
    \<open>IntakePipeline\<close>, \<open>IntakeCorrect\<close>; \<open>BundleTypes\<close> and \<open>BundleTypesMore\<close> (the bundle schema as a type).
  \<^item> Worker: \<open>Rpc\<close>, \<open>RpcCorrect\<close>, \<open>Loopback\<close>; \<open>WorkerIntake\<close> (the pipeline behind \<open>intake.analyze\<close>),
    \<open>WorkerGenerate\<close> (the compiler behind \<open>workflow.generate\<close>, the profile behind \<open>llm.hardware\<close>),
    \<open>WorkerSelect\<close> (registry, health, profile and selection behind \<open>llm.select\<close> and \<open>llm.recommend\<close>) and
    \<open>WorkerValidate\<close> (the validation of a document behind \<open>workflow.generate\<close>; the worker with all of them).
  \<^item> Scripts: \<open>Corpus\<close> (\<open>scripts/gen_corpus_fixtures.py\<close>, and the intake on its files), \<open>Soak\<close>
    (\<open>src/scripts/soak_10k_notes.py\<close>). This theory: properties that join the gate and the executor.

  \<^bold>\<open>What the lemmas show.\<close> The gate: accepted paths stay in the overlay, accepted workflows are well formed
  and the other way round, reported cycles are cycles. The executor: gated nodes run only after an
  approval, budgets for steps, tokens and files, safe artifact paths, final states, idempotent resumption,
  termination. The pipeline: what it accepts was checked, what was compiled soundly is accepted, compiled
  nodes never escalate, and what a model's reply can reach by a run is bounded whatever it says. The gateway:
  budgets hold over a session, privacy keeps models local up to the answer of the worker, pins of an active
  run are frozen, secrets are read back, tampered manifests are refused, nothing leaves in the clear where TLS
  is required. The intake: identity and distrust of a bundle, refused files are not parsed,
  archive limits, the fence cannot be closed from inside, bundles have the type of the schema. The worker:
  one well-formed answer per request, workflows that can be run as they are answered, and nothing for a client
  without the token.

  \<^bold>\<open>Modelling decisions.\<close>
  \<^item> A \<open>str\<close> is its UTF-8 encoding; lengths and slices count code points (\<open>py_len\<close>, \<open>py_take\<close>). Case mapping
    and white space are those of ASCII.
  \<^item> A \<open>float\<close> is an exact rational; rounding in the last place, infinities and NaN are not modelled.
  \<^item> An exception is \<open>Inl\<close> of \<open>pyexn\<close>; a function that catches everything returns a plain value.
  \<^item> A \<open>dict\<close> is an association list in insertion order. The iteration order of a \<open>set\<close> is an argument, so
    theorems hold for every order.
  \<^item> Third-party and operating-system code is an argument: HTTP, the keyring, the JSON codec, the YAML and XML
    parsers, zip and tar members, the document libraries, ffprobe and Whisper, hash functions, \<open>uuid4\<close>,
    handlers and approval callbacks of a run, the answers of the machine in \<open>Hardware\<close>.
  \<^item> Clocks are left out: no time stamp is part of a state.

  \<^bold>\<open>Bounds and fuel.\<close> The retry loop takes the iterations left as its argument, \<open>retry.max + 1\<close> at the start;
  \<open>ExecTermination.retry_loop_fuel\<close> shows that the loop without a bound returns the same. Kahn's loop ends because
  the queue and the in-degrees above zero shrink together; the cycle search, the string functions and the HTML
  scanner are total with a measure (the nodes not yet visited, the length of the rest). Nothing else needs fuel.

  \<^bold>\<open>Not modelled.\<close> The parsing of command-line options and the threads and sockets of \<open>http_loopback.py\<close>
  (requests are taken one after the other); the directory layout behind \<open>app_data_dir\<close>; the JSON
  schemas themselves (their errors are an argument of \<open>validate\<close>); temporary files of the media adapter. \<open>_gen_registry.py\<close> signs
  a literal list of models; tests and evaluations exercise the code. The desktop
  application (TypeScript, Rust), the crates and the plug-in SDK are other programs.
\<close>

section \<open>Properties that span components\<close>

lemma gate_edges_exec:
  "gate_edges ns es = exec_edges (node_ids ns) (edge_objs es)"
  by (simp add: gate_edges_def exec_edges_def)



end
